(* ===== verification/C_Strings.thy ===== *)
theory C_Strings
  imports Main "HOL-Library.Word" "HOL-Library.Sublist"
begin

text \<open>
  Prelude: the C run-time the program is written against, as far as the sources use it.

  A C string is a HOL \<^typ>\<open>string\<close> without the terminator: a list of 8-bit \<^typ>\<open>char\<close>s that
  contains no NUL (\<open>c_string\<close>). The library calls the sources rely on are modelled here once:
  \<open>snprintf(buf, n, "%s", s)\<close> (\<open>snprintf_s\<close>), \<open>isspace\<close>, \<open>isalnum\<close>, \<open>isdigit\<close>,
  \<open>strncmp(s, p, strlen(p)) == 0\<close> (\<open>starts_with\<close>), \<open>strstr\<close>, \<open>strchr\<close>, \<open>strtol\<close> with its
  saturation, \<open>%lld\<close> printing (\<open>show_int\<close>), \<open>fgets\<close> with a bounded line buffer (\<open>file_lines\<close>),
  and the two's complement conversions (\<open>to_int32\<close>, \<open>sll\<close>).

  The lemmas are the shared vocabulary of the component theories. Those that simplification
  should always use are in \<open>[simp]\<close>; those a component unfolds on demand are in the collections
  \<open>c_str_facts\<close> and \<open>c_int_defs\<close>.
\<close>

named_theorems c_str_facts \<open>facts about the C string primitives\<close>
named_theorems c_int_defs \<open>definitions of the fixed-width integer conversions\<close>

section \<open>Characters\<close>

abbreviation NUL :: char where "NUL \<equiv> CHR 0x00"
abbreviation TAB :: char where "TAB \<equiv> CHR 0x09"
abbreviation NL :: char where "NL \<equiv> CHR 0x0A"
abbreviation CR :: char where "CR \<equiv> CHR 0x0D"
abbreviation DQ :: char where "DQ \<equiv> CHR 0x22"
abbreviation BSL :: char where "BSL \<equiv> CHR 0x5C"

definition is_space :: "char \<Rightarrow> bool" where
  "is_space c \<longleftrightarrow> c = CHR 0x20 \<or> c = TAB \<or> c = NL \<or> c = CHR 0x0B \<or> c = CHR 0x0C \<or> c = CR"

definition is_digit :: "char \<Rightarrow> bool" where
  "is_digit c \<longleftrightarrow> 48 \<le> (of_char c :: nat) \<and> (of_char c :: nat) \<le> 57"

definition is_blank :: "char \<Rightarrow> bool" where
  "is_blank c \<longleftrightarrow> c = CHR '' '' \<or> c = TAB"

definition is_alnum :: "char \<Rightarrow> bool" where
  "is_alnum c \<longleftrightarrow> is_digit c \<or>
     (65 \<le> (of_char c :: nat) \<and> (of_char c :: nat) \<le> 90) \<or>
     (97 \<le> (of_char c :: nat) \<and> (of_char c :: nat) \<le> 122)"

lemma of_char_less_256 [simp]: "(of_char c :: nat) < 256"
  using nat_of_char_less_256 by simp

lemma is_digit_not_space: "is_digit c \<Longrightarrow> \<not> is_space c"
  by (auto simp: is_digit_def is_space_def)

lemma is_alnum_plain:
  assumes "is_alnum c"
  shows "c \<noteq> DQ" "c \<noteq> BSL" "c \<noteq> NL" "c \<noteq> NUL" "\<not> is_space c" "c \<noteq> CHR '':''" "c \<noteq> CHR '',''"
  using assms by (auto simp: is_alnum_def is_digit_def is_space_def)

section \<open>Strings\<close>

definition c_string :: "string \<Rightarrow> bool" where
  "c_string s \<longleftrightarrow> NUL \<notin> set s"

text \<open>The C view of a byte buffer: what \<open>strlen\<close> and the \<open>str*\<close> functions see.\<close>

definition cstr :: "string \<Rightarrow> string" where
  "cstr s = takeWhile (\<lambda>c. c \<noteq> NUL) s"

lemma cstr_id [simp]: "c_string s \<Longrightarrow> cstr s = s"
  by (auto simp: c_string_def cstr_def takeWhile_eq_all_conv)

lemma c_string_cstr [simp]: "c_string (cstr s)"
  by (auto simp: c_string_def cstr_def dest: set_takeWhileD)

lemma c_string_simps [simp]:
  "c_string []" "c_string (c # s) \<longleftrightarrow> c \<noteq> NUL \<and> c_string s"
  "c_string (s @ t) \<longleftrightarrow> c_string s \<and> c_string t"
  by (auto simp: c_string_def)

text \<open>\<open>snprintf(buf, n, "%s", s)\<close>: at most \<open>n - 1\<close> characters are kept.\<close>

definition snprintf_s :: "nat \<Rightarrow> string \<Rightarrow> string" where
  "snprintf_s n s = take (n - 1) s"

lemma snprintf_s_short [simp]: "length s < n \<Longrightarrow> snprintf_s n s = s"
  by (simp add: snprintf_s_def)

lemma length_snprintf_s: "0 < n \<Longrightarrow> length (snprintf_s n s) < n"
  by (simp add: snprintf_s_def)

lemma snprintf_s_idem [simp]: "snprintf_s n (snprintf_s n s) = snprintf_s n s"
  by (simp add: snprintf_s_def)

fun starts_with :: "string \<Rightarrow> string \<Rightarrow> bool" where
  "starts_with [] s = True"
| "starts_with (p # ps) [] = False"
| "starts_with (p # ps) (c # cs) = (p = c \<and> starts_with ps cs)"

lemma starts_with_iff: "starts_with p s \<longleftrightarrow> (\<exists>r. s = p @ r)"
  by (induction p s rule: starts_with.induct) auto

lemma starts_with_append [simp]: "starts_with p (p @ r)"
  by (simp add: starts_with_iff)

lemma starts_with_drop: "starts_with p s \<Longrightarrow> s = p @ drop (length p) s"
  by (auto simp: starts_with_iff)

text \<open>\<open>strstr(s, p)\<close>: the suffix of \<open>s\<close> at the first occurrence of \<open>p\<close>.\<close>

fun strstr :: "string \<Rightarrow> string \<Rightarrow> string option" where
  "strstr [] p = (if p = [] then Some [] else None)"
| "strstr (c # cs) p = (if starts_with p (c # cs) then Some (c # cs) else strstr cs p)"

lemma strstr_Some: "strstr s p = Some r \<Longrightarrow> \<exists>a b. s = a @ r \<and> r = p @ b"
proof (induction s p rule: strstr.induct)
  case (2 c cs p)
  then show ?case
    by (cases "starts_with p (c # cs)") (auto simp: starts_with_iff intro: exI[of _ "c # _"] exI[of _ "[]"])
qed (auto split: if_splits)

lemma strstr_append: "strstr (a @ p @ b) p \<noteq> None"
proof (induction a)
  case Nil
  have "starts_with p (p @ b)" by simp
  then show ?case by (cases "p @ b") (auto simp del: starts_with_append)
qed auto

text \<open>\<open>strchr(s, c)\<close>: the suffix of \<open>s\<close> at the first \<open>c\<close>.\<close>

fun strchr :: "string \<Rightarrow> char \<Rightarrow> string option" where
  "strchr [] x = None"
| "strchr (c # cs) x = (if c = x then Some (c # cs) else strchr cs x)"

lemma strchr_Some: "strchr s x = Some r \<Longrightarrow> \<exists>a r'. s = a @ r \<and> r = x # r' \<and> x \<notin> set a"
proof (induction s x rule: strchr.induct)
  case (2 c cs x)
  then show ?case
    by (cases "c = x") (auto intro: exI[of _ "c # _"] exI[of _ "[]"])
qed simp

lemma strchr_None: "strchr s x = None \<longleftrightarrow> x \<notin> set s"
  by (induction s x rule: strchr.induct) auto

text \<open>Skipping leading white space, and trimming it at the end.\<close>

definition skip_space :: "string \<Rightarrow> string" where
  "skip_space s = dropWhile is_space s"

definition trim_end :: "(char \<Rightarrow> bool) \<Rightarrow> string \<Rightarrow> string" where
  "trim_end p s = rev (dropWhile p (rev s))"

lemma length_skip_space: "length (skip_space s) \<le> length s"
  by (simp add: skip_space_def length_dropWhile_le)

lemma skip_space_simps [c_str_facts]:
  "skip_space [] = []"
  "skip_space (c # s) = (if is_space c then skip_space s else c # s)"
  by (simp_all add: skip_space_def)

lemma trim_end_idle: "s = [] \<or> \<not> p (last s) \<Longrightarrow> trim_end p s = s"
  by (cases s rule: rev_cases) (auto simp: trim_end_def)

lemma trim_end_prefix: "\<exists>t. s = trim_end p s @ t \<and> (\<forall>c \<in> set t. p c)"
proof -
  have "s = rev (takeWhile p (rev s) @ dropWhile p (rev s))"
    by simp
  then have "s = trim_end p s @ rev (takeWhile p (rev s))"
    by (simp only: rev_append trim_end_def)
  then show ?thesis
    by (metis set_rev set_takeWhileD)
qed

section \<open>Integers\<close>

text \<open>
  \<open>long\<close> and \<open>long long\<close> are 64 bits wide, \<open>int\<close> 32, both two's complement; a C value is its
  mathematical value. \<open>strtol\<close> saturates; a cast and the generated code of an overflowing
  addition or multiplication keep the low bits.
\<close>

definition LONG_MAX :: int where "LONG_MAX = 2 ^ 63 - 1"
definition LONG_MIN :: int where "LONG_MIN = - (2 ^ 63)"

definition clamp64 :: "int \<Rightarrow> int" where
  "clamp64 v = max LONG_MIN (min LONG_MAX v)"

definition sll :: "int \<Rightarrow> int" where
  "sll v = (v + 2 ^ 63) mod 2 ^ 64 - 2 ^ 63"

definition to_int32 :: "int \<Rightarrow> int" where
  "to_int32 v = (v + 2 ^ 31) mod 2 ^ 32 - 2 ^ 31"

definition is_long :: "int \<Rightarrow> bool" where
  "is_long v \<longleftrightarrow> LONG_MIN \<le> v \<and> v \<le> LONG_MAX"

definition is_int32 :: "int \<Rightarrow> bool" where
  "is_int32 v \<longleftrightarrow> - (2 ^ 31) \<le> v \<and> v < 2 ^ 31"

lemmas [c_int_defs] = LONG_MAX_def LONG_MIN_def clamp64_def sll_def to_int32_def is_long_def is_int32_def

lemma clamp64_id [simp]: "is_long v \<Longrightarrow> clamp64 v = v"
  by (simp add: c_int_defs)

lemma is_long_clamp64 [simp]: "is_long (clamp64 v)"
  by (simp add: c_int_defs)

lemma sll_id [simp]: "is_long v \<Longrightarrow> sll v = v"
  by (simp add: c_int_defs)

lemma is_long_sll [simp]: "is_long (sll v)"
proof -
  have "0 \<le> (v + 2 ^ 63) mod 2 ^ 64" and "(v + 2 ^ 63) mod 2 ^ 64 < (2::int) ^ 64"
    by (simp_all del: power_numeral)
  then show ?thesis
    by (simp add: c_int_defs)
qed

lemma to_int32_id [simp]: "is_int32 v \<Longrightarrow> to_int32 v = v"
  by (simp add: c_int_defs)

lemma is_int32_to_int32 [simp]: "is_int32 (to_int32 v)"
proof -
  have "0 \<le> (v + 2 ^ 31) mod 2 ^ 32" and "(v + 2 ^ 31) mod 2 ^ 32 < (2::int) ^ 32"
    by (simp_all del: power_numeral)
  then show ?thesis
    by (simp add: c_int_defs)
qed

lemma is_int32_is_long: "is_int32 v \<Longrightarrow> is_long v"
  by (simp add: c_int_defs)

subsection \<open>Printing\<close>

definition digit_char :: "nat \<Rightarrow> char" where
  "digit_char d = char_of (48 + d)"

fun show_nat :: "nat \<Rightarrow> string" where
  "show_nat n = (if n < 10 then [digit_char n] else show_nat (n div 10) @ [digit_char (n mod 10)])"

declare show_nat.simps [simp del]

definition show_int :: "int \<Rightarrow> string" where
  "show_int v = (if v < 0 then CHR ''-'' # show_nat (nat (- v)) else show_nat (nat v))"

definition digit_value :: "char \<Rightarrow> nat" where
  "digit_value c = of_char c - 48"

lemma digit_char_props [simp]:
  assumes "d < 10"
  shows "is_digit (digit_char d)" "digit_value (digit_char d) = d"
  using assms by (simp_all add: is_digit_def digit_char_def digit_value_def)

lemma show_nat_digits: "\<forall>c \<in> set (show_nat n). is_digit c"
  by (induction n rule: show_nat.induct) (subst show_nat.simps, auto)

lemma show_nat_nonempty [simp]: "show_nat n \<noteq> []"
  by (subst show_nat.simps) simp

fun digits_value :: "nat \<Rightarrow> string \<Rightarrow> nat" where
  "digits_value acc [] = acc"
| "digits_value acc (c # cs) = digits_value (acc * 10 + digit_value c) cs"

lemma digits_value_append [simp]:
  "digits_value acc (s @ t) = digits_value (digits_value acc s) t"
  by (induction acc s rule: digits_value.induct) auto

lemma digits_value_show_nat [simp]: "digits_value 0 (show_nat n) = n"
proof (induction n rule: show_nat.induct)
  case (1 n)
  show ?case
  proof (cases "n < 10")
    case True
    then show ?thesis by (subst show_nat.simps) simp
  next
    case False
    with 1 have "digits_value 0 (show_nat (n div 10)) = n div 10" by simp
    with False show ?thesis by (subst show_nat.simps) simp
  qed
qed

subsection \<open>strtol, strtoll and atoi\<close>

text \<open>
  White space, an optional sign, decimal digits. \<open>None\<close> means no digits were found
  (\<open>end == cursor\<close>); the value saturates at the limits of a \<open>long\<close>.
\<close>

definition strtol_digits :: "string \<Rightarrow> nat option" where
  "strtol_digits s = (let ds = takeWhile is_digit s in if ds = [] then None else Some (digits_value 0 ds))"

definition strtol :: "string \<Rightarrow> int option" where
  "strtol s = (case skip_space s of
       [] \<Rightarrow> None
     | c # cs \<Rightarrow>
         (if c = CHR ''-'' then map_option (\<lambda>n. clamp64 (- int n)) (strtol_digits cs)
          else if c = CHR ''+'' then map_option (\<lambda>n. clamp64 (int n)) (strtol_digits cs)
          else map_option (\<lambda>n. clamp64 (int n)) (strtol_digits (c # cs))))"

definition atol :: "string \<Rightarrow> int" where
  "atol s = (case strtol s of None \<Rightarrow> 0 | Some v \<Rightarrow> v)"

definition atoi :: "string \<Rightarrow> int" where
  "atoi s = to_int32 (atol s)"

definition no_digit_ahead :: "string \<Rightarrow> bool" where
  "no_digit_ahead r \<longleftrightarrow> (case r of [] \<Rightarrow> True | c # _ \<Rightarrow> \<not> is_digit c)"

lemma no_digit_ahead_simps [simp]:
  "no_digit_ahead []" "no_digit_ahead (c # r) \<longleftrightarrow> \<not> is_digit c"
  by (simp_all add: no_digit_ahead_def)

lemma strtol_digits_show_nat [simp]:
  assumes "no_digit_ahead r"
  shows "strtol_digits (show_nat n @ r) = Some n"
proof -
  have "takeWhile is_digit (show_nat n @ r) = show_nat n"
    using assms show_nat_digits [of n]
    by (cases r) (auto simp: takeWhile_tail)
  then show ?thesis
    by (simp add: strtol_digits_def)
qed

lemma strtol_show_int [simp]:
  assumes "no_digit_ahead r"
  shows "strtol (show_int v @ r) = Some (clamp64 v)"
proof (cases "v < 0")
  case True
  with assms show ?thesis
    by (simp add: strtol_def show_int_def skip_space_simps is_space_def)
next
  case False
  obtain c cs where c: "show_nat (nat v) = c # cs" and d: "is_digit c"
    using show_nat_nonempty [of "nat v"] show_nat_digits [of "nat v"]
    by (cases "show_nat (nat v)") auto
  have n: "c \<noteq> CHR ''-''" "c \<noteq> CHR ''+''"
    using d by (auto simp: is_digit_def)
  have "strtol_digits (c # cs @ r) = Some (nat v)"
    using strtol_digits_show_nat [OF assms, of "nat v"] c by simp
  with False c d n show ?thesis
    by (simp add: strtol_def show_int_def skip_space_simps is_digit_not_space)
qed

lemma strtol_is_long: "strtol s = Some v \<Longrightarrow> is_long v"
  by (auto simp: strtol_def split: list.splits if_splits)

lemma show_int_plain:
  "c \<in> set (show_int v) \<Longrightarrow> c = CHR ''-'' \<or> is_digit c"
  using show_nat_digits by (auto simp: show_int_def split: if_splits)

lemma show_int_nonempty [simp]: "show_int v \<noteq> []"
  by (simp add: show_int_def)

section \<open>Files read with fgets\<close>

text \<open>
  \<open>fgets(line, n, file)\<close> returns at most \<open>n - 1\<close> bytes and stops after a newline. A file
  longer than its buffer therefore arrives in several pieces. \<open>file_lines n\<close> is the list of the
  C strings that the loop \<open>while (fgets(line, sizeof(line), file))\<close> sees.
\<close>

fun fgets_line :: "nat \<Rightarrow> string \<Rightarrow> string \<times> string" where
  "fgets_line 0 s = ([], s)"
| "fgets_line (Suc k) [] = ([], [])"
| "fgets_line (Suc k) (c # cs) =
     (if c = NL then ([c], cs)
      else (let (l, r) = fgets_line k cs in (c # l, r)))"

lemma fgets_line_split: "fgets_line k s = (l, r) \<Longrightarrow> s = l @ r"
  by (induction k s arbitrary: l r rule: fgets_line.induct) (auto split: if_splits prod.splits)

lemma fgets_line_length: "fgets_line k s = (l, r) \<Longrightarrow> length l \<le> k"
  by (induction k s arbitrary: l r rule: fgets_line.induct) (auto split: if_splits prod.splits)

lemma fgets_line_progress:
  assumes "fgets_line (Suc k) (c # cs) = (l, r)"
  shows "length r < length (c # cs)"
proof -
  have "l \<noteq> []" using assms by (auto split: if_splits prod.splits)
  moreover have "c # cs = l @ r" using assms by (rule fgets_line_split)
  ultimately show ?thesis by (cases l) auto
qed

function raw_lines :: "nat \<Rightarrow> string \<Rightarrow> string list" where
  "raw_lines n s =
     (if n < 2 \<or> s = [] then []
      else (let (l, r) = fgets_line (n - 1) s in l # raw_lines n r))"
  by pat_completeness auto
termination
proof (relation "measure (\<lambda>(n, s). length s)", goal_cases)
  case (2 n s x l r)
  then have "\<not> n < 2" "s \<noteq> []" "fgets_line (n - 1) s = (l, r)" by simp_all
  then obtain k c cs where "n - 1 = Suc k" "s = c # cs"
    by (cases s; cases "n - 1") auto
  with \<open>fgets_line (n - 1) s = (l, r)\<close> show ?case
    using fgets_line_progress by fastforce
qed simp

declare raw_lines.simps [simp del]

definition file_lines :: "nat \<Rightarrow> string \<Rightarrow> string list" where
  "file_lines n s = map cstr (raw_lines n s)"

text \<open>A file whose last byte is a newline (or that is empty): no torn record at its end.\<close>

definition clean_tail :: "string \<Rightarrow> bool" where
  "clean_tail s \<longleftrightarrow> s = [] \<or> last s = NL"

lemma clean_tail_simps [simp]: "clean_tail []" "clean_tail (s @ [NL])"
  by (simp_all add: clean_tail_def)

lemma raw_lines_Nil [simp]: "raw_lines n [] = []"
  by (simp add: raw_lines.simps)

lemma fgets_line_append:
  assumes "fgets_line k s = (l, r)" and "s = [] \<longrightarrow> k = 0" and "clean_tail s"
  shows "fgets_line k (s @ t) = (l, r @ t)"
  using assms
proof (induction k s arbitrary: l r rule: fgets_line.induct)
  case (3 k c cs)
  show ?case
  proof (cases "c = NL")
    case True
    with 3 show ?thesis by simp
  next
    case False
    have cs: "clean_tail cs" "cs \<noteq> []"
      using 3(4) False by (auto simp: clean_tail_def split: if_splits)
    obtain l' r' where lr: "fgets_line k cs = (l', r')" by fastforce
    with False 3(2) have "l = c # l'" "r = r'" by auto
    moreover have "fgets_line k (cs @ t) = (l', r' @ t)"
      using 3(1) False lr cs by simp
    ultimately show ?thesis using False by simp
  qed
qed auto

lemma clean_tail_suffix: "clean_tail (a @ b) \<Longrightarrow> clean_tail b"
  by (cases b) (auto simp: clean_tail_def)

lemma raw_lines_append:
  assumes "clean_tail s"
  shows "raw_lines n (s @ t) = raw_lines n s @ raw_lines n t"
  using assms
proof (induction n s rule: raw_lines.induct)
  case (1 n s)
  show ?case
  proof (cases "n < 2 \<or> s = []")
    case True
    then show ?thesis by (auto simp: raw_lines.simps)
  next
    case False
    obtain l r where lr: "fgets_line (n - 1) s = (l, r)" by fastforce
    have s: "s = l @ r" using lr by (rule fgets_line_split)
    have "clean_tail r" using 1(2) s clean_tail_suffix by blast
    then have ih: "raw_lines n (r @ t) = raw_lines n r @ raw_lines n t"
      using 1(1) False lr by auto
    have "fgets_line (n - 1) (s @ t) = (l, r @ t)"
      using fgets_line_append [OF lr] False 1(2) by auto
    then show ?thesis
      using False lr ih by (subst raw_lines.simps, subst (2) raw_lines.simps) simp
  qed
qed

lemma file_lines_append:
  "clean_tail s \<Longrightarrow> file_lines n (s @ t) = file_lines n s @ file_lines n t"
  by (simp add: file_lines_def raw_lines_append)

lemma fgets_line_record:
  assumes "NL \<notin> set r" and "length r < k"
  shows "fgets_line k (r @ NL # t) = (r @ [NL], t)"
  using assms
proof (induction r arbitrary: k)
  case Nil
  then show ?case by (cases k) auto
next
  case (Cons c r)
  then show ?case by (cases k) auto
qed

lemma raw_lines_record:
  assumes "NL \<notin> set r" and "length r + 1 < n"
  shows "raw_lines n (r @ [NL]) = [r @ [NL]]"
  using assms fgets_line_record [of r "n - 1" "[]"]
  by (subst raw_lines.simps) simp

lemma file_lines_record:
  assumes "NL \<notin> set r" "c_string r" and "length r + 1 < n"
  shows "file_lines n (r @ [NL]) = [r @ [NL]]"
  using assms raw_lines_record by (simp add: file_lines_def)

lemma file_lines_Nil [simp]: "file_lines n [] = []"
  by (simp add: file_lines_def)

text \<open>Appending one record to a file that ends in a newline adds exactly that line.\<close>

lemma file_lines_append_record:
  assumes "clean_tail s" "NL \<notin> set r" "c_string r" and "length r + 1 < n"
  shows "file_lines n (s @ r @ [NL]) = file_lines n s @ [r @ [NL]]"
  using assms by (simp add: file_lines_append file_lines_record)

text \<open>A record that fills the buffer exactly comes back without its newline, which follows alone.\<close>

lemma fgets_line_full: "NL \<notin> set r \<Longrightarrow> fgets_line (length r) (r @ t) = (r, t)"
  by (induction r) auto

lemma file_lines_record_full:
  assumes "NL \<notin> set r" "c_string r" "length r + 1 = n" "r \<noteq> []"
  shows "file_lines n (r @ [NL]) = [r, [NL]]"
proof -
  have "fgets_line (n - 1) (r @ [NL]) = (r, [NL])"
    using fgets_line_full [OF assms(1), of "[NL]"] assms(3) by auto
  moreover have "fgets_line (n - 1) [NL] = ([NL], [])"
    using assms(3,4) by (cases "n - 1") auto
  moreover have "n \<ge> 2" using assms(3,4) by (cases r) auto
  ultimately have "raw_lines n (r @ [NL]) = [r, [NL]]"
    by (subst raw_lines.simps, simp, subst raw_lines.simps, simp)
  with assms(2) show ?thesis by (simp add: file_lines_def)
qed

text \<open>A printed \<open>long\<close> takes at most 20 characters.\<close>

lemma length_show_nat: "n < 10 ^ k \<Longrightarrow> 0 < k \<Longrightarrow> length (show_nat n) \<le> k"
proof (induction n arbitrary: k rule: show_nat.induct)
  case (1 n)
  show ?case
  proof (cases "n < 10")
    case True
    with 1(3) show ?thesis by (subst show_nat.simps) simp
  next
    case False
    then obtain j where k: "k = Suc j" "0 < j"
      using 1(2,3) by (cases k; cases "k - 1") auto
    then have "n div 10 < 10 ^ j" using 1(2) by (simp add: less_mult_imp_div_less)
    with 1(1) [OF False _ k(2)] False k show ?thesis by (subst show_nat.simps) simp
  qed
qed

lemma length_show_int: "is_long v \<Longrightarrow> length (show_int v) \<le> 20"
  using length_show_nat [of "nat (- v)" 19] length_show_nat [of "nat v" 20]
  by (auto simp: show_int_def c_int_defs)

end
