(* ===== verification/Json.thy ===== *)
theory Json
  imports C_Strings
begin

text \<open>
  The JSON helpers of \<^verbatim>\<open>src/src/wt_json.c\<close>: escaping into a bounded buffer
  (\<open>wtJsonEscape\<close>), the textual field search (\<open>findFieldValue\<close>) and the three field readers.

  A reader's result is a \<open>json_read\<close>: the value, a failure together with what the output buffer
  was left holding, or an \<open>ReadOverrun\<close>. The last one is the case the C code has no defined
  behaviour for: a backslash as the last character before the terminator makes
  \<open>wtJsonReadString\<close> step over the NUL and read what lies behind the string.

  The second half states what a record printed by the program looks like (\<open>render_object\<close>, the
  image of every \<open>snprintf\<close> format of the sources that prints a flat object) and proves that the
  textual search finds exactly the intended field in it, whatever text the values hold.
\<close>

section \<open>Escaping\<close>

definition hex_digit :: "nat \<Rightarrow> char" where
  "hex_digit d = (if d < 10 then char_of (48 + d) else char_of (87 + d))"

lemma hex_digit_alnum: "d < 16 \<Longrightarrow> is_alnum (hex_digit d)"
  by (simp add: hex_digit_def is_alnum_def is_digit_def)

text \<open>The piece \<open>wtJsonEscape\<close> writes for one input byte, branch by branch.\<close>

definition escape_char :: "char \<Rightarrow> string" where
  "escape_char c =
     (if c = DQ \<or> c = BSL then [BSL, c]
      else if c = NL then [BSL, CHR ''n'']
      else if c = CR then [BSL, CHR ''r'']
      else if c = TAB then [BSL, CHR ''t'']
      else if (of_char c :: nat) < 32 then
        [BSL, CHR ''u'', CHR ''0'', CHR ''0'', hex_digit (of_char c div 16), hex_digit (of_char c mod 16)]
      else [c])"

text \<open>The loop: \<open>out\<close> is what has been copied to \<open>output[0..used)\<close>. \<open>None\<close> is the return value -1.\<close>

fun escape_loop :: "nat \<Rightarrow> string \<Rightarrow> string \<Rightarrow> string option" where
  "escape_loop outputSize out [] =
     (if length out + 1 > outputSize then None else Some out)"
| "escape_loop outputSize out (c # cs) =
     (let piece = escape_char c in
      if length out + length piece + 1 > outputSize then None
      else escape_loop outputSize (out @ piece) cs)"

definition wtJsonEscape :: "string \<Rightarrow> nat \<Rightarrow> string option" where
  "wtJsonEscape input outputSize = escape_loop outputSize [] input"

text \<open>The specification of the loop: the escaped text, provided it fits with its terminator.\<close>

definition escape :: "string \<Rightarrow> string" where
  "escape s = concat (map escape_char s)"

lemma escape_simps [simp]:
  "escape [] = []" "escape (c # s) = escape_char c @ escape s" "escape (s @ t) = escape s @ escape t"
  by (simp_all add: escape_def)

lemma escape_loop_spec:
  "escape_loop n out s = (if length out + length (escape s) < n then Some (out @ escape s) else None)"
  by (induction n out s rule: escape_loop.induct) (auto simp: Let_def)

lemma wtJsonEscape_spec:
  "wtJsonEscape s n = (if length (escape s) < n then Some (escape s) else None)"
  by (simp add: wtJsonEscape_def escape_loop_spec)

lemma escape_char_no_quote:
  assumes "c \<noteq> DQ"
  shows "DQ \<notin> set (escape_char c)"
proof -
  have *: "DQ \<noteq> hex_digit d" if "d < 16" for d
    using is_alnum_plain(1) hex_digit_alnum [OF that] by metis
  have "DQ \<noteq> hex_digit ((of_char c :: nat) mod 16)"
    and "(of_char c :: nat) < 32 \<Longrightarrow> DQ \<noteq> hex_digit ((of_char c :: nat) div 16)"
    by (simp_all add: *)
  with assms show ?thesis by (simp add: escape_char_def)
qed

lemma length_escape_char: "1 \<le> length (escape_char c) \<and> length (escape_char c) \<le> 6"
  by (simp add: escape_char_def)

lemma length_escape: "length s \<le> length (escape s) \<and> length (escape s) \<le> 6 * length s"
proof (induction s)
  case (Cons c s)
  then show ?case using length_escape_char [of c] by simp
qed simp

text \<open>Only quotes and backslashes grow a text without control characters, and they double.\<close>

definition no_control :: "string \<Rightarrow> bool" where
  "no_control s \<longleftrightarrow> (\<forall>c \<in> set s. 32 \<le> (of_char c :: nat) \<or> c = NL \<or> c = CR \<or> c = TAB)"

lemma no_control_simps [simp]:
  "no_control []"
  "no_control (c # s) \<longleftrightarrow> (32 \<le> (of_char c :: nat) \<or> c = NL \<or> c = CR \<or> c = TAB) \<and> no_control s"
  "no_control (s @ t) \<longleftrightarrow> no_control s \<and> no_control t"
  by (auto simp: no_control_def)

lemma no_control_take [simp]: "no_control s \<Longrightarrow> no_control (take n s)"
  using set_take_subset by (fastforce simp: no_control_def)

lemma no_control_snprintf_s [simp]: "no_control s \<Longrightarrow> no_control (snprintf_s n s)"
  by (simp add: snprintf_s_def)

lemma no_control_show_int [simp]: "no_control (show_int v)"
  using show_int_plain [of _ v] by (fastforce simp: no_control_def is_digit_def)

lemma no_control_c_string: "no_control s \<Longrightarrow> c_string s"
  by (induction s) auto

lemma length_escape_no_control: "no_control s \<Longrightarrow> length (escape s) \<le> 2 * length s"
  by (induction s) (auto simp: escape_char_def)

lemma wtJsonEscape_double:
  assumes "no_control s" and "length s < m" and "2 * m \<le> n + 1"
  shows "wtJsonEscape s n = Some (escape s)"
  using length_escape_no_control [OF assms(1)] assms(2,3) by (simp add: wtJsonEscape_spec)

lemma wtJsonEscape_twice [simp]:
  assumes "no_control s" and "length s < n"
  shows "wtJsonEscape s (n * 2) = Some (escape s)"
  using wtJsonEscape_double [OF assms, of "n * 2"] by simp

section \<open>The field search\<close>

text \<open>
  \<open>findFieldValue\<close>: search for the quoted key, skip white space, and accept the occurrence only
  when a colon follows. \<open>find_pattern\<close> is the \<open>while (strstr ...)\<close> loop; after a rejected
  occurrence the search goes on behind the skipped white space, as the code's cursor does.
\<close>

function find_pattern :: "string \<Rightarrow> string \<Rightarrow> string option" where
  "find_pattern pat [] = None"
| "find_pattern pat (c # cs) =
     (if pat \<noteq> [] \<and> starts_with pat (c # cs) then
        (let r = skip_space (drop (length pat) (c # cs)) in
         case r of
           [] \<Rightarrow> None
         | x # r' \<Rightarrow> (if x = CHR '':'' then Some (skip_space r') else find_pattern pat r))
      else find_pattern pat cs)"
  by pat_completeness auto
termination
proof (relation "measure (\<lambda>(pat, s). length s)", goal_cases)
  case (2 pat c cs r x r')
  have "length r \<le> length (drop (length pat) (c # cs))"
    using 2(2) length_skip_space by metis
  moreover have "length (drop (length pat) (c # cs)) < length (c # cs)"
    using 2(1) by (cases pat) auto
  ultimately show ?case by simp
qed auto

definition key_pattern :: "string \<Rightarrow> string" where
  "key_pattern key = snprintf_s 128 (DQ # key @ [DQ])"

definition findFieldValue :: "string \<Rightarrow> string \<Rightarrow> string option" where
  "findFieldValue json key = find_pattern (key_pattern key) json"

section \<open>The field readers\<close>

datatype json_read = ReadOk string | ReadFail "string option" | ReadCut string | ReadOverrun

definition unescape :: "char \<Rightarrow> char" where
  "unescape e = (if e = CHR ''n'' then NL else if e = CHR ''r'' then CR
                 else if e = CHR ''t'' then TAB else e)"

text \<open>
  The copying loop of \<open>wtJsonReadString\<close>; \<open>out\<close> is \<open>output[0..used)\<close>. A value without its closing
  quote leaves the copied prefix, terminated (\<open>ReadFail (Some out)\<close>). On a full buffer the code
  returns before it writes a terminator (\<open>ReadCut out\<close>): the buffer holds the prefix and its last
  byte is what it was before.
\<close>

fun read_loop :: "nat \<Rightarrow> string \<Rightarrow> string \<Rightarrow> json_read" where
  "read_loop outputSize out [] = ReadFail (Some out)"
| "read_loop outputSize out (c # cs) =
     (if c = DQ then ReadOk out
      else if c = BSL then
        (case cs of
           [] \<Rightarrow> (if length out + 1 \<ge> outputSize then ReadCut out else ReadOverrun)
         | e # cs' \<Rightarrow>
             (if length out + 1 \<ge> outputSize then ReadCut out
              else read_loop outputSize (out @ [unescape e]) cs'))
      else if length out + 1 \<ge> outputSize then ReadCut out
      else read_loop outputSize (out @ [c]) cs)"

definition wtJsonReadString :: "string \<Rightarrow> string \<Rightarrow> nat \<Rightarrow> json_read" where
  "wtJsonReadString json key outputSize =
     (case findFieldValue json key of
        None \<Rightarrow> ReadFail None
      | Some [] \<Rightarrow> ReadFail None
      | Some (c # cs) \<Rightarrow>
          (if c \<noteq> DQ \<or> outputSize = 0 then ReadFail None else read_loop outputSize [] cs))"

definition wtJsonReadLong :: "string \<Rightarrow> string \<Rightarrow> int option" where
  "wtJsonReadLong json key = Option.bind (findFieldValue json key) strtol"

definition wtJsonReadLongLong :: "string \<Rightarrow> string \<Rightarrow> int option" where
  "wtJsonReadLongLong json key = Option.bind (findFieldValue json key) strtol"

text \<open>
  The callers' idioms. \<open>read_str\<close> keeps only the value; \<open>read_or\<close> is
  \<open>readOptionalString\<close>/\<open>readStringOrDefault\<close> with a constant fallback. \<open>read_keep\<close> is a read into
  a buffer that holds \<open>old\<close> and gets its terminator in any case: one that was zero-filled
  (\<open>memset\<close>, or an array with an initializer) and has kept its last byte since, or one that
  \<open>readOptionalString\<close> prints over itself with \<open>snprintf\<close> after a failed read, as it does where
  the fallback is the buffer. \<open>read_raw behind\<close> is a read whose return code is not looked at into
  a buffer that was not cleared: a cut value runs on into \<open>behind\<close>, the bytes from the last of the
  buffer to the next zero byte. A read that overran is continued as a failed one.
\<close>

definition read_str :: "string \<Rightarrow> string \<Rightarrow> nat \<Rightarrow> string option" where
  "read_str json key n = (case wtJsonReadString json key n of ReadOk s \<Rightarrow> Some s | _ \<Rightarrow> None)"

definition read_or :: "string \<Rightarrow> string \<Rightarrow> nat \<Rightarrow> string \<Rightarrow> string" where
  "read_or json key n fallback =
     (case wtJsonReadString json key n of ReadOk s \<Rightarrow> s | _ \<Rightarrow> snprintf_s n fallback)"

definition read_keep :: "string \<Rightarrow> string \<Rightarrow> nat \<Rightarrow> string \<Rightarrow> string" where
  "read_keep json key n old =
     (case wtJsonReadString json key n of
        ReadOk s \<Rightarrow> s | ReadFail None \<Rightarrow> old | ReadFail (Some s) \<Rightarrow> s | ReadCut s \<Rightarrow> s | ReadOverrun \<Rightarrow> old)"

definition read_raw :: "string \<Rightarrow> string \<Rightarrow> string \<Rightarrow> nat \<Rightarrow> string \<Rightarrow> string" where
  "read_raw behind json key n old =
     (case wtJsonReadString json key n of
        ReadOk s \<Rightarrow> s | ReadFail None \<Rightarrow> old | ReadFail (Some s) \<Rightarrow> s | ReadCut s \<Rightarrow> s @ behind | ReadOverrun \<Rightarrow> old)"

definition read_long_or :: "string \<Rightarrow> string \<Rightarrow> int \<Rightarrow> int" where
  "read_long_or json key old = (case wtJsonReadLong json key of Some v \<Rightarrow> v | None \<Rightarrow> old)"

definition read_longlong_or :: "string \<Rightarrow> string \<Rightarrow> int \<Rightarrow> int" where
  "read_longlong_or json key old = (case wtJsonReadLongLong json key of Some v \<Rightarrow> v | None \<Rightarrow> old)"

text \<open>What a reader copies into a buffer of size \<open>n\<close> always leaves a byte for the terminator.\<close>

fun read_fits :: "nat \<Rightarrow> json_read \<Rightarrow> bool" where
  "read_fits n (ReadOk r) \<longleftrightarrow> length r < n"
| "read_fits n (ReadFail (Some r)) \<longleftrightarrow> length r < n"
| "read_fits n (ReadFail None) \<longleftrightarrow> True"
| "read_fits n (ReadCut r) \<longleftrightarrow> length r + 1 = n"
| "read_fits n ReadOverrun \<longleftrightarrow> True"

lemma read_loop_fits: "length out < n \<Longrightarrow> read_fits n (read_loop n out s)"
proof (induction n out s rule: read_loop.induct)
  case (2 n out c cs)
  show ?case
  proof (cases "c = BSL")
    case True
    with 2 show ?thesis by (cases cs) simp_all
  next
    case False
    with 2 show ?thesis by simp
  qed
qed simp

lemma wtJsonReadString_fits: "read_fits n (wtJsonReadString json key n)"
proof -
  have "0 < n \<Longrightarrow> read_fits n (read_loop n [] cs)" for cs
    by (rule read_loop_fits) simp
  then show ?thesis
    by (auto simp: wtJsonReadString_def split: option.split list.split)
qed

lemma read_or_read_str: "read_or json k n d = (case read_str json k n of Some s \<Rightarrow> s | None \<Rightarrow> snprintf_s n d)"
  by (simp add: read_or_def read_str_def split: json_read.split)

lemma read_keep_Some: "read_str json k n = Some s \<Longrightarrow> read_keep json k n old = s"
  by (simp add: read_keep_def read_str_def split: json_read.splits)

lemma read_str_length: "read_str json key n = Some s \<Longrightarrow> length s < n"
  using wtJsonReadString_fits [of n json key]
  by (auto simp: read_str_def split: json_read.splits)

lemma read_or_length: "0 < n \<Longrightarrow> length (read_or json key n d) < n"
  using wtJsonReadString_fits [of n json key] length_snprintf_s [of n d]
  by (auto simp: read_or_def split: json_read.splits)

lemma read_keep_length: "length old < n \<Longrightarrow> length (read_keep json key n old) < n"
  using wtJsonReadString_fits [of n json key]
  by (auto simp: read_keep_def split: json_read.splits option.splits)

text \<open>The unchecked read fits as long as the value is not cut.\<close>

definition not_cut :: "string \<Rightarrow> string \<Rightarrow> nat \<Rightarrow> bool" where
  "not_cut json key n \<longleftrightarrow> (case wtJsonReadString json key n of ReadCut _ \<Rightarrow> False | _ \<Rightarrow> True)"

lemma read_raw_length: "not_cut json key n \<Longrightarrow> length old < n \<Longrightarrow> length (read_raw behind json key n old) < n"
  using wtJsonReadString_fits [of n json key]
  by (auto simp: read_raw_def not_cut_def split: json_read.splits option.splits)

lemma wtJsonReadLong_is_long: "wtJsonReadLong json key = Some v \<Longrightarrow> is_long v"
  by (auto simp: wtJsonReadLong_def bind_eq_Some_conv intro: strtol_is_long)

lemma wtJsonReadLongLong_is_long: "wtJsonReadLongLong json key = Some v \<Longrightarrow> is_long v"
  by (auto simp: wtJsonReadLongLong_def bind_eq_Some_conv intro: strtol_is_long)

declare read_loop.simps [simp del]

section \<open>Reading back a printed object\<close>

datatype jval = JStr string | JNum int | JLit string

fun render_value :: "jval \<Rightarrow> string" where
  "render_value (JStr s) = DQ # escape s @ [DQ]"
| "render_value (JNum v) = show_int v"
| "render_value (JLit t) = t"

definition render_field :: "string \<times> jval \<Rightarrow> string" where
  "render_field f = DQ # fst f @ [DQ, CHR '':''] @ render_value (snd f)"

fun render_fields :: "(string \<times> jval) list \<Rightarrow> string" where
  "render_fields [] = []"
| "render_fields [f] = render_field f"
| "render_fields (f # fs) = render_field f @ CHR '','' # render_fields fs"

definition render_object :: "(string \<times> jval) list \<Rightarrow> string" where
  "render_object fs = CHR ''{'' # render_fields fs @ ''}''"

definition key_text :: "string \<Rightarrow> bool" where
  "key_text k \<longleftrightarrow> k \<noteq> [] \<and> length k < 126 \<and> (\<forall>c \<in> set k. is_alnum c \<or> c = CHR ''_'')"

fun plain_value :: "jval \<Rightarrow> bool" where
  "plain_value (JStr s) \<longleftrightarrow> True"
| "plain_value (JNum v) \<longleftrightarrow> True"
| "plain_value (JLit t) \<longleftrightarrow> t \<noteq> [] \<and> (\<forall>c \<in> set t. is_alnum c) \<and> \<not> is_digit (hd t)"

definition wf_fields :: "(string \<times> jval) list \<Rightarrow> bool" where
  "wf_fields fs \<longleftrightarrow> (\<forall>f \<in> set fs. key_text (fst f) \<and> plain_value (snd f))"

lemma wf_fields_simps [simp]:
  "wf_fields []"
  "wf_fields (f # fs) \<longleftrightarrow> key_text (fst f) \<and> plain_value (snd f) \<and> wf_fields fs"
  "wf_fields (fs @ gs) \<longleftrightarrow> wf_fields fs \<and> wf_fields gs"
  by (auto simp: wf_fields_def)

lemma key_char_plain:
  assumes "is_alnum c \<or> c = CHR ''_''"
  shows "c \<noteq> DQ" "c \<noteq> BSL" "\<not> is_space c" "c \<noteq> CHR '':''" "c \<noteq> CHR '',''" "c \<noteq> CHR ''}''"
    "escape_char c = [c]"
proof -
  consider "is_alnum c" | "c = CHR ''_''" using assms by blast
  then have c: "c \<noteq> DQ \<and> c \<noteq> BSL \<and> \<not> is_space c \<and> c \<noteq> CHR '':'' \<and> c \<noteq> CHR '',''"
  proof cases
    case 1
    then show ?thesis using is_alnum_plain [of c] by blast
  next
    case 2
    then show ?thesis by (simp add: is_space_def)
  qed
  have "32 \<le> (of_char c :: nat)"
    using assms by (auto simp: is_alnum_def is_digit_def)
  moreover have "c \<noteq> CHR ''}''"
  proof
    assume "c = CHR ''}''"
    with assms show False by (simp add: is_alnum_def is_digit_def)
  qed
  moreover have "c \<noteq> NL" "c \<noteq> CR" "c \<noteq> TAB"
    using c by (simp_all add: is_space_def)
  ultimately show "c \<noteq> DQ" "c \<noteq> BSL" "\<not> is_space c" "c \<noteq> CHR '':''" "c \<noteq> CHR '',''" "c \<noteq> CHR ''}''"
    "escape_char c = [c]"
    using c by (simp_all add: escape_char_def)
qed

lemma key_text_key_pattern: "key_text k \<Longrightarrow> key_pattern k = DQ # k @ [DQ]"
  by (simp add: key_pattern_def key_text_def)

lemma find_pattern_skip:
  "pat \<noteq> [] \<Longrightarrow> \<not> starts_with pat (c # cs) \<Longrightarrow> find_pattern pat (c # cs) = find_pattern pat cs"
  by simp

lemma find_pattern_hit:
  assumes "pat \<noteq> []"
  shows "find_pattern pat (pat @ s) =
    (case skip_space s of [] \<Rightarrow> None
     | x # r \<Rightarrow> if x = CHR '':'' then Some (skip_space r) else find_pattern pat (x # r))"
proof -
  obtain c cs where pat: "pat = c # cs" using assms by (cases pat) auto
  have "starts_with pat (c # cs @ s)" and "drop (length pat) (c # cs @ s) = s"
    using starts_with_append [of pat s] pat by auto
  then show ?thesis
    using pat by (simp add: Let_def del: starts_with.simps split: list.split)
qed

declare find_pattern.simps(2) [simp del]

text \<open>A quoted key that starts with \<open>"\<close> is never found inside text without quotes.\<close>

lemma find_pattern_no_quote:
  "DQ \<notin> set t \<Longrightarrow> find_pattern (DQ # k) (t @ r) = find_pattern (DQ # k) r"
  by (induction t) (auto simp: find_pattern_skip)

lemma starts_with_escape:
  assumes "\<forall>c \<in> set k. is_alnum c \<or> c = CHR ''_''"
    and "starts_with (k @ [DQ]) (escape s @ DQ # r)"
  shows "escape s = k"
  using assms
proof (induction k arbitrary: s)
  case Nil
  then show ?case by (cases s) (auto simp: escape_char_def split: if_splits)
next
  case (Cons a k)
  from Cons.prems have a: "is_alnum a \<or> a = CHR ''_''" by simp
  show ?case
  proof (cases s)
    case Nil
    with Cons.prems key_char_plain(1) [OF a] show ?thesis by simp
  next
    case (Cons c s')
    have "hd (escape_char c) = a"
      using Cons.prems Cons by (cases "escape_char c") (auto simp: escape_char_def split: if_splits)
    then have "c = a"
      using key_char_plain(2) [OF a] by (auto simp: escape_char_def split: if_splits)
    with Cons Cons.prems Cons.IH [of s'] key_char_plain(7) [OF a] show ?thesis by simp
  qed
qed

text \<open>
  The heart of the matter: a string value is skipped as a whole. Inside the escaped text every
  quote follows a backslash; the only way the quoted key can occur there is as
  \<^verbatim>\<open>\"key"\<close> with the closing quote of the value, and then no colon follows.
\<close>

definition value_end :: "string \<Rightarrow> bool" where
  "value_end r \<longleftrightarrow> (\<exists>c r'. r = c # r' \<and> (c = CHR '','' \<or> c = CHR ''}''))"

lemma find_pattern_string_value:
  assumes k: "key_text k" and r: "value_end r"
  shows "find_pattern (DQ # k @ [DQ]) (escape s @ DQ # r) = find_pattern (DQ # k @ [DQ]) r" (is ?A)
    and "find_pattern (DQ # k @ [DQ]) (DQ # escape s @ DQ # r) = find_pattern (DQ # k @ [DQ]) r" (is ?B)
proof -
  let ?pat = "DQ # k @ [DQ]"
  have kc: "\<forall>c \<in> set k. is_alnum c \<or> c = CHR ''_''" and "k \<noteq> []"
    using k by (auto simp: key_text_def)
  obtain k0 ks where ks: "k = k0 # ks" and k0: "k0 \<noteq> CHR '',''" "k0 \<noteq> CHR ''}''"
    using \<open>k \<noteq> []\<close> kc key_char_plain(5,6) by (cases k) auto
  obtain c r' where r': "r = c # r'" "c = CHR '','' \<or> c = CHR ''}''"
    using r by (auto simp: value_end_def)
  have close: "\<not> starts_with ?pat (DQ # r)"
    using r' ks k0 by auto
  have quote: "find_pattern ?pat (DQ # escape s @ DQ # r) = find_pattern ?pat r"
    if inner: "find_pattern ?pat (escape s @ DQ # r) = find_pattern ?pat r" for s
  proof (cases "starts_with ?pat (DQ # escape s @ DQ # r)")
    case True
    then have "escape s = k" using starts_with_escape [OF kc, of s r] by simp
    moreover have "skip_space r = r" using r' by (auto simp: skip_space_simps is_space_def)
    ultimately show ?thesis
      using find_pattern_hit [of ?pat r] r' by auto
  next
    case False
    with inner show ?thesis by (simp add: find_pattern_skip)
  qed
  have A: "find_pattern ?pat (escape s @ DQ # r) = find_pattern ?pat r" for s
  proof (induction s)
    case Nil
    with close show ?case by (simp add: find_pattern_skip)
  next
    case (Cons c s)
    show ?case
    proof (cases "c = DQ")
      case True
      have "find_pattern ?pat ([BSL] @ DQ # escape s @ DQ # r) = find_pattern ?pat (DQ # escape s @ DQ # r)"
        by (rule find_pattern_no_quote) simp
      with True quote [OF Cons.IH] show ?thesis by (simp add: escape_char_def)
    next
      case False
      then have "DQ \<notin> set (escape_char c)"
        by (rule escape_char_no_quote)
      with Cons.IH show ?thesis by (simp add: find_pattern_no_quote)
    qed
  qed
  show ?A by (rule A)
  show ?B by (rule quote [OF A])
qed

lemma value_end_simps [simp]:
  "value_end (c # r) \<longleftrightarrow> c = CHR '','' \<or> c = CHR ''}''"
  by (simp add: value_end_def)

lemma escape_key_text: "key_text k \<Longrightarrow> escape k = k"
proof -
  assume "key_text k"
  then have "\<forall>c \<in> set k. escape_char c = [c]"
    using key_char_plain(7) by (auto simp: key_text_def)
  then show "escape k = k" by (induction k) auto
qed

lemma key_text_no_quote: "key_text k \<Longrightarrow> DQ \<notin> set k"
  using key_char_plain(1) by (auto simp: key_text_def)

lemma find_pattern_other_key:
  assumes k: "key_text k" and k': "key_text k'" and "k \<noteq> k'"
  shows "find_pattern (DQ # k @ [DQ]) (DQ # k' @ DQ # CHR '':'' # r) = find_pattern (DQ # k @ [DQ]) r"
proof -
  have kc: "\<forall>c \<in> set k. is_alnum c \<or> c = CHR ''_''" using k by (simp add: key_text_def)
  have "\<not> starts_with (k @ [DQ]) (k' @ DQ # CHR '':'' # r)"
    using starts_with_escape [OF kc, of k'] escape_key_text [OF k'] \<open>k \<noteq> k'\<close> by auto
  then have "find_pattern (DQ # k @ [DQ]) (DQ # k' @ DQ # CHR '':'' # r) =
      find_pattern (DQ # k @ [DQ]) (DQ # CHR '':'' # r)"
    by (simp add: find_pattern_skip find_pattern_no_quote [OF key_text_no_quote [OF k']])
  moreover have "\<not> starts_with (DQ # k @ [DQ]) (DQ # CHR '':'' # r)"
    using k kc key_char_plain(4) by (cases k) (auto simp: key_text_def)
  ultimately show ?thesis
    by (simp add: find_pattern_skip)
qed

lemma find_pattern_value:
  assumes "key_text k" "plain_value v" "value_end r"
  shows "find_pattern (DQ # k @ [DQ]) (render_value v @ r) = find_pattern (DQ # k @ [DQ]) r"
proof (cases v)
  case (JStr s)
  then show ?thesis using find_pattern_string_value(2) [OF assms(1,3)] by simp
next
  case (JNum n)
  have "DQ \<notin> set (show_int n)"
    using show_int_plain [of DQ n] by (auto simp: is_digit_def)
  with JNum show ?thesis by (simp add: find_pattern_no_quote)
next
  case (JLit t)
  have "DQ \<notin> set t"
    using assms(2) JLit is_alnum_plain(1) by auto
  with JLit show ?thesis by (simp add: find_pattern_no_quote)
qed

lemma skip_space_value:
  assumes "plain_value v"
  shows "skip_space (render_value v @ r) = render_value v @ r"
proof (cases v)
  case (JStr s)
  then show ?thesis by (simp add: skip_space_simps is_space_def)
next
  case (JNum n)
  obtain c cs where c: "show_int n = c # cs" by (cases "show_int n") auto
  then have "\<not> is_space c"
    using show_int_plain [of c n] is_digit_not_space by (auto simp: is_space_def)
  with JNum c show ?thesis by (simp add: skip_space_simps)
next
  case (JLit t)
  then obtain c cs where "t = c # cs" "is_alnum c" using assms by (cases t) auto
  with JLit is_alnum_plain(5) show ?thesis by (auto simp: skip_space_simps)
qed

lemma find_pattern_field:
  assumes k: "key_text k" and f: "key_text (fst f)" "plain_value (snd f)" and r: "value_end r"
  shows "find_pattern (DQ # k @ [DQ]) (render_field f @ r) =
    (if fst f = k then Some (render_value (snd f) @ r) else find_pattern (DQ # k @ [DQ]) r)"
proof (cases "fst f = k")
  case True
  have "skip_space (CHR '':'' # render_value (snd f) @ r) = CHR '':'' # render_value (snd f) @ r"
    by (simp add: skip_space_simps is_space_def)
  with True find_pattern_hit [of "DQ # k @ [DQ]" "CHR '':'' # render_value (snd f) @ r"]
  show ?thesis by (simp add: render_field_def skip_space_value [OF f(2)])
next
  case False
  with find_pattern_other_key [OF k f(1), of "render_value (snd f) @ r"]
  show ?thesis by (auto simp: render_field_def find_pattern_value [OF k f(2) r])
qed

text \<open>\<open>found x mv\<close>: the search result \<open>x\<close> points at the printed value \<open>mv\<close>, or is empty like it.\<close>

definition found :: "string option \<Rightarrow> jval option \<Rightarrow> bool" where
  "found x mv \<longleftrightarrow> (case mv of None \<Rightarrow> x = None | Some v \<Rightarrow> (\<exists>r. value_end r \<and> x = Some (render_value v @ r)))"

lemma found_simps [simp]:
  "found x None \<longleftrightarrow> x = None"
  "value_end r \<Longrightarrow> found (Some (render_value v @ r)) (Some v)"
  by (auto simp: found_def)

lemma find_pattern_comma:
  "find_pattern (DQ # k) (CHR '','' # z) = find_pattern (DQ # k) z"
  "find_pattern (DQ # k) (CHR ''{'' # z) = find_pattern (DQ # k) z"
  using find_pattern_no_quote [of "[CHR '','']" k z] find_pattern_no_quote [of "''{''" k z] by simp_all

lemma find_pattern_fields:
  assumes k: "key_text k" and "wf_fields fs" and t: "value_end t" "DQ \<notin> set t"
  shows "found (find_pattern (DQ # k @ [DQ]) (render_fields fs @ t)) (map_of fs k)"
  using assms(2)
proof (induction fs rule: render_fields.induct)
  have tail: "find_pattern (DQ # k @ [DQ]) t = None"
    using find_pattern_no_quote [OF t(2), of "k @ [DQ]" "[]"] by simp
  {
    case 1
    then show ?case by (simp add: tail)
  next
    case (2 f)
    then show ?case using find_pattern_field [OF k, of f t] t(1) by (cases f) (auto simp: tail)
  next
    case (3 f g fs)
    let ?rest = "CHR '','' # render_fields (g # fs) @ t"
    have "find_pattern (DQ # k @ [DQ]) (render_fields (f # g # fs) @ t) =
        (if fst f = k then Some (render_value (snd f) @ ?rest)
         else find_pattern (DQ # k @ [DQ]) (render_fields (g # fs) @ t))"
      using find_pattern_field [OF k, of f ?rest] 3(2) by (simp add: find_pattern_comma)
    with 3 show ?case by (cases f) (auto simp del: render_fields.simps)
  }
qed

lemma find_object:
  assumes "key_text k" and "wf_fields fs" and "DQ \<notin> set t"
  shows "found (findFieldValue (render_object fs @ t) k) (map_of fs k)"
  using find_pattern_fields [of k fs "CHR ''}'' # t"] assms
  by (simp add: findFieldValue_def key_text_key_pattern render_object_def find_pattern_comma)

text \<open>What the three readers return on a printed object, for a field of each kind.\<close>

lemma read_loop_escape:
  assumes "no_control s"
  shows "length out < n \<Longrightarrow> read_loop n out (escape s @ DQ # r) =
    (if length out + length s < n then ReadOk (out @ s)
     else ReadCut (take (n - 1) (out @ s)))"
  using assms
proof (induction s arbitrary: out)
  case Nil
  then show ?case by (simp add: read_loop.simps)
next
  case (Cons c s)
  have u: "c = NL \<or> c = CR \<or> c = TAB \<or> c = DQ \<or> c = BSL \<or> escape_char c = [c]"
    using Cons.prems(2) by (auto simp: escape_char_def)
  have step: "read_loop n out (escape (c # s) @ DQ # r) =
      (if length out + 1 \<ge> n then ReadCut out
       else read_loop n (out @ [c]) (escape s @ DQ # r))"
  proof (cases "c = DQ \<or> c = BSL \<or> c = NL \<or> c = CR \<or> c = TAB")
    case True
    then show ?thesis
      by (elim disjE) (simp_all add: escape_char_def read_loop.simps unescape_def)
  next
    case False
    with u show ?thesis by (auto simp: read_loop.simps)
  qed
  show ?case
  proof (cases "length out + 1 \<ge> n")
    case True
    with Cons.prems(1) have "n = Suc (length out)" by simp
    with step show ?thesis by simp
  next
    case False
    with step Cons.IH [of "out @ [c]"] Cons.prems(2) show ?thesis by simp
  qed
qed

lemma read_string_object:
  assumes "key_text k" "wf_fields fs" "DQ \<notin> set t" "map_of fs k = Some (JStr s)"
    and "no_control s" "0 < n"
  shows "wtJsonReadString (render_object fs @ t) k n =
    (if length s < n then ReadOk s else ReadCut (take (n - 1) s))"
proof -
  obtain r where "findFieldValue (render_object fs @ t) k = Some (render_value (JStr s) @ r)"
    using find_object [OF assms(1-3)] assms(4) by (auto simp: found_def)
  with read_loop_escape [OF assms(5), of "[]" n r] assms(6) show ?thesis
    by (simp add: wtJsonReadString_def)
qed

lemma read_long_object:
  assumes "key_text k" "wf_fields fs" "DQ \<notin> set t" "map_of fs k = Some (JNum v)"
  shows "wtJsonReadLong (render_object fs @ t) k = Some (clamp64 v)"
    and "wtJsonReadLongLong (render_object fs @ t) k = Some (clamp64 v)"
proof -
  obtain r where r: "value_end r" "findFieldValue (render_object fs @ t) k = Some (show_int v @ r)"
    using find_object [OF assms(1-3)] assms(4) by (auto simp: found_def)
  have "no_digit_ahead r" using r(1) by (auto simp: value_end_def is_digit_def)
  with r(2) show "wtJsonReadLong (render_object fs @ t) k = Some (clamp64 v)"
    and "wtJsonReadLongLong (render_object fs @ t) k = Some (clamp64 v)"
    by (simp_all add: wtJsonReadLong_def wtJsonReadLongLong_def)
qed

lemma read_absent_object:
  assumes "key_text k" "wf_fields fs" "DQ \<notin> set t" "map_of fs k = None"
  shows "wtJsonReadString (render_object fs @ t) k n = ReadFail None"
    and "wtJsonReadLong (render_object fs @ t) k = None"
    and "wtJsonReadLongLong (render_object fs @ t) k = None"
  using find_object [OF assms(1-3)] assms(4)
  by (simp_all add: wtJsonReadString_def wtJsonReadLong_def wtJsonReadLongLong_def)

lemmas read_object = read_string_object read_long_object read_absent_object

text \<open>
  The same for every kind of field at once: on a printed object whose texts have no control
  characters, each reader returns what the field list says, and nothing for a field of another
  kind. These two equations are how the component theories evaluate a reader on a written record.
\<close>

fun clean_jval :: "jval \<Rightarrow> bool" where
  "clean_jval (JStr s) \<longleftrightarrow> no_control s"
| "clean_jval (JNum v) \<longleftrightarrow> True"
| "clean_jval (JLit t) \<longleftrightarrow> True"

definition clean_fields :: "(string \<times> jval) list \<Rightarrow> bool" where
  "clean_fields fs \<longleftrightarrow> wf_fields fs \<and> (\<forall>f \<in> set fs. clean_jval (snd f))"

lemma clean_fields_simps [simp]:
  "clean_fields []"
  "clean_fields (f # fs) \<longleftrightarrow> key_text (fst f) \<and> plain_value (snd f) \<and> clean_jval (snd f) \<and> clean_fields fs"
  by (auto simp: clean_fields_def)

lemma not_quoted:
  assumes "plain_value v" "\<And>s. v \<noteq> JStr s"
  shows "\<exists>c cs. render_value v = c # cs \<and> c \<noteq> DQ"
proof (cases v)
  case (JNum n)
  obtain c cs where "show_int n = c # cs" by (cases "show_int n") auto
  with JNum show_int_plain [of c n] show ?thesis by (auto simp: is_digit_def)
next
  case (JLit t)
  then obtain c cs where "t = c # cs" "is_alnum c" using assms(1) by (cases t) auto
  with JLit is_alnum_plain(1) show ?thesis by auto
qed (use assms(2) in blast)

lemma read_str_render:
  assumes "clean_fields fs" "key_text k" "DQ \<notin> set t" "0 < n"
  shows "read_str (render_object fs @ t) k n =
    (case map_of fs k of Some (JStr s) \<Rightarrow> if length s < n then Some s else None | _ \<Rightarrow> None)"
proof -
  have wf: "wf_fields fs" using assms(1) by (simp add: clean_fields_def)
  note fo = find_object [OF assms(2) wf assms(3)]
  show ?thesis
  proof (cases "map_of fs k")
    case None
    with read_absent_object(1) [OF assms(2) wf assms(3) None] show ?thesis by (simp add: read_str_def)
  next
    case (Some v)
    then have v: "plain_value v" "clean_jval v"
      using assms(1) map_of_SomeD [OF Some] by (auto simp: clean_fields_def wf_fields_def)
    show ?thesis
    proof (cases "\<exists>s. v = JStr s")
      case True
      with Some v read_string_object [OF assms(2) wf assms(3), of _ n] assms(4) show ?thesis
        by (auto simp: read_str_def)
    next
      case False
      then obtain c cs where "render_value v = c # cs" "c \<noteq> DQ" using not_quoted [OF v(1)] by blast
      with fo Some False show ?thesis
        by (cases v) (auto simp: read_str_def wtJsonReadString_def found_def)
    qed
  qed
qed

lemma strtol_not_number:
  "c = DQ \<or> is_alnum c \<and> \<not> is_digit c \<Longrightarrow> strtol (c # s) = None"
  using is_alnum_plain(5) [of c]
  by (auto simp: strtol_def skip_space_simps strtol_digits_def is_space_def is_alnum_def is_digit_def)

lemma read_long_render:
  assumes "clean_fields fs" "key_text k" "DQ \<notin> set t"
  shows "wtJsonReadLong (render_object fs @ t) k =
      (case map_of fs k of Some (JNum v) \<Rightarrow> Some (clamp64 v) | _ \<Rightarrow> None)"
    and "wtJsonReadLongLong (render_object fs @ t) k =
      (case map_of fs k of Some (JNum v) \<Rightarrow> Some (clamp64 v) | _ \<Rightarrow> None)"
proof -
  have wf: "wf_fields fs" using assms(1) by (simp add: clean_fields_def)
  have "Option.bind (findFieldValue (render_object fs @ t) k) strtol =
      (case map_of fs k of Some (JNum v) \<Rightarrow> Some (clamp64 v) | _ \<Rightarrow> None)"
  proof (cases "map_of fs k")
    case None
    with find_object [OF assms(2) wf assms(3)] show ?thesis by simp
  next
    case (Some v)
    then obtain r where r: "value_end r" "findFieldValue (render_object fs @ t) k = Some (render_value v @ r)"
      using find_object [OF assms(2) wf assms(3)] by (auto simp: found_def)
    have v: "plain_value v"
      using assms(1) map_of_SomeD [OF Some] by (auto simp: clean_fields_def wf_fields_def)
    show ?thesis
    proof (cases v)
      case (JStr s)
      with Some r show ?thesis by (simp add: strtol_not_number)
    next
      case (JNum n)
      have "no_digit_ahead r" using r(1) by (auto simp: value_end_def is_digit_def)
      with Some r JNum show ?thesis by simp
    next
      case (JLit u)
      with v obtain c cs where "u = c # cs" "is_alnum c" "\<not> is_digit c" by (cases u) auto
      with Some r JLit show ?thesis by (simp add: strtol_not_number)
    qed
  qed
  then show "wtJsonReadLong (render_object fs @ t) k =
      (case map_of fs k of Some (JNum v) \<Rightarrow> Some (clamp64 v) | _ \<Rightarrow> None)"
    and "wtJsonReadLongLong (render_object fs @ t) k =
      (case map_of fs k of Some (JNum v) \<Rightarrow> Some (clamp64 v) | _ \<Rightarrow> None)"
    by (simp_all add: wtJsonReadLong_def wtJsonReadLongLong_def)
qed

text \<open>A printed object is one line: no newline and no NUL, whatever the values hold.\<close>

lemma escape_char_line: "NL \<notin> set (escape_char c) \<and> NUL \<notin> set (escape_char c)"
proof -
  have *: "NL \<noteq> hex_digit d \<and> NUL \<noteq> hex_digit d" if "d < 16" for d
    using is_alnum_plain(3,4) hex_digit_alnum [OF that] by metis
  have "NL \<noteq> hex_digit ((of_char c :: nat) mod 16) \<and> NUL \<noteq> hex_digit ((of_char c :: nat) mod 16)"
    and "(of_char c :: nat) < 32 \<Longrightarrow>
      NL \<noteq> hex_digit ((of_char c :: nat) div 16) \<and> NUL \<noteq> hex_digit ((of_char c :: nat) div 16)"
    by (simp_all add: *)
  then show ?thesis by (auto simp: escape_char_def)
qed

lemma escape_line: "NL \<notin> set (escape s)" "NUL \<notin> set (escape s)"
  using escape_char_line by (auto simp: escape_def)

lemma key_text_line: "key_text k \<Longrightarrow> NL \<notin> set k \<and> NUL \<notin> set k"
  using is_alnum_plain(3,4) by (force simp: key_text_def)

lemma render_value_line: "plain_value v \<Longrightarrow> NL \<notin> set (render_value v) \<and> NUL \<notin> set (render_value v)"
proof (cases v)
  case (JNum n)
  show ?thesis
    using JNum show_int_plain [of NL n] show_int_plain [of NUL n] by (auto simp: is_digit_def)
next
  case (JLit t)
  assume "plain_value v"
  with JLit is_alnum_plain(3,4) show ?thesis by force
qed (simp add: escape_line)

lemma render_fields_line: "wf_fields fs \<Longrightarrow> NL \<notin> set (render_fields fs) \<and> NUL \<notin> set (render_fields fs)"
  by (induction fs rule: render_fields.induct)
    (simp_all add: render_field_def key_text_line render_value_line)

lemma render_object_line:
  assumes "wf_fields fs"
  shows "NL \<notin> set (render_object fs)" "c_string (render_object fs)"
  using render_fields_line [OF assms] by (simp_all add: render_object_def c_string_def)

section \<open>Properties\<close>

text \<open>
  C22. The textual search cannot be misled: in an object the program printed, whatever text the
  string values hold (quotes, backslashes, whole fragments of JSON), looking up a key finds the
  value of the first field with that key, and nothing when there is none.
\<close>

theorem field_search_exact:
  assumes "key_text k" and "wf_fields fs"
  shows "found (findFieldValue (render_object fs) k) (map_of fs k)"
  using find_object [OF assms, of "[]"] by simp

theorem field_search_exact_witness:
  "found (findFieldValue (render_object [(''a'', JStr (DQ # '',''  @ DQ # ''b'' @ DQ # '':7'')), (''b'', JNum 3)]) ''b'') (Some (JNum 3))"
  using field_search_exact [of "''b''" "[(''a'', JStr (DQ # '',''  @ DQ # ''b'' @ DQ # '':7'')), (''b'', JNum 3)]"]
  by (simp add: key_text_def is_alnum_def is_digit_def)

text \<open>
  \<open>wtJsonEscape\<close> succeeds exactly when the escaped text and its terminator fit the buffer; the
  result is then one line without NUL, at most six times as long as the input, and a string
  reader of any buffer that is large enough gets the input back (for text without control
  characters other than newline, return and tab).
\<close>

theorem escape_bounds:
  "wtJsonEscape s n = (if length (escape s) < n then Some (escape s) else None)
   \<and> length s \<le> length (escape s) \<and> length (escape s) \<le> 6 * length s
   \<and> NL \<notin> set (escape s) \<and> NUL \<notin> set (escape s)
   \<and> (no_control s \<and> length s < m \<longrightarrow> read_loop m [] (escape s @ DQ # r) = ReadOk s)"
proof -
  have "read_loop m [] (escape s @ DQ # r) = ReadOk s" if "no_control s" "length s < m"
    using read_loop_escape [OF that(1), of "[]" m r] that(2) by simp
  with length_escape [of s] escape_line [of s] show ?thesis
    by (simp add: wtJsonEscape_spec)
qed

theorem escape_bounds_witness:
  "wtJsonEscape [DQ, NL] 5 = Some [BSL, DQ, BSL, CHR ''n''] \<and>
   read_loop 3 [] (escape [DQ, NL] @ [DQ]) = ReadOk [DQ, NL]"
  using escape_bounds [of "[DQ, NL]" 5 3 "[]"] by (simp add: escape_char_def)

end
