(* ===== verification/Message.thy ===== *)
theory Message
  imports Json
begin

text \<open>
  Room messages: \<^verbatim>\<open>src/src/wt_message.c\<close> and \<^verbatim>\<open>src/include/wt_message.h\<close>.

  A message is the C struct with its buffers as strings; \<open>message_fits\<close> is what the buffer sizes
  allow. Printing fails (\<open>None\<close> for -1) when an escaped field does not fit its scratch buffer or
  the record does not fit the caller's. Parsing fails when a field is missing or too long.
\<close>

record WtMessage =
  messageId :: int
  roomName :: string
  senderName :: string
  targetName :: string
  messageType :: string
  messageBody :: string
  createdAtUnixMs :: int
  replyToMessageId :: int

definition WT_MESSAGE_BODY_SIZE :: nat where "WT_MESSAGE_BODY_SIZE = 4096"
definition WT_MESSAGE_JSON_SIZE :: nat where "WT_MESSAGE_JSON_SIZE = 8192"
definition WT_MESSAGE_NAME_SIZE :: nat where "WT_MESSAGE_NAME_SIZE = 64"
definition WT_MESSAGE_TYPE_SIZE :: nat where "WT_MESSAGE_TYPE_SIZE = 48"

lemmas message_sizes = WT_MESSAGE_BODY_SIZE_def WT_MESSAGE_JSON_SIZE_def
  WT_MESSAGE_NAME_SIZE_def WT_MESSAGE_TYPE_SIZE_def

definition isAllowedName :: "string \<Rightarrow> string list \<Rightarrow> bool" where
  "isAllowedName value_name allowed = list_ex (\<lambda>a. value_name = a) allowed"

definition wtMessageInit :: WtMessage where
  "wtMessageInit = \<lparr> messageId = 0, roomName = ''phase0'', senderName = ''system'',
     targetName = ''all'', messageType = ''chat'', messageBody = '''', createdAtUnixMs = 0,
     replyToMessageId = 0 \<rparr>"

text \<open>\<open>True\<close> is the return code 0.\<close>

definition wtMessageValidateNames :: "WtMessage \<Rightarrow> bool" where
  "wtMessageValidateNames m \<longleftrightarrow>
     isAllowedName (senderName m) [''ceo'', ''system'', ''claude'', ''chatgpt'', ''gemini''] \<and>
     isAllowedName (targetName m) [''all'', ''ceo'', ''claude'', ''chatgpt'', ''gemini''] \<and>
     isAllowedName (messageType m)
       [''chat'', ''directive'', ''status'', ''error'', ''task.assign'', ''task.status'', ''task.result'']"

text \<open>The fields of the \<open>snprintf\<close> format, in its order.\<close>

definition message_fields :: "WtMessage \<Rightarrow> (string \<times> jval) list" where
  "message_fields m =
     [(''messageId'', JNum (messageId m)), (''roomName'', JStr (roomName m)),
      (''senderName'', JStr (senderName m)), (''targetName'', JStr (targetName m)),
      (''messageType'', JStr (messageType m)), (''messageBody'', JStr (messageBody m)),
      (''createdAtUnixMs'', JNum (createdAtUnixMs m)),
      (''replyToMessageId'', JNum (replyToMessageId m))]"

definition wtMessageToJson :: "WtMessage \<Rightarrow> nat \<Rightarrow> string option" where
  "wtMessageToJson m bufferSize =
     (if wtJsonEscape (roomName m) (WT_MESSAGE_NAME_SIZE * 2) = None \<or>
         wtJsonEscape (senderName m) (WT_MESSAGE_NAME_SIZE * 2) = None \<or>
         wtJsonEscape (targetName m) (WT_MESSAGE_NAME_SIZE * 2) = None \<or>
         wtJsonEscape (messageType m) (WT_MESSAGE_TYPE_SIZE * 2) = None \<or>
         wtJsonEscape (messageBody m) (WT_MESSAGE_BODY_SIZE * 2) = None
      then None
      else let json = render_object (message_fields m) in
           if length json < bufferSize then Some json else None)"

definition wtMessageFromJsonLine :: "string \<Rightarrow> WtMessage option" where
  "wtMessageFromJsonLine line =
     (case wtJsonReadLong line ''messageId'' of None \<Rightarrow> None | Some i \<Rightarrow>
     (case read_str line ''roomName'' WT_MESSAGE_NAME_SIZE of None \<Rightarrow> None | Some room \<Rightarrow>
     (case read_str line ''senderName'' WT_MESSAGE_NAME_SIZE of None \<Rightarrow> None | Some sender \<Rightarrow>
     (case read_str line ''targetName'' WT_MESSAGE_NAME_SIZE of None \<Rightarrow> None | Some target \<Rightarrow>
     (case read_str line ''messageType'' WT_MESSAGE_TYPE_SIZE of None \<Rightarrow> None | Some ty \<Rightarrow>
     (case read_str line ''messageBody'' WT_MESSAGE_BODY_SIZE of None \<Rightarrow> None | Some body \<Rightarrow>
     (case wtJsonReadLongLong line ''createdAtUnixMs'' of None \<Rightarrow> None | Some created \<Rightarrow>
     (case wtJsonReadLong line ''replyToMessageId'' of None \<Rightarrow> None | Some reply \<Rightarrow>
        Some (wtMessageInit \<lparr> messageId := i, roomName := room, senderName := sender,
          targetName := target, messageType := ty, messageBody := body,
          createdAtUnixMs := created, replyToMessageId := reply \<rparr>)))))))))"

section \<open>What the buffers can hold, and the round trip\<close>

definition message_fits :: "WtMessage \<Rightarrow> bool" where
  "message_fits m \<longleftrightarrow>
     length (roomName m) < WT_MESSAGE_NAME_SIZE \<and> length (senderName m) < WT_MESSAGE_NAME_SIZE \<and>
     length (targetName m) < WT_MESSAGE_NAME_SIZE \<and> length (messageType m) < WT_MESSAGE_TYPE_SIZE \<and>
     length (messageBody m) < WT_MESSAGE_BODY_SIZE \<and>
     is_long (messageId m) \<and> is_long (createdAtUnixMs m) \<and> is_long (replyToMessageId m)"

definition message_text :: "WtMessage \<Rightarrow> bool" where
  "message_text m \<longleftrightarrow> no_control (roomName m) \<and> no_control (senderName m) \<and>
     no_control (targetName m) \<and> no_control (messageType m) \<and> no_control (messageBody m)"

lemma key_text_message_keys [simp]:
  "key_text ''messageId''" "key_text ''roomName''" "key_text ''senderName''"
  "key_text ''targetName''" "key_text ''messageType''" "key_text ''messageBody''"
  "key_text ''createdAtUnixMs''" "key_text ''replyToMessageId''"
  by (simp_all add: key_text_def is_alnum_def is_digit_def)

lemma wf_message_fields: "wf_fields (message_fields m)"
  by (simp add: message_fields_def)

lemma map_of_message_fields:
  "map_of (message_fields m) ''messageId'' = Some (JNum (messageId m))"
  "map_of (message_fields m) ''roomName'' = Some (JStr (roomName m))"
  "map_of (message_fields m) ''senderName'' = Some (JStr (senderName m))"
  "map_of (message_fields m) ''targetName'' = Some (JStr (targetName m))"
  "map_of (message_fields m) ''messageType'' = Some (JStr (messageType m))"
  "map_of (message_fields m) ''messageBody'' = Some (JStr (messageBody m))"
  "map_of (message_fields m) ''createdAtUnixMs'' = Some (JNum (createdAtUnixMs m))"
  "map_of (message_fields m) ''replyToMessageId'' = Some (JNum (replyToMessageId m))"
  by (simp_all add: message_fields_def)

lemma wtMessageToJson_Some:
  "wtMessageToJson m n = Some j \<Longrightarrow> j = render_object (message_fields m) \<and> length j < n"
  by (auto simp: wtMessageToJson_def Let_def split: if_splits)

lemma wtMessageToJson_text:
  assumes "message_fits m" "message_text m"
  shows "wtMessageToJson m n =
    (if length (render_object (message_fields m)) < n then Some (render_object (message_fields m)) else None)"
  using assms by (simp add: wtMessageToJson_def message_fits_def message_text_def Let_def)

lemma read_str_object:
  assumes "key_text k" "wf_fields fs" "DQ \<notin> set t" "map_of fs k = Some (JStr s)"
    and "no_control s" "length s < n"
  shows "read_str (render_object fs @ t) k n = Some s"
  using read_string_object [OF assms(1-5), of n] assms(6) by (simp add: read_str_def)

lemma wtMessageFromJsonLine_render:
  assumes fits: "message_fits m" and tx: "message_text m" and t: "DQ \<notin> set t"
  shows "wtMessageFromJsonLine (render_object (message_fields m) @ t) = Some m"
proof -
  note rs = read_str_object [OF _ wf_message_fields t] and
    rl = read_long_object [OF _ wf_message_fields t]
  show ?thesis
    using fits tx unfolding wtMessageFromJsonLine_def message_fits_def message_text_def
    by (simp add: rs rl map_of_message_fields)
qed

lemma wtMessageFromJsonLine_fits:
  "wtMessageFromJsonLine line = Some m \<Longrightarrow> message_fits m"
  by (auto simp: wtMessageFromJsonLine_def message_fits_def wtMessageInit_def
      split: option.splits
      dest: read_str_length wtJsonReadLong_is_long wtJsonReadLongLong_is_long)

section \<open>Properties\<close>

text \<open>
  C25. Printing a message and parsing the line gives the message back, for every message the
  struct can hold whose texts have no control characters besides newline, return and tab:
  bodies that look like JSON, quotes and backslashes included.
\<close>

theorem message_round_trip:
  assumes "message_fits m" and "message_text m" and "wtMessageToJson m n = Some json"
  shows "wtMessageFromJsonLine (json @ [NL]) = Some m"
  using wtMessageFromJsonLine_render [OF assms(1,2), of "[NL]"] wtMessageToJson_Some [OF assms(3)] by simp

definition sample_message :: WtMessage where
  "sample_message = wtMessageInit \<lparr> messageId := 12, messageBody := DQ # '','' @ [DQ] @ ''messageId'' @ DQ # '':9'' \<rparr>"

lemma sample_message_json:
  "wtMessageToJson sample_message 8192 = Some (render_object (message_fields sample_message))"
  by (simp add: wtMessageToJson_def sample_message_def wtMessageInit_def message_sizes wtJsonEscape_spec
      escape_char_def message_fields_def render_object_def render_field_def show_int_def show_nat.simps)

theorem message_round_trip_witness:
  "wtMessageFromJsonLine (render_object (message_fields sample_message) @ [NL]) = Some sample_message"
  by (rule message_round_trip [OF _ _ sample_message_json])
    (simp_all add: sample_message_def wtMessageInit_def message_fits_def message_text_def message_sizes c_int_defs)

text \<open>
  Whatever bytes the line holds, a parsed message respects every buffer of the struct and its
  numbers are in the range of their C types.
\<close>

theorem message_parse_bounds:
  assumes "wtMessageFromJsonLine line = Some m"
  shows "length (roomName m) < 64 \<and> length (senderName m) < 64 \<and> length (targetName m) < 64 \<and>
    length (messageType m) < 48 \<and> length (messageBody m) < 4096 \<and>
    is_long (messageId m) \<and> is_long (createdAtUnixMs m) \<and> is_long (replyToMessageId m)"
  using wtMessageFromJsonLine_fits [OF assms] by (simp add: message_fits_def message_sizes)

theorem message_parse_bounds_witness:
  "length (messageBody sample_message) < 4096 \<and> is_long (messageId sample_message)"
proof -
  have "wtMessageFromJsonLine (render_object (message_fields sample_message) @ []) = Some sample_message"
    by (rule wtMessageFromJsonLine_render)
      (simp_all add: sample_message_def wtMessageInit_def message_fits_def message_text_def message_sizes c_int_defs)
  from message_parse_bounds [OF this] show ?thesis by simp
qed

end
