(* ===== verification/Append_File.thy ===== *)
theory Append_File
  imports C_Strings
begin

text \<open>
  Append-only files: the writing half that \<^verbatim>\<open>wtRoomAppendMessage\<close>, \<^verbatim>\<open>wtRoomAppendNewMessage\<close>
  and \<^verbatim>\<open>wtTaskAppendRecord\<close> share, the ways the operating system can refuse it, the directory
  creation before it (\<^verbatim>\<open>wtRoomEnsureParentDirs\<close> of \<^verbatim>\<open>src/src/wt_room_store.c\<close>), and the
  interface \<open>append_only_log\<close> its users rely on.

  A file is \<open>None\<close> (absent) or its bytes. The exclusive \<open>flock\<close> is held from before the first
  read to after the last write, so an append is one step of the system.
\<close>

type_synonym log_file = "string option"

definition bytes :: "log_file \<Rightarrow> string" where
  "bytes f = (case f of None \<Rightarrow> [] | Some s \<Rightarrow> s)"

lemma bytes_simps [simp]: "bytes None = []" "bytes (Some s) = s"
  by (simp_all add: bytes_def)

text \<open>
  What can go wrong in one append: each system call of the sources that can fail. \<open>ShortWrite k\<close>
  is a first \<open>write\<close> that stored only \<open>k\<close> bytes, \<open>NewlineFails\<close> a second one that stored nothing.
\<close>

datatype io_fault = NoFault | MkdirFails | OpenFails | LockFails | ReaderFails | SeekFails
  | ShortWrite nat | NewlineFails | FsyncFails

text \<open>The two \<open>write\<close> calls and the optional \<open>fsync\<close>; the flag is the variable \<open>ok\<close>.\<close>

definition write_record :: "io_fault \<Rightarrow> bool \<Rightarrow> string \<Rightarrow> string \<Rightarrow> bool \<times> string" where
  "write_record fault sync rec content =
     (let stored = (case fault of ShortWrite k \<Rightarrow> min k (length rec) | _ \<Rightarrow> length rec) in
      if stored \<noteq> length rec then (False, content @ take stored rec)
      else if fault = NewlineFails then (False, content @ rec)
      else (\<not> (sync \<and> fault = FsyncFails), content @ rec @ [NL]))"

lemma write_record_ok:
  "fst (write_record fault sync rec content) \<Longrightarrow>
   snd (write_record fault sync rec content) = content @ rec @ [NL]"
  by (auto simp: write_record_def Let_def split: if_splits)

lemma write_record_keeps: "prefix content (snd (write_record fault sync rec content))"
  by (simp add: write_record_def Let_def)

text \<open>A fault that never leaves part of a record behind.\<close>

definition whole_record_fault :: "io_fault \<Rightarrow> bool" where
  "whole_record_fault fault \<longleftrightarrow> (case fault of ShortWrite _ \<Rightarrow> False | NewlineFails \<Rightarrow> False | _ \<Rightarrow> True)"

lemma write_record_whole:
  "whole_record_fault fault \<Longrightarrow>
   write_record fault sync rec content = (\<not> (sync \<and> fault = FsyncFails), content @ rec @ [NL])"
  by (cases fault) (simp_all add: write_record_def whole_record_fault_def)

section \<open>Parent directories\<close>

text \<open>\<open>strrchr(s, c)\<close> followed by cutting the string there; \<open>None\<close> without the character.\<close>

definition before_last :: "char \<Rightarrow> string \<Rightarrow> string option" where
  "before_last c s = (if c \<in> set s then Some (rev (tl (dropWhile (\<lambda>x. x \<noteq> c) (rev s)))) else None)"

lemma before_last_append [simp]: "c \<notin> set t \<Longrightarrow> before_last c (s @ c # t) = Some s"
proof -
  assume "c \<notin> set t"
  then have "dropWhile (\<lambda>x. x \<noteq> c) (rev t @ c # rev s) = c # rev s"
    by (subst dropWhile_append2) auto
  then show "before_last c (s @ c # t) = Some s"
    by (simp add: before_last_def)
qed

text \<open>The tokens of \<open>strtok(s, "/")\<close>: the maximal non-empty pieces without the separator.\<close>

fun split_tokens :: "char \<Rightarrow> string \<Rightarrow> string \<Rightarrow> string list" where
  "split_tokens sep acc [] = (if acc = [] then [] else [acc])"
| "split_tokens sep acc (c # cs) =
     (if c = sep then (if acc = [] then [] else [acc]) @ split_tokens sep [] cs
      else split_tokens sep (acc @ [c]) cs)"

fun mkdir_chain :: "string \<Rightarrow> string list \<Rightarrow> string list" where
  "mkdir_chain partial [] = []"
| "mkdir_chain partial (token # tokens) =
     (let p = (if length partial > 1 then take 511 (partial @ ''/'') else partial);
          p' = take 511 (p @ token)
      in p' # mkdir_chain p' tokens)"

text \<open>The directories the function creates, in order; \<open>mkdir_ok d\<close> is success or \<open>EEXIST\<close>.\<close>

definition parent_dirs :: "string \<Rightarrow> string list" where
  "parent_dirs path =
     (case before_last (CHR ''/'') (snprintf_s 512 path) of
        None \<Rightarrow> []
      | Some [] \<Rightarrow> []
      | Some (c # cs) \<Rightarrow>
          (if c = CHR ''/'' then mkdir_chain ''/'' (split_tokens (CHR ''/'') [] cs)
           else mkdir_chain [] (split_tokens (CHR ''/'') [] (c # cs))))"

definition wtRoomEnsureParentDirs :: "(string \<Rightarrow> bool) \<Rightarrow> string \<Rightarrow> bool" where
  "wtRoomEnsureParentDirs mkdir_ok path = list_all mkdir_ok (parent_dirs path)"

lemma prefix_mkdir_chain:
  "sorted_wrt prefix (partial # mkdir_chain partial tokens)" if "length partial < 512"
  using that
proof (induction partial tokens rule: mkdir_chain.induct)
  case (2 partial token tokens)
  define p' where "p' = take 511 ((if length partial > 1 then take 511 (partial @ ''/'') else partial) @ token)"
  have "prefix partial p'" "length p' < 512"
    using 2(2) by (auto simp: p'_def take_is_prefix)
  moreover have "mkdir_chain partial (token # tokens) = p' # mkdir_chain p' tokens"
    by (simp add: p'_def Let_def)
  moreover have "sorted_wrt prefix (p' # mkdir_chain p' tokens)"
    using 2(1) [OF refl] \<open>length p' < 512\<close> by (auto simp: p'_def)
  ultimately show ?case
    using prefix_order.trans by (auto simp del: mkdir_chain.simps)
qed simp

text \<open>Every directory is created after its own parents.\<close>

lemma parent_dirs_sorted: "sorted_wrt prefix (parent_dirs path)"
  using prefix_mkdir_chain [of "''/''"] prefix_mkdir_chain [of "[]"]
  by (auto simp: parent_dirs_def split: option.splits list.splits)

section \<open>The interface of an append-only log\<close>

text \<open>
  \<open>append op f\<close> performs one append (\<open>op\<close> carries the record, the time and the fault) and
  \<open>rec_of op f\<close> is the record it is about to store. Two laws: what the file held stays in front,
  and a reported success means the record and its newline are the only new bytes.
\<close>

locale append_only_log =
  fixes append :: "'op \<Rightarrow> log_file \<Rightarrow> bool \<times> log_file"
    and rec_of :: "'op \<Rightarrow> log_file \<Rightarrow> string"
  assumes keeps: "prefix (bytes f) (bytes (snd (append op f)))"
    and stored: "fst (append op f) \<Longrightarrow> bytes (snd (append op f)) = bytes f @ rec_of op f @ [NL]"
begin

definition run :: "'op list \<Rightarrow> log_file \<Rightarrow> log_file" where
  "run ops f = fold (\<lambda>op g. snd (append op g)) ops f"

lemma run_simps [simp]:
  "run [] f = f" "run (op # ops) f = run ops (snd (append op f))"
  "run (ops @ ops') f = run ops' (run ops f)"
  by (simp_all add: run_def)

lemma run_keeps: "prefix (bytes f) (bytes (run ops f))"
  by (induction ops arbitrary: f) (auto intro: keeps prefix_order.trans)

text \<open>A stored record stays readable at its place after any later appends.\<close>

lemma run_stored:
  assumes "fst (append op f)"
  shows "prefix (bytes f @ rec_of op f @ [NL]) (bytes (run (op # ops) f))"
  using run_keeps [of "snd (append op f)" ops] stored [OF assms] by simp

lemma clean_after_store: "fst (append op f) \<Longrightarrow> clean_tail (bytes (snd (append op f)))"
  using stored [of op f] by (simp flip: append_assoc)

text \<open>
  After a reported success the line reader sees the old lines and the new record, when the old
  file had no torn end and the record is one line that fits the reader's buffer.
\<close>

lemma lines_after_store:
  assumes "fst (append op f)" and "clean_tail (bytes f)"
    and "NL \<notin> set (rec_of op f)" "c_string (rec_of op f)" "length (rec_of op f) + 1 < n"
  shows "file_lines n (bytes (snd (append op f))) = file_lines n (bytes f) @ [rec_of op f @ [NL]]"
  using stored [OF assms(1)] file_lines_append_record [OF assms(2-5)] by simp

text \<open>Readers of the first bytes are not disturbed: no line is ever lost or rewritten.\<close>

lemma lines_prefix:
  assumes "clean_tail (bytes f)"
  shows "prefix (file_lines n (bytes f)) (file_lines n (bytes (run ops f)))"
proof -
  obtain t where "bytes (run ops f) = bytes f @ t"
    using run_keeps [of f ops] by (auto simp: prefix_def)
  then show ?thesis using file_lines_append [OF assms] by simp
qed

end

end
