(* ===== verification/Room_Store.thy ===== *)
theory Room_Store
  imports Message Append_File
begin

text \<open>
  The room log of \<^verbatim>\<open>src/src/wt_room_store.c\<close>: an append-only file of message records, the scans
  over it, and the per-agent state files. Every operation takes the file it works on (the room
  log, or the map of files for the agent state) and the faults of its system calls.
\<close>

section \<open>Reading\<close>

text \<open>The messages a scan of the log sees: one \<open>fgets\<close> buffer at a time, unparsable ones skipped.\<close>

definition parsed :: "string list \<Rightarrow> WtMessage list" where
  "parsed ls = List.map_filter wtMessageFromJsonLine ls"

lemma parsed_simps [simp]:
  "parsed [] = []" "parsed (l # ls) = (case wtMessageFromJsonLine l of None \<Rightarrow> parsed ls | Some m \<Rightarrow> m # parsed ls)"
  "parsed (ls @ ls') = parsed ls @ parsed ls'"
  by (auto simp: parsed_def map_filter_def split: option.splits)

definition room_lines :: "string \<Rightarrow> string list" where
  "room_lines s = file_lines WT_MESSAGE_JSON_SIZE s"

definition room_messages :: "string \<Rightarrow> WtMessage list" where
  "room_messages s = parsed (room_lines s)"

definition last_id_step :: "string \<Rightarrow> int \<Rightarrow> int" where
  "last_id_step line lastId =
     (case wtMessageFromJsonLine line of
        Some m \<Rightarrow> (if messageId m > lastId then messageId m else lastId)
      | None \<Rightarrow> lastId)"

definition wtRoomReadLastMessageId :: "log_file \<Rightarrow> int" where
  "wtRoomReadLastMessageId log =
     (case log of None \<Rightarrow> 0 | Some s \<Rightarrow> fold last_id_step (room_lines s) 0)"

text \<open>
  \<open>wtRoomReadRecent\<close> keeps the last messages in a ring that is written at \<open>seen % limit\<close>.
  The result is the array prefix it fills.
\<close>

definition zero_message :: WtMessage where
  "zero_message = \<lparr> messageId = 0, roomName = [], senderName = [], targetName = [],
     messageType = [], messageBody = [], createdAtUnixMs = 0, replyToMessageId = 0 \<rparr>"

definition ring_step :: "nat \<Rightarrow> string \<Rightarrow> WtMessage list \<times> nat \<Rightarrow> WtMessage list \<times> nat" where
  "ring_step limit line st =
     (let (ring, seen) = st in
      case wtMessageFromJsonLine line of
        Some m \<Rightarrow> (ring[seen mod limit := m], seen + 1)
      | None \<Rightarrow> (ring, seen))"

definition recent_limit :: "int \<Rightarrow> nat \<Rightarrow> nat" where
  "recent_limit limit maxMessages =
     (if limit \<le> 0 \<or> limit > int maxMessages then maxMessages else nat limit)"

definition ring_unload :: "nat \<Rightarrow> WtMessage list \<times> nat \<Rightarrow> WtMessage list" where
  "ring_unload limit st =
     (let (ring, seen) = st;
          cnt = (if seen < limit then seen else limit);
          start = (if seen < limit then 0 else seen mod limit)
      in map (\<lambda>index. ring ! ((start + index) mod limit)) [0..<cnt])"

definition wtRoomReadRecent :: "log_file \<Rightarrow> int \<Rightarrow> nat \<Rightarrow> WtMessage list" where
  "wtRoomReadRecent log limit maxMessages =
     (case log of
        None \<Rightarrow> []
      | Some s \<Rightarrow>
          (let n = recent_limit limit maxMessages
           in ring_unload n (fold (ring_step n) (room_lines s) (replicate n zero_message, 0))))"

fun read_after :: "int \<Rightarrow> nat \<Rightarrow> string list \<Rightarrow> WtMessage list" where
  "read_after afterMessageId 0 ls = []"
| "read_after afterMessageId (Suc room) [] = []"
| "read_after afterMessageId (Suc room) (line # ls) =
     (case wtMessageFromJsonLine line of
        Some m \<Rightarrow> (if messageId m > afterMessageId then m # read_after afterMessageId room ls
                    else read_after afterMessageId (Suc room) ls)
      | None \<Rightarrow> read_after afterMessageId (Suc room) ls)"

definition wtRoomReadMessagesAfter :: "log_file \<Rightarrow> int \<Rightarrow> nat \<Rightarrow> WtMessage list" where
  "wtRoomReadMessagesAfter log afterMessageId maxMessages =
     (case log of None \<Rightarrow> [] | Some s \<Rightarrow> read_after afterMessageId maxMessages (room_lines s))"

section \<open>Appending\<close>

text \<open>
  Both appends return the flag \<open>rc == 0\<close> and the file afterwards; \<open>wtRoomAppendNewMessage\<close> also
  returns the message, whose id and time it has set even when the write fails later.
\<close>

definition wtRoomAppendMessage :: "io_fault \<Rightarrow> bool \<Rightarrow> WtMessage \<Rightarrow> log_file \<Rightarrow> bool \<times> log_file" where
  "wtRoomAppendMessage fault fsyncEachMessage m log =
     (if fault = MkdirFails \<or> fault = OpenFails then (False, log)
      else if fault = LockFails then (False, Some (bytes log))
      else
        (case wtMessageToJson m WT_MESSAGE_JSON_SIZE of
           None \<Rightarrow> (False, Some (bytes log))
         | Some json \<Rightarrow>
             (let (ok, s) = write_record fault fsyncEachMessage json (bytes log) in (ok, Some s))))"

definition next_message :: "int \<Rightarrow> WtMessage \<Rightarrow> log_file \<Rightarrow> WtMessage" where
  "next_message now m log =
     (let lastId = fold last_id_step (room_lines (bytes log)) 0;
          m1 = m \<lparr> messageId := sll (lastId + 1) \<rparr>
      in if createdAtUnixMs m1 = 0 then m1 \<lparr> createdAtUnixMs := now \<rparr> else m1)"

definition wtRoomAppendNewMessage ::
    "io_fault \<Rightarrow> bool \<Rightarrow> int \<Rightarrow> WtMessage \<Rightarrow> log_file \<Rightarrow> bool \<times> WtMessage \<times> log_file" where
  "wtRoomAppendNewMessage fault fsyncEachMessage now m log =
     (if fault = MkdirFails \<or> fault = OpenFails then (False, m, log)
      else if fault = LockFails \<or> fault = ReaderFails then (False, m, Some (bytes log))
      else
        (let m2 = next_message now m log in
         case wtMessageToJson m2 WT_MESSAGE_JSON_SIZE of
           None \<Rightarrow> (False, m2, Some (bytes log))
         | Some json \<Rightarrow>
             (if fault = SeekFails then (False, m2, Some (bytes log))
              else (let (ok, s) = write_record fault fsyncEachMessage json (bytes log) in (ok, m2, Some s)))))"

section \<open>Agent state files\<close>

definition agentStatePath :: "string \<Rightarrow> string \<Rightarrow> nat \<Rightarrow> string" where
  "agentStatePath roomLogPath agentName bufferSize =
     (case before_last (CHR ''/'') (snprintf_s 256 roomLogPath) of
        Some directory \<Rightarrow> snprintf_s bufferSize (directory @ ''/'' @ agentName @ ''.state'')
      | None \<Rightarrow> snprintf_s bufferSize (agentName @ ''.state''))"

definition wtRoomReadAgentState :: "(string \<Rightarrow> log_file) \<Rightarrow> string \<Rightarrow> string \<Rightarrow> int" where
  "wtRoomReadAgentState fs roomLogPath agentName =
     (case fs (agentStatePath roomLogPath agentName 512) of
        None \<Rightarrow> 0
      | Some s \<Rightarrow> (case strtol s of Some v \<Rightarrow> v | None \<Rightarrow> 0))"

text \<open>The only failures the code sees are the directories and the \<open>fopen\<close>.\<close>

definition wtRoomWriteAgentState ::
    "io_fault \<Rightarrow> string \<Rightarrow> string \<Rightarrow> int \<Rightarrow> (string \<Rightarrow> log_file) \<Rightarrow> bool \<times> (string \<Rightarrow> log_file)" where
  "wtRoomWriteAgentState fault roomLogPath agentName v fs =
     (if fault = MkdirFails \<or> fault = OpenFails then (False, fs)
      else (True, fs (agentStatePath roomLogPath agentName 512 := Some (show_int v @ [NL]))))"

section \<open>What the scans compute\<close>

lemma last_id_fold:
  "fold last_id_step ls v = fold (\<lambda>m i. if messageId m > i then messageId m else i) (parsed ls) v"
  by (induction ls arbitrary: v) (auto simp: last_id_step_def split: option.splits)

lemma last_id_ge:
  "v \<le> fold last_id_step ls v \<and> (\<forall>m \<in> set (parsed ls). messageId m \<le> fold last_id_step ls v)"
proof -
  have "v \<le> fold (\<lambda>m i. if messageId m > i then messageId m else i) ms v \<and>
    (\<forall>m \<in> set ms. messageId m \<le> fold (\<lambda>m i. if messageId m > i then messageId m else i) ms v)"
    for ms :: "WtMessage list"
  proof (induction ms arbitrary: v)
    case (Cons m ms)
    show ?case using Cons.IH [of "if messageId m > v then messageId m else v"] by (auto split: if_splits)
  qed simp
  then show ?thesis by (simp add: last_id_fold)
qed

lemma read_after_spec:
  "read_after a n ls = take n (filter (\<lambda>m. messageId m > a) (parsed ls))"
  by (induction a n ls rule: read_after.induct) (auto split: option.splits)

text \<open>The ring: slot \<open>k mod limit\<close> holds message \<open>k\<close> for the last \<open>limit\<close> messages.\<close>

definition ring_push :: "nat \<Rightarrow> WtMessage \<Rightarrow> WtMessage list \<times> nat \<Rightarrow> WtMessage list \<times> nat" where
  "ring_push limit m st = ((fst st)[snd st mod limit := m], snd st + 1)"

lemma ring_fold: "fold (ring_step limit) ls st = fold (ring_push limit) (parsed ls) st"
  by (induction ls arbitrary: st)
    (auto simp: ring_step_def ring_push_def split: option.splits prod.splits)

definition ring_holds :: "nat \<Rightarrow> WtMessage list \<Rightarrow> WtMessage list \<times> nat \<Rightarrow> bool" where
  "ring_holds limit ms st \<longleftrightarrow> length (fst st) = limit \<and> snd st = length ms \<and>
     (\<forall>k. length ms - limit \<le> k \<and> k < length ms \<longrightarrow> fst st ! (k mod limit) = ms ! k)"

lemma mod_distinct:
  assumes "k < l" "l - k < (n::nat)"
  shows "k mod n \<noteq> l mod n"
proof
  assume "k mod n = l mod n"
  then have "n dvd l - k" using assms(1) by (metis mod_eq_dvd_iff_nat less_imp_le)
  with assms show False by (auto dest: dvd_imp_le)
qed

lemma ring_push_holds:
  assumes "ring_holds limit ms st" "0 < limit"
  shows "ring_holds limit (ms @ [m]) (ring_push limit m st)"
proof -
  have st: "length (fst st) = limit" "snd st = length ms"
    and old: "\<And>k. length ms - limit \<le> k \<Longrightarrow> k < length ms \<Longrightarrow> fst st ! (k mod limit) = ms ! k"
    using assms(1) by (auto simp: ring_holds_def)
  have "(fst st)[length ms mod limit := m] ! (k mod limit) = (ms @ [m]) ! k"
    if "Suc (length ms) - limit \<le> k" "k < Suc (length ms)" for k
  proof (cases "k = length ms")
    case True
    with st assms(2) show ?thesis by simp
  next
    case False
    with that have k: "k < length ms" "length ms - k < limit" "length ms - limit \<le> k" by auto
    with mod_distinct [OF k(1,2)] old [OF k(3,1)] show ?thesis by (simp add: nth_append)
  qed
  with st show ?thesis by (auto simp: ring_holds_def ring_push_def)
qed

lemma ring_fold_holds:
  "0 < limit \<Longrightarrow> ring_holds limit ms (fold (ring_push limit) ms (replicate limit z, 0))"
proof (induction ms rule: rev_induct)
  case Nil
  then show ?case by (simp add: ring_holds_def)
next
  case (snoc m ms)
  then show ?case using ring_push_holds by simp
qed

lemma ring_unload_holds:
  assumes "ring_holds limit ms st" "0 < limit"
  shows "ring_unload limit st = drop (length ms - limit) ms"
proof -
  obtain ring where st: "st = (ring, length ms)" "length ring = limit"
    using assms(1) by (cases st) (auto simp: ring_holds_def)
  have old: "ring ! (k mod limit) = ms ! k" if "length ms - limit \<le> k" "k < length ms" for k
    using assms(1) st that by (auto simp: ring_holds_def)
  show ?thesis
  proof (cases "length ms < limit")
    case True
    have "ring ! i = ms ! i" if "i < length ms" for i
      using old [of i] that True by simp
    with True st show ?thesis
      by (auto simp: ring_unload_def intro: nth_equalityI)
  next
    case False
    have "ring ! ((length ms mod limit + i) mod limit) = ms ! (length ms - limit + i)" if "i < limit" for i
    proof -
      have "length ms + i = (length ms - limit + i) + limit" using False by simp
      then have "(length ms mod limit + i) mod limit = (length ms - limit + i) mod limit"
        by (metis mod_add_left_eq mod_add_self2)
      with old [of "length ms - limit + i"] that False show ?thesis by simp
    qed
    with False st show ?thesis
      by (auto simp: ring_unload_def add.commute intro!: nth_equalityI)
  qed
qed

lemma recent_limit_pos: "0 < maxMessages \<Longrightarrow> 0 < recent_limit limit maxMessages"
  by (simp add: recent_limit_def)

lemma wtRoomReadRecent_spec:
  assumes "0 < maxMessages"
  shows "wtRoomReadRecent log limit maxMessages =
    (let ms = room_messages (bytes log) in drop (length ms - recent_limit limit maxMessages) ms)"
proof (cases log)
  case None
  then show ?thesis by (simp add: wtRoomReadRecent_def room_messages_def room_lines_def)
next
  case (Some s)
  from ring_unload_holds [OF ring_fold_holds [OF recent_limit_pos [OF assms]]] recent_limit_pos [OF assms]
  show ?thesis
    using Some by (simp add: wtRoomReadRecent_def Let_def ring_fold room_messages_def)
qed

section \<open>What an append does to the messages read back\<close>

lemma no_message_newline: "wtMessageFromJsonLine [NL] = None"
proof -
  have "findFieldValue [NL] k = None" for k
    using find_pattern_no_quote [of "[NL]" "take 126 (k @ [DQ])" "[]"]
    by (simp add: findFieldValue_def key_pattern_def snprintf_s_def)
  then show ?thesis by (simp add: wtMessageFromJsonLine_def wtJsonReadLong_def)
qed

lemma parsed_record:
  assumes "message_fits m" "message_text m" "length (render_object (message_fields m)) < WT_MESSAGE_JSON_SIZE"
  shows "parsed (room_lines (render_object (message_fields m) @ [NL])) = [m]"
proof -
  let ?r = "render_object (message_fields m)"
  note line = render_object_line [OF wf_message_fields, of m]
  have parse: "wtMessageFromJsonLine (?r @ [NL]) = Some m" "wtMessageFromJsonLine ?r = Some m"
    using wtMessageFromJsonLine_render [OF assms(1,2), of "[NL]"]
      wtMessageFromJsonLine_render [OF assms(1,2), of "[]"] by simp_all
  show ?thesis
  proof (cases "length ?r + 1 = WT_MESSAGE_JSON_SIZE")
    case True
    have "?r \<noteq> []" by (simp add: render_object_def)
    with line True have "room_lines (?r @ [NL]) = [?r, [NL]]"
      unfolding room_lines_def by (intro file_lines_record_full) auto
    with parse no_message_newline show ?thesis by simp
  next
    case False
    with line assms(3) have "room_lines (?r @ [NL]) = [?r @ [NL]]"
      unfolding room_lines_def by (intro file_lines_record) auto
    with parse show ?thesis by simp
  qed
qed

lemma room_messages_append:
  "clean_tail s \<Longrightarrow> room_messages (s @ t) = room_messages s @ room_messages t"
  by (simp add: room_messages_def room_lines_def file_lines_append)

lemma room_messages_record:
  assumes "clean_tail s" "message_fits m" "message_text m" "wtMessageToJson m WT_MESSAGE_JSON_SIZE = Some json"
  shows "room_messages (s @ json @ [NL]) = room_messages s @ [m]"
proof -
  have j: "json = render_object (message_fields m)" "length json < WT_MESSAGE_JSON_SIZE"
    using wtMessageToJson_Some [OF assms(4)] by auto
  then have "room_messages (json @ [NL]) = [m]"
    using parsed_record [OF assms(2,3)] by (simp add: room_messages_def)
  with assms(1) show ?thesis by (simp add: room_messages_append)
qed

lemma next_message_ok:
  assumes "message_fits m" "message_text m" "is_long now"
  shows "message_fits (next_message now m log)" "message_text (next_message now m log)"
  using assms by (simp_all add: next_message_def Let_def message_fits_def message_text_def)

text \<open>The two outcomes of an append when no fault leaves part of a record behind.\<close>

lemma wtRoomAppendNewMessage_cases:
  assumes "whole_record_fault fault"
  shows "(\<exists>m'. wtRoomAppendNewMessage fault sync now m log = (False, m', log))
    \<or> (\<exists>m'. wtRoomAppendNewMessage fault sync now m log = (False, m', Some (bytes log)))
    \<or> (\<exists>json ok. wtMessageToJson (next_message now m log) WT_MESSAGE_JSON_SIZE = Some json \<and>
         wtRoomAppendNewMessage fault sync now m log =
           (ok, next_message now m log, Some (bytes log @ json @ [NL])))"
  by (auto simp: wtRoomAppendNewMessage_def Let_def write_record_whole [OF assms] split: option.split)

lemma wtRoomAppendNewMessage_ok:
  assumes "wtRoomAppendNewMessage fault sync now m log = (True, m', log')"
  shows "m' = next_message now m log"
    and "wtMessageToJson m' WT_MESSAGE_JSON_SIZE = Some (render_object (message_fields m'))"
    and "bytes log' = bytes log @ render_object (message_fields m') @ [NL]"
proof -
  from assms obtain json where js: "wtMessageToJson (next_message now m log) WT_MESSAGE_JSON_SIZE = Some json"
    and m': "m' = next_message now m log"
    and w: "fst (write_record fault sync json (bytes log))" "bytes log' = snd (write_record fault sync json (bytes log))"
    by (auto simp: wtRoomAppendNewMessage_def Let_def split: if_splits option.splits prod.splits)
  show "m' = next_message now m log" by (rule m')
  show "wtMessageToJson m' WT_MESSAGE_JSON_SIZE = Some (render_object (message_fields m'))"
    using js m' wtMessageToJson_Some [OF js] by simp
  show "bytes log' = bytes log @ render_object (message_fields m') @ [NL]"
    using write_record_ok [OF w(1)] w(2) wtMessageToJson_Some [OF js] m' by simp
qed

lemma wtRoomAppendNewMessage_keeps:
  "prefix (bytes log) (bytes (snd (snd (wtRoomAppendNewMessage fault sync now m log))))"
  using write_record_keeps
  by (auto simp: wtRoomAppendNewMessage_def Let_def split: option.split prod.split) (metis snd_conv)

lemma wtRoomAppendMessage_ok:
  assumes "fst (wtRoomAppendMessage fault sync m log)"
  shows "bytes (snd (wtRoomAppendMessage fault sync m log)) = bytes log @ render_object (message_fields m) @ [NL]"
proof -
  from assms obtain json where js: "wtMessageToJson m WT_MESSAGE_JSON_SIZE = Some json"
    and w: "fst (write_record fault sync json (bytes log))"
    and r: "bytes (snd (wtRoomAppendMessage fault sync m log)) = snd (write_record fault sync json (bytes log))"
    by (auto simp: wtRoomAppendMessage_def split: if_splits option.splits prod.splits)
  show ?thesis using write_record_ok [OF w] r wtMessageToJson_Some [OF js] by simp
qed

lemma wtRoomAppendMessage_keeps: "prefix (bytes log) (bytes (snd (wtRoomAppendMessage fault sync m log)))"
  using write_record_keeps
  by (auto simp: wtRoomAppendMessage_def split: option.split prod.split) (metis snd_conv)

section \<open>Both appends provide the append-only interface\<close>

text \<open>An operation carries the fault, the fsync flag, the clock and the message.\<close>

type_synonym room_op = "io_fault \<times> bool \<times> int \<times> WtMessage"

definition room_append_new :: "room_op \<Rightarrow> log_file \<Rightarrow> bool \<times> log_file" where
  "room_append_new op log = (case op of (fault, sync, now, m) \<Rightarrow>
     (case wtRoomAppendNewMessage fault sync now m log of (ok, _, log') \<Rightarrow> (ok, log')))"

definition room_append_given :: "room_op \<Rightarrow> log_file \<Rightarrow> bool \<times> log_file" where
  "room_append_given op log = (case op of (fault, sync, _, m) \<Rightarrow> wtRoomAppendMessage fault sync m log)"

definition room_record :: "room_op \<Rightarrow> log_file \<Rightarrow> string" where
  "room_record op log = (case op of (_, _, now, m) \<Rightarrow> render_object (message_fields (next_message now m log)))"

definition given_record :: "room_op \<Rightarrow> log_file \<Rightarrow> string" where
  "given_record op log = (case op of (_, _, _, m) \<Rightarrow> render_object (message_fields m))"

interpretation room_new: append_only_log room_append_new room_record
proof (unfold_locales, goal_cases)
  case (1 f op)
  obtain fault sync now m where op: "op = (fault, sync, now, m)" by (cases op)
  then show ?case
    using wtRoomAppendNewMessage_keeps [of f fault sync now m]
    by (simp add: room_append_new_def case_prod_beta)
next
  case (2 op f)
  obtain fault sync now m where op: "op = (fault, sync, now, m)" by (cases op)
  obtain ok m' f' where r: "wtRoomAppendNewMessage fault sync now m f = (ok, m', f')"
    by (cases "wtRoomAppendNewMessage fault sync now m f")
  with 2 op have "ok = True" by (simp add: room_append_new_def)
  with r wtRoomAppendNewMessage_ok [of fault sync now m f m' f'] op show ?case
    by (simp add: room_append_new_def room_record_def)
qed

interpretation room_given: append_only_log room_append_given given_record
  by unfold_locales
    (auto simp: room_append_given_def given_record_def wtRoomAppendMessage_keeps wtRoomAppendMessage_ok)

section \<open>The reachable room logs\<close>

text \<open>
  The programs only ever write the room through \<open>wtRoomAppendNewMessage\<close>. One step is one call by
  any of the processes, with any message the structs can hold, any clock and any fault that does
  not leave part of a record behind; the premise on the last id is that it did not overflow yet.
\<close>

inductive room_log :: "log_file \<Rightarrow> bool" where
  fresh: "room_log None"
| posted: "room_log log \<Longrightarrow> whole_record_fault fault \<Longrightarrow> message_fits m \<Longrightarrow> message_text m \<Longrightarrow> is_long now \<Longrightarrow>
    wtRoomReadLastMessageId log < LONG_MAX \<Longrightarrow>
    wtRoomAppendNewMessage fault sync now m log = (ok, m', log') \<Longrightarrow> room_log log'"

definition room_ids :: "log_file \<Rightarrow> int list" where
  "room_ids log = map messageId (room_messages (bytes log))"

lemma fold_last_id_upto:
  "map messageId ms = map int [1..<Suc k] \<Longrightarrow>
   fold (\<lambda>m i. if messageId m > i then messageId m else i) ms 0 = int k"
proof (induction k arbitrary: ms)
  case (Suc k)
  then obtain ms' m where "ms = ms' @ [m]" "map messageId ms' = map int [1..<Suc k]" "messageId m = int (Suc k)"
    by (cases ms rule: rev_cases) auto
  with Suc.IH [of ms'] show ?case by simp
qed simp

lemma last_id_upto:
  assumes "room_ids log = map int [1..<Suc k]"
  shows "fold last_id_step (room_lines (bytes log)) 0 = int k" and "wtRoomReadLastMessageId log = int k"
proof -
  show *: "fold last_id_step (room_lines (bytes log)) 0 = int k"
    using fold_last_id_upto assms by (simp add: last_id_fold room_ids_def room_messages_def)
  show "wtRoomReadLastMessageId log = int k"
  proof (cases log)
    case None
    with assms show ?thesis
      by (cases k) (auto simp: wtRoomReadLastMessageId_def room_ids_def room_messages_def room_lines_def)
  next
    case (Some s)
    with * show ?thesis by (simp add: wtRoomReadLastMessageId_def)
  qed
qed

lemma room_log_invariant:
  "room_log log \<Longrightarrow> clean_tail (bytes log) \<and> (\<exists>k. room_ids log = map int [1..<Suc k])"
proof (induction rule: room_log.induct)
  case fresh
  show ?case by (auto simp: room_ids_def room_messages_def room_lines_def intro: exI [of _ 0])
next
  case (posted log fault m now sync ok m' log')
  then obtain k where clean: "clean_tail (bytes log)" and k: "room_ids log = map int [1..<Suc k]" by blast
  let ?m = "next_message now m log"
  have kmax: "int k < LONG_MAX" using posted.hyps(6) last_id_upto(2) [OF k] by simp
  have id: "messageId ?m = int (Suc k)"
    using last_id_upto(1) [OF k] kmax
    by (simp add: next_message_def Let_def is_long_def c_int_defs)
  from wtRoomAppendNewMessage_cases [OF posted.hyps(2), of sync now m log] posted.hyps(7)
  consider "bytes log' = bytes log"
    | json where "wtMessageToJson ?m WT_MESSAGE_JSON_SIZE = Some json" "bytes log' = bytes log @ json @ [NL]"
    by auto
  then show ?case
  proof cases
    case 1
    with clean k show ?thesis by (auto simp: room_ids_def)
  next
    case (2 json)
    have "room_messages (bytes log') = room_messages (bytes log) @ [?m]"
      using room_messages_record [OF clean next_message_ok [OF posted.hyps(3-5)] 2(1)] 2(2) by simp
    with k id have "room_ids log' = map int [1..<Suc (Suc k)]" by (simp add: room_ids_def)
    moreover have "clean_tail (bytes log')" using 2(2) by (simp flip: append_assoc)
    ultimately show ?thesis by blast
  qed
qed

section \<open>Properties\<close>

text \<open>
  C16. A successful \<open>wtRoomAppendNewMessage\<close> on a log without a torn end makes the message, and
  nothing else, visible to every scan: the log reads back as before with the message at its end,
  its id one more than the last, its time the clock's when the caller left it zero, and every
  other field as the caller gave it, quotes, backslashes and newlines included.
\<close>

theorem room_append_visible:
  assumes "clean_tail (bytes log)" and "message_fits m" and "message_text m" and "is_long now"
    and "wtRoomReadLastMessageId log < LONG_MAX"
    and "wtRoomAppendNewMessage fault sync now m log = (True, m', log')"
  shows "room_messages (bytes log') = room_messages (bytes log) @ [m']
    \<and> m' = m \<lparr> messageId := wtRoomReadLastMessageId log + 1,
                createdAtUnixMs := (if createdAtUnixMs m = 0 then now else createdAtUnixMs m) \<rparr>"
proof -
  have last: "wtRoomReadLastMessageId log = fold last_id_step (room_lines (bytes log)) 0"
    by (cases log) (simp_all add: wtRoomReadLastMessageId_def room_lines_def)
  have "0 \<le> wtRoomReadLastMessageId log"
    using last last_id_ge [of 0 "room_lines (bytes log)"] by simp
  with assms(5) have "is_long (wtRoomReadLastMessageId log + 1)"
    by (simp add: c_int_defs)
  then have m': "next_message now m log = m \<lparr> messageId := wtRoomReadLastMessageId log + 1,
      createdAtUnixMs := (if createdAtUnixMs m = 0 then now else createdAtUnixMs m) \<rparr>"
    by (simp add: next_message_def Let_def last)
  note ok = wtRoomAppendNewMessage_ok [OF assms(6)]
  have "room_messages (bytes log') = room_messages (bytes log) @ [m']"
    using room_messages_record [OF assms(1), of m'] next_message_ok [OF assms(2-4), of log] ok by simp
  with m' ok(1) show ?thesis by simp
qed

definition demo_message :: WtMessage where
  "demo_message = wtMessageInit \<lparr> senderName := ''ceo'', messageBody := [BSL, DQ, NL] @ ''x'' \<rparr>"

lemma demo_message_ok: "message_fits demo_message" "message_text demo_message"
  by (simp_all add: demo_message_def wtMessageInit_def message_fits_def message_text_def
      message_sizes c_int_defs)

definition demo_posted :: WtMessage where
  "demo_posted = demo_message \<lparr> messageId := 1, createdAtUnixMs := 7 \<rparr>"

lemma demo_append:
  "wtRoomAppendNewMessage NoFault True 7 demo_message None =
    (True, demo_posted, Some (render_object (message_fields demo_posted) @ [NL]))"
proof -
  have n: "next_message 7 demo_message None = demo_posted"
    by (simp add: next_message_def room_lines_def demo_posted_def demo_message_def wtMessageInit_def
        is_long_def c_int_defs)
  have ok: "message_fits demo_posted" "message_text demo_posted"
    using next_message_ok [OF demo_message_ok, of 7 None] by (simp_all add: n c_int_defs)
  have "length (render_object (message_fields demo_posted)) < WT_MESSAGE_JSON_SIZE"
    by (simp add: demo_posted_def message_fields_def demo_message_def wtMessageInit_def render_object_def
      render_field_def escape_char_def show_int_def show_nat.simps message_sizes)
  then have "wtMessageToJson demo_posted WT_MESSAGE_JSON_SIZE = Some (render_object (message_fields demo_posted))"
    using wtMessageToJson_text [OF ok] by simp
  then show ?thesis
    by (simp add: wtRoomAppendNewMessage_def write_record_def n Let_def)
qed

lemma demo_room_log: "room_log (Some (render_object (message_fields demo_posted) @ [NL]))"
  by (rule room_log.posted [OF room_log.fresh _ demo_message_ok _ _ demo_append])
    (simp_all add: whole_record_fault_def wtRoomReadLastMessageId_def c_int_defs)

theorem room_append_visible_witness:
  "room_messages (bytes (Some (render_object (message_fields demo_posted) @ [NL]))) =
   room_messages (bytes None) @ [demo_posted]"
  using room_append_visible [OF _ demo_message_ok _ _ demo_append]
  by (simp add: wtRoomReadLastMessageId_def is_long_def LONG_MAX_def LONG_MIN_def)

text \<open>
  C17. In a room log that began empty and that appends have written, the ids of the readable messages are
  exactly 1, 2, ..., k in file order, whichever processes posted and whichever appends were refused: no id
  is given twice. This is for messages whose fields fit and have no control characters, for appends that
  store their record whole or not at all, and for a clock and ids within a \<open>long long\<close>. An append that
  fails half-way, or a body of control characters (\<open>room_control_body_reuses_id\<close>), can leave a line no scan
  reads, and its id is given again.
\<close>

theorem room_ids_consecutive:
  assumes "room_log log"
  shows "\<exists>k. room_ids log = map int [1..<Suc k]"
  using room_log_invariant [OF assms] by blast

theorem room_ids_consecutive_witness:
  "\<exists>k. room_ids (Some (render_object (message_fields demo_posted) @ [NL])) = map int [1..<Suc k]"
  by (rule room_ids_consecutive [OF demo_room_log])

text \<open>
  \<open>wtRoomReadRecent\<close> returns the last messages of the log, in order: its ring buffer drops
  exactly the older ones.
\<close>

theorem room_recent_is_suffix:
  assumes "0 < maxMessages"
  shows "wtRoomReadRecent log limit maxMessages =
    drop (length (room_messages (bytes log)) - recent_limit limit maxMessages) (room_messages (bytes log))"
  using wtRoomReadRecent_spec [OF assms] by (simp add: Let_def)

theorem room_recent_is_suffix_witness:
  "wtRoomReadRecent None 5 256 = drop (0 - recent_limit 5 256) []"
  using room_recent_is_suffix [of 256 None 5] by (simp add: room_messages_def room_lines_def)

text \<open>
  A subscriber that polls a reachable log with the last id it received gets exactly the next
  messages, at most as many as its buffer holds: nothing is skipped or sent twice.
\<close>

theorem room_poll_complete:
  assumes "room_log log" and "a \<le> k" and "room_ids log = map int [1..<Suc k]"
  shows "map messageId (wtRoomReadMessagesAfter log (int a) n) = map int [Suc a..<Suc (min k (a + n))]"
proof -
  have poll: "wtRoomReadMessagesAfter log (int a) n = take n (filter (\<lambda>m. messageId m > int a) (room_messages (bytes log)))"
    by (cases log) (simp_all add: wtRoomReadMessagesAfter_def read_after_spec room_messages_def room_lines_def)
  have "map messageId (filter (\<lambda>m. messageId m > int a) (room_messages (bytes log))) =
      filter (\<lambda>i. i > int a) (room_ids log)"
    by (simp add: room_ids_def filter_map comp_def)
  also have "\<dots> = map int (filter (\<lambda>i. a < i) [1..<Suc k])"
    by (simp add: assms(3) filter_map comp_def)
  also have "filter (\<lambda>i. a < i) [1..<Suc k] = [Suc a..<Suc k]"
    using upt_add_eq_append [of 1 "Suc a" "k - a"] assms(2) by (simp add: filter_empty_conv) (auto intro: filter_True)
  finally have "map messageId (filter (\<lambda>m. messageId m > int a) (room_messages (bytes log))) = map int [Suc a..<Suc k]" .
  with poll show ?thesis
    by (simp add: take_map [symmetric]) (simp add: take_map take_upt min_def)
qed

lemma demo_room_ids:
  "room_ids (Some (render_object (message_fields demo_posted) @ [NL])) = map int [1..<Suc 1]"
proof -
  note ok = wtRoomAppendNewMessage_ok [OF demo_append]
  have "message_fits demo_posted" "message_text demo_posted"
    using next_message_ok [OF demo_message_ok, of 7 None] ok(1) by (simp_all add: c_int_defs)
  with room_messages_record [of "[]" demo_posted] ok(2)
  have "room_messages (render_object (message_fields demo_posted) @ [NL]) = [demo_posted]"
    by (simp add: room_messages_def room_lines_def)
  then show ?thesis by (simp add: room_ids_def demo_posted_def)
qed

theorem room_poll_complete_witness:
  "map messageId (wtRoomReadMessagesAfter (Some (render_object (message_fields demo_posted) @ [NL])) (int 0) 64)
   = map int [Suc 0..<Suc (min 1 (0 + 64))]"
  by (rule room_poll_complete [OF demo_room_log _ demo_room_ids]) simp

text \<open>
  The room log is append-only: once an append has reported success, its record stays in the
  file byte for byte at the same offset, whatever appends by whichever process follow, with any
  messages and any failures, a short write included.
\<close>

theorem room_record_kept:
  assumes "fst (room_append_new op log)"
  shows "\<exists>later. bytes (room_new.run (op # ops) log) = bytes log @ room_record op log @ [NL] @ later"
  using room_new.run_stored [OF assms, of ops] by (auto simp: prefix_def)

theorem room_record_kept_witness:
  "\<exists>later. bytes (room_new.run [(NoFault, True, 7, demo_message), (ShortWrite 3, True, 8, demo_message)] None)
     = bytes None @ room_record (NoFault, True, 7, demo_message) None @ [NL] @ later"
  by (rule room_record_kept) (simp add: room_append_new_def demo_append)

text \<open>
  A body with other control characters is written (as \<^verbatim>\<open>\u0001\<close>) but cannot be read back when it
  is long: the reader keeps the five characters after each backslash, overflows its body buffer
  and skips the record. The id counter then does not see it.
\<close>

lemma read_loop_control:
  "length out < n \<Longrightarrow> n \<le> length out + 5 * k \<Longrightarrow>
   \<exists>x. read_loop n out (escape (replicate k (CHR 0x01)) @ r) = ReadCut x"
proof (induction k arbitrary: out)
  case (Suc k)
  have e: "escape_char (CHR 0x01) = BSL # ''u0001''"
    by (simp add: escape_char_def hex_digit_def char_of_def bit_0)
  show ?case
  proof (cases "length out + 5 < n")
    case True
    then show ?thesis
      using Suc.IH [of "out @ ''u0001''"] Suc.prems by (simp add: e read_loop.simps unescape_def)
  next
    case False
    then show ?thesis
      using Suc.prems by (auto simp: e read_loop.simps unescape_def)
  qed
qed simp

definition control_message :: WtMessage where
  "control_message = wtMessageInit \<lparr> messageBody := replicate 1000 (CHR 0x01), createdAtUnixMs := 7 \<rparr>"

lemma control_fields:
  "wtMessageToJson (control_message \<lparr> messageId := 1 \<rparr>) WT_MESSAGE_JSON_SIZE =
     Some (render_object (message_fields (control_message \<lparr> messageId := 1 \<rparr>)))"
proof -
  have e: "length (escape (replicate k (CHR 0x01))) = 6 * k" for k
    by (induction k) (simp_all add: escape_char_def)
  have n: "wtJsonEscape (replicate 1000 (CHR 0x01)) 8192 \<noteq> None"
    by (simp add: wtJsonEscape_spec e)
  show ?thesis
    using n by (simp add: wtMessageToJson_def control_message_def wtMessageInit_def message_sizes
      wtJsonEscape_spec e escape_char_def message_fields_def render_object_def render_field_def
      show_int_def show_nat.simps Let_def)
qed

lemma control_unreadable: "wtMessageFromJsonLine (render_object (message_fields (control_message \<lparr> messageId := 1 \<rparr>)) @ t) = None"
  if t: "DQ \<notin> set t"
proof -
  let ?m = "control_message \<lparr> messageId := 1 \<rparr>"
  obtain r where "findFieldValue (render_object (message_fields ?m) @ t) ''messageBody'' =
      Some (render_value (JStr (replicate 1000 (CHR 0x01))) @ r)"
    using find_object [OF key_text_message_keys(6) wf_message_fields t, of ?m] map_of_message_fields(6) [of ?m]
    by (auto simp: found_def control_message_def)
  then have "\<exists>x. wtJsonReadString (render_object (message_fields ?m) @ t) ''messageBody'' WT_MESSAGE_BODY_SIZE = ReadCut x"
    using read_loop_control [of "[]" WT_MESSAGE_BODY_SIZE 1000 "DQ # r"]
    by (simp add: wtJsonReadString_def message_sizes)
  then have "read_str (render_object (message_fields ?m) @ t) ''messageBody'' WT_MESSAGE_BODY_SIZE = None"
    by (auto simp: read_str_def)
  then show ?thesis
    by (auto simp: wtMessageFromJsonLine_def split: option.split)
qed

text \<open>
  (A defect.) Posting twice a message whose body is 1000 control characters succeeds both
  times, and both messages get the id 1: the first record is in the log but no scan can read it.
\<close>

theorem room_control_body_reuses_id:
  "\<exists>log1 log2. wtRoomAppendNewMessage NoFault True 7 control_message None =
       (True, control_message \<lparr> messageId := 1 \<rparr>, log1) \<and> room_messages (bytes log1) = [] \<and>
     wtRoomAppendNewMessage NoFault True 8 control_message log1 =
       (True, control_message \<lparr> messageId := 1 \<rparr>, log2)"
proof -
  let ?r = "render_object (message_fields (control_message \<lparr> messageId := 1 \<rparr>))"
  note line = render_object_line [OF wf_message_fields, of "control_message \<lparr> messageId := 1 \<rparr>"]
  have len: "length ?r < WT_MESSAGE_JSON_SIZE" "?r \<noteq> []"
    using wtMessageToJson_Some [OF control_fields] by (simp_all add: render_object_def)
  have "parsed (room_lines (?r @ [NL])) = []"
  proof (cases "length ?r + 1 = WT_MESSAGE_JSON_SIZE")
    case True
    then have "room_lines (?r @ [NL]) = [?r, [NL]]"
      unfolding room_lines_def using line len by (intro file_lines_record_full) auto
    with control_unreadable [of "[]"] no_message_newline show ?thesis by simp
  next
    case False
    with len have "room_lines (?r @ [NL]) = [?r @ [NL]]"
      unfolding room_lines_def using line by (intro file_lines_record) auto
    with control_unreadable [of "[NL]"] show ?thesis by simp
  qed
  then have none: "parsed (room_lines (bytes (Some (?r @ [NL])))) = []" by simp
  have nxt: "next_message now control_message log = control_message \<lparr> messageId := 1 \<rparr>"
    if "parsed (room_lines (bytes log)) = []" for log now
    using that by (simp add: next_message_def Let_def last_id_fold control_message_def is_long_def
        LONG_MAX_def LONG_MIN_def)
  have step: "wtRoomAppendNewMessage NoFault True now control_message log =
      (True, control_message \<lparr> messageId := 1 \<rparr>, Some (bytes log @ ?r @ [NL]))"
    if "parsed (room_lines (bytes log)) = []" for log now
    using that by (simp add: wtRoomAppendNewMessage_def nxt control_fields write_record_def Let_def)
  have "parsed (room_lines (bytes None)) = []" by (simp add: room_lines_def)
  with step [of None 7] step [OF none, of 8] none show ?thesis
    by (auto simp: room_messages_def)
qed

end
