(* ===== verification/Config.thy ===== *)
theory Config
  imports C_Strings Append_File
begin

text \<open>
  The configuration of \<^verbatim>\<open>src/src/wt_config.c\<close> and \<^verbatim>\<open>src/include/wt_config.h\<close>: built-in defaults,
  one setter keyed by name, the \<open>KEY=VALUE\<close> file reader and writer, and the environment overrides.

  The record has the struct's fields in its order (\<open>configRoomName\<close> is the C field \<open>roomName\<close>);
  buffers are strings, \<open>int\<close> and \<open>long\<close> fields are integers. \<open>config_fits\<close> is what the C types can hold.
\<close>

definition WT_PATH_SIZE :: nat where "WT_PATH_SIZE = 256"
definition WT_NAME_SIZE :: nat where "WT_NAME_SIZE = 64"

record WtConfig =
  configPath :: string
  configRoomName :: string
  roomLogPath :: string
  taskLedgerPath :: string
  taskProjectionDbPath :: string
  httpBindAddress :: string
  httpPort :: int
  contextMessageCount :: int
  agentPollMilliseconds :: int
  adapterTimeoutSeconds :: int
  adapterMaxOutputBytes :: int
  maxActiveTasksPerAgent :: int
  maxSubtasksPerParent :: int
  maxTasksPerInitiative :: int
  fsyncEachMessage :: bool
  roleRoutingEnabled :: bool
  enableCodexAdapter :: bool
  enableClaudeAdapter :: bool
  enableGeminiAdapter :: bool
  tokenTelemetryEnabled :: bool
  tokenDailyBudget :: int
  tokenMonthlyBudget :: int
  tokenWarningPercent :: int
  tokenCostPerMillionCents :: int
  runtimeRootPath :: string
  claudeMode :: string
  chatgptMode :: string
  geminiMode :: string
  claudeCommand :: string
  gptCommand :: string
  geminiCommand :: string
  blockedVendors :: string
  tokenBudgetPerInitiative :: int
  tokenBudgetPerModelFamily :: int
  heartbeatIntervalSeconds :: int
  leaseRenewalIntervalSeconds :: int
  leaseDurationSeconds :: int
  cancelPollIntervalSeconds :: int
  slackWebhookFile :: string
  notificationEscalateKey :: string
  notificationStuckKey :: string
  defaultAutonomyLevel :: string
  claudeDefaultAutonomyLevel :: string
  chatgptDefaultAutonomyLevel :: string
  geminiDefaultAutonomyLevel :: string
  deliverableRoot :: string
  deliverableDefaultMode :: string
  deliverableBranchPrefix :: string
  secretScanPatternsFile :: string
  remoteAllowedIps :: string
  authTokenDefaultTtlSeconds :: int
  operatorSessionPath :: string

text \<open>\<open>copyString\<close> cuts to the destination; \<open>trimWhitespace\<close> drops white space at both ends.\<close>

definition copyString :: "nat \<Rightarrow> string \<Rightarrow> string" where
  "copyString destinationSize source = snprintf_s destinationSize source"

definition trimWhitespace :: "string \<Rightarrow> string" where
  "trimWhitespace v = trim_end is_space (skip_space v)"

definition wtConfigInitDefaults :: WtConfig where
  "wtConfigInitDefaults = \<lparr>
     configPath = '''',
     configRoomName = ''phase0'',
     roomLogPath = ''data/phase0-room.jsonl'',
     taskLedgerPath = ''data/task-packages.jsonl'',
     taskProjectionDbPath = ''data/task-projection.sqlite'',
     httpBindAddress = ''0.0.0.0'',
     httpPort = 8787,
     contextMessageCount = 20,
     agentPollMilliseconds = 1000,
     adapterTimeoutSeconds = 1800,
     adapterMaxOutputBytes = 1048576,
     maxActiveTasksPerAgent = 4,
     maxSubtasksPerParent = 8,
     maxTasksPerInitiative = 32,
     fsyncEachMessage = False,
     roleRoutingEnabled = True,
     enableCodexAdapter = False,
     enableClaudeAdapter = False,
     enableGeminiAdapter = False,
     tokenTelemetryEnabled = True,
     tokenDailyBudget = 2000000,
     tokenMonthlyBudget = 50000000,
     tokenWarningPercent = 80,
     tokenCostPerMillionCents = 1000,
     runtimeRootPath = ''/woventeam/runtime/tasks'',
     claudeMode = ''stub'',
     chatgptMode = ''stub'',
     geminiMode = ''stub'',
     claudeCommand = ''claude'',
     gptCommand = ''codex'',
     geminiCommand = ''gemini'',
     blockedVendors = ''deepseek'',
     tokenBudgetPerInitiative = 0,
     tokenBudgetPerModelFamily = 0,
     heartbeatIntervalSeconds = 7200,
     leaseRenewalIntervalSeconds = 600,
     leaseDurationSeconds = 900,
     cancelPollIntervalSeconds = 5,
     slackWebhookFile = ''config/slack_webhook.txt'',
     notificationEscalateKey = '''',
     notificationStuckKey = '''',
     defaultAutonomyLevel = '''',
     claudeDefaultAutonomyLevel = '''',
     chatgptDefaultAutonomyLevel = '''',
     geminiDefaultAutonomyLevel = '''',
     deliverableRoot = ''data/deliverables'',
     deliverableDefaultMode = ''copy'',
     deliverableBranchPrefix = ''deliverables'',
     secretScanPatternsFile = ''config/secret-scan-patterns.txt'',
     remoteAllowedIps = ''127.0.0.1,::1'',
     authTokenDefaultTtlSeconds = 3600,
     operatorSessionPath = ''data/operator-session.token'' \<rparr>"

text \<open>The setter; \<open>None\<close> is the return value -1, which leaves the configuration alone.\<close>

definition wtConfigSetValue :: "WtConfig \<Rightarrow> string \<Rightarrow> string \<Rightarrow> WtConfig option" where
  "wtConfigSetValue c key v =
     (if key = ''roomName'' then Some (c \<lparr> configRoomName := copyString WT_NAME_SIZE v \<rparr>) else
     (if key = ''roomLogPath'' then Some (c \<lparr> roomLogPath := copyString WT_PATH_SIZE v \<rparr>) else
     (if key = ''taskLedgerPath'' then Some (c \<lparr> taskLedgerPath := copyString WT_PATH_SIZE v \<rparr>) else
     (if key = ''taskProjectionDbPath'' then Some (c \<lparr> taskProjectionDbPath := copyString WT_PATH_SIZE v \<rparr>) else
     (if key = ''httpBindAddress'' then Some (c \<lparr> httpBindAddress := copyString WT_NAME_SIZE v \<rparr>) else
     (if key = ''httpPort'' then Some (c \<lparr> httpPort := atoi v \<rparr>) else
     (if key = ''contextMessageCount'' then Some (c \<lparr> contextMessageCount := atoi v \<rparr>) else
     (if key = ''agentPollMilliseconds'' then Some (c \<lparr> agentPollMilliseconds := atoi v \<rparr>) else
     (if key = ''adapterTimeoutSeconds'' then Some (c \<lparr> adapterTimeoutSeconds := atoi v \<rparr>) else
     (if key = ''adapterMaxOutputBytes'' then Some (c \<lparr> adapterMaxOutputBytes := atoi v \<rparr>) else
     (if key = ''maxActiveTasksPerAgent'' then Some (c \<lparr> maxActiveTasksPerAgent := atoi v \<rparr>) else
     (if key = ''maxSubtasksPerParent'' then Some (c \<lparr> maxSubtasksPerParent := atoi v \<rparr>) else
     (if key = ''maxTasksPerInitiative'' then Some (c \<lparr> maxTasksPerInitiative := atoi v \<rparr>) else
     (if key = ''fsyncEachMessage'' then Some (c \<lparr> fsyncEachMessage := atoi v \<noteq> 0 \<rparr>) else
     (if key = ''roleRoutingEnabled'' then Some (c \<lparr> roleRoutingEnabled := atoi v \<noteq> 0 \<rparr>) else
     (if key = ''enableCodexAdapter'' then Some (c \<lparr> enableCodexAdapter := atoi v \<noteq> 0 \<rparr>) else
     (if key = ''enableClaudeAdapter'' then Some (c \<lparr> enableClaudeAdapter := atoi v \<noteq> 0 \<rparr>) else
     (if key = ''enableGeminiAdapter'' then Some (c \<lparr> enableGeminiAdapter := atoi v \<noteq> 0 \<rparr>) else
     (if key = ''tokenTelemetryEnabled'' then Some (c \<lparr> tokenTelemetryEnabled := atoi v \<noteq> 0 \<rparr>) else
     (if key = ''tokenDailyBudget'' then Some (c \<lparr> tokenDailyBudget := atol v \<rparr>) else
     (if key = ''tokenMonthlyBudget'' then Some (c \<lparr> tokenMonthlyBudget := atol v \<rparr>) else
     (if key = ''tokenWarningPercent'' then Some (c \<lparr> tokenWarningPercent := atoi v \<rparr>) else
     (if key = ''tokenCostPerMillionCents'' then Some (c \<lparr> tokenCostPerMillionCents := atoi v \<rparr>) else
     (if key = ''runtimeRootPath'' then Some (c \<lparr> runtimeRootPath := copyString WT_PATH_SIZE v \<rparr>) else
     (if key = ''claudeMode'' then Some (c \<lparr> claudeMode := copyString WT_NAME_SIZE v \<rparr>) else
     (if key = ''chatgptMode'' then Some (c \<lparr> chatgptMode := copyString WT_NAME_SIZE v \<rparr>) else
     (if key = ''geminiMode'' then Some (c \<lparr> geminiMode := copyString WT_NAME_SIZE v \<rparr>) else
     (if key = ''claudeCommand'' then Some (c \<lparr> claudeCommand := copyString WT_PATH_SIZE v \<rparr>) else
     (if key = ''gptCommand'' then Some (c \<lparr> gptCommand := copyString WT_PATH_SIZE v \<rparr>) else
     (if key = ''geminiCommand'' then Some (c \<lparr> geminiCommand := copyString WT_PATH_SIZE v \<rparr>) else
     (if key = ''blockedVendors'' then Some (c \<lparr> blockedVendors := copyString WT_PATH_SIZE v \<rparr>) else
     (if key = ''tokenBudgetPerInitiative'' then Some (c \<lparr> tokenBudgetPerInitiative := atol v \<rparr>) else
     (if key = ''tokenBudgetPerModelFamily'' then Some (c \<lparr> tokenBudgetPerModelFamily := atol v \<rparr>) else
     (if key = ''heartbeatIntervalSeconds'' then Some (c \<lparr> heartbeatIntervalSeconds := atoi v \<rparr>) else
     (if key = ''leaseRenewalIntervalSeconds'' then Some (c \<lparr> leaseRenewalIntervalSeconds := atoi v \<rparr>) else
     (if key = ''leaseDurationSeconds'' then Some (c \<lparr> leaseDurationSeconds := atoi v \<rparr>) else
     (if key = ''cancelPollIntervalSeconds'' then Some (c \<lparr> cancelPollIntervalSeconds := atoi v \<rparr>) else
     (if key = ''slackWebhookFile'' then Some (c \<lparr> slackWebhookFile := copyString WT_PATH_SIZE v \<rparr>) else
     (if key = ''notificationEscalateKey'' then Some (c \<lparr> notificationEscalateKey := copyString WT_NAME_SIZE v \<rparr>) else
     (if key = ''notificationStuckKey'' then Some (c \<lparr> notificationStuckKey := copyString WT_NAME_SIZE v \<rparr>) else
     (if key = ''defaultAutonomyLevel'' then Some (c \<lparr> defaultAutonomyLevel := copyString WT_NAME_SIZE v \<rparr>) else
     (if key = ''claudeDefaultAutonomyLevel'' then Some (c \<lparr> claudeDefaultAutonomyLevel := copyString WT_NAME_SIZE v \<rparr>) else
     (if key = ''chatgptDefaultAutonomyLevel'' then Some (c \<lparr> chatgptDefaultAutonomyLevel := copyString WT_NAME_SIZE v \<rparr>) else
     (if key = ''geminiDefaultAutonomyLevel'' then Some (c \<lparr> geminiDefaultAutonomyLevel := copyString WT_NAME_SIZE v \<rparr>) else
     (if key = ''deliverableRoot'' then Some (c \<lparr> deliverableRoot := copyString WT_PATH_SIZE v \<rparr>) else
     (if key = ''deliverableDefaultMode'' then Some (c \<lparr> deliverableDefaultMode := copyString WT_NAME_SIZE v \<rparr>) else
     (if key = ''deliverableBranchPrefix'' then Some (c \<lparr> deliverableBranchPrefix := copyString WT_NAME_SIZE v \<rparr>) else
     (if key = ''secretScanPatternsFile'' then Some (c \<lparr> secretScanPatternsFile := copyString WT_PATH_SIZE v \<rparr>) else
     (if key = ''remoteAllowedIps'' then Some (c \<lparr> remoteAllowedIps := copyString WT_PATH_SIZE v \<rparr>) else
     (if key = ''authTokenDefaultTtlSeconds'' then Some (c \<lparr> authTokenDefaultTtlSeconds := atoi v \<rparr>) else
     (if key = ''operatorSessionPath'' then Some (c \<lparr> operatorSessionPath := copyString WT_PATH_SIZE v \<rparr>) else
      None)))))))))))))))))))))))))))))))))))))))))))))))))))"

definition load_line :: "string \<Rightarrow> WtConfig \<Rightarrow> WtConfig" where
  "load_line line c =
     (let trimmed = trimWhitespace line in
      if trimmed = [] \<or> hd trimmed = CHR ''#'' then c
      else (case strchr trimmed (CHR ''='') of
              None \<Rightarrow> c
            | Some rest \<Rightarrow>
                (let key = trimWhitespace (takeWhile (\<lambda>x. x \<noteq> CHR ''='') trimmed);
                     v = trimWhitespace (tl rest)
                 in case wtConfigSetValue c key v of Some c' \<Rightarrow> c' | None \<Rightarrow> c)))"

text \<open>\<open>fs\<close> is the file system; \<open>None\<close> is the return value -1, the configuration unchanged.\<close>

definition wtConfigLoadFile :: "(string \<Rightarrow> log_file) \<Rightarrow> WtConfig \<Rightarrow> string \<Rightarrow> WtConfig option" where
  "wtConfigLoadFile fs c path =
     (let pathCopy = copyString WT_PATH_SIZE path in
      case fs pathCopy of
        None \<Rightarrow> None
      | Some s \<Rightarrow> Some (fold load_line (file_lines 512 s) (c \<lparr> configPath := copyString WT_PATH_SIZE pathCopy \<rparr>)))"

definition flag_text :: "bool \<Rightarrow> string" where
  "flag_text b = (if b then ''1'' else ''0'')"

text \<open>The lines of the \<open>fprintf\<close> format with their arguments, in order.\<close>

definition config_entries :: "WtConfig \<Rightarrow> (string \<times> string) list" where
  "config_entries c =
    [
     (''roomName'', configRoomName c),
     (''roomLogPath'', roomLogPath c),
     (''taskLedgerPath'', taskLedgerPath c),
     (''taskProjectionDbPath'', taskProjectionDbPath c),
     (''httpBindAddress'', httpBindAddress c),
     (''httpPort'', show_int (httpPort c)),
     (''contextMessageCount'', show_int (contextMessageCount c)),
     (''agentPollMilliseconds'', show_int (agentPollMilliseconds c)),
     (''adapterTimeoutSeconds'', show_int (adapterTimeoutSeconds c)),
     (''adapterMaxOutputBytes'', show_int (adapterMaxOutputBytes c)),
     (''maxActiveTasksPerAgent'', show_int (maxActiveTasksPerAgent c)),
     (''maxSubtasksPerParent'', show_int (maxSubtasksPerParent c)),
     (''maxTasksPerInitiative'', show_int (maxTasksPerInitiative c)),
     (''fsyncEachMessage'', flag_text (fsyncEachMessage c)),
     (''roleRoutingEnabled'', flag_text (roleRoutingEnabled c)),
     (''enableCodexAdapter'', flag_text (enableCodexAdapter c)),
     (''enableClaudeAdapter'', flag_text (enableClaudeAdapter c)),
     (''enableGeminiAdapter'', flag_text (enableGeminiAdapter c)),
     (''tokenTelemetryEnabled'', flag_text (tokenTelemetryEnabled c)),
     (''tokenDailyBudget'', show_int (tokenDailyBudget c)),
     (''tokenMonthlyBudget'', show_int (tokenMonthlyBudget c)),
     (''tokenWarningPercent'', show_int (tokenWarningPercent c)),
     (''tokenCostPerMillionCents'', show_int (tokenCostPerMillionCents c)),
     (''runtimeRootPath'', runtimeRootPath c),
     (''claudeMode'', claudeMode c),
     (''chatgptMode'', chatgptMode c),
     (''geminiMode'', geminiMode c),
     (''claudeCommand'', claudeCommand c),
     (''gptCommand'', gptCommand c),
     (''geminiCommand'', geminiCommand c),
     (''blockedVendors'', blockedVendors c),
     (''tokenBudgetPerInitiative'', show_int (tokenBudgetPerInitiative c)),
     (''tokenBudgetPerModelFamily'', show_int (tokenBudgetPerModelFamily c)),
     (''heartbeatIntervalSeconds'', show_int (heartbeatIntervalSeconds c)),
     (''leaseRenewalIntervalSeconds'', show_int (leaseRenewalIntervalSeconds c)),
     (''leaseDurationSeconds'', show_int (leaseDurationSeconds c)),
     (''cancelPollIntervalSeconds'', show_int (cancelPollIntervalSeconds c)),
     (''slackWebhookFile'', slackWebhookFile c),
     (''notificationEscalateKey'', notificationEscalateKey c),
     (''notificationStuckKey'', notificationStuckKey c),
     (''defaultAutonomyLevel'', defaultAutonomyLevel c),
     (''claudeDefaultAutonomyLevel'', claudeDefaultAutonomyLevel c),
     (''chatgptDefaultAutonomyLevel'', chatgptDefaultAutonomyLevel c),
     (''geminiDefaultAutonomyLevel'', geminiDefaultAutonomyLevel c),
     (''deliverableRoot'', deliverableRoot c),
     (''deliverableDefaultMode'', deliverableDefaultMode c),
     (''deliverableBranchPrefix'', deliverableBranchPrefix c),
     (''secretScanPatternsFile'', secretScanPatternsFile c),
     (''remoteAllowedIps'', remoteAllowedIps c),
     (''authTokenDefaultTtlSeconds'', show_int (authTokenDefaultTtlSeconds c)),
     (''operatorSessionPath'', operatorSessionPath c)]"

definition write_entry :: "string \<times> string \<Rightarrow> string" where
  "write_entry e = fst e @ ''='' @ snd e @ [NL]"

text \<open>The file system after a write that opened the file and stored everything (\<open>ok\<close>), or not.\<close>

definition wtConfigWriteFile :: "io_fault \<Rightarrow> WtConfig \<Rightarrow> string \<Rightarrow> (string \<Rightarrow> log_file) \<Rightarrow> bool \<times> (string \<Rightarrow> log_file)" where
  "wtConfigWriteFile fault c path fs =
     (let content = concat (map write_entry (config_entries c)) in
      if fault = OpenFails then (False, fs)
      else (case fault of
              ShortWrite k \<Rightarrow> (False, fs(path := Some (take k content)))
            | _ \<Rightarrow> (True, fs(path := Some content))))"

definition environment_keys :: "(string \<times> string) list" where
  "environment_keys =
    [
     (''WT_ROOM_NAME'', ''roomName''),
     (''WT_ROOM_LOG_PATH'', ''roomLogPath''),
     (''WT_TASK_LEDGER_PATH'', ''taskLedgerPath''),
     (''WT_TASK_PROJECTION_DB_PATH'', ''taskProjectionDbPath''),
     (''WT_HTTP_BIND_ADDRESS'', ''httpBindAddress''),
     (''WT_HTTP_PORT'', ''httpPort''),
     (''WT_CONTEXT_MESSAGE_COUNT'', ''contextMessageCount''),
     (''WT_AGENT_POLL_MILLISECONDS'', ''agentPollMilliseconds''),
     (''WT_ADAPTER_TIMEOUT_SECONDS'', ''adapterTimeoutSeconds''),
     (''WT_ADAPTER_MAX_OUTPUT_BYTES'', ''adapterMaxOutputBytes''),
     (''WT_MAX_ACTIVE_TASKS_PER_AGENT'', ''maxActiveTasksPerAgent''),
     (''WT_MAX_SUBTASKS_PER_PARENT'', ''maxSubtasksPerParent''),
     (''WT_MAX_TASKS_PER_INITIATIVE'', ''maxTasksPerInitiative''),
     (''WT_FSYNC_EACH_MESSAGE'', ''fsyncEachMessage''),
     (''WT_ROLE_ROUTING_ENABLED'', ''roleRoutingEnabled''),
     (''WT_ENABLE_CODEX_ADAPTER'', ''enableCodexAdapter''),
     (''WT_ENABLE_CLAUDE_ADAPTER'', ''enableClaudeAdapter''),
     (''WT_ENABLE_GEMINI_ADAPTER'', ''enableGeminiAdapter''),
     (''WT_TOKEN_TELEMETRY_ENABLED'', ''tokenTelemetryEnabled''),
     (''WT_TOKEN_DAILY_BUDGET'', ''tokenDailyBudget''),
     (''WT_TOKEN_MONTHLY_BUDGET'', ''tokenMonthlyBudget''),
     (''WT_TOKEN_WARNING_PERCENT'', ''tokenWarningPercent''),
     (''WT_TOKEN_COST_PER_MILLION_CENTS'', ''tokenCostPerMillionCents''),
     (''WT_RUNTIME_ROOT_PATH'', ''runtimeRootPath''),
     (''WT_CLAUDE_COMMAND'', ''claudeCommand''),
     (''WT_GPT_COMMAND'', ''gptCommand''),
     (''WT_GEMINI_COMMAND'', ''geminiCommand''),
     (''WT_CLAUDE_MODE'', ''claudeMode''),
     (''WT_CHATGPT_MODE'', ''chatgptMode''),
     (''WT_GEMINI_MODE'', ''geminiMode''),
     (''WT_BLOCKED_VENDORS'', ''blockedVendors''),
     (''WT_TOKEN_BUDGET_PER_INITIATIVE'', ''tokenBudgetPerInitiative''),
     (''WT_TOKEN_BUDGET_PER_MODEL_FAMILY'', ''tokenBudgetPerModelFamily''),
     (''WT_HEARTBEAT_INTERVAL_SECONDS'', ''heartbeatIntervalSeconds''),
     (''WT_LEASE_RENEWAL_INTERVAL_SECONDS'', ''leaseRenewalIntervalSeconds''),
     (''WT_LEASE_DURATION_SECONDS'', ''leaseDurationSeconds''),
     (''WT_CANCEL_POLL_INTERVAL_SECONDS'', ''cancelPollIntervalSeconds''),
     (''WT_SLACK_WEBHOOK_FILE'', ''slackWebhookFile''),
     (''WT_NOTIFICATION_ESCALATE_KEY'', ''notificationEscalateKey''),
     (''WT_NOTIFICATION_STUCK_KEY'', ''notificationStuckKey''),
     (''WT_DEFAULT_AUTONOMY_LEVEL'', ''defaultAutonomyLevel''),
     (''WT_CLAUDE_DEFAULT_AUTONOMY_LEVEL'', ''claudeDefaultAutonomyLevel''),
     (''WT_CHATGPT_DEFAULT_AUTONOMY_LEVEL'', ''chatgptDefaultAutonomyLevel''),
     (''WT_GEMINI_DEFAULT_AUTONOMY_LEVEL'', ''geminiDefaultAutonomyLevel''),
     (''WT_DELIVERABLE_ROOT'', ''deliverableRoot''),
     (''WT_DELIVERABLE_DEFAULT_MODE'', ''deliverableDefaultMode''),
     (''WT_DELIVERABLE_BRANCH_PREFIX'', ''deliverableBranchPrefix''),
     (''WT_SECRET_SCAN_PATTERNS_FILE'', ''secretScanPatternsFile''),
     (''WT_REMOTE_ALLOWED_IPS'', ''remoteAllowedIps''),
     (''WT_AUTH_TOKEN_DEFAULT_TTL_SECONDS'', ''authTokenDefaultTtlSeconds''),
     (''WT_OPERATOR_SESSION_PATH'', ''operatorSessionPath'')]"

definition apply_variable :: "(string \<Rightarrow> string option) \<Rightarrow> string \<times> string \<Rightarrow> WtConfig \<Rightarrow> WtConfig" where
  "apply_variable getenv entry c =
     (case getenv (fst entry) of
        None \<Rightarrow> c
      | Some v \<Rightarrow> (case wtConfigSetValue c (snd entry) v of Some c' \<Rightarrow> c' | None \<Rightarrow> c))"

definition wtConfigApplyEnvironment :: "(string \<Rightarrow> string option) \<Rightarrow> WtConfig \<Rightarrow> WtConfig" where
  "wtConfigApplyEnvironment getenv c = fold (apply_variable getenv) environment_keys c"

section \<open>What the fields can hold\<close>

definition config_fits :: "WtConfig \<Rightarrow> bool" where
  "config_fits c \<longleftrightarrow>
     length (configPath c) < 256 \<and>
     length (configRoomName c) < 64 \<and>
     length (roomLogPath c) < 256 \<and>
     length (taskLedgerPath c) < 256 \<and>
     length (taskProjectionDbPath c) < 256 \<and>
     length (httpBindAddress c) < 64 \<and>
     is_int32 (httpPort c) \<and>
     is_int32 (contextMessageCount c) \<and>
     is_int32 (agentPollMilliseconds c) \<and>
     is_int32 (adapterTimeoutSeconds c) \<and>
     is_int32 (adapterMaxOutputBytes c) \<and>
     is_int32 (maxActiveTasksPerAgent c) \<and>
     is_int32 (maxSubtasksPerParent c) \<and>
     is_int32 (maxTasksPerInitiative c) \<and>
     is_long (tokenDailyBudget c) \<and>
     is_long (tokenMonthlyBudget c) \<and>
     is_int32 (tokenWarningPercent c) \<and>
     is_int32 (tokenCostPerMillionCents c) \<and>
     length (runtimeRootPath c) < 256 \<and>
     length (claudeMode c) < 64 \<and>
     length (chatgptMode c) < 64 \<and>
     length (geminiMode c) < 64 \<and>
     length (claudeCommand c) < 256 \<and>
     length (gptCommand c) < 256 \<and>
     length (geminiCommand c) < 256 \<and>
     length (blockedVendors c) < 256 \<and>
     is_long (tokenBudgetPerInitiative c) \<and>
     is_long (tokenBudgetPerModelFamily c) \<and>
     is_int32 (heartbeatIntervalSeconds c) \<and>
     is_int32 (leaseRenewalIntervalSeconds c) \<and>
     is_int32 (leaseDurationSeconds c) \<and>
     is_int32 (cancelPollIntervalSeconds c) \<and>
     length (slackWebhookFile c) < 256 \<and>
     length (notificationEscalateKey c) < 64 \<and>
     length (notificationStuckKey c) < 64 \<and>
     length (defaultAutonomyLevel c) < 64 \<and>
     length (claudeDefaultAutonomyLevel c) < 64 \<and>
     length (chatgptDefaultAutonomyLevel c) < 64 \<and>
     length (geminiDefaultAutonomyLevel c) < 64 \<and>
     length (deliverableRoot c) < 256 \<and>
     length (deliverableDefaultMode c) < 64 \<and>
     length (deliverableBranchPrefix c) < 64 \<and>
     length (secretScanPatternsFile c) < 256 \<and>
     length (remoteAllowedIps c) < 256 \<and>
     is_int32 (authTokenDefaultTtlSeconds c) \<and>
     length (operatorSessionPath c) < 256"

lemma wtConfigSetValue_keys:
  "wtConfigSetValue c ''roomName'' v = Some (c \<lparr> configRoomName := copyString WT_NAME_SIZE v \<rparr>)"
  "wtConfigSetValue c ''roomLogPath'' v = Some (c \<lparr> roomLogPath := copyString WT_PATH_SIZE v \<rparr>)"
  "wtConfigSetValue c ''taskLedgerPath'' v = Some (c \<lparr> taskLedgerPath := copyString WT_PATH_SIZE v \<rparr>)"
  "wtConfigSetValue c ''taskProjectionDbPath'' v = Some (c \<lparr> taskProjectionDbPath := copyString WT_PATH_SIZE v \<rparr>)"
  "wtConfigSetValue c ''httpBindAddress'' v = Some (c \<lparr> httpBindAddress := copyString WT_NAME_SIZE v \<rparr>)"
  "wtConfigSetValue c ''httpPort'' v = Some (c \<lparr> httpPort := atoi v \<rparr>)"
  "wtConfigSetValue c ''contextMessageCount'' v = Some (c \<lparr> contextMessageCount := atoi v \<rparr>)"
  "wtConfigSetValue c ''agentPollMilliseconds'' v = Some (c \<lparr> agentPollMilliseconds := atoi v \<rparr>)"
  "wtConfigSetValue c ''adapterTimeoutSeconds'' v = Some (c \<lparr> adapterTimeoutSeconds := atoi v \<rparr>)"
  "wtConfigSetValue c ''adapterMaxOutputBytes'' v = Some (c \<lparr> adapterMaxOutputBytes := atoi v \<rparr>)"
  "wtConfigSetValue c ''maxActiveTasksPerAgent'' v = Some (c \<lparr> maxActiveTasksPerAgent := atoi v \<rparr>)"
  "wtConfigSetValue c ''maxSubtasksPerParent'' v = Some (c \<lparr> maxSubtasksPerParent := atoi v \<rparr>)"
  "wtConfigSetValue c ''maxTasksPerInitiative'' v = Some (c \<lparr> maxTasksPerInitiative := atoi v \<rparr>)"
  "wtConfigSetValue c ''fsyncEachMessage'' v = Some (c \<lparr> fsyncEachMessage := atoi v \<noteq> 0 \<rparr>)"
  "wtConfigSetValue c ''roleRoutingEnabled'' v = Some (c \<lparr> roleRoutingEnabled := atoi v \<noteq> 0 \<rparr>)"
  "wtConfigSetValue c ''enableCodexAdapter'' v = Some (c \<lparr> enableCodexAdapter := atoi v \<noteq> 0 \<rparr>)"
  "wtConfigSetValue c ''enableClaudeAdapter'' v = Some (c \<lparr> enableClaudeAdapter := atoi v \<noteq> 0 \<rparr>)"
  "wtConfigSetValue c ''enableGeminiAdapter'' v = Some (c \<lparr> enableGeminiAdapter := atoi v \<noteq> 0 \<rparr>)"
  "wtConfigSetValue c ''tokenTelemetryEnabled'' v = Some (c \<lparr> tokenTelemetryEnabled := atoi v \<noteq> 0 \<rparr>)"
  "wtConfigSetValue c ''tokenDailyBudget'' v = Some (c \<lparr> tokenDailyBudget := atol v \<rparr>)"
  "wtConfigSetValue c ''tokenMonthlyBudget'' v = Some (c \<lparr> tokenMonthlyBudget := atol v \<rparr>)"
  "wtConfigSetValue c ''tokenWarningPercent'' v = Some (c \<lparr> tokenWarningPercent := atoi v \<rparr>)"
  "wtConfigSetValue c ''tokenCostPerMillionCents'' v = Some (c \<lparr> tokenCostPerMillionCents := atoi v \<rparr>)"
  "wtConfigSetValue c ''runtimeRootPath'' v = Some (c \<lparr> runtimeRootPath := copyString WT_PATH_SIZE v \<rparr>)"
  "wtConfigSetValue c ''claudeMode'' v = Some (c \<lparr> claudeMode := copyString WT_NAME_SIZE v \<rparr>)"
  "wtConfigSetValue c ''chatgptMode'' v = Some (c \<lparr> chatgptMode := copyString WT_NAME_SIZE v \<rparr>)"
  "wtConfigSetValue c ''geminiMode'' v = Some (c \<lparr> geminiMode := copyString WT_NAME_SIZE v \<rparr>)"
  "wtConfigSetValue c ''claudeCommand'' v = Some (c \<lparr> claudeCommand := copyString WT_PATH_SIZE v \<rparr>)"
  "wtConfigSetValue c ''gptCommand'' v = Some (c \<lparr> gptCommand := copyString WT_PATH_SIZE v \<rparr>)"
  "wtConfigSetValue c ''geminiCommand'' v = Some (c \<lparr> geminiCommand := copyString WT_PATH_SIZE v \<rparr>)"
  "wtConfigSetValue c ''blockedVendors'' v = Some (c \<lparr> blockedVendors := copyString WT_PATH_SIZE v \<rparr>)"
  "wtConfigSetValue c ''tokenBudgetPerInitiative'' v = Some (c \<lparr> tokenBudgetPerInitiative := atol v \<rparr>)"
  "wtConfigSetValue c ''tokenBudgetPerModelFamily'' v = Some (c \<lparr> tokenBudgetPerModelFamily := atol v \<rparr>)"
  "wtConfigSetValue c ''heartbeatIntervalSeconds'' v = Some (c \<lparr> heartbeatIntervalSeconds := atoi v \<rparr>)"
  "wtConfigSetValue c ''leaseRenewalIntervalSeconds'' v = Some (c \<lparr> leaseRenewalIntervalSeconds := atoi v \<rparr>)"
  "wtConfigSetValue c ''leaseDurationSeconds'' v = Some (c \<lparr> leaseDurationSeconds := atoi v \<rparr>)"
  "wtConfigSetValue c ''cancelPollIntervalSeconds'' v = Some (c \<lparr> cancelPollIntervalSeconds := atoi v \<rparr>)"
  "wtConfigSetValue c ''slackWebhookFile'' v = Some (c \<lparr> slackWebhookFile := copyString WT_PATH_SIZE v \<rparr>)"
  "wtConfigSetValue c ''notificationEscalateKey'' v = Some (c \<lparr> notificationEscalateKey := copyString WT_NAME_SIZE v \<rparr>)"
  "wtConfigSetValue c ''notificationStuckKey'' v = Some (c \<lparr> notificationStuckKey := copyString WT_NAME_SIZE v \<rparr>)"
  "wtConfigSetValue c ''defaultAutonomyLevel'' v = Some (c \<lparr> defaultAutonomyLevel := copyString WT_NAME_SIZE v \<rparr>)"
  "wtConfigSetValue c ''claudeDefaultAutonomyLevel'' v = Some (c \<lparr> claudeDefaultAutonomyLevel := copyString WT_NAME_SIZE v \<rparr>)"
  "wtConfigSetValue c ''chatgptDefaultAutonomyLevel'' v = Some (c \<lparr> chatgptDefaultAutonomyLevel := copyString WT_NAME_SIZE v \<rparr>)"
  "wtConfigSetValue c ''geminiDefaultAutonomyLevel'' v = Some (c \<lparr> geminiDefaultAutonomyLevel := copyString WT_NAME_SIZE v \<rparr>)"
  "wtConfigSetValue c ''deliverableRoot'' v = Some (c \<lparr> deliverableRoot := copyString WT_PATH_SIZE v \<rparr>)"
  "wtConfigSetValue c ''deliverableDefaultMode'' v = Some (c \<lparr> deliverableDefaultMode := copyString WT_NAME_SIZE v \<rparr>)"
  "wtConfigSetValue c ''deliverableBranchPrefix'' v = Some (c \<lparr> deliverableBranchPrefix := copyString WT_NAME_SIZE v \<rparr>)"
  "wtConfigSetValue c ''secretScanPatternsFile'' v = Some (c \<lparr> secretScanPatternsFile := copyString WT_PATH_SIZE v \<rparr>)"
  "wtConfigSetValue c ''remoteAllowedIps'' v = Some (c \<lparr> remoteAllowedIps := copyString WT_PATH_SIZE v \<rparr>)"
  "wtConfigSetValue c ''authTokenDefaultTtlSeconds'' v = Some (c \<lparr> authTokenDefaultTtlSeconds := atoi v \<rparr>)"
  "wtConfigSetValue c ''operatorSessionPath'' v = Some (c \<lparr> operatorSessionPath := copyString WT_PATH_SIZE v \<rparr>)"
  by (simp_all add: wtConfigSetValue_def)

end
