(* ===== verification/Config_Facts.thy ===== *)
theory Config_Facts
  imports Config
begin

text \<open>
  Facts about the configuration: no operation stores more than a field can hold, and a
  configuration written to a file and loaded again is the same configuration.
\<close>

text \<open>The setter never stores more than a field can hold.\<close>

lemma length_copyString: "0 < n \<Longrightarrow> length (copyString n v) < n"
  by (simp add: copyString_def length_snprintf_s)

lemma copyString_id [simp]: "length v < n \<Longrightarrow> copyString n v = v"
  by (simp add: copyString_def)

lemma is_long_atol [simp]: "is_long (atol v)"
  by (auto simp: atol_def is_long_def c_int_defs dest: strtol_is_long split: option.split)

lemma is_int32_atoi [simp]: "is_int32 (atoi v)"
  by (simp add: atoi_def)

lemma copyString_fits [simp]:
  "length (copyString WT_PATH_SIZE v) < 256" "length (copyString WT_NAME_SIZE v) < 64"
  using length_copyString [of 256 v] length_copyString [of 64 v]
  by (simp_all add: WT_PATH_SIZE_def WT_NAME_SIZE_def)

lemma config_fits_set:
  assumes "config_fits c"
  shows
    "config_fits (c \<lparr> configRoomName := copyString WT_NAME_SIZE v \<rparr>)"
    "config_fits (c \<lparr> roomLogPath := copyString WT_PATH_SIZE v \<rparr>)"
    "config_fits (c \<lparr> taskLedgerPath := copyString WT_PATH_SIZE v \<rparr>)"
    "config_fits (c \<lparr> taskProjectionDbPath := copyString WT_PATH_SIZE v \<rparr>)"
    "config_fits (c \<lparr> httpBindAddress := copyString WT_NAME_SIZE v \<rparr>)"
    "config_fits (c \<lparr> httpPort := atoi v \<rparr>)"
    "config_fits (c \<lparr> contextMessageCount := atoi v \<rparr>)"
    "config_fits (c \<lparr> agentPollMilliseconds := atoi v \<rparr>)"
    "config_fits (c \<lparr> adapterTimeoutSeconds := atoi v \<rparr>)"
    "config_fits (c \<lparr> adapterMaxOutputBytes := atoi v \<rparr>)"
    "config_fits (c \<lparr> maxActiveTasksPerAgent := atoi v \<rparr>)"
    "config_fits (c \<lparr> maxSubtasksPerParent := atoi v \<rparr>)"
    "config_fits (c \<lparr> maxTasksPerInitiative := atoi v \<rparr>)"
    "config_fits (c \<lparr> fsyncEachMessage := atoi v \<noteq> 0 \<rparr>)"
    "config_fits (c \<lparr> roleRoutingEnabled := atoi v \<noteq> 0 \<rparr>)"
    "config_fits (c \<lparr> enableCodexAdapter := atoi v \<noteq> 0 \<rparr>)"
    "config_fits (c \<lparr> enableClaudeAdapter := atoi v \<noteq> 0 \<rparr>)"
    "config_fits (c \<lparr> enableGeminiAdapter := atoi v \<noteq> 0 \<rparr>)"
    "config_fits (c \<lparr> tokenTelemetryEnabled := atoi v \<noteq> 0 \<rparr>)"
    "config_fits (c \<lparr> tokenDailyBudget := atol v \<rparr>)"
    "config_fits (c \<lparr> tokenMonthlyBudget := atol v \<rparr>)"
    "config_fits (c \<lparr> tokenWarningPercent := atoi v \<rparr>)"
    "config_fits (c \<lparr> tokenCostPerMillionCents := atoi v \<rparr>)"
    "config_fits (c \<lparr> runtimeRootPath := copyString WT_PATH_SIZE v \<rparr>)"
    "config_fits (c \<lparr> claudeMode := copyString WT_NAME_SIZE v \<rparr>)"
    "config_fits (c \<lparr> chatgptMode := copyString WT_NAME_SIZE v \<rparr>)"
    "config_fits (c \<lparr> geminiMode := copyString WT_NAME_SIZE v \<rparr>)"
    "config_fits (c \<lparr> claudeCommand := copyString WT_PATH_SIZE v \<rparr>)"
    "config_fits (c \<lparr> gptCommand := copyString WT_PATH_SIZE v \<rparr>)"
    "config_fits (c \<lparr> geminiCommand := copyString WT_PATH_SIZE v \<rparr>)"
    "config_fits (c \<lparr> blockedVendors := copyString WT_PATH_SIZE v \<rparr>)"
    "config_fits (c \<lparr> tokenBudgetPerInitiative := atol v \<rparr>)"
    "config_fits (c \<lparr> tokenBudgetPerModelFamily := atol v \<rparr>)"
    "config_fits (c \<lparr> heartbeatIntervalSeconds := atoi v \<rparr>)"
    "config_fits (c \<lparr> leaseRenewalIntervalSeconds := atoi v \<rparr>)"
    "config_fits (c \<lparr> leaseDurationSeconds := atoi v \<rparr>)"
    "config_fits (c \<lparr> cancelPollIntervalSeconds := atoi v \<rparr>)"
    "config_fits (c \<lparr> slackWebhookFile := copyString WT_PATH_SIZE v \<rparr>)"
    "config_fits (c \<lparr> notificationEscalateKey := copyString WT_NAME_SIZE v \<rparr>)"
    "config_fits (c \<lparr> notificationStuckKey := copyString WT_NAME_SIZE v \<rparr>)"
    "config_fits (c \<lparr> defaultAutonomyLevel := copyString WT_NAME_SIZE v \<rparr>)"
    "config_fits (c \<lparr> claudeDefaultAutonomyLevel := copyString WT_NAME_SIZE v \<rparr>)"
    "config_fits (c \<lparr> chatgptDefaultAutonomyLevel := copyString WT_NAME_SIZE v \<rparr>)"
    "config_fits (c \<lparr> geminiDefaultAutonomyLevel := copyString WT_NAME_SIZE v \<rparr>)"
    "config_fits (c \<lparr> deliverableRoot := copyString WT_PATH_SIZE v \<rparr>)"
    "config_fits (c \<lparr> deliverableDefaultMode := copyString WT_NAME_SIZE v \<rparr>)"
    "config_fits (c \<lparr> deliverableBranchPrefix := copyString WT_NAME_SIZE v \<rparr>)"
    "config_fits (c \<lparr> secretScanPatternsFile := copyString WT_PATH_SIZE v \<rparr>)"
    "config_fits (c \<lparr> remoteAllowedIps := copyString WT_PATH_SIZE v \<rparr>)"
    "config_fits (c \<lparr> authTokenDefaultTtlSeconds := atoi v \<rparr>)"
    "config_fits (c \<lparr> operatorSessionPath := copyString WT_PATH_SIZE v \<rparr>)"
  using assms by (simp_all add: config_fits_def)

lemma wtConfigSetValue_fits:
  assumes "config_fits c" "wtConfigSetValue c key v = Some c'"
  shows "config_fits c'"
proof -
  note fits = config_fits_set [OF assms(1), of v]
  have "wtConfigSetValue c key v = None \<or> config_fits (the (wtConfigSetValue c key v))"
    unfolding wtConfigSetValue_def by (simp add: fits)
  with assms(2) show ?thesis by simp
qed

section \<open>Reading back what was written\<close>

text \<open>A value that survives the line format: one line, no white space at its ends.\<close>

definition clean_value :: "string \<Rightarrow> bool" where
  "clean_value v \<longleftrightarrow> c_string v \<and> NL \<notin> set v \<and> length v < 256 \<and>
     (v = [] \<or> \<not> is_space (hd v) \<and> \<not> is_space (last v))"

definition set_entry :: "string \<times> string \<Rightarrow> WtConfig \<Rightarrow> WtConfig" where
  "set_entry e c = (case wtConfigSetValue c (fst e) (snd e) of Some c' \<Rightarrow> c' | None \<Rightarrow> c)"

definition entry_ok :: "string \<times> string \<Rightarrow> bool" where
  "entry_ok e \<longleftrightarrow> fst e \<noteq> [] \<and> length (fst e) < 100 \<and> list_all is_alnum (fst e) \<and> clean_value (snd e)"

lemma trim_clean:
  assumes "s \<noteq> []" "\<not> is_space (hd s)" "\<not> is_space (last s)"
  shows "trimWhitespace (s @ [NL]) = s" "trimWhitespace s = s"
proof -
  obtain c cs where s: "s = c # cs" using assms(1) by (cases s) auto
  have "skip_space (s @ [NL]) = s @ [NL]" "skip_space s = s"
    using s assms(2) by (simp_all add: skip_space_simps)
  moreover have "trim_end is_space (s @ [NL]) = trim_end is_space s"
    by (simp add: trim_end_def is_space_def)
  moreover have "trim_end is_space s = s"
    using assms by (simp add: trim_end_idle)
  ultimately show "trimWhitespace (s @ [NL]) = s" "trimWhitespace s = s"
    by (simp_all add: trimWhitespace_def)
qed

lemma trim_empty: "trimWhitespace [] = []"
  by (simp add: trimWhitespace_def skip_space_def trim_end_def)

lemma load_write_entry:
  assumes "entry_ok e"
  shows "load_line (write_entry e) c = set_entry e c"
proof -
  obtain k v where e: "e = (k, v)" by (cases e)
  have k: "k \<noteq> []" "\<forall>x \<in> set k. is_alnum x" and v: "clean_value v"
    using assms by (auto simp: e entry_ok_def list_all_iff)
  have hd: "is_alnum (hd k)" and lst: "is_alnum (last k)" using k by auto
  have eq: "CHR ''='' \<notin> set k"
  proof
    assume "CHR ''='' \<in> set k"
    with k(2) have "is_alnum (CHR ''='')" by blast
    then show False by (simp add: is_alnum_def is_digit_def)
  qed
  let ?s = "k @ CHR ''='' # v"
  have "\<not> is_space (last ?s)"
    using v by (cases "v = []") (auto simp: clean_value_def is_space_def)
  moreover have "\<not> is_space (hd ?s)" using k(1) hd is_alnum_plain(5) by simp
  ultimately have t: "trimWhitespace (write_entry e) = ?s"
    using trim_clean(1) [of ?s] by (simp add: write_entry_def e)
  have "hd k \<noteq> CHR ''#''"
    using hd by (auto simp: is_alnum_def is_digit_def)
  then have hash: "hd ?s \<noteq> CHR ''#''" using k(1) by simp
  have chr: "strchr (k @ CHR ''='' # v) (CHR ''='') = Some (CHR ''='' # v)"
    using eq by (induction k) auto
  have tk: "takeWhile (\<lambda>x. x \<noteq> CHR ''='') ?s = k"
    using eq by (induction k) auto
  have "trimWhitespace k = k"
    using trim_clean(2) [of k] k(1) hd lst is_alnum_plain(5) by blast
  moreover have "trimWhitespace v = v"
    using trim_clean(2) [of v] v trim_empty by (cases "v = []") (auto simp: clean_value_def)
  ultimately show ?thesis
    using t hash chr tk k(1) by (simp add: load_line_def Let_def set_entry_def e)
qed

lemma entry_record:
  assumes "entry_ok e"
  shows "file_lines 512 (write_entry e) = [write_entry e]"
proof -
  have k: "\<forall>x \<in> set (fst e). is_alnum x" and v: "clean_value (snd e)" and l: "length (fst e) < 100"
    using assms by (auto simp: entry_ok_def list_all_iff)
  have "NL \<notin> set (fst e)" "NUL \<notin> set (fst e)"
    using k is_alnum_plain(3,4) by blast+
  with v l show ?thesis
    using file_lines_record [of "fst e @ ''='' @ snd e" 512]
    by (simp add: write_entry_def clean_value_def c_string_def)
qed

lemma entries_lines:
  assumes "list_all entry_ok es"
  shows "file_lines 512 (concat (map write_entry es)) = map write_entry es"
  using assms
proof (induction es)
  case (Cons e es)
  have "clean_tail (write_entry e)" by (simp add: write_entry_def clean_tail_def)
  with Cons show ?case by (simp add: file_lines_append entry_record)
qed simp

lemma load_entries:
  assumes "list_all entry_ok es"
  shows "fold load_line (map write_entry es) c = fold set_entry es c"
  using assms by (induction es arbitrary: c) (simp_all add: load_write_entry)

lemma atol_show_int [simp]: "is_long v \<Longrightarrow> atol (show_int v) = v"
  using strtol_show_int [of "[]" v] by (simp add: atol_def)

lemma atoi_show_int [simp]: "is_int32 v \<Longrightarrow> atoi (show_int v) = v"
  by (simp add: atoi_def is_int32_is_long)

lemma atoi_flag_text [simp]: "atoi (flag_text b) \<noteq> 0 \<longleftrightarrow> b"
  by (simp add: flag_text_def atoi_def atol_def strtol_def strtol_digits_def skip_space_simps is_space_def
      is_digit_def digit_value_def clamp64_def LONG_MAX_def LONG_MIN_def to_int32_def)

lemma set_entries_restore:
  assumes "config_fits c"
  shows "fold set_entry (config_entries c) c0 = c \<lparr> configPath := configPath c0 \<rparr>"
proof -
  note fits = assms [unfolded config_fits_def]
  show ?thesis
    using fits
    by (cases c; cases c0)
      (simp add: config_entries_def set_entry_def wtConfigSetValue_keys WT_PATH_SIZE_def WT_NAME_SIZE_def)
qed

lemma load_write_config:
  assumes "list_all entry_ok es" and "fs path = Some (concat (map write_entry es))" and "length path < 256"
  shows "wtConfigLoadFile fs c0 path = Some (fold set_entry es (c0 \<lparr> configPath := path \<rparr>))"
  using assms by (simp add: wtConfigLoadFile_def Let_def WT_PATH_SIZE_def entries_lines load_entries)

lemma config_keys_ok:
  "list_all (\<lambda>e. clean_value (snd e)) (config_entries c) \<Longrightarrow> list_all entry_ok (config_entries c)"
  by (simp add: config_entries_def entry_ok_def is_alnum_def is_digit_def)

lemma default_entries_clean: "list_all (\<lambda>e. clean_value (snd e)) (config_entries wtConfigInitDefaults)"
  by (simp add: config_entries_def wtConfigInitDefaults_def clean_value_def is_space_def
      show_int_def show_nat.simps digit_char_def char_of_def bit_0 flag_text_def)

lemma defaults_fit: "config_fits wtConfigInitDefaults"
  by (simp add: config_fits_def wtConfigInitDefaults_def c_int_defs)

section \<open>Properties\<close>

text \<open>
  C26. Writing a configuration and loading the file into any other configuration gives the first one
  back (with the path it was loaded from), all 51 settings: provided the values are one line
  without white space at their ends, as the line format needs.
\<close>

theorem config_round_trip:
  assumes "config_fits c" and "list_all (\<lambda>e. clean_value (snd e)) (config_entries c)"
    and "length path < 256" and "wtConfigWriteFile fault c path fs = (True, fs')"
  shows "wtConfigLoadFile fs' c0 path = Some (c \<lparr> configPath := path \<rparr>)"
proof -
  have "fs' path = Some (concat (map write_entry (config_entries c)))"
    using assms(4) by (auto simp: wtConfigWriteFile_def Let_def split: if_splits io_fault.splits)
  from load_write_config [of "config_entries c" fs' path, OF config_keys_ok [OF assms(2)] this assms(3)] set_entries_restore [OF assms(1)]
  show ?thesis by simp
qed

theorem config_round_trip_witness:
  "wtConfigLoadFile (snd (wtConfigWriteFile NoFault wtConfigInitDefaults ''wt.conf'' (\<lambda>_. None)))
     (wtConfigInitDefaults \<lparr> httpPort := 1 \<rparr>) ''wt.conf'' = Some (wtConfigInitDefaults \<lparr> configPath := ''wt.conf'' \<rparr>)"
  by (rule config_round_trip [OF defaults_fit default_entries_clean, where fault = NoFault and fs = "\<lambda>_. None"])
    (simp_all add: wtConfigWriteFile_def Let_def)

text \<open>
  Whatever a configuration file and the environment contain, loading them over the defaults
  keeps every string within its buffer and every number within its C type.
\<close>

theorem config_stays_in_bounds:
  assumes "wtConfigLoadFile fs wtConfigInitDefaults path = Some c"
  shows "config_fits (wtConfigApplyEnvironment getenv c)"
proof -
  have line: "config_fits c \<Longrightarrow> config_fits (load_line l c)" for c l
    by (auto simp: load_line_def Let_def split: option.split intro: wtConfigSetValue_fits)
  have lines: "config_fits c \<Longrightarrow> config_fits (fold load_line ls c)" for c ls
    by (induction ls arbitrary: c) (simp_all add: line)
  have var: "config_fits c \<Longrightarrow> config_fits (apply_variable getenv e c)" for c e
    by (auto simp: apply_variable_def split: option.split intro: wtConfigSetValue_fits)
  have vars: "config_fits c \<Longrightarrow> config_fits (fold (apply_variable getenv) es c)" for c es
    by (induction es arbitrary: c) (simp_all add: var)
  have path: "config_fits (c \<lparr> configPath := copyString WT_PATH_SIZE q \<rparr>)" if "config_fits c" for c q
    using that by (simp add: config_fits_def)
  show ?thesis
    using assms lines [OF path [OF defaults_fit]] vars
    by (auto simp: wtConfigLoadFile_def Let_def wtConfigApplyEnvironment_def split: option.splits)
qed

theorem config_stays_in_bounds_witness:
  "config_fits (wtConfigApplyEnvironment (\<lambda>_. Some ''99999999999999999999'')
     (wtConfigInitDefaults \<lparr> configPath := ''c'' \<rparr>))"
  by (rule config_stays_in_bounds [of "\<lambda>_. Some []" "''c''"])
    (simp add: wtConfigLoadFile_def WT_PATH_SIZE_def)

text \<open>
  (A defect.) The writer does not escape a newline inside a value, so a string setting can smuggle
  in another key that was written before it: a \<open>claudeMode\<close> of \<^verbatim>\<open>stub\nhttpPort=1\<close>, written and
  loaded again, changes the port.
\<close>

theorem config_newline_injection:
  "map_option httpPort (wtConfigLoadFile (snd (wtConfigWriteFile NoFault
       (wtConfigInitDefaults \<lparr> claudeMode := ''stub'' @ NL # ''httpPort=1'' \<rparr>) ''wt.conf'' (\<lambda>_. None)))
     wtConfigInitDefaults ''wt.conf'') = Some 1"
proof -
  let ?c = "wtConfigInitDefaults \<lparr> claudeMode := ''stub'' @ NL # ''httpPort=1'' \<rparr>"
  let ?es = "config_entries wtConfigInitDefaults"
  define pre where "pre = take 24 ?es"
  define post where "post = drop 25 ?es"
  have es: "?es = pre @ (''claudeMode'', ''stub'') # post"
    by (simp add: pre_def post_def config_entries_def wtConfigInitDefaults_def)
  have "config_entries ?c = pre @ (''claudeMode'', ''stub'' @ NL # ''httpPort=1'') # post"
    by (simp add: pre_def post_def config_entries_def)
  then have content: "concat (map write_entry (config_entries ?c)) =
      concat (map write_entry (pre @ [(''claudeMode'', ''stub''), (''httpPort'', ''1'')] @ post))"
    by (simp add: write_entry_def)
  have ok: "list_all entry_ok (pre @ [(''claudeMode'', ''stub''), (''httpPort'', ''1'')] @ post)"
    using config_keys_ok [OF default_entries_clean] unfolding es
    by (simp add: entry_ok_def clean_value_def is_space_def is_alnum_def is_digit_def)
  have post: "httpPort (fold set_entry post c) = httpPort c" for c
    by (simp add: post_def config_entries_def set_entry_def wtConfigSetValue_keys)
  show ?thesis
    using load_write_config [OF ok, of "snd (wtConfigWriteFile NoFault ?c ''wt.conf'' (\<lambda>_. None))" "''wt.conf''"] content
    by (simp add: wtConfigWriteFile_def Let_def post set_entry_def wtConfigSetValue_keys
        atoi_def atol_def strtol_def strtol_digits_def skip_space_simps is_space_def
        is_digit_def digit_value_def clamp64_def LONG_MAX_def LONG_MIN_def to_int32_def)
qed

end
