(* ===== verification/Policy.thy ===== *)
theory Policy
  imports Config
begin

text \<open>
  The central policy evaluator, \<^verbatim>\<open>src/src/wt_policy.c\<close>: a pure function from the configuration and
  the pre-computed totals of a proposed task to one classified decision.

  The input's string pointers are strings; a null pointer behaves like the empty string in every
  condition of the evaluator. Sums and products that the C code computes in \<open>long long\<close> are wrapped
  with \<open>sll\<close>.
\<close>

record WtPolicyDecision =
  dec_allowed :: bool
  dec_reason :: string
  dec_message :: string

record WtPolicyInput =
  in_taskId :: string
  in_assignedRole :: string
  in_assignedAgent :: string
  in_modelId :: string
  in_toolProfile :: string
  in_initiativeId :: string
  in_autonomyLevel :: string
  in_autonomyScope :: string
  in_autonomyNetwork :: string
  in_autonomyCredentialClass :: string
  in_autonomyTtlSeconds :: int
  in_autonomyMaxWallClockSeconds :: int
  in_autonomyRequiresCleanWorktree :: bool
  in_autonomyCreatedAtUnixMs :: int
  in_autonomyRevokedAtUnixMs :: int
  in_maxTokens :: int
  in_nowUnixMs :: int
  in_dayWindowAllocatedTokens :: int
  in_monthWindowAllocatedTokens :: int
  in_initiativeAllocatedTokens :: int
  in_modelFamilyAllocatedTokens :: int
  in_activeTasksForAgent :: int
  in_activeTasksForInitiative :: int

definition WT_POLICY_REASON_SIZE :: nat where "WT_POLICY_REASON_SIZE = 48"
definition WT_POLICY_MESSAGE_SIZE :: nat where "WT_POLICY_MESSAGE_SIZE = 256"

section \<open>The pieces\<close>

text \<open>The part of a model id before its first slash, cut to the buffer; \<open>None\<close> is -1.\<close>

definition wtPolicyExtractModelFamily :: "string \<Rightarrow> nat \<Rightarrow> string option" where
  "wtPolicyExtractModelFamily modelId bufferSize =
     (if bufferSize = 0 then None
      else case strchr modelId (CHR ''/'') of
        None \<Rightarrow> None
      | Some slash \<Rightarrow>
          (let len = length modelId - length slash in
           if len = 0 then None
           else Some (take (if len \<ge> bufferSize then bufferSize - 1 else len) modelId)))"

text \<open>The walk over the comma-separated list, one token per round.\<close>

function vendor_walk :: "string \<Rightarrow> string \<Rightarrow> bool" where
  "vendor_walk cursor modelFamily =
     (let start = dropWhile (\<lambda>c. is_blank c \<or> c = CHR '','') cursor in
      if start = [] then False
      else (let token = trim_end is_blank (takeWhile (\<lambda>c. c \<noteq> CHR '','') start) in
            if token = modelFamily then True
            else vendor_walk (dropWhile (\<lambda>c. c \<noteq> CHR '','') start) modelFamily))"
  by pat_completeness auto
termination
proof (relation "measure (\<lambda>(s, f). length s)", goal_cases)
  case (2 cursor modelFamily start token)
  have le: "length start \<le> length cursor" unfolding 2(1) by (rule length_dropWhile_le)
  obtain c cs where c: "start = c # cs" using 2(2) by (cases start) auto
  have "\<not> (is_blank (hd start) \<or> hd start = CHR '','')"
    using hd_dropWhile [of "\<lambda>c. is_blank c \<or> c = CHR '','' " cursor] 2(1,2) by metis
  with c have "dropWhile (\<lambda>c. c \<noteq> CHR '','') start = dropWhile (\<lambda>c. c \<noteq> CHR '','') cs" by simp
  moreover have "length (dropWhile (\<lambda>c. c \<noteq> CHR '','') cs) \<le> length cs" by (rule length_dropWhile_le)
  ultimately have "length (dropWhile (\<lambda>c. c \<noteq> CHR '','') start) < length cursor"
    using le c by simp
  then show ?case by simp
qed simp

declare vendor_walk.simps [simp del]

definition wtPolicyVendorIsBlocked :: "string \<Rightarrow> string \<Rightarrow> bool" where
  "wtPolicyVendorIsBlocked blocked modelFamily =
     (if blocked = [] \<or> modelFamily = [] then False else vendor_walk blocked modelFamily)"

definition modelMatchesAgentLocal :: "string \<Rightarrow> string \<Rightarrow> bool" where
  "modelMatchesAgentLocal agent modelFamily =
     (if modelFamily = [] then True
      else if agent = ''claude'' then modelFamily = ''anthropic''
      else if agent = ''gemini'' then modelFamily = ''google''
      else if agent = ''chatgpt'' then modelFamily = ''openai''
      else True)"

definition setDecision :: "bool \<Rightarrow> string \<Rightarrow> string \<Rightarrow> WtPolicyDecision" where
  "setDecision ok why detail = \<lparr> dec_allowed = ok, dec_reason = snprintf_s WT_POLICY_REASON_SIZE why,
     dec_message = snprintf_s WT_POLICY_MESSAGE_SIZE detail \<rparr>"

definition autonomyLevelIsValid :: "string \<Rightarrow> bool" where
  "autonomyLevelIsValid level \<longleftrightarrow>
     level = ''observe'' \<or> level = ''ask-each'' \<or> level = ''ask-batch'' \<or> level = ''autonomous''"

definition autonomyScopeCoversAdapter :: "string \<Rightarrow> bool" where
  "autonomyScopeCoversAdapter scope =
     (if scope = [] then False
      else strstr scope ''workspace'' \<noteq> None \<or> strstr scope ''adapter'' \<noteq> None \<or> strstr scope ''*'' \<noteq> None)"

section \<open>The evaluator\<close>

text \<open>
  The four stages of \<open>wtPolicyEvaluateTaskPackage\<close>, in its order. Each gives the denial it returns
  with, or \<open>None\<close> when control falls through to the next stage.
\<close>

definition deny :: "string \<Rightarrow> string \<Rightarrow> WtPolicyDecision option" where
  "deny why detail = Some (setDecision False why detail)"

definition check_autonomy :: "WtPolicyInput \<Rightarrow> WtPolicyDecision option" where
  "check_autonomy i =
     (if in_autonomyLevel i = [] then None
      else if \<not> autonomyLevelIsValid (in_autonomyLevel i) then deny ''autonomy_required'' ''unknown autonomyLevel''
      else if in_autonomyLevel i \<noteq> ''autonomous'' then None
      else if in_autonomyRevokedAtUnixMs i > 0 then deny ''autonomy_revoked'' ''autonomy grant was revoked''
      else if in_autonomyTtlSeconds i \<le> 0 \<or> \<not> autonomyScopeCoversAdapter (in_autonomyScope i) then
        deny ''autonomy_required'' ''autonomous tasks require a positive ttlSeconds and adapter/workspace scope''
      else (let grantStart = (if in_autonomyCreatedAtUnixMs i > 0 then in_autonomyCreatedAtUnixMs i else in_nowUnixMs i) in
            if in_nowUnixMs i > sll (grantStart + sll (in_autonomyTtlSeconds i * 1000))
            then deny ''autonomy_expired'' ''autonomy grant ttl has expired'' else None))"

definition check_vendor :: "WtConfig \<Rightarrow> WtPolicyInput \<Rightarrow> WtPolicyDecision option" where
  "check_vendor c i =
     (case wtPolicyExtractModelFamily (in_modelId i) 64 of
        None \<Rightarrow> None
      | Some family \<Rightarrow>
          (if wtPolicyVendorIsBlocked (blockedVendors c) family then
             deny ''vendor_blocked'' (''vendor '' @ CHR 0x27 # family @ CHR 0x27 #
               '' is on the blockedVendors allowlist (modelId='' @ in_modelId i @ '').'')
           else None))"

definition check_model :: "WtPolicyInput \<Rightarrow> WtPolicyDecision option" where
  "check_model i =
     (case wtPolicyExtractModelFamily (in_modelId i) 64 of
        None \<Rightarrow> None
      | Some family \<Rightarrow>
          (if in_assignedAgent i \<noteq> [] \<and> in_assignedAgent i \<noteq> ''router'' \<and> in_assignedAgent i \<noteq> ''all'' \<and>
              \<not> modelMatchesAgentLocal (in_assignedAgent i) family then
             deny ''model_agent_mismatch'' (''model '' @ CHR 0x27 # in_modelId i @ CHR 0x27 #
               '' does not match assigned agent '' @ CHR 0x27 # in_assignedAgent i @ CHR 0x27 # ''.'')
           else None))"

definition over_cap :: "int \<Rightarrow> int \<Rightarrow> int \<Rightarrow> bool" where
  "over_cap allocated request cap \<longleftrightarrow> cap > 0 \<and> sll (allocated + request) > cap"

definition cap_text :: "string \<Rightarrow> int \<Rightarrow> int \<Rightarrow> int \<Rightarrow> string" where
  "cap_text knob allocated request cap = '' would exceed '' @ knob @ '' (allocated='' @ show_int allocated @
     '' + request='' @ show_int request @ '' > cap='' @ show_int cap @ '').''"

definition check_budgets :: "WtConfig \<Rightarrow> WtPolicyInput \<Rightarrow> WtPolicyDecision option" where
  "check_budgets c i =
     (if in_maxTokens i > 0 \<and> tokenTelemetryEnabled c then
        (if in_initiativeId i \<noteq> [] \<and> over_cap (in_initiativeAllocatedTokens i) (in_maxTokens i) (tokenBudgetPerInitiative c) then
           deny ''initiative_budget'' (''initiative '' @ CHR 0x27 # in_initiativeId i @ CHR 0x27 #
             cap_text ''tokenBudgetPerInitiative'' (in_initiativeAllocatedTokens i) (in_maxTokens i) (tokenBudgetPerInitiative c))
         else if wtPolicyExtractModelFamily (in_modelId i) 64 \<noteq> None \<and>
                 over_cap (in_modelFamilyAllocatedTokens i) (in_maxTokens i) (tokenBudgetPerModelFamily c) then
           deny ''model_family_budget'' (''model family '' @ CHR 0x27 # the (wtPolicyExtractModelFamily (in_modelId i) 64) @ CHR 0x27 #
             cap_text ''tokenBudgetPerModelFamily'' (in_modelFamilyAllocatedTokens i) (in_maxTokens i) (tokenBudgetPerModelFamily c))
         else if over_cap (in_dayWindowAllocatedTokens i) (in_maxTokens i) (tokenDailyBudget c) then
           deny ''daily_budget'' ''daily token budget exceeded''
         else if over_cap (in_monthWindowAllocatedTokens i) (in_maxTokens i) (tokenMonthlyBudget c) then
           deny ''monthly_budget'' ''monthly token budget exceeded''
         else None)
      else None)"

definition check_capacity :: "WtConfig \<Rightarrow> WtPolicyInput \<Rightarrow> WtPolicyDecision option" where
  "check_capacity c i =
     (if maxActiveTasksPerAgent c > 0 \<and> in_activeTasksForAgent i \<ge> maxActiveTasksPerAgent c then
        deny ''capacity_agent'' (''agent '' @ CHR 0x27 # in_assignedAgent i @ CHR 0x27 # '' is at capacity (active='' @
          show_int (in_activeTasksForAgent i) @ '' cap='' @ show_int (maxActiveTasksPerAgent c) @ '').'')
      else if in_initiativeId i \<noteq> [] \<and> maxTasksPerInitiative c > 0 \<and> in_activeTasksForInitiative i \<ge> maxTasksPerInitiative c then
        deny ''capacity_initiative'' (''initiative '' @ CHR 0x27 # in_initiativeId i @ CHR 0x27 #
          '' is at task-count capacity (active='' @ show_int (in_activeTasksForInitiative i) @ '' cap='' @
          show_int (maxTasksPerInitiative c) @ '').'')
      else None)"

fun first_denial :: "WtPolicyDecision option list \<Rightarrow> WtPolicyDecision" where
  "first_denial [] = setDecision True ''ok'' ''policy accepted''"
| "first_denial (None # ds) = first_denial ds"
| "first_denial (Some d # ds) = d"

definition wtPolicyEvaluateTaskPackage :: "WtConfig \<Rightarrow> WtPolicyInput \<Rightarrow> WtPolicyDecision" where
  "wtPolicyEvaluateTaskPackage c i =
     first_denial [check_autonomy i, check_vendor c i, check_model i, check_budgets c i, check_capacity c i]"

section \<open>The blocked vendor list as a set of tokens\<close>

fun split_commas :: "string \<Rightarrow> string list" where
  "split_commas [] = [[]]"
| "split_commas (c # cs) =
     (if c = CHR '','' then [] # split_commas cs
      else (case split_commas cs of [] \<Rightarrow> [[c]] | t # ts \<Rightarrow> (c # t) # ts))"

definition trim_blank :: "string \<Rightarrow> string" where
  "trim_blank v = trim_end is_blank (dropWhile is_blank v)"

definition listed :: "string \<Rightarrow> string \<Rightarrow> bool" where
  "listed f s \<longleftrightarrow> f \<in> set (map trim_blank (split_commas s))"

lemma trim_blank_simps [simp]: "trim_blank [] = []" "is_blank c \<Longrightarrow> trim_blank (c # v) = trim_blank v"
  by (simp_all add: trim_blank_def trim_end_def)

lemma split_commas_first:
  "split_commas s = takeWhile (\<lambda>c. c \<noteq> CHR '','') s #
     (case dropWhile (\<lambda>c. c \<noteq> CHR '','') s of [] \<Rightarrow> [] | _ # r \<Rightarrow> split_commas r)"
  by (induction s) auto

lemma listed_skip:
  assumes "f \<noteq> []" "is_blank c \<or> c = CHR '',''"
  shows "listed f (c # s) \<longleftrightarrow> listed f s"
proof (cases "c = CHR '',''")
  case True
  with assms(1) show ?thesis by (simp add: listed_def)
next
  case False
  obtain t ts where "split_commas s = t # ts" using split_commas_first by blast
  with False assms show ?thesis by (simp add: listed_def)
qed

lemma listed_drop: "f \<noteq> [] \<Longrightarrow> listed f (dropWhile (\<lambda>c. is_blank c \<or> c = CHR '','') s) \<longleftrightarrow> listed f s"
  by (induction s) (simp_all add: listed_skip)

lemma listed_first:
  assumes "f \<noteq> []"
  shows "listed f s \<longleftrightarrow> f = trim_blank (takeWhile (\<lambda>c. c \<noteq> CHR '','') s) \<or>
    listed f (dropWhile (\<lambda>c. c \<noteq> CHR '','') s)"
proof (cases "dropWhile (\<lambda>c. c \<noteq> CHR '','') s")
  case Nil
  have "split_commas s = [takeWhile (\<lambda>c. c \<noteq> CHR '','') s]"
    by (subst split_commas_first) (simp only: Nil list.case)
  moreover have "\<not> listed f (dropWhile (\<lambda>c. c \<noteq> CHR '','') s)"
    using assms by (simp only: Nil) (simp add: listed_def)
  ultimately show ?thesis by (simp add: listed_def)
next
  case (Cons c r)
  then have "c = CHR '',''" using hd_dropWhile [of "\<lambda>c. c \<noteq> CHR '',''" s] by simp
  moreover have "split_commas s = takeWhile (\<lambda>c. c \<noteq> CHR '','') s # split_commas r"
    by (subst split_commas_first) (simp only: Cons list.case)
  ultimately show ?thesis
    using listed_skip [OF assms, of c r] Cons by (simp add: listed_def)
qed

lemma vendor_walk_listed: "f \<noteq> [] \<Longrightarrow> vendor_walk s f \<longleftrightarrow> listed f s"
proof (induction s f rule: vendor_walk.induct)
  case (1 s f)
  let ?start = "dropWhile (\<lambda>c. is_blank c \<or> c = CHR '','') s"
  show ?case
  proof (cases "?start = []")
    case True
    with listed_drop [OF 1(2), of s] 1(2) show ?thesis
      by (subst vendor_walk.simps) (simp add: listed_def)
  next
    case False
    have "\<not> (is_blank (hd ?start) \<or> hd ?start = CHR '','')" using hd_dropWhile [OF False] by simp
    then have "trim_blank (takeWhile (\<lambda>c. c \<noteq> CHR '','') ?start) = trim_end is_blank (takeWhile (\<lambda>c. c \<noteq> CHR '','') ?start)"
      using False by (cases ?start) (simp_all add: trim_blank_def)
    with False 1 listed_first [OF 1(2), of ?start] listed_drop [OF 1(2), of s] show ?thesis
      by (subst vendor_walk.simps) (auto simp: Let_def)
  qed
qed

section \<open>The decision as one condition\<close>

lemma first_denial_allowed:
  assumes "\<forall>d \<in> set ds. \<forall>x. d = Some x \<longrightarrow> \<not> dec_allowed x"
  shows "dec_allowed (first_denial ds) \<longleftrightarrow> (\<forall>d \<in> set ds. d = None)"
  using assms by (induction ds rule: first_denial.induct) (auto simp: setDecision_def)

lemma deny_denies [simp]: "deny why detail = Some x \<Longrightarrow> \<not> dec_allowed x" "deny why detail \<noteq> None"
  by (auto simp: deny_def setDecision_def)

lemma checks_deny:
  "check_autonomy i = Some x \<Longrightarrow> \<not> dec_allowed x" "check_vendor c i = Some x \<Longrightarrow> \<not> dec_allowed x"
  "check_model i = Some x \<Longrightarrow> \<not> dec_allowed x" "check_budgets c i = Some x \<Longrightarrow> \<not> dec_allowed x"
  "check_capacity c i = Some x \<Longrightarrow> \<not> dec_allowed x"
  by (auto simp: check_autonomy_def check_vendor_def check_model_def check_budgets_def check_capacity_def Let_def
      split: if_splits option.splits)

lemma policy_allowed:
  "dec_allowed (wtPolicyEvaluateTaskPackage c i) \<longleftrightarrow> check_autonomy i = None \<and> check_vendor c i = None \<and>
     check_model i = None \<and> check_budgets c i = None \<and> check_capacity c i = None"
  unfolding wtPolicyEvaluateTaskPackage_def
  by (subst first_denial_allowed) (auto dest: checks_deny)

text \<open>What each stage asks for, over the integers.\<close>

definition grant_start :: "WtPolicyInput \<Rightarrow> int" where
  "grant_start i = (if in_autonomyCreatedAtUnixMs i > 0 then in_autonomyCreatedAtUnixMs i else in_nowUnixMs i)"

definition autonomy_granted :: "WtPolicyInput \<Rightarrow> bool" where
  "autonomy_granted i \<longleftrightarrow> in_autonomyLevel i \<in> {'''', ''observe'', ''ask-each'', ''ask-batch''} \<or>
     (in_autonomyLevel i = ''autonomous'' \<and> in_autonomyRevokedAtUnixMs i \<le> 0 \<and> 0 < in_autonomyTtlSeconds i \<and>
      autonomyScopeCoversAdapter (in_autonomyScope i) \<and>
      in_nowUnixMs i \<le> grant_start i + in_autonomyTtlSeconds i * 1000)"

definition within_cap :: "int \<Rightarrow> int \<Rightarrow> int \<Rightarrow> bool" where
  "within_cap allocated request cap \<longleftrightarrow> cap \<le> 0 \<or> allocated + request \<le> cap"

definition budgets_hold :: "WtConfig \<Rightarrow> WtPolicyInput \<Rightarrow> bool" where
  "budgets_hold c i \<longleftrightarrow> in_maxTokens i \<le> 0 \<or> \<not> tokenTelemetryEnabled c \<or>
     ((in_initiativeId i = [] \<or> within_cap (in_initiativeAllocatedTokens i) (in_maxTokens i) (tokenBudgetPerInitiative c)) \<and>
      (wtPolicyExtractModelFamily (in_modelId i) 64 = None \<or>
       within_cap (in_modelFamilyAllocatedTokens i) (in_maxTokens i) (tokenBudgetPerModelFamily c)) \<and>
      within_cap (in_dayWindowAllocatedTokens i) (in_maxTokens i) (tokenDailyBudget c) \<and>
      within_cap (in_monthWindowAllocatedTokens i) (in_maxTokens i) (tokenMonthlyBudget c))"

definition capacity_left :: "WtConfig \<Rightarrow> WtPolicyInput \<Rightarrow> bool" where
  "capacity_left c i \<longleftrightarrow>
     (maxActiveTasksPerAgent c \<le> 0 \<or> in_activeTasksForAgent i < maxActiveTasksPerAgent c) \<and>
     (in_initiativeId i = [] \<or> maxTasksPerInitiative c \<le> 0 \<or> in_activeTasksForInitiative i < maxTasksPerInitiative c)"

definition model_accepted :: "WtConfig \<Rightarrow> WtPolicyInput \<Rightarrow> bool" where
  "model_accepted c i \<longleftrightarrow>
     (case wtPolicyExtractModelFamily (in_modelId i) 64 of
        None \<Rightarrow> True
      | Some family \<Rightarrow> \<not> listed family (blockedVendors c) \<and>
          (in_assignedAgent i \<in> {'''', ''router'', ''all''} \<or> modelMatchesAgentLocal (in_assignedAgent i) family))"

text \<open>No sum the evaluator forms leaves the range of a \<open>long long\<close>.\<close>

definition policy_in_range :: "WtPolicyInput \<Rightarrow> bool" where
  "policy_in_range i \<longleftrightarrow> is_long (in_autonomyTtlSeconds i * 1000) \<and>
     is_long (grant_start i + in_autonomyTtlSeconds i * 1000) \<and>
     is_long (in_initiativeAllocatedTokens i + in_maxTokens i) \<and>
     is_long (in_modelFamilyAllocatedTokens i + in_maxTokens i) \<and>
     is_long (in_dayWindowAllocatedTokens i + in_maxTokens i) \<and>
     is_long (in_monthWindowAllocatedTokens i + in_maxTokens i)"

lemma family_nonempty: "wtPolicyExtractModelFamily m 64 = Some f \<Longrightarrow> f \<noteq> []"
  by (auto simp: wtPolicyExtractModelFamily_def Let_def split: option.splits if_splits)

lemma blocked_listed:
  "f \<noteq> [] \<Longrightarrow> wtPolicyVendorIsBlocked s f \<longleftrightarrow> listed f s"
  using vendor_walk_listed [of f s] by (auto simp: wtPolicyVendorIsBlocked_def listed_def)

lemma check_autonomy_None: "policy_in_range i \<Longrightarrow> check_autonomy i = None \<longleftrightarrow> autonomy_granted i"
  by (auto simp: check_autonomy_def autonomy_granted_def autonomyLevelIsValid_def grant_start_def policy_in_range_def Let_def)

lemma check_model_None: "check_vendor c i = None \<and> check_model i = None \<longleftrightarrow> model_accepted c i"
  by (auto simp: check_vendor_def check_model_def model_accepted_def blocked_listed family_nonempty split: option.split)

lemma check_budgets_None: "policy_in_range i \<Longrightarrow> check_budgets c i = None \<longleftrightarrow> budgets_hold c i"
  by (auto simp: check_budgets_def budgets_hold_def within_cap_def over_cap_def policy_in_range_def)

lemma check_capacity_None: "check_capacity c i = None \<longleftrightarrow> capacity_left c i"
  by (auto simp: check_capacity_def capacity_left_def)

lemma deny_reason:
  "deny why detail = Some x \<Longrightarrow> dec_reason x = snprintf_s 48 why"
  by (auto simp: deny_def setDecision_def WT_POLICY_REASON_SIZE_def)

text \<open>The reason codes, stage by stage.\<close>

lemma check_reasons:
  "check_autonomy i = Some x \<Longrightarrow> dec_reason x \<in> {''autonomy_required'', ''autonomy_revoked'', ''autonomy_expired''}"
  "check_vendor c i = Some x \<Longrightarrow> dec_reason x = ''vendor_blocked''"
  "check_model i = Some x \<Longrightarrow> dec_reason x = ''model_agent_mismatch''"
  "check_budgets c i = Some x \<Longrightarrow>
     dec_reason x \<in> {''initiative_budget'', ''model_family_budget'', ''daily_budget'', ''monthly_budget''}"
  "check_capacity c i = Some x \<Longrightarrow> dec_reason x \<in> {''capacity_agent'', ''capacity_initiative''}"
  by (auto simp: check_autonomy_def check_vendor_def check_model_def check_budgets_def check_capacity_def Let_def
      split: if_splits option.splits dest!: deny_reason)

lemma evaluate_cases:
  "wtPolicyEvaluateTaskPackage c i =
     (case check_autonomy i of Some d \<Rightarrow> d | None \<Rightarrow>
     (case check_vendor c i of Some d \<Rightarrow> d | None \<Rightarrow>
     (case check_model i of Some d \<Rightarrow> d | None \<Rightarrow>
     (case check_budgets c i of Some d \<Rightarrow> d | None \<Rightarrow>
     (case check_capacity c i of Some d \<Rightarrow> d | None \<Rightarrow> setDecision True ''ok'' ''policy accepted'')))))"
  by (simp add: wtPolicyEvaluateTaskPackage_def split: option.split)

lemma policy_ok_reason:
  "dec_allowed (wtPolicyEvaluateTaskPackage c i) \<longleftrightarrow> dec_reason (wtPolicyEvaluateTaskPackage c i) = ''ok''"
proof -
  have "dec_reason (setDecision True ''ok'' m) = ''ok''" "dec_allowed (setDecision True w m)" for m w
    by (simp_all add: setDecision_def WT_POLICY_REASON_SIZE_def)
  then show ?thesis
    unfolding evaluate_cases
    by (auto split: option.split dest: checks_deny check_reasons)
qed

section \<open>Properties\<close>

definition demo_input :: WtPolicyInput where
  "demo_input = \<lparr> in_taskId = ''t1'', in_assignedRole = ''backend'', in_assignedAgent = ''claude'',
     in_modelId = ''anthropic/opus'', in_toolProfile = ''observe'', in_initiativeId = ''i1'',
     in_autonomyLevel = ''autonomous'', in_autonomyScope = ''workspace'', in_autonomyNetwork = '''',
     in_autonomyCredentialClass = '''', in_autonomyTtlSeconds = 60, in_autonomyMaxWallClockSeconds = 0,
     in_autonomyRequiresCleanWorktree = False, in_autonomyCreatedAtUnixMs = 1000, in_autonomyRevokedAtUnixMs = 0,
     in_maxTokens = 500, in_nowUnixMs = 2000, in_dayWindowAllocatedTokens = 100,
     in_monthWindowAllocatedTokens = 100, in_initiativeAllocatedTokens = 100,
     in_modelFamilyAllocatedTokens = 100, in_activeTasksForAgent = 1, in_activeTasksForInitiative = 1 \<rparr>"

lemma demo_in_range: "policy_in_range demo_input"
  by (simp add: policy_in_range_def demo_input_def grant_start_def c_int_defs)

text \<open>
  C2. The evaluator accepts a task exactly when the autonomy grant is in order, the model's vendor
  is not on the blocked list and fits the agent, every enabled token budget still holds after the
  request, and capacity is left; a decision is accepted exactly when its reason is \<open>ok\<close>. This holds as
  long as no sum the evaluator forms leaves the range of a \<open>long long\<close>: the start of the grant plus its
  lifetime in milliseconds, and each allocated total plus the tokens of the request. Outside it
  \<open>budget_sum_overflows\<close> shows a request that is accepted although it breaks every cap.
\<close>

theorem policy_accepts_iff:
  assumes "policy_in_range i"
  shows "(dec_allowed (wtPolicyEvaluateTaskPackage c i) \<longleftrightarrow>
      autonomy_granted i \<and> model_accepted c i \<and> budgets_hold c i \<and> capacity_left c i)
    \<and> (dec_allowed (wtPolicyEvaluateTaskPackage c i) \<longleftrightarrow> dec_reason (wtPolicyEvaluateTaskPackage c i) = ''ok'')"
  using check_autonomy_None [OF assms] check_model_None [of c i] check_budgets_None [OF assms, of c]
    check_capacity_None [of c i] policy_ok_reason [of c i] by (auto simp: policy_allowed)

theorem policy_accepts_iff_witness:
  "dec_allowed (wtPolicyEvaluateTaskPackage wtConfigInitDefaults demo_input)"
proof -
  have "strchr ''anthropic/opus'' (CHR ''/'') = Some ''/opus''" by simp
  then have "wtPolicyExtractModelFamily ''anthropic/opus'' 64 = Some ''anthropic''"
    by (simp add: wtPolicyExtractModelFamily_def)
  then show ?thesis
    using policy_accepts_iff [OF demo_in_range, of wtConfigInitDefaults]
    by (simp add: autonomy_granted_def model_accepted_def budgets_hold_def capacity_left_def within_cap_def
        demo_input_def wtConfigInitDefaults_def grant_start_def autonomyScopeCoversAdapter_def
        modelMatchesAgentLocal_def listed_def trim_blank_def trim_end_def is_blank_def)
qed

text \<open>
  The walk over \<open>blockedVendors\<close> is exact: a vendor is blocked when its name is one of the
  comma-separated tokens after trimming blanks, and never as a part of a longer token.
\<close>

theorem vendor_blocked_iff:
  "wtPolicyVendorIsBlocked blocked family \<longleftrightarrow>
     family \<noteq> [] \<and> family \<in> set (map trim_blank (split_commas blocked))"
proof (cases "family = []")
  case False
  with blocked_listed [OF False, of blocked] show ?thesis by (simp add: listed_def)
qed (simp add: wtPolicyVendorIsBlocked_def)

text \<open>
  An autonomous task is never accepted without a live grant: not revoked, with a positive
  lifetime that has not run out, and a scope that covers the adapter. Levels the program does not
  know are always refused, whatever the rest of the request says.
\<close>

theorem autonomy_fails_closed:
  assumes "dec_allowed (wtPolicyEvaluateTaskPackage c i)" and "in_autonomyLevel i \<noteq> []"
  shows "autonomyLevelIsValid (in_autonomyLevel i) \<and>
    (in_autonomyLevel i = ''autonomous'' \<longrightarrow>
       in_autonomyRevokedAtUnixMs i \<le> 0 \<and> 0 < in_autonomyTtlSeconds i \<and>
       autonomyScopeCoversAdapter (in_autonomyScope i) \<and>
       in_nowUnixMs i \<le> sll (grant_start i + sll (in_autonomyTtlSeconds i * 1000)))"
  using assms unfolding policy_allowed
  by (auto simp: check_autonomy_def grant_start_def Let_def split: if_splits)

theorem autonomy_fails_closed_witness:
  "autonomyLevelIsValid (in_autonomyLevel demo_input) \<and> 0 < in_autonomyTtlSeconds demo_input"
proof -
  have "strchr ''anthropic/opus'' (CHR ''/'') = Some ''/opus''" by simp
  then have "wtPolicyExtractModelFamily ''anthropic/opus'' 64 = Some ''anthropic''"
    by (simp add: wtPolicyExtractModelFamily_def)
  moreover have "autonomy_granted demo_input" "budgets_hold wtConfigInitDefaults demo_input"
    "capacity_left wtConfigInitDefaults demo_input"
    by (simp_all add: autonomy_granted_def budgets_hold_def capacity_left_def within_cap_def
        demo_input_def wtConfigInitDefaults_def grant_start_def autonomyScopeCoversAdapter_def)
  ultimately have "dec_allowed (wtPolicyEvaluateTaskPackage wtConfigInitDefaults demo_input)"
    using check_autonomy_None [OF demo_in_range] check_model_None [of wtConfigInitDefaults demo_input]
      check_budgets_None [OF demo_in_range, of wtConfigInitDefaults] check_capacity_None [of wtConfigInitDefaults demo_input]
    by (simp add: policy_allowed model_accepted_def demo_input_def wtConfigInitDefaults_def
        modelMatchesAgentLocal_def listed_def trim_blank_def trim_end_def is_blank_def)
  from autonomy_fails_closed [OF this] show ?thesis by (simp add: demo_input_def)
qed

text \<open>
  (A defect.) The budget sums overflow: once anything is allocated, a request for the largest
  \<open>long\<close> wraps to a negative sum, so no budget, however small, refuses it.
\<close>

theorem budget_sum_overflows:
  assumes "in_maxTokens i = LONG_MAX"
    and "\<forall>a \<in> {in_initiativeAllocatedTokens i, in_modelFamilyAllocatedTokens i,
               in_dayWindowAllocatedTokens i, in_monthWindowAllocatedTokens i}. 1 \<le> a \<and> a \<le> LONG_MAX"
  shows "check_budgets c i = None"
proof -
  have "\<not> over_cap a LONG_MAX cap" if "1 \<le> a" "a \<le> LONG_MAX" for a cap
  proof -
    have "a + LONG_MAX + 2 ^ 63 = (a - 1) + 2 ^ 64" by (simp add: LONG_MAX_def)
    then have "(a + LONG_MAX + 2 ^ 63) mod 2 ^ 64 = (a - 1) mod 2 ^ 64" by (simp only: mod_add_self2)
    also have "\<dots> = a - 1" using that by (intro mod_pos_pos_trivial) (simp_all add: LONG_MAX_def)
    finally have "(a + LONG_MAX + 2 ^ 63) mod 2 ^ 64 = a - 1" .
    with that have "sll (a + LONG_MAX) < 0" by (simp add: sll_def LONG_MAX_def)
    then show ?thesis by (simp add: over_cap_def)
  qed
  with assms show ?thesis by (simp add: check_budgets_def)
qed

theorem budget_sum_overflows_witness:
  "check_budgets (wtConfigInitDefaults \<lparr> tokenDailyBudget := 1000, tokenBudgetPerInitiative := 1000 \<rparr>)
     (demo_input \<lparr> in_maxTokens := LONG_MAX \<rparr>) = None"
  by (rule budget_sum_overflows) (simp_all add: demo_input_def LONG_MAX_def)

end
