(* ===== verification/Task_Ledger.thy ===== *)
theory Task_Ledger
  imports Json Append_File
begin

text \<open>
  The task ledger, first part of \<^verbatim>\<open>src/src/wt_task_store.c\<close>: the append of one record, the writers
  of every event the store itself produces, the line predicates its scans share, and the dump of
  the ledger as a JSON array.

  A writer escapes its arguments into bounded buffers (\<open>escapes_fit\<close>), prints one flat object into
  a bounded buffer and appends it. The field list of each format is a definition of its own
  (\<open>lease_fields\<close>, ...), so that a scan over a written record can be evaluated. The clock is the
  argument \<open>now\<close>; a null argument with a default of its own is \<open>None\<close>, one that defaults to the
  empty string is the empty string.
\<close>

definition WT_TASK_ID_SIZE :: nat where "WT_TASK_ID_SIZE = 128"
definition WT_TASK_AGENT_SIZE :: nat where "WT_TASK_AGENT_SIZE = 64"
definition WT_TASK_STATUS_SIZE :: nat where "WT_TASK_STATUS_SIZE = 32"
definition WT_TASK_TITLE_SIZE :: nat where "WT_TASK_TITLE_SIZE = 192"
definition WT_TASK_BODY_SIZE :: nat where "WT_TASK_BODY_SIZE = 2048"
definition WT_TASK_POLICY_SIZE :: nat where "WT_TASK_POLICY_SIZE = 64"
definition WT_TASK_MODEL_SIZE :: nat where "WT_TASK_MODEL_SIZE = 128"
definition WT_TASK_LEDGER_LINE_SIZE :: nat where "WT_TASK_LEDGER_LINE_SIZE = 16384"

lemmas task_sizes = WT_TASK_ID_SIZE_def WT_TASK_AGENT_SIZE_def WT_TASK_STATUS_SIZE_def
  WT_TASK_TITLE_SIZE_def WT_TASK_BODY_SIZE_def WT_TASK_POLICY_SIZE_def WT_TASK_MODEL_SIZE_def
  WT_TASK_LEDGER_LINE_SIZE_def

section \<open>Lines\<close>

definition ledger_lines :: "log_file \<Rightarrow> string list" where
  "ledger_lines ledger = file_lines WT_TASK_LEDGER_LINE_SIZE (bytes ledger)"

definition lineHasSchema :: "string \<Rightarrow> string \<Rightarrow> bool" where
  "lineHasSchema line schema \<longleftrightarrow> read_str line ''schema'' 128 = Some schema"

section \<open>Appending a record\<close>

definition wtTaskAppendRecord :: "io_fault \<Rightarrow> bool \<Rightarrow> string \<Rightarrow> log_file \<Rightarrow> bool \<times> log_file" where
  "wtTaskAppendRecord fault fsyncRecord jsonLine ledger =
     (if fault = MkdirFails \<or> fault = OpenFails then (False, ledger)
      else if fault = LockFails then (False, Some (bytes ledger))
      else (let (ok, s) = write_record fault fsyncRecord jsonLine (bytes ledger) in (ok, Some s)))"

lemma key_text_ledger_keys [simp]:
  "key_text ''schema''"
  "key_text ''taskId''"
  "key_text ''eventType''"
  "key_text ''status''"
  "key_text ''assignedAgent''"
  "key_text ''message''"
  "key_text ''createdBy''"
  "key_text ''attempt''"
  "key_text ''leaseExpiresAtUnixMs''"
  "key_text ''createdAtUnixMs''"
  "key_text ''retryCause''"
  "key_text ''reclaimReason''"
  "key_text ''agent''"
  "key_text ''host''"
  "key_text ''currentTaskId''"
  "key_text ''statusLine''"
  "key_text ''milestone''"
  "key_text ''reason''"
  "key_text ''actor''"
  "key_text ''target''"
  "key_text ''action''"
  "key_text ''commandClass''"
  "key_text ''autonomyLevel''"
  "key_text ''allowed''"
  "key_text ''exitCode''"
  "key_text ''artifactState''"
  "key_text ''reviewer''"
  "key_text ''reviewNotes''"
  "key_text ''artifactPath''"
  by (simp_all add: key_text_def is_alnum_def is_digit_def)

lemma wtTaskAppendRecord_ok:
  "fst (wtTaskAppendRecord fault sync r ledger) \<Longrightarrow>
   bytes (snd (wtTaskAppendRecord fault sync r ledger)) = bytes ledger @ r @ [NL]"
  using write_record_ok by (auto simp: wtTaskAppendRecord_def split: if_splits prod.splits) (metis fst_conv snd_conv)

lemma wtTaskAppendRecord_keeps: "prefix (bytes ledger) (bytes (snd (wtTaskAppendRecord fault sync r ledger)))"
  using write_record_keeps by (auto simp: wtTaskAppendRecord_def split: prod.split) (metis snd_conv)

type_synonym ledger_op = "io_fault \<times> bool \<times> string"

definition ledger_append :: "ledger_op \<Rightarrow> log_file \<Rightarrow> bool \<times> log_file" where
  "ledger_append op ledger = (case op of (fault, sync, r) \<Rightarrow> wtTaskAppendRecord fault sync r ledger)"

definition ledger_record :: "ledger_op \<Rightarrow> log_file \<Rightarrow> string" where
  "ledger_record op ledger = (case op of (_, _, r) \<Rightarrow> r)"

interpretation ledger: append_only_log ledger_append ledger_record
  by unfold_locales
    (auto simp: ledger_append_def ledger_record_def wtTaskAppendRecord_keeps wtTaskAppendRecord_ok)

section \<open>The ledger as a JSON array\<close>

definition strip_eol :: "string \<Rightarrow> string" where
  "strip_eol line = trim_end (\<lambda>c. c = NL \<or> c = CR) line"

fun read_array_loop :: "nat \<Rightarrow> bool \<Rightarrow> string \<Rightarrow> string list \<Rightarrow> string" where
  "read_array_loop bufferSize first out [] = out"
| "read_array_loop bufferSize first out (line # ls) =
     (let l = strip_eol line in
      if l = [] then read_array_loop bufferSize first out ls
      else if length out + length l + 3 \<ge> bufferSize then out
      else read_array_loop bufferSize False (out @ (if first then [] else '','') @ l) ls)"

definition wtTaskReadAllJsonArray :: "log_file \<Rightarrow> nat \<Rightarrow> string option" where
  "wtTaskReadAllJsonArray ledger bufferSize =
     (if bufferSize < 3 then None
      else Some (read_array_loop bufferSize True ''['' (ledger_lines ledger) @ '']''))"

section \<open>The event writers\<close>

definition escapes_fit :: "(string \<times> nat) list \<Rightarrow> bool" where
  "escapes_fit xs = list_all (\<lambda>(s, n). wtJsonEscape s n \<noteq> None) xs"

definition write_event :: "io_fault \<Rightarrow> bool \<Rightarrow> nat \<Rightarrow> (string \<times> nat) list \<Rightarrow> (string \<times> jval) list \<Rightarrow> log_file \<Rightarrow> bool \<times> log_file" where
  "write_event fault sync jsonSize xs fields ledger =
     (if \<not> escapes_fit xs then (False, ledger)
      else wtTaskAppendRecord fault sync (snprintf_s jsonSize (render_object fields)) ledger)"

definition lease_fields :: "string \<Rightarrow> string \<Rightarrow> int \<Rightarrow> int \<Rightarrow> string \<Rightarrow> int \<Rightarrow> (string \<times> jval) list" where
  "lease_fields taskId agentName attempt expires message now =
     [(''schema'', JStr ''woventeam.task_event.v0.1''), (''taskId'', JStr taskId),
      (''eventType'', JStr ''lease''), (''status'', JStr ''leased''), (''assignedAgent'', JStr agentName),
      (''message'', JStr message), (''createdBy'', JStr (''wt-agent@'' @ agentName)), (''attempt'', JNum attempt),
      (''leaseExpiresAtUnixMs'', JNum expires), (''createdAtUnixMs'', JNum now)]"

definition wtTaskAppendLeaseEvent ::
    "io_fault \<Rightarrow> bool \<Rightarrow> int \<Rightarrow> string \<Rightarrow> string \<Rightarrow> int \<Rightarrow> int \<Rightarrow> log_file \<Rightarrow> bool \<times> log_file" where
  "wtTaskAppendLeaseEvent fault sync now taskId agentName attempt expires ledger =
     (let message = snprintf_s 256 (''Task leased by wt-agent@'' @ agentName @ '' attempt '' @ show_int attempt @ ''.'') in
      write_event fault sync 2048
        [(taskId, WT_TASK_ID_SIZE * 2), (agentName, WT_TASK_AGENT_SIZE * 2), (message, 512)]
        (lease_fields taskId agentName attempt expires message now) ledger)"

definition status_fields :: "string \<Rightarrow> string \<Rightarrow> string \<Rightarrow> string \<Rightarrow> string \<Rightarrow> int \<Rightarrow> (string \<times> jval) list" where
  "status_fields taskId status createdBy message retryCause now =
     [(''schema'', JStr ''woventeam.task_event.v0.1''), (''taskId'', JStr taskId),
      (''eventType'', JStr ''status''), (''status'', JStr status), (''message'', JStr message)] @
     (if retryCause \<noteq> [] then [(''retryCause'', JStr retryCause)] else []) @
     [(''createdBy'', JStr createdBy), (''createdAtUnixMs'', JNum now)]"

definition wtTaskAppendStatusEventWithCause ::
    "io_fault \<Rightarrow> bool \<Rightarrow> int \<Rightarrow> string \<Rightarrow> string \<Rightarrow> string \<Rightarrow> string \<Rightarrow> string \<Rightarrow> log_file \<Rightarrow> bool \<times> log_file" where
  "wtTaskAppendStatusEventWithCause fault sync now taskId status createdBy message retryCause ledger =
     write_event fault sync 2400
       ([(taskId, WT_TASK_ID_SIZE * 2), (status, WT_TASK_STATUS_SIZE * 2), (createdBy, WT_TASK_AGENT_SIZE * 2),
         (message, 1024)] @ (if retryCause \<noteq> [] then [(retryCause, 64)] else []))
       (status_fields taskId status createdBy message retryCause now) ledger"

definition wtTaskAppendStatusEvent ::
    "io_fault \<Rightarrow> bool \<Rightarrow> int \<Rightarrow> string \<Rightarrow> string \<Rightarrow> string \<Rightarrow> string \<Rightarrow> log_file \<Rightarrow> bool \<times> log_file" where
  "wtTaskAppendStatusEvent fault sync now taskId status createdBy message ledger =
     wtTaskAppendStatusEventWithCause fault sync now taskId status createdBy message [] ledger"

definition reclaim_fields :: "string \<Rightarrow> string \<Rightarrow> string \<Rightarrow> string \<Rightarrow> string \<Rightarrow> int \<Rightarrow> (string \<times> jval) list" where
  "reclaim_fields taskId previousAgent reclaimedBy why message now =
     [(''schema'', JStr ''woventeam.task_event.v0.1''), (''taskId'', JStr taskId),
      (''eventType'', JStr ''reclaim''), (''status'', JStr ''queued''), (''assignedAgent'', JStr previousAgent),
      (''reclaimReason'', JStr why), (''message'', JStr message), (''createdBy'', JStr reclaimedBy),
      (''createdAtUnixMs'', JNum now)]"

definition or_default :: "string \<Rightarrow> string option \<Rightarrow> string" where
  "or_default d x = (case x of None \<Rightarrow> d | Some s \<Rightarrow> s)"

definition wtTaskAppendReclaimEvent ::
    "io_fault \<Rightarrow> bool \<Rightarrow> int \<Rightarrow> string \<Rightarrow> string \<Rightarrow> string \<Rightarrow> string option \<Rightarrow> string \<Rightarrow> log_file \<Rightarrow> bool \<times> log_file" where
  "wtTaskAppendReclaimEvent fault sync now taskId previousAgent reclaimedBy why message ledger =
     (let w = or_default ''operator'' why in
      write_event fault sync 2400
        [(taskId, WT_TASK_ID_SIZE * 2), (previousAgent, WT_TASK_AGENT_SIZE * 2), (reclaimedBy, WT_TASK_AGENT_SIZE * 2),
         (w, 64), (message, 1024)]
        (reclaim_fields taskId previousAgent reclaimedBy w message now) ledger)"

definition heartbeat_fields :: "string \<Rightarrow> string \<Rightarrow> string \<Rightarrow> int \<Rightarrow> string \<Rightarrow> int \<Rightarrow> (string \<times> jval) list" where
  "heartbeat_fields agentName host currentTaskId expires statusLine now =
     [(''schema'', JStr ''woventeam.heartbeat.v0.1''), (''agent'', JStr agentName), (''host'', JStr host),
      (''currentTaskId'', JStr currentTaskId), (''leaseExpiresAtUnixMs'', JNum expires),
      (''statusLine'', JStr statusLine), (''createdAtUnixMs'', JNum now)]"

definition wtTaskAppendHeartbeat ::
    "io_fault \<Rightarrow> bool \<Rightarrow> int \<Rightarrow> string \<Rightarrow> string \<Rightarrow> string \<Rightarrow> int \<Rightarrow> string \<Rightarrow> log_file \<Rightarrow> bool \<times> log_file" where
  "wtTaskAppendHeartbeat fault sync now agentName host currentTaskId expires statusLine ledger =
     write_event fault sync (WT_TASK_BODY_SIZE * 2 + 1024)
       [(agentName, WT_TASK_AGENT_SIZE * 2), (host, 128), (currentTaskId, WT_TASK_ID_SIZE * 2), (statusLine, WT_TASK_BODY_SIZE)]
       (heartbeat_fields agentName host currentTaskId expires statusLine now) ledger"

definition milestone_fields :: "string \<Rightarrow> string \<Rightarrow> string \<Rightarrow> string \<Rightarrow> int \<Rightarrow> (string \<times> jval) list" where
  "milestone_fields taskId milestone message createdBy now =
     [(''schema'', JStr ''woventeam.milestone.v0.1''), (''taskId'', JStr taskId), (''milestone'', JStr milestone),
      (''message'', JStr message), (''createdBy'', JStr createdBy), (''createdAtUnixMs'', JNum now)]"

definition wtTaskAppendMilestone ::
    "io_fault \<Rightarrow> bool \<Rightarrow> int \<Rightarrow> string \<Rightarrow> string \<Rightarrow> string \<Rightarrow> string \<Rightarrow> log_file \<Rightarrow> bool \<times> log_file" where
  "wtTaskAppendMilestone fault sync now taskId milestone message createdBy ledger =
     write_event fault sync (WT_TASK_BODY_SIZE * 2 + 1024)
       [(taskId, WT_TASK_ID_SIZE * 2), (milestone, 64), (message, WT_TASK_BODY_SIZE), (createdBy, WT_TASK_AGENT_SIZE * 2)]
       (milestone_fields taskId milestone message createdBy now) ledger"

definition renewal_fields :: "string \<Rightarrow> string \<Rightarrow> int \<Rightarrow> int \<Rightarrow> string \<Rightarrow> int \<Rightarrow> (string \<times> jval) list" where
  "renewal_fields taskId agentName attempt expires message now =
     [(''schema'', JStr ''woventeam.task_event.v0.1''), (''taskId'', JStr taskId),
      (''eventType'', JStr ''lease_renewal''), (''status'', JStr ''running''), (''assignedAgent'', JStr agentName),
      (''message'', JStr message), (''createdBy'', JStr (''wt-agent@'' @ agentName)), (''attempt'', JNum attempt),
      (''leaseExpiresAtUnixMs'', JNum expires), (''createdAtUnixMs'', JNum now)]"

definition wtTaskAppendLeaseRenewal ::
    "io_fault \<Rightarrow> bool \<Rightarrow> int \<Rightarrow> string \<Rightarrow> string \<Rightarrow> int \<Rightarrow> int \<Rightarrow> log_file \<Rightarrow> bool \<times> log_file" where
  "wtTaskAppendLeaseRenewal fault sync now taskId agentName attempt expires ledger =
     (let message = snprintf_s 256 (''Lease renewed by wt-agent@'' @ agentName @ '' attempt '' @ show_int attempt @
                      ''; extended to '' @ show_int expires @ ''.'') in
      write_event fault sync 2048
        [(taskId, WT_TASK_ID_SIZE * 2), (agentName, WT_TASK_AGENT_SIZE * 2), (message, 512)]
        (renewal_fields taskId agentName attempt expires message now) ledger)"

definition kill_fields :: "string \<Rightarrow> string \<Rightarrow> string \<Rightarrow> int \<Rightarrow> (string \<times> jval) list" where
  "kill_fields taskId why createdBy now =
     [(''schema'', JStr ''woventeam.kill_event.v0.1''), (''taskId'', JStr taskId), (''reason'', JStr why),
      (''createdBy'', JStr createdBy), (''createdAtUnixMs'', JNum now)]"

definition wtTaskAppendKillEvent ::
    "io_fault \<Rightarrow> bool \<Rightarrow> int \<Rightarrow> string \<Rightarrow> string option \<Rightarrow> string option \<Rightarrow> log_file \<Rightarrow> bool \<times> log_file" where
  "wtTaskAppendKillEvent fault sync now taskId why createdBy ledger =
     (let w = or_default ''operator'' why; by_whom = or_default ''ceo'' createdBy in
      write_event fault sync 1024
        [(taskId, WT_TASK_ID_SIZE * 2), (w, 128), (by_whom, WT_TASK_AGENT_SIZE * 2)]
        (kill_fields taskId w by_whom now) ledger)"

definition bool_lit :: "bool \<Rightarrow> jval" where
  "bool_lit b = JLit (if b then ''true'' else ''false'')"

definition autonomy_fields ::
    "string \<Rightarrow> string \<Rightarrow> string \<Rightarrow> string \<Rightarrow> string \<Rightarrow> string \<Rightarrow> string \<Rightarrow> bool \<Rightarrow> int \<Rightarrow> int \<Rightarrow> (string \<times> jval) list" where
  "autonomy_fields taskId actor target action commandClass level why ok exitCode now =
     [(''schema'', JStr ''woventeam.autonomy_event.v0.1''), (''taskId'', JStr taskId), (''actor'', JStr actor),
      (''target'', JStr target), (''action'', JStr action), (''commandClass'', JStr commandClass),
      (''autonomyLevel'', JStr level), (''reason'', JStr why), (''allowed'', bool_lit ok),
      (''exitCode'', JNum exitCode), (''createdAtUnixMs'', JNum now)]"

definition wtTaskAppendAutonomyEvent ::
    "io_fault \<Rightarrow> bool \<Rightarrow> int \<Rightarrow> string \<Rightarrow> string option \<Rightarrow> string \<Rightarrow> string \<Rightarrow> string \<Rightarrow> string \<Rightarrow> string \<Rightarrow> bool \<Rightarrow> int
       \<Rightarrow> log_file \<Rightarrow> bool \<times> log_file" where
  "wtTaskAppendAutonomyEvent fault sync now taskId actor target action commandClass level why ok exitCode ledger =
     (let who = or_default ''system'' actor in
      write_event fault sync 2048
        [(taskId, WT_TASK_ID_SIZE * 2), (who, WT_TASK_AGENT_SIZE * 2), (target, WT_TASK_AGENT_SIZE * 2), (action, 64),
         (commandClass, 128), (level, WT_TASK_POLICY_SIZE * 2), (why, 256)]
        (autonomy_fields taskId who target action commandClass level why ok exitCode now) ledger)"

definition artifact_fields :: "string \<Rightarrow> string \<Rightarrow> string \<Rightarrow> string \<Rightarrow> string \<Rightarrow> int \<Rightarrow> (string \<times> jval) list" where
  "artifact_fields taskId state reviewer notes artifactPath now =
     [(''schema'', JStr ''woventeam.task_event.v0.1''), (''taskId'', JStr taskId), (''eventType'', JStr ''artifact''),
      (''artifactState'', JStr state), (''reviewer'', JStr reviewer), (''reviewNotes'', JStr notes),
      (''artifactPath'', JStr artifactPath), (''message'', JStr notes), (''createdBy'', JStr reviewer),
      (''createdAtUnixMs'', JNum now)]"

definition wtTaskAppendArtifactEvent ::
    "io_fault \<Rightarrow> bool \<Rightarrow> int \<Rightarrow> string \<Rightarrow> string \<Rightarrow> string \<Rightarrow> string \<Rightarrow> string \<Rightarrow> log_file \<Rightarrow> bool \<times> log_file" where
  "wtTaskAppendArtifactEvent fault sync now taskId state reviewer notes artifactPath ledger =
     write_event fault sync (WT_TASK_BODY_SIZE * 5 + 2048)
       [(taskId, WT_TASK_ID_SIZE * 2), (state, 64), (reviewer, WT_TASK_AGENT_SIZE * 2), (notes, WT_TASK_BODY_SIZE * 2),
        (artifactPath, 1024)]
       (artifact_fields taskId state reviewer notes artifactPath now) ledger"

section \<open>What a writer leaves in the ledger\<close>

lemma escapes_fit_simps [simp]:
  "escapes_fit []"
  "escapes_fit ((s, n) # xs) \<longleftrightarrow> length (escape s) < n \<and> escapes_fit xs"
  "escapes_fit (xs @ ys) \<longleftrightarrow> escapes_fit xs \<and> escapes_fit ys"
  by (simp_all add: escapes_fit_def wtJsonEscape_spec)

lemma length_render_object_simps:
  "length (render_object fs) = length (render_fields fs) + 2"
  "length (render_field (k, v)) = length k + 3 + length (render_value v)"
  "length (escape (CHR ''w'' # s)) = 1 + length (escape s)"
  by (simp_all add: render_object_def render_field_def escape_char_def)

text \<open>
  The scratch buffers of the formats are large enough for whatever passes the escape checks: no
  writer ever stores a truncated record.
\<close>

lemma events_fit:
  assumes "is_long now" "is_long expires" "is_long attempt"
  shows "escapes_fit [(taskId, 256), (agentName, 128), (message, 512)] \<Longrightarrow>
      length (render_object (lease_fields taskId agentName attempt expires message now)) < 2048"
    and "escapes_fit [(taskId, 256), (agentName, 128), (message, 512)] \<Longrightarrow>
      length (render_object (renewal_fields taskId agentName attempt expires message now)) < 2048"
    and "escapes_fit ([(taskId, 256), (status, 64), (createdBy, 128), (message, 1024)] @
        (if cause \<noteq> [] then [(cause, 64)] else [])) \<Longrightarrow>
      length (render_object (status_fields taskId status createdBy message cause now)) < 2400"
    and "escapes_fit [(taskId, 256), (agentName, 128), (createdBy, 128), (why, 64), (message, 1024)] \<Longrightarrow>
      length (render_object (reclaim_fields taskId agentName createdBy why message now)) < 2400"
    and "escapes_fit [(taskId, 256), (why, 128), (createdBy, 128)] \<Longrightarrow>
      length (render_object (kill_fields taskId why createdBy now)) < 1024"
    and "escapes_fit [(taskId, 256), (agentName, 128), (createdBy, 128), (action, 64), (cls, 128), (level, 128), (why, 256)] \<Longrightarrow>
      length (render_object (autonomy_fields taskId agentName createdBy action cls level why ok attempt now)) < 2048"
    and "escapes_fit [(taskId, 256), (status, 64), (agentName, 128), (message, 4096), (path, 1024)] \<Longrightarrow>
      length (render_object (artifact_fields taskId status agentName message path now)) < 12288"
  using length_show_int [OF assms(1)] length_show_int [OF assms(2)] length_show_int [OF assms(3)]
  by (auto simp: length_render_object_simps lease_fields_def renewal_fields_def status_fields_def
      reclaim_fields_def kill_fields_def autonomy_fields_def artifact_fields_def bool_lit_def escape_char_def)

lemma write_event_ok:
  assumes "write_event fault sync n xs fs ledger = (True, ledger')" "length (render_object fs) < n"
  shows "bytes ledger' = bytes ledger @ render_object fs @ [NL]"
  using assms wtTaskAppendRecord_ok [of fault sync "render_object fs" ledger]
  by (auto simp: write_event_def split: if_splits)

lemma write_event_lines:
  assumes "write_event fault sync n xs fs ledger = (True, ledger')" "length (render_object fs) < n"
    and "clean_tail (bytes ledger)" "wf_fields fs" "n < WT_TASK_LEDGER_LINE_SIZE"
  shows "ledger_lines ledger' = ledger_lines ledger @ [render_object fs @ [NL]]"
    and "clean_tail (bytes ledger')"
proof -
  note b = write_event_ok [OF assms(1,2)]
  show "clean_tail (bytes ledger')" using b by (simp flip: append_assoc)
  show "ledger_lines ledger' = ledger_lines ledger @ [render_object fs @ [NL]]"
    unfolding ledger_lines_def b
    by (rule file_lines_append_record) (use assms render_object_line [OF assms(4)] in auto)
qed

end
