(* ===== verification/Task_Scan.thy ===== *)
theory Task_Scan
  imports Task_Ledger
begin

text \<open>
  The scans of \<^verbatim>\<open>src/src/wt_task_store.c\<close> that answer one question about one task or agent: is the
  agent paused, was the task cancelled, was its autonomy grant revoked, who holds its lease, and
  which of its dependents have to be blocked.

  Each scan is a loop over the lines of the ledger; its body is a \<open>..._step\<close> function from a line and
  the variables of the loop to the variables. The interface \<open>line_scanner\<close> is what every such loop
  provides (a line that is not about the subject changes nothing); \<open>toggle_scanner\<close> extends it for
  loops whose result is the last of a series of on/off events.
\<close>

section \<open>The interface of a scan\<close>

locale line_scanner =
  fixes step :: "string \<Rightarrow> 's \<Rightarrow> 's"
    and relevant :: "string \<Rightarrow> bool"
  assumes skips: "\<not> relevant line \<Longrightarrow> step line s = s"
begin

lemma scan_irrelevant: "\<forall>l \<in> set ls. \<not> relevant l \<Longrightarrow> fold step ls s = s"
  by (induction ls arbitrary: s) (auto simp: skips)

lemma scan_filter: "fold step ls s = fold step (filter relevant ls) s"
  by (induction ls arbitrary: s) (simp_all add: skips)

text \<open>Lines about other subjects can be inserted anywhere.\<close>

lemma scan_interleave:
  assumes "\<forall>l \<in> set other. \<not> relevant l"
  shows "fold step (ls @ other @ ls') s = fold step (ls @ ls') s"
  using assms by (simp add: scan_irrelevant)

end

locale toggle_scanner = line_scanner step "\<lambda>line. event line \<noteq> None"
  for step :: "string \<Rightarrow> bool \<Rightarrow> bool" and event :: "string \<Rightarrow> bool option" +
  assumes sets: "event line = Some v \<Longrightarrow> step line b = v"
begin

text \<open>The result is the last event, or the initial value when there is none.\<close>

lemma scan_last:
  "fold step ls b = (case rev (List.map_filter event ls) of [] \<Rightarrow> b | v # _ \<Rightarrow> v)"
proof (induction ls rule: rev_induct)
  case Nil
  show ?case by (simp add: map_filter_def)
next
  case (snoc l ls)
  show ?case
  proof (cases "event l")
    case None
    with snoc skips [of l] show ?thesis by (simp add: map_filter_def)
  next
    case (Some v)
    with sets [OF Some] show ?thesis by (simp add: map_filter_def)
  qed
qed

end

section \<open>Paused agents\<close>

definition pause_step :: "string \<Rightarrow> string \<Rightarrow> bool \<Rightarrow> bool" where
  "pause_step agentName line paused =
     (if \<not> lineHasSchema line ''woventeam.agent_control.v0.1'' then paused
      else if read_str line ''agent'' WT_TASK_AGENT_SIZE \<noteq> Some agentName then paused
      else (case read_str line ''action'' 32 of
              None \<Rightarrow> paused
            | Some action \<Rightarrow>
                (if action = ''pause'' then True else if action = ''resume'' then False else paused)))"

definition wtTaskAgentPaused :: "log_file \<Rightarrow> string \<Rightarrow> bool" where
  "wtTaskAgentPaused ledger agentName = fold (pause_step agentName) (ledger_lines ledger) False"

definition pause_event :: "string \<Rightarrow> string \<Rightarrow> bool option" where
  "pause_event agentName line =
     (if lineHasSchema line ''woventeam.agent_control.v0.1'' \<and>
         read_str line ''agent'' WT_TASK_AGENT_SIZE = Some agentName
      then (if read_str line ''action'' 32 = Some ''pause'' then Some True
            else if read_str line ''action'' 32 = Some ''resume'' then Some False else None)
      else None)"

interpretation paused: toggle_scanner "pause_step agentName" "pause_event agentName" for agentName
  by unfold_locales (auto simp: pause_step_def pause_event_def split: if_splits option.split)

section \<open>Cancel requests\<close>

definition cancel_step :: "string \<Rightarrow> string \<Rightarrow> bool \<Rightarrow> bool" where
  "cancel_step taskId line cancelSeen =
     (case read_str line ''schema'' 128 of
        None \<Rightarrow> cancelSeen
      | Some schema \<Rightarrow>
          (if read_str line ''taskId'' WT_TASK_ID_SIZE \<noteq> Some taskId then cancelSeen
           else if schema = ''woventeam.kill_event.v0.1'' then True
           else if schema = ''woventeam.task_event.v0.1'' then
             (if read_str line ''eventType'' 32 = Some ''lease'' then False else cancelSeen)
           else cancelSeen))"

definition wtTaskCancelRequested :: "log_file \<Rightarrow> string \<Rightarrow> bool" where
  "wtTaskCancelRequested ledger taskId = fold (cancel_step taskId) (ledger_lines ledger) False"

definition cancel_event :: "string \<Rightarrow> string \<Rightarrow> bool option" where
  "cancel_event taskId line =
     (if read_str line ''taskId'' WT_TASK_ID_SIZE \<noteq> Some taskId then None
      else if lineHasSchema line ''woventeam.kill_event.v0.1'' then Some True
      else if lineHasSchema line ''woventeam.task_event.v0.1'' \<and> read_str line ''eventType'' 32 = Some ''lease''
        then Some False
      else None)"

interpretation cancelled: toggle_scanner "cancel_step taskId" "cancel_event taskId" for taskId
  by unfold_locales (auto simp: cancel_step_def cancel_event_def lineHasSchema_def split: if_splits option.split)

section \<open>Revoked autonomy grants\<close>

record revocation =
  rev_found :: bool
  rev_at :: int
  rev_by :: string

definition no_revocation :: revocation where
  "no_revocation = \<lparr> rev_found = False, rev_at = 0, rev_by = [] \<rparr>"

definition revocation_step :: "string \<Rightarrow> nat \<Rightarrow> string \<Rightarrow> revocation \<Rightarrow> revocation" where
  "revocation_step taskId revokedBySize line r =
     (if read_str line ''schema'' 128 \<noteq> Some ''woventeam.autonomy_event.v0.1'' \<or>
         read_str line ''taskId'' WT_TASK_ID_SIZE \<noteq> Some taskId \<or>
         read_str line ''action'' 64 \<noteq> Some ''revoked'' then r
      else \<lparr> rev_found = True, rev_at = read_longlong_or line ''createdAtUnixMs'' (rev_at r),
             rev_by = read_or line ''actor'' revokedBySize [] \<rparr>)"

definition wtTaskReadLatestAutonomyRevocation :: "log_file \<Rightarrow> string \<Rightarrow> nat \<Rightarrow> revocation" where
  "wtTaskReadLatestAutonomyRevocation ledger taskId revokedBySize =
     fold (revocation_step taskId revokedBySize) (ledger_lines ledger) no_revocation"

interpretation revoked: line_scanner "revocation_step taskId revokedBySize"
    "\<lambda>line. lineHasSchema line ''woventeam.autonomy_event.v0.1'' \<and>
       read_str line ''taskId'' WT_TASK_ID_SIZE = Some taskId \<and> read_str line ''action'' 64 = Some ''revoked''"
  for taskId revokedBySize
  by unfold_locales (auto simp: revocation_step_def lineHasSchema_def)

text \<open>A revocation is never forgotten: no later line unsets it.\<close>

lemma revocation_sticky: "rev_found r \<Longrightarrow> rev_found (fold (revocation_step taskId n) ls r)"
proof (induction ls arbitrary: r)
  case (Cons l ls)
  have "rev_found (revocation_step taskId n l r)" using Cons.prems by (simp add: revocation_step_def)
  with Cons.IH show ?case by simp
qed simp

section \<open>The active lease\<close>

record lease_view =
  lv_active :: bool
  lv_holder :: string
  lv_expires :: int
  lv_attempt :: int

definition no_lease :: lease_view where
  "no_lease = \<lparr> lv_active = False, lv_holder = [], lv_expires = 0, lv_attempt = 0 \<rparr>"

definition terminal_status :: "string \<Rightarrow> bool" where
  "terminal_status s \<longleftrightarrow> s = ''complete'' \<or> s = ''failed'' \<or> s = ''cancelled'' \<or> s = ''closed''"

definition lease_step :: "string \<Rightarrow> nat \<Rightarrow> string \<Rightarrow> lease_view \<Rightarrow> lease_view" where
  "lease_step taskId leaseHolderSize line v =
     (if \<not> lineHasSchema line ''woventeam.task_event.v0.1'' then v
      else if read_str line ''taskId'' WT_TASK_ID_SIZE \<noteq> Some taskId then v
      else (case read_str line ''eventType'' 32 of
              None \<Rightarrow> v
            | Some eventType \<Rightarrow>
                (if eventType = ''lease'' then
                   \<lparr> lv_active = True, lv_holder = read_or line ''assignedAgent'' leaseHolderSize [],
                     lv_expires = read_longlong_or line ''leaseExpiresAtUnixMs'' 0,
                     lv_attempt = to_int32 (read_long_or line ''attempt'' 0) \<rparr>
                 else if eventType = ''reclaim'' then v \<lparr> lv_active := False \<rparr>
                 else if eventType = ''status'' then
                   (case read_str line ''status'' WT_TASK_STATUS_SIZE of
                      None \<Rightarrow> v
                    | Some eventStatus \<Rightarrow> (if terminal_status eventStatus then v \<lparr> lv_active := False \<rparr> else v))
                 else v)))"

definition wtTaskFindActiveLease :: "log_file \<Rightarrow> string \<Rightarrow> nat \<Rightarrow> lease_view" where
  "wtTaskFindActiveLease ledger taskId leaseHolderSize =
     fold (lease_step taskId leaseHolderSize) (ledger_lines ledger) no_lease"

interpretation lease: line_scanner "lease_step taskId leaseHolderSize"
    "\<lambda>line. lineHasSchema line ''woventeam.task_event.v0.1'' \<and> read_str line ''taskId'' WT_TASK_ID_SIZE = Some taskId"
  for taskId leaseHolderSize
  by unfold_locales (auto simp: lease_step_def)

section \<open>Properties\<close>

text \<open>
  A revoked grant stays revoked: once the scan finds a revocation for a task, it finds one after
  any later appends to the ledger, by any process, with any content and any failures.
\<close>

theorem revocation_permanent:
  assumes "clean_tail (bytes ledger)" and "rev_found (wtTaskReadLatestAutonomyRevocation ledger taskId n)"
  shows "rev_found (wtTaskReadLatestAutonomyRevocation (ledger.run ops ledger) taskId n)"
proof -
  obtain more where "ledger_lines (ledger.run ops ledger) = ledger_lines ledger @ more"
    using ledger.lines_prefix [OF assms(1)] by (auto simp: ledger_lines_def prefix_def)
  with assms(2) show ?thesis
    by (simp add: wtTaskReadLatestAutonomyRevocation_def revocation_sticky)
qed

definition revoked_line :: string where
  "revoked_line = render_object (autonomy_fields ''t1'' ''ceo'' ''claude'' ''revoked'' ''adapter'' ''autonomous'' ''stop'' False 0 77) @ [NL]"

lemma revoked_ledger:
  "clean_tail (bytes (Some revoked_line))" "rev_found (wtTaskReadLatestAutonomyRevocation (Some revoked_line) ''t1'' 64)"
proof -
  let ?fs = "autonomy_fields ''t1'' ''ceo'' ''claude'' ''revoked'' ''adapter'' ''autonomous'' ''stop'' False 0 77"
  have c: "clean_fields ?fs"
    by (simp add: autonomy_fields_def bool_lit_def is_alnum_def is_digit_def)
  then have wf: "wf_fields ?fs" by (simp add: clean_fields_def)
  have "length (render_object ?fs) < 1000"
    by (simp add: autonomy_fields_def bool_lit_def length_render_object_simps escape_char_def show_int_def show_nat.simps)
  then have "ledger_lines (Some revoked_line) = [revoked_line]"
    using file_lines_record [of "render_object ?fs" 16384] render_object_line [OF wf]
    by (simp add: ledger_lines_def revoked_line_def task_sizes)
  moreover have "read_str revoked_line k n = (case map_of ?fs k of Some (JStr s) \<Rightarrow> if length s < n then Some s else None | _ \<Rightarrow> None)"
    if "key_text k" "0 < n" for k n
    using read_str_render [OF c that(1), of "[NL]" n] that(2) by (simp add: revoked_line_def)
  ultimately show "rev_found (wtTaskReadLatestAutonomyRevocation (Some revoked_line) ''t1'' 64)"
    by (simp add: wtTaskReadLatestAutonomyRevocation_def revocation_step_def task_sizes autonomy_fields_def)
  show "clean_tail (bytes (Some revoked_line))" by (simp add: revoked_line_def)
qed

theorem revocation_permanent_witness:
  "rev_found (wtTaskReadLatestAutonomyRevocation
     (ledger.run [(ShortWrite 2, True, ''junk''), (NoFault, False, ''{}'')] (Some revoked_line)) ''t1'' 64)"
  by (rule revocation_permanent [OF revoked_ledger])

text \<open>
  An agent is paused exactly when the last pause or resume control record for it in the ledger
  is a pause; records for other agents and other actions do not matter.
\<close>

theorem paused_is_last_control:
  "wtTaskAgentPaused ledger agentName =
     (case rev (List.map_filter (pause_event agentName) (ledger_lines ledger)) of [] \<Rightarrow> False | v # _ \<Rightarrow> v)"
  unfolding wtTaskAgentPaused_def by (rule paused.scan_last)

section \<open>The dump of the ledger\<close>

definition comma_join :: "string list \<Rightarrow> string" where
  "comma_join ls = (case ls of [] \<Rightarrow> [] | l # ls' \<Rightarrow> l @ concat (map (\<lambda>x. CHR '','' # x) ls'))"

lemma comma_join_snoc: "comma_join (ls @ [l]) = comma_join ls @ (if ls = [] then [] else '','') @ l"
  by (cases ls) (simp_all add: comma_join_def)

definition records :: "string list \<Rightarrow> string list" where
  "records ls = filter (\<lambda>l. l \<noteq> []) (map strip_eol ls)"

lemma read_array_loop_spec:
  assumes "length (CHR ''['' # comma_join done) + 2 \<le> n"
  shows "\<exists>k. read_array_loop n (done = []) (CHR ''['' # comma_join done) ls =
      CHR ''['' # comma_join (done @ take k (records ls)) \<and>
      length (CHR ''['' # comma_join (done @ take k (records ls))) + 2 \<le> n"
  using assms
proof (induction ls arbitrary: "done")
  case (Cons l ls)
  let ?l = "strip_eol l"
  show ?case
  proof (cases "?l = []")
    case True
    with Cons show ?thesis by (simp add: records_def)
  next
    case False
    show ?thesis
    proof (cases "length (CHR ''['' # comma_join done) + length ?l + 3 \<ge> n")
      case True
      with False Cons.prems show ?thesis by (intro exI [of _ 0]) simp
    next
      case fits: False
      have "length (CHR ''['' # comma_join (done @ [?l])) + 2 \<le> n"
        using fits by (auto simp: comma_join_snoc)
      from Cons.IH [OF this] obtain k where
        "read_array_loop n (done @ [?l] = []) (CHR ''['' # comma_join (done @ [?l])) ls =
            CHR ''['' # comma_join (done @ [?l] @ take k (records ls))"
        "length (CHR ''['' # comma_join (done @ [?l] @ take k (records ls))) + 2 \<le> n" by auto
      with False fits show ?thesis
        by (intro exI [of _ "Suc k"]) (simp add: comma_join_snoc records_def Let_def)
    qed
  qed
qed (auto simp: records_def)

text \<open>
  The dump is a JSON array of whole records: the first records of the ledger, as many as fit,
  joined by commas between brackets, and it stays inside the buffer with its terminator.
\<close>

theorem ledger_dump_whole_records:
  assumes "wtTaskReadAllJsonArray ledger n = Some out"
  shows "\<exists>k. out = CHR ''['' # comma_join (take k (records (ledger_lines ledger))) @ '']'' \<and> length out < n"
proof -
  have n: "3 \<le> n" and out: "out = read_array_loop n True ''['' (ledger_lines ledger) @ '']''"
    using assms by (auto simp: wtTaskReadAllJsonArray_def split: if_splits)
  show ?thesis
    using read_array_loop_spec [of "[]" n "ledger_lines ledger"] n out by (auto simp: comma_join_def)
qed

theorem ledger_dump_whole_records_witness:
  "\<exists>k. ''[]'' = CHR ''['' # comma_join (take k (records (ledger_lines None))) @ '']'' \<and> length ''[]'' < (3::nat)"
  by (rule ledger_dump_whole_records) (simp add: wtTaskReadAllJsonArray_def ledger_lines_def)

end
