(* ===== verification/Lease_Protocol.thy ===== *)
theory Lease_Protocol
  imports Task_Scan
begin

text \<open>
  The lease and cancel protocol end to end: the writers of \<^verbatim>\<open>src/src/wt_task_store.c\<close> against its
  scans. The abstract machine keeps, for every task, the lease that is in force and whether a
  cancel is pending; each action of an agent or operator is one transition of it, and a renewal
  extends the lease, as \<^verbatim>\<open>wt_task_store.h\<close> and \<^verbatim>\<open>wt_config.h\<close> describe it. Running the writers and
  scanning the file gives the holder and the attempt of the machine, and its expiry as long as the
  lease was not renewed: \<open>wtTaskFindActiveLease\<close> does not read renewals (a divergence, stated at the
  end of the theory).
\<close>

section \<open>Actions\<close>

datatype ledger_action =
    Lease string string int int
  | Renew string string int int
  | Reclaim string string string string string
  | Status string string string string
  | Kill string string string

fun perform :: "int \<Rightarrow> ledger_action \<Rightarrow> log_file \<Rightarrow> bool \<times> log_file" where
  "perform now (Lease taskId agentName attempt expires) =
     wtTaskAppendLeaseEvent NoFault True now taskId agentName attempt expires"
| "perform now (Renew taskId agentName attempt expires) =
     wtTaskAppendLeaseRenewal NoFault True now taskId agentName attempt expires"
| "perform now (Reclaim taskId previousAgent reclaimedBy why message) =
     wtTaskAppendReclaimEvent NoFault True now taskId previousAgent reclaimedBy (Some why) message"
| "perform now (Status taskId status createdBy message) =
     wtTaskAppendStatusEvent NoFault True now taskId status createdBy message"
| "perform now (Kill taskId why createdBy) =
     wtTaskAppendKillEvent NoFault True now taskId (Some why) (Some createdBy)"

fun action_fields :: "int \<Rightarrow> ledger_action \<Rightarrow> (string \<times> jval) list" where
  "action_fields now (Lease taskId agentName attempt expires) =
     lease_fields taskId agentName attempt expires
       (snprintf_s 256 (''Task leased by wt-agent@'' @ agentName @ '' attempt '' @ show_int attempt @ ''.'')) now"
| "action_fields now (Renew taskId agentName attempt expires) =
     renewal_fields taskId agentName attempt expires
       (snprintf_s 256 (''Lease renewed by wt-agent@'' @ agentName @ '' attempt '' @ show_int attempt @
          ''; extended to '' @ show_int expires @ ''.'')) now"
| "action_fields now (Reclaim taskId previousAgent reclaimedBy why message) =
     reclaim_fields taskId previousAgent reclaimedBy why message now"
| "action_fields now (Status taskId status createdBy message) =
     status_fields taskId status createdBy message [] now"
| "action_fields now (Kill taskId why createdBy) = kill_fields taskId why createdBy now"

text \<open>Arguments the buffers of the program can hold, without stray control characters.\<close>

definition text_ok :: "nat \<Rightarrow> string \<Rightarrow> bool" where
  "text_ok n s \<longleftrightarrow> no_control s \<and> length s < n"

fun action_ok :: "ledger_action \<Rightarrow> bool" where
  "action_ok (Lease taskId agentName attempt expires) \<longleftrightarrow>
     text_ok 128 taskId \<and> text_ok 64 agentName \<and> is_int32 attempt \<and> is_long expires"
| "action_ok (Renew taskId agentName attempt expires) \<longleftrightarrow>
     text_ok 128 taskId \<and> text_ok 64 agentName \<and> is_int32 attempt \<and> is_long expires"
| "action_ok (Reclaim taskId previousAgent reclaimedBy why message) \<longleftrightarrow>
     text_ok 128 taskId \<and> text_ok 64 previousAgent \<and> text_ok 64 reclaimedBy \<and> text_ok 32 why \<and> text_ok 512 message"
| "action_ok (Status taskId status createdBy message) \<longleftrightarrow>
     text_ok 128 taskId \<and> text_ok 32 status \<and> text_ok 64 createdBy \<and> text_ok 512 message"
| "action_ok (Kill taskId why createdBy) \<longleftrightarrow> text_ok 128 taskId \<and> text_ok 64 why \<and> text_ok 64 createdBy"

section \<open>The abstract machine\<close>

record lease_state =
  in_force :: "string \<Rightarrow> (string \<times> int \<times> int) option"
  extended :: "string \<Rightarrow> bool"
  cancel_pending :: "string \<Rightarrow> bool"

definition idle :: lease_state where
  "idle = \<lparr> in_force = (\<lambda>_. None), extended = (\<lambda>_. False), cancel_pending = (\<lambda>_. False) \<rparr>"

fun transition :: "ledger_action \<Rightarrow> lease_state \<Rightarrow> lease_state" where
  "transition (Lease taskId agentName attempt expires) st =
     st \<lparr> in_force := (in_force st)(taskId := Some (agentName, expires, attempt)),
          extended := (extended st)(taskId := False),
          cancel_pending := (cancel_pending st)(taskId := False) \<rparr>"
| "transition (Renew taskId agentName attempt expires) st =
     (case in_force st taskId of
        None \<Rightarrow> st
      | Some (holder, _, n) \<Rightarrow> st \<lparr> in_force := (in_force st)(taskId := Some (holder, expires, n)),
                                  extended := (extended st)(taskId := True) \<rparr>)"
| "transition (Reclaim taskId previousAgent reclaimedBy why message) st =
     st \<lparr> in_force := (in_force st)(taskId := None) \<rparr>"
| "transition (Status taskId status createdBy message) st =
     (if terminal_status status then st \<lparr> in_force := (in_force st)(taskId := None) \<rparr> else st)"
| "transition (Kill taskId why createdBy) st =
     st \<lparr> cancel_pending := (cancel_pending st)(taskId := True) \<rparr>"

text \<open>What the lease scan shows of a task, against the abstract state.\<close>

definition shows_lease :: "lease_view \<Rightarrow> (string \<times> int \<times> int) option \<Rightarrow> bool \<Rightarrow> bool" where
  "shows_lease v x renewed \<longleftrightarrow> (case x of
       None \<Rightarrow> \<not> lv_active v
     | Some (holder, expires, attempt) \<Rightarrow>
         lv_active v \<and> lv_holder v = holder \<and> lv_attempt v = attempt \<and> (\<not> renewed \<longrightarrow> lv_expires v = expires))"

definition implements :: "log_file \<Rightarrow> lease_state \<Rightarrow> bool" where
  "implements ledger st \<longleftrightarrow> clean_tail (bytes ledger) \<and>
     (\<forall>t. length t < 128 \<longrightarrow> shows_lease (wtTaskFindActiveLease ledger t 64) (in_force st t) (extended st t) \<and>
          wtTaskCancelRequested ledger t = cancel_pending st t)"

lemma implements_lease:
  "implements ledger st \<Longrightarrow> length t < 128 \<Longrightarrow>
   shows_lease (wtTaskFindActiveLease ledger t 64) (in_force st t) (extended st t)"
  by (simp add: implements_def)

lemma shows_unrenewed:
  "shows_lease v (Some (holder, expires, attempt)) False \<longleftrightarrow>
   v = \<lparr> lv_active = True, lv_holder = holder, lv_expires = expires, lv_attempt = attempt \<rparr>"
  by (auto simp: shows_lease_def)

section \<open>One action\<close>

lemma escape_text_ok: "text_ok m s \<Longrightarrow> 2 * m \<le> n \<Longrightarrow> length (escape s) < n"
  using length_escape_no_control [of s] by (simp add: text_ok_def)

lemma clean_action_fields: "action_ok a \<Longrightarrow> clean_fields (action_fields now a)"
  by (cases a) (simp_all add: lease_fields_def renewal_fields_def reclaim_fields_def status_fields_def
      kill_fields_def text_ok_def)

lemma snprintf_escape: "no_control s \<Longrightarrow> length (escape (snprintf_s 256 s)) < 512"
  using length_escape_no_control [of "snprintf_s 256 s"] length_snprintf_s [of 256 s] by simp

lemma write_event_succeeds:
  assumes "escapes_fit xs" "length (render_object fs) < n"
  shows "write_event NoFault True n xs fs ledger = (True, Some (bytes ledger @ render_object fs @ [NL]))"
  using assms by (simp add: write_event_def wtTaskAppendRecord_def write_record_def)

lemma perform_succeeds:
  assumes "action_ok a" "is_long now"
  shows "perform now a ledger = (True, Some (bytes ledger @ render_object (action_fields now a) @ [NL]))"
    and "length (render_object (action_fields now a)) < 2400"
proof -
  note esc = escape_text_ok
  have all: "perform now a ledger = (True, Some (bytes ledger @ render_object (action_fields now a) @ [NL])) \<and>
      length (render_object (action_fields now a)) < 2400"
  proof (cases a)
    case (Lease t ag n e)
    let ?m = "snprintf_s 256 (''Task leased by wt-agent@'' @ ag @ '' attempt '' @ show_int n @ ''.'')"
    have ok: "escapes_fit [(t, 256), (ag, 128), (?m, 512)]"
      using assms Lease esc [of 128 t 256] esc [of 64 ag 128] snprintf_escape by (simp add: text_ok_def)
    have "length (render_object (lease_fields t ag n e ?m now)) < 2048"
      by (rule events_fit(1) [OF assms(2) _ _ ok]) (use assms Lease in \<open>auto intro: is_int32_is_long\<close>)
    with ok Lease show ?thesis
      by (simp add: wtTaskAppendLeaseEvent_def write_event_succeeds task_sizes Let_def del: escapes_fit_simps)
  next
    case (Renew t ag n e)
    let ?m = "snprintf_s 256 (''Lease renewed by wt-agent@'' @ ag @ '' attempt '' @ show_int n @
        ''; extended to '' @ show_int e @ ''.'')"
    have ok: "escapes_fit [(t, 256), (ag, 128), (?m, 512)]"
      using assms Renew esc [of 128 t 256] esc [of 64 ag 128] snprintf_escape by (simp add: text_ok_def)
    have "length (render_object (renewal_fields t ag n e ?m now)) < 2048"
      by (rule events_fit(2) [OF assms(2) _ _ ok]) (use assms Renew in \<open>auto intro: is_int32_is_long\<close>)
    with ok Renew show ?thesis
      by (simp add: wtTaskAppendLeaseRenewal_def write_event_succeeds task_sizes Let_def del: escapes_fit_simps)
  next
    case (Reclaim t p b w m)
    have ok: "escapes_fit [(t, 256), (p, 128), (b, 128), (w, 64), (m, 1024)]"
      using assms Reclaim esc [of 128 t 256] esc [of 64 p 128] esc [of 64 b 128] esc [of 32 w 64] esc [of 512 m 1024]
      by simp
    have "length (render_object (reclaim_fields t p b w m now)) < 2400"
      by (rule events_fit(4) [OF assms(2) _ _ ok, of 0 0]) (simp_all add: c_int_defs)
    with ok Reclaim show ?thesis
      by (simp add: wtTaskAppendReclaimEvent_def write_event_succeeds task_sizes or_default_def Let_def del: escapes_fit_simps)
  next
    case (Status t s b m)
    have ok: "escapes_fit ([(t, 256), (s, 64), (b, 128), (m, 1024)] @ (if [] \<noteq> ([]::string) then [([], 64)] else []))"
      using assms Status esc [of 128 t 256] esc [of 32 s 64] esc [of 64 b 128] esc [of 512 m 1024] by simp
    have "length (render_object (status_fields t s b m [] now)) < 2400"
      by (rule events_fit(3) [OF assms(2) _ _ ok, of 0 0]) (simp_all add: c_int_defs)
    with ok Status show ?thesis
      by (simp add: wtTaskAppendStatusEvent_def wtTaskAppendStatusEventWithCause_def write_event_succeeds task_sizes
          del: escapes_fit_simps)
  next
    case (Kill t w b)
    have ok: "escapes_fit [(t, 256), (w, 128), (b, 128)]"
      using assms Kill esc [of 128 t 256] esc [of 64 w 128] esc [of 64 b 128] by simp
    have "length (render_object (kill_fields t w b now)) < 1024"
      by (rule events_fit(5) [OF assms(2) _ _ ok, of 0 0]) (simp_all add: c_int_defs)
    with ok Kill show ?thesis
      by (simp add: wtTaskAppendKillEvent_def write_event_succeeds task_sizes or_default_def Let_def del: escapes_fit_simps)
  qed
  then show "perform now a ledger = (True, Some (bytes ledger @ render_object (action_fields now a) @ [NL]))"
    and "length (render_object (action_fields now a)) < 2400" by blast+
qed

lemma perform_lines:
  assumes "action_ok a" "is_long now" "clean_tail (bytes ledger)"
  shows "ledger_lines (snd (perform now a ledger)) =
      ledger_lines ledger @ [render_object (action_fields now a) @ [NL]]"
    and "clean_tail (bytes (snd (perform now a ledger)))"
proof -
  have wf: "wf_fields (action_fields now a)"
    using clean_action_fields [OF assms(1)] by (simp add: clean_fields_def)
  show "ledger_lines (snd (perform now a ledger)) =
      ledger_lines ledger @ [render_object (action_fields now a) @ [NL]]"
    unfolding perform_succeeds(1) [OF assms(1,2)] ledger_lines_def snd_conv bytes_simps
    by (rule file_lines_append_record)
      (use assms(3) perform_succeeds(2) [OF assms(1,2)] render_object_line [OF wf] in \<open>auto simp: task_sizes\<close>)
  show "clean_tail (bytes (snd (perform now a ledger)))"
    unfolding perform_succeeds(1) [OF assms(1,2)] by (simp flip: append_assoc)
qed

definition action_line :: "int \<Rightarrow> ledger_action \<Rightarrow> string" where
  "action_line now a = render_object (action_fields now a) @ [NL]"

text \<open>Reading a written action back, field by field.\<close>

lemma read_action:
  assumes "action_ok a" "key_text k"
  shows "0 < n \<Longrightarrow> read_str (action_line now a) k n =
      (case map_of (action_fields now a) k of Some (JStr s) \<Rightarrow> if length s < n then Some s else None | _ \<Rightarrow> None)"
    and "wtJsonReadLong (action_line now a) k =
      (case map_of (action_fields now a) k of Some (JNum v) \<Rightarrow> Some (clamp64 v) | _ \<Rightarrow> None)"
    and "wtJsonReadLongLong (action_line now a) k =
      (case map_of (action_fields now a) k of Some (JNum v) \<Rightarrow> Some (clamp64 v) | _ \<Rightarrow> None)"
  using read_str_render [OF clean_action_fields [OF assms(1)] assms(2), of "[NL]"]
    read_long_render [OF clean_action_fields [OF assms(1)] assms(2), of "[NL]"]
  by (simp_all add: action_line_def)

fun action_task :: "ledger_action \<Rightarrow> string" where
  "action_task (Lease t _ _ _) = t" | "action_task (Renew t _ _ _) = t" | "action_task (Reclaim t _ _ _ _) = t"
| "action_task (Status t _ _ _) = t" | "action_task (Kill t _ _) = t"

lemmas action_fields_defs = lease_fields_def renewal_fields_def reclaim_fields_def status_fields_def kill_fields_def

lemma lease_step_action:
  assumes "action_ok a" "length t < 128"
  shows "lease_step t 64 (action_line now a) v = (case a of
      Lease t' ag n e \<Rightarrow> if t' = t then \<lparr> lv_active = True, lv_holder = ag, lv_expires = e, lv_attempt = n \<rparr> else v
    | Renew t' ag n e \<Rightarrow> v
    | Reclaim t' p b w m \<Rightarrow> if t' = t then v \<lparr> lv_active := False \<rparr> else v
    | Status t' s b m \<Rightarrow> if t' = t \<and> terminal_status s then v \<lparr> lv_active := False \<rparr> else v
    | Kill t' w b \<Rightarrow> v)"
proof -
  show ?thesis
    using assms
    by (cases a; cases "action_task a = t") (simp_all add: lease_step_def lineHasSchema_def read_action action_fields_defs task_sizes text_ok_def
        read_or_read_str read_longlong_or_def read_long_or_def is_int32_is_long)
qed

lemma cancel_step_action:
  assumes "action_ok a" "length t < 128"
  shows "cancel_step t (action_line now a) b = (case a of
      Lease t' ag n e \<Rightarrow> if t' = t then False else b
    | Kill t' w by_whom \<Rightarrow> if t' = t then True else b
    | _ \<Rightarrow> b)"
proof -
  show ?thesis
    using assms
    by (cases a; cases "action_task a = t") (simp_all add: cancel_step_def read_action action_fields_defs task_sizes text_ok_def)
qed

text \<open>The simulation: one writer call against one transition.\<close>

lemma simulation_step:
  assumes "implements ledger st" "action_ok a" "is_long now"
  shows "implements (snd (perform now a ledger)) (transition a st)"
proof -
  have clean: "clean_tail (bytes ledger)" using assms(1) by (simp add: implements_def)
  note lines = perform_lines(1) [OF assms(2,3) clean, folded action_line_def]
  have "shows_lease (wtTaskFindActiveLease (snd (perform now a ledger)) t 64) (in_force (transition a st) t)
      (extended (transition a st) t)" if "length t < 128" for t
  proof -
    have "shows_lease (wtTaskFindActiveLease ledger t 64) (in_force st t) (extended st t)"
      using assms(1) that by (simp add: implements_def)
    moreover have "wtTaskFindActiveLease (snd (perform now a ledger)) t 64 =
        lease_step t 64 (action_line now a) (wtTaskFindActiveLease ledger t 64)"
      by (simp add: wtTaskFindActiveLease_def lines)
    ultimately show ?thesis
      unfolding lease_step_action [OF assms(2) that]
      by (cases a) (auto simp: shows_lease_def split: option.splits)
  qed
  moreover have "wtTaskCancelRequested (snd (perform now a ledger)) t = cancel_pending (transition a st) t"
    if "length t < 128" for t
  proof -
    have "wtTaskCancelRequested ledger t = cancel_pending st t"
      using assms(1) that by (simp add: implements_def)
    moreover have "wtTaskCancelRequested (snd (perform now a ledger)) t =
        cancel_step t (action_line now a) (wtTaskCancelRequested ledger t)"
      by (simp add: wtTaskCancelRequested_def lines)
    ultimately show ?thesis
      unfolding cancel_step_action [OF assms(2) that] by (cases a) (auto split: option.splits)
  qed
  ultimately show ?thesis
    using perform_lines(2) [OF assms(2,3) clean] by (simp add: implements_def)
qed

section \<open>Properties\<close>

text \<open>A history: each action with the clock of its moment.\<close>

definition run_history :: "(int \<times> ledger_action) list \<Rightarrow> log_file \<Rightarrow> log_file" where
  "run_history history ledger = fold (\<lambda>(now, a) l. snd (perform now a l)) history ledger"

definition history_ok :: "(int \<times> ledger_action) list \<Rightarrow> bool" where
  "history_ok history = list_all (\<lambda>(now, a). is_long now \<and> action_ok a) history"

lemma implements_history:
  "implements ledger st \<Longrightarrow> history_ok history \<Longrightarrow>
   implements (run_history history ledger) (fold (\<lambda>(now, a). transition a) history st)"
proof (induction history arbitrary: ledger st)
  case (Cons h history)
  obtain now a where h: "h = (now, a)" by (cases h)
  have "implements (snd (perform now a ledger)) (transition a st)"
    using simulation_step [OF Cons.prems(1)] Cons.prems(2) h by (simp add: history_ok_def)
  from Cons.IH [OF this] Cons.prems(2) h show ?case
    by (simp add: run_history_def history_ok_def)
qed (simp add: run_history_def)

lemma implements_clean: "implements ledger st \<Longrightarrow> clean_tail (bytes ledger)"
  by (simp add: implements_def)

text \<open>The lines a history adds.\<close>

lemma run_history_lines:
  "clean_tail (bytes ledger) \<Longrightarrow> history_ok history \<Longrightarrow>
   ledger_lines (run_history history ledger) = ledger_lines ledger @ map (\<lambda>(now, a). action_line now a) history \<and>
   clean_tail (bytes (run_history history ledger))"
proof (induction history arbitrary: ledger)
  case (Cons h history)
  obtain now a where h: "h = (now, a)" by (cases h)
  have ok: "action_ok a" "is_long now" "history_ok history" using Cons.prems(2) h by (simp_all add: history_ok_def)
  note lines = perform_lines [OF ok(1,2) Cons.prems(1), folded action_line_def]
  from Cons.IH [OF lines(2) ok(3)] lines(1) h show ?case by (simp add: run_history_def)
qed (simp add: run_history_def)

lemma implements_idle: "implements None idle"
  by (simp add: implements_def idle_def shows_lease_def wtTaskFindActiveLease_def wtTaskCancelRequested_def
      ledger_lines_def no_lease_def)




text \<open>
  A kill stays in force for the running attempt and only for it: once a kill event is in the
  ledger the cancel scan answers yes, whatever is appended for other tasks and whatever happens to
  this task, until the next lease of the task; that lease clears it.
\<close>

theorem kill_until_next_lease:
  assumes "history_ok ((now, Kill t why by_whom) # history)" and "length t < 128"
    and "implements ledger st"
    and "\<forall>(_, a) \<in> set history. \<forall>ag n e. a \<noteq> Lease t ag n e"
  shows "wtTaskCancelRequested (run_history ((now, Kill t why by_whom) # history) ledger) t
    \<and> (action_ok (Lease t ag n e) \<and> is_long now' \<longrightarrow>
       \<not> wtTaskCancelRequested (run_history ((now, Kill t why by_whom) # history @ [(now', Lease t ag n e)]) ledger) t)"
proof -
  have keep: "cancel_pending (fold (\<lambda>(now, a). transition a) history st') t" if "cancel_pending st' t" for st'
    using assms(4) that
  proof (induction history arbitrary: st')
    case (Cons h history)
    obtain m a where h: "h = (m, a)" by (cases h)
    have "cancel_pending (transition a st') t" using Cons.prems h by (cases a) (auto split: option.split)
    with Cons.IH Cons.prems(1) h show ?case by simp
  qed simp
  have yes: "wtTaskCancelRequested (run_history ((now, Kill t why by_whom) # history) ledger) t"
    using implements_history [OF assms(3,1)] assms(2) keep by (simp add: implements_def)
  have "\<not> wtTaskCancelRequested (run_history ((now, Kill t why by_whom) # history @ [(now', Lease t ag n e)]) ledger) t"
    if "action_ok (Lease t ag n e)" "is_long now'"
  proof -
    have "history_ok (((now, Kill t why by_whom) # history) @ [(now', Lease t ag n e)])"
      using assms(1) that by (simp add: history_ok_def)
    from implements_history [OF assms(3) this] assms(2) show ?thesis by (simp add: implements_def)
  qed
  with yes show ?thesis by blast
qed

theorem kill_until_next_lease_witness:
  "wtTaskCancelRequested (run_history [(1, Kill ''t1'' ''operator'' ''ceo''), (2, Status ''t1'' ''running'' ''claude'' ''m''),
       (3, Lease ''t2'' ''gemini'' 1 900)] None) ''t1''"
proof -
  have "history_ok [(1, Kill ''t1'' ''operator'' ''ceo''), (2, Status ''t1'' ''running'' ''claude'' ''m''),
      (3, Lease ''t2'' ''gemini'' 1 900)]"
    by (simp add: history_ok_def text_ok_def c_int_defs)
  from kill_until_next_lease [OF this _ implements_idle] show ?thesis by simp
qed

text \<open>
  (A divergence from the header comment, which calls a renewal an extension of the lease.) A
  lease renewal changes nothing of what the active-lease scan reports: the expiry stays the one of
  the original lease, however far the renewal extends it.
\<close>

theorem renewal_not_seen_by_active_lease:
  assumes "clean_tail (bytes ledger)" and "action_ok (Renew t ag n e)" and "is_long now"
  shows "wtTaskFindActiveLease (snd (wtTaskAppendLeaseRenewal NoFault True now t ag n e ledger)) t 64 =
    wtTaskFindActiveLease ledger t 64"
proof -
  have "length t < 128" using assms(2) by (simp add: text_ok_def)
  note step = lease_step_action [OF assms(2) this]
  have "ledger_lines (snd (wtTaskAppendLeaseRenewal NoFault True now t ag n e ledger)) =
      ledger_lines ledger @ [action_line now (Renew t ag n e)]"
    using perform_lines(1) [OF assms(2,3,1)] by (simp add: action_line_def)
  with step show ?thesis by (simp add: wtTaskFindActiveLease_def)
qed

theorem renewal_not_seen_by_active_lease_witness:
  "lv_expires (wtTaskFindActiveLease (snd (wtTaskAppendLeaseRenewal NoFault True 800 ''t1'' ''claude'' 1 5000
     (run_history [(1, Lease ''t1'' ''claude'' 1 900)] None))) ''t1'' 64) = 900"
proof -
  have ok: "history_ok [(1, Lease ''t1'' ''claude'' 1 900)]" "action_ok (Renew ''t1'' ''claude'' 1 5000)" "is_long 800"
    by (simp_all add: history_ok_def text_ok_def c_int_defs)
  note imp = implements_history [OF implements_idle ok(1)]
  then have clean: "clean_tail (bytes (run_history [(1, Lease ''t1'' ''claude'' 1 900)] None))" by (simp add: implements_def)
  show ?thesis
    using renewal_not_seen_by_active_lease [OF clean ok(2,3)] implements_lease [OF imp, of "''t1''"]
    by (simp add: idle_def shows_unrenewed)
qed

end
