(* ===== verification/Task_Claim.thy ===== *)
theory Task_Claim
  imports Task_Scan
begin

text \<open>
  Which task an agent may take: \<open>wtTaskFindQueuedForAgent\<close>, \<open>wtTaskFindClaimableForAgent\<close> and
  \<open>wtTaskFindClaimableForAgentOnHost\<close> of \<^verbatim>\<open>src/src/wt_task_store.c\<close>, and the propagation of a
  blocked task to its dependents (\<open>wtTaskAppendBlockedDependents\<close>).

  The C arrays \<open>tasks\<close>, \<open>ownerAgent\<close> and \<open>leaseExpiresAt\<close> with their common index are a list of
  slots; at most 256 tasks are tracked, as in the code. A field too long for its place in a slot is cut
  there: the failed read leaves it without a terminator, and \<open>readOptionalString\<close> then prints the place
  over itself with \<open>snprintf\<close>, which ends it (\<open>read_keep\<close>).
\<close>

record WtTaskSummary =
  t_taskId :: string
  t_assignedAgent :: string
  t_assignedRole :: string
  t_status :: string
  t_title :: string
  t_body :: string
  t_modelId :: string
  t_toolProfile :: string
  t_executionHost :: string
  t_autonomyLevel :: string
  t_autonomyScope :: string
  t_autonomyNetwork :: string
  t_autonomyCredentialClass :: string
  t_autonomyTtlSeconds :: int
  t_autonomyMaxWallClockSeconds :: int
  t_autonomyRequiresCleanWorktree :: int
  t_autonomyCreatedAtUnixMs :: int
  t_autonomyRevokedAtUnixMs :: int
  t_autonomyRevokedBy :: string
  t_timeoutSeconds :: int
  t_maxOutputBytes :: int
  t_updatedAtUnixMs :: int

text \<open>\<open>memset(&tasks[index], 0, ...)\<close> followed by the copy of the id.\<close>

definition new_task :: "string \<Rightarrow> WtTaskSummary" where
  "new_task taskId = \<lparr> t_taskId = snprintf_s WT_TASK_ID_SIZE taskId, t_assignedAgent = [], t_assignedRole = [],
     t_status = [], t_title = [], t_body = [], t_modelId = [], t_toolProfile = [], t_executionHost = [],
     t_autonomyLevel = [], t_autonomyScope = [], t_autonomyNetwork = [], t_autonomyCredentialClass = [],
     t_autonomyTtlSeconds = 0, t_autonomyMaxWallClockSeconds = 0, t_autonomyRequiresCleanWorktree = 0,
     t_autonomyCreatedAtUnixMs = 0, t_autonomyRevokedAtUnixMs = 0, t_autonomyRevokedBy = [],
     t_timeoutSeconds = 0, t_maxOutputBytes = 0, t_updatedAtUnixMs = 0 \<rparr>"

definition findKnownTask :: "WtTaskSummary list \<Rightarrow> string \<Rightarrow> nat option" where
  "findKnownTask tasks taskId = List.find (\<lambda>i. t_taskId (tasks ! i) = taskId) [0..<length tasks]"

definition populateTaskAutonomy :: "string \<Rightarrow> WtTaskSummary \<Rightarrow> WtTaskSummary" where
  "populateTaskAutonomy line task = task \<lparr>
     t_autonomyLevel := read_or line ''autonomyLevel'' WT_TASK_POLICY_SIZE [],
     t_autonomyScope := read_or line ''scope'' WT_TASK_BODY_SIZE [],
     t_autonomyNetwork := read_or line ''network'' WT_TASK_POLICY_SIZE ''none'',
     t_autonomyCredentialClass := read_or line ''credentialClass'' WT_TASK_POLICY_SIZE ''none'',
     t_autonomyTtlSeconds :=
       (case wtJsonReadLong line ''ttlSeconds'' of Some v \<Rightarrow> to_int32 v | None \<Rightarrow> t_autonomyTtlSeconds task),
     t_autonomyMaxWallClockSeconds :=
       (case wtJsonReadLong line ''maxWallClockSeconds'' of Some v \<Rightarrow> to_int32 v | None \<Rightarrow> t_autonomyMaxWallClockSeconds task),
     t_autonomyRequiresCleanWorktree :=
       (case wtJsonReadLong line ''requiresCleanWorktree'' of Some v \<Rightarrow> (if v \<noteq> 0 then 1 else 0)
        | None \<Rightarrow> t_autonomyRequiresCleanWorktree task),
     t_autonomyCreatedAtUnixMs := read_longlong_or line ''createdAtUnixMs'' (t_autonomyCreatedAtUnixMs task) \<rparr>"

definition populateTaskPackageFields :: "string \<Rightarrow> WtTaskSummary \<Rightarrow> WtTaskSummary" where
  "populateTaskPackageFields line task0 =
     (let task = populateTaskAutonomy line (task0 \<lparr>
            t_assignedAgent := read_or line ''assignedAgent'' WT_TASK_AGENT_SIZE [],
            t_assignedRole := read_or line ''assignedRole'' WT_TASK_AGENT_SIZE [],
            t_status := read_or line ''status'' WT_TASK_STATUS_SIZE ''queued'',
            t_title := read_or line ''title'' WT_TASK_TITLE_SIZE ''Untitled task'',
            t_body := read_or line ''body'' WT_TASK_BODY_SIZE [],
            t_modelId := read_or line ''modelId'' WT_TASK_MODEL_SIZE [],
            t_toolProfile := read_or line ''profile'' WT_TASK_POLICY_SIZE ''observe'',
            t_executionHost := read_or line ''executionHost'' WT_TASK_AGENT_SIZE [] \<rparr>)
      in task \<lparr>
           t_timeoutSeconds :=
             (case wtJsonReadLong line ''timeoutSeconds'' of Some v \<Rightarrow> to_int32 v | None \<Rightarrow> t_timeoutSeconds task),
           t_maxOutputBytes :=
             (case wtJsonReadLong line ''maxOutputBytes'' of Some v \<Rightarrow> to_int32 v | None \<Rightarrow> t_maxOutputBytes task),
           t_updatedAtUnixMs := read_longlong_or line ''createdAtUnixMs'' (t_updatedAtUnixMs task) \<rparr>)"

definition is_package :: "string \<Rightarrow> bool" where
  "is_package line = lineHasSchema line ''woventeam.task_package.v0.1''"

definition is_task_event :: "string \<Rightarrow> bool" where
  "is_task_event line = lineHasSchema line ''woventeam.task_event.v0.1''"

section \<open>Queued tasks\<close>

definition queued_event :: "string \<Rightarrow> WtTaskSummary \<Rightarrow> WtTaskSummary" where
  "queued_event line task = task \<lparr>
     t_status := read_keep line ''status'' WT_TASK_STATUS_SIZE (t_status task),
     t_assignedAgent := read_keep line ''assignedAgent'' WT_TASK_AGENT_SIZE (t_assignedAgent task),
     t_updatedAtUnixMs := read_longlong_or line ''createdAtUnixMs'' (t_updatedAtUnixMs task) \<rparr>"

definition queued_step :: "string \<Rightarrow> WtTaskSummary list \<Rightarrow> WtTaskSummary list" where
  "queued_step line tasks =
     (case read_str line ''taskId'' WT_TASK_ID_SIZE of
        None \<Rightarrow> tasks
      | Some taskId \<Rightarrow>
          (case findKnownTask tasks taskId of
             None \<Rightarrow>
               (if is_package line \<and> length tasks < 256
                then tasks @ [populateTaskPackageFields line (new_task taskId)] else tasks)
           | Some i \<Rightarrow>
               (if is_package line then tasks[i := populateTaskPackageFields line (tasks ! i)]
                else if is_task_event line then tasks[i := queued_event line (tasks ! i)]
                else tasks)))"

definition is_queued :: "WtTaskSummary \<Rightarrow> bool" where
  "is_queued task \<longleftrightarrow> t_status task = ''queued'' \<or> t_status task = ''assigned''"

definition wtTaskFindQueuedForAgent :: "log_file \<Rightarrow> string \<Rightarrow> WtTaskSummary option" where
  "wtTaskFindQueuedForAgent ledger agentName =
     List.find (\<lambda>task. t_executionHost task = [] \<and> t_assignedAgent task = agentName \<and> is_queued task)
       (fold queued_step (ledger_lines ledger) [])"

section \<open>Claimable tasks\<close>

record claim_slot =
  slot_task :: WtTaskSummary
  slot_owner :: string
  slot_expires :: int

definition package_slot :: "string \<Rightarrow> claim_slot \<Rightarrow> claim_slot" where
  "package_slot line slot =
     (let task = populateTaskPackageFields line (slot_task slot)
      in slot \<lparr> slot_task := task, slot_owner := snprintf_s WT_TASK_AGENT_SIZE (t_assignedAgent task) \<rparr>)"

text \<open>\<open>extends eventType\<close> says which event types carry a new expiry; the two functions differ in it.\<close>

definition event_slot :: "(string \<Rightarrow> bool) \<Rightarrow> string \<Rightarrow> claim_slot \<Rightarrow> claim_slot" where
  "event_slot extends line slot =
     (let eventType = read_or line ''eventType'' 32 [];
          task = slot_task slot;
          task1 = task \<lparr> t_status := read_keep line ''status'' WT_TASK_STATUS_SIZE (t_status task),
                         t_updatedAtUnixMs := read_longlong_or line ''createdAtUnixMs'' (t_updatedAtUnixMs task) \<rparr>;
          rerouted = (eventType = ''routing'' \<or> eventType = ''assignment'');
          task2 = (if rerouted then task1 \<lparr> t_assignedAgent :=
                      read_keep line ''assignedAgent'' WT_TASK_AGENT_SIZE (t_assignedAgent task1) \<rparr> else task1);
          owner = (if rerouted then read_keep line ''assignedAgent'' WT_TASK_AGENT_SIZE (slot_owner slot)
                   else slot_owner slot);
          expires = (if extends eventType then read_longlong_or line ''leaseExpiresAtUnixMs'' (slot_expires slot)
                     else if eventType = ''reclaim'' then 0 else slot_expires slot)
      in \<lparr> slot_task = task2, slot_owner = owner, slot_expires = expires \<rparr>)"

definition claim_step :: "(string \<Rightarrow> bool) \<Rightarrow> string \<Rightarrow> claim_slot list \<Rightarrow> claim_slot list" where
  "claim_step extends line slots =
     (case read_str line ''taskId'' WT_TASK_ID_SIZE of
        None \<Rightarrow> slots
      | Some taskId \<Rightarrow>
          (case findKnownTask (map slot_task slots) taskId of
             None \<Rightarrow>
               (if is_package line \<and> length slots < 256
                then slots @ [package_slot line \<lparr> slot_task = new_task taskId, slot_owner = [], slot_expires = 0 \<rparr>]
                else slots)
           | Some i \<Rightarrow>
               (if is_package line then slots[i := package_slot line (slots ! i)]
                else if is_task_event line then slots[i := event_slot extends line (slots ! i)]
                else slots)))"

definition is_stuck :: "int \<Rightarrow> claim_slot \<Rightarrow> bool" where
  "is_stuck nowUnixMs slot \<longleftrightarrow>
     (t_status (slot_task slot) = ''leased'' \<or> t_status (slot_task slot) = ''running'') \<and>
     slot_expires slot > 0 \<and> slot_expires slot \<le> nowUnixMs"

definition wtTaskFindClaimableForAgent :: "log_file \<Rightarrow> string \<Rightarrow> int \<Rightarrow> WtTaskSummary option" where
  "wtTaskFindClaimableForAgent ledger agentName nowUnixMs =
     (case wtTaskFindQueuedForAgent ledger agentName of
        Some task \<Rightarrow> Some task
      | None \<Rightarrow>
          map_option (\<lambda>slot. (slot_task slot) \<lparr> t_assignedAgent := take (WT_TASK_AGENT_SIZE - 1) (slot_owner slot) \<rparr>)
            (List.find (\<lambda>slot. is_stuck nowUnixMs slot \<and> t_executionHost (slot_task slot) = [] \<and> slot_owner slot = agentName)
              (fold (claim_step (\<lambda>e. e = ''lease'')) (ledger_lines ledger) [])))"

text \<open>A task pinned to another host is passed over; \<open>capabilityBlocked\<close> is only ever set to 0.\<close>

definition host_accepts :: "string \<Rightarrow> claim_slot \<Rightarrow> bool" where
  "host_accepts executionHost slot \<longleftrightarrow>
     t_executionHost (slot_task slot) = [] \<or> t_executionHost (slot_task slot) = executionHost"

definition wtTaskFindClaimableForAgentOnHost :: "log_file \<Rightarrow> string \<Rightarrow> string \<Rightarrow> int \<Rightarrow> WtTaskSummary option" where
  "wtTaskFindClaimableForAgentOnHost ledger agentName executionHost nowUnixMs =
     map_option (\<lambda>slot. (slot_task slot) \<lparr> t_assignedAgent := snprintf_s WT_TASK_AGENT_SIZE (slot_owner slot) \<rparr>)
       (List.find (\<lambda>slot. (is_queued (slot_task slot) \<or> is_stuck nowUnixMs slot) \<and> slot_owner slot = agentName \<and>
            host_accepts executionHost slot)
         (fold (claim_step (\<lambda>e. e = ''lease'' \<or> e = ''lease_renewal'')) (ledger_lines ledger) []))"

section \<open>The tracked tasks have distinct ids\<close>

lemma find_Some: "List.find P xs = Some x \<Longrightarrow> P x \<and> x \<in> set xs"
  by (auto simp: find_Some_iff)

lemma findKnownTask_Some: "findKnownTask tasks taskId = Some i \<Longrightarrow> i < length tasks \<and> t_taskId (tasks ! i) = taskId"
  by (auto simp: findKnownTask_def dest: find_Some)

lemma findKnownTask_None: "findKnownTask tasks taskId = None \<longleftrightarrow> taskId \<notin> t_taskId ` set tasks"
proof -
  have "findKnownTask tasks taskId = None \<longleftrightarrow> (\<forall>i < length tasks. t_taskId (tasks ! i) \<noteq> taskId)"
    by (auto simp: findKnownTask_def find_None_iff)
  also have "\<dots> \<longleftrightarrow> (\<forall>task \<in> set tasks. t_taskId task \<noteq> taskId)"
    by (metis in_set_conv_nth)
  finally show ?thesis by auto
qed

lemma populate_taskId [simp]: "t_taskId (populateTaskPackageFields line task) = t_taskId task"
  by (simp add: populateTaskPackageFields_def populateTaskAutonomy_def Let_def)

lemma queued_event_taskId [simp]: "t_taskId (queued_event line task) = t_taskId task"
  by (simp add: queued_event_def)

lemma event_slot_taskId [simp]: "t_taskId (slot_task (event_slot ex line slot)) = t_taskId (slot_task slot)"
  by (simp add: event_slot_def Let_def)

lemma package_slot_taskId [simp]: "t_taskId (slot_task (package_slot line slot)) = t_taskId (slot_task slot)"
  by (simp add: package_slot_def Let_def)

lemma new_task_taskId: "length taskId < 128 \<Longrightarrow> t_taskId (new_task taskId) = taskId"
  by (simp add: new_task_def WT_TASK_ID_SIZE_def)

lemma map_update_same: "i < length xs \<Longrightarrow> f (xs ! i) = f y \<Longrightarrow> map f (xs[i := y]) = map f xs"
  by (metis list_update_id map_update nth_map length_map)

lemma line_taskId_length: "read_str line ''taskId'' WT_TASK_ID_SIZE = Some t \<Longrightarrow> length t < 128"
  using read_str_length by (fastforce simp: WT_TASK_ID_SIZE_def)

lemma queued_step_distinct:
  assumes "distinct (map t_taskId tasks)"
  shows "distinct (map t_taskId (queued_step line tasks))"
proof (cases "read_str line ''taskId'' WT_TASK_ID_SIZE")
  case (Some taskId)
  show ?thesis
  proof (cases "findKnownTask tasks taskId")
    case None
    then have "taskId \<notin> t_taskId ` set tasks" by (simp add: findKnownTask_None)
    with Some None assms new_task_taskId [OF line_taskId_length [OF Some]] show ?thesis
      by (simp add: queued_step_def)
  next
    case (Some i)
    with \<open>read_str line _ _ = _\<close> assms findKnownTask_Some [OF Some] show ?thesis
      by (simp add: queued_step_def map_update_same)
  qed
qed (simp add: queued_step_def assms)

lemma claim_step_distinct:
  assumes "distinct (map (t_taskId \<circ> slot_task) slots)"
  shows "distinct (map (t_taskId \<circ> slot_task) (claim_step ex line slots))"
proof (cases "read_str line ''taskId'' WT_TASK_ID_SIZE")
  case (Some taskId)
  show ?thesis
  proof (cases "findKnownTask (map slot_task slots) taskId")
    case None
    then have "taskId \<notin> (t_taskId \<circ> slot_task) ` set slots" by (simp add: findKnownTask_None image_comp)
    with Some None assms new_task_taskId [OF line_taskId_length [OF Some]] show ?thesis
      by (simp add: claim_step_def)
  next
    case (Some i)
    with \<open>read_str line _ _ = _\<close> assms findKnownTask_Some [OF Some] show ?thesis
      by (simp add: claim_step_def map_update_same)
  qed
qed (simp add: claim_step_def assms)

lemma fold_distinct:
  "distinct (map t_taskId (fold queued_step ls []))"
  "distinct (map (t_taskId \<circ> slot_task) (fold (claim_step ex) ls []))"
proof -
  have "distinct (map t_taskId ts) \<Longrightarrow> distinct (map t_taskId (fold queued_step ls ts))" for ts
    by (induction ls arbitrary: ts) (simp_all add: queued_step_distinct)
  then show "distinct (map t_taskId (fold queued_step ls []))" by simp
  have "distinct (map (t_taskId \<circ> slot_task) ts) \<Longrightarrow> distinct (map (t_taskId \<circ> slot_task) (fold (claim_step ex) ls ts))" for ts
    by (induction ls arbitrary: ts) (simp_all add: claim_step_distinct)
  then show "distinct (map (t_taskId \<circ> slot_task) (fold (claim_step ex) ls []))" by simp
qed

lemma update_unique:
  assumes "distinct (map f xs)" "i < length xs" "x \<in> set (xs[i := y])" "f x = f (xs ! i)"
  shows "x = y"
proof -
  obtain j where j: "j < length xs" "x = xs[i := y] ! j"
    using assms(3) by (auto simp: in_set_conv_nth)
  have "j = i"
  proof (rule ccontr)
    assume "j \<noteq> i"
    with j have "x = xs ! j" by simp
    with assms j \<open>j \<noteq> i\<close> show False by (auto simp: distinct_conv_nth)
  qed
  with j assms(2) show ?thesis by simp
qed

section \<open>What one lease line does to the claimable tasks\<close>

lemma queued_step_event:
  assumes "distinct (map t_taskId tasks)" "read_str line ''taskId'' WT_TASK_ID_SIZE = Some t"
    and "is_task_event line" "\<not> is_package line"
    and "task \<in> set (queued_step line tasks)" "t_taskId task = t"
  shows "\<exists>old. task = queued_event line old"
proof (cases "findKnownTask tasks t")
  case None
  with assms(2,4,5) have "task \<in> set tasks" by (simp add: queued_step_def)
  with None assms(6) show ?thesis by (auto simp: findKnownTask_None)
next
  case (Some i)
  note i = findKnownTask_Some [OF Some]
  with assms Some have "task \<in> set (tasks[i := queued_event line (tasks ! i)])" by (simp add: queued_step_def)
  from update_unique [OF assms(1) _ this] i assms(6) show ?thesis by auto
qed

lemma claim_step_event:
  assumes "distinct (map (t_taskId \<circ> slot_task) slots)" "read_str line ''taskId'' WT_TASK_ID_SIZE = Some t"
    and "is_task_event line" "\<not> is_package line"
    and "slot \<in> set (claim_step ex line slots)" "t_taskId (slot_task slot) = t"
  shows "\<exists>old. slot = event_slot ex line old"
proof (cases "findKnownTask (map slot_task slots) t")
  case None
  with assms(2,4,5) have "slot \<in> set slots" by (simp add: claim_step_def)
  with None assms(6) show ?thesis by (auto simp: findKnownTask_None)
next
  case (Some i)
  note i = findKnownTask_Some [OF Some]
  with assms Some have "slot \<in> set (slots[i := event_slot ex line (slots ! i)])" by (simp add: claim_step_def)
  moreover have "(t_taskId \<circ> slot_task) slot = (t_taskId \<circ> slot_task) (slots ! i)" using i assms(6) by auto
  ultimately have "slot = event_slot ex line (slots ! i)"
    using update_unique [OF assms(1), of i slot] i unfolding length_map by blast
  then show ?thesis by blast
qed

end
