(* ===== verification/Claim_Protocol.thy ===== *)
theory Claim_Protocol
  imports Lease_Protocol Task_Claim
begin

text \<open>
  Leases against claims: what the claim scans of \<^verbatim>\<open>src/src/wt_task_store.c\<close> offer after a lease event
  was written. Until the expiry of the lease event the task is offered to nobody, unless it is put
  back into the queue; once that expiry has passed it is offered to its owner again, even if the
  lease was renewed.
\<close>

lemma action_schema:
  assumes "action_ok a"
  shows "\<not> is_package (action_line now a)"
    and "is_task_event (action_line now a) \<longleftrightarrow> (\<forall>t w b. a \<noteq> Kill t w b)"
  using assms
  by (cases a; simp add: is_package_def is_task_event_def lineHasSchema_def read_action action_fields_defs)+

lemma action_taskId:
  "action_ok a \<Longrightarrow> read_str (action_line now a) ''taskId'' WT_TASK_ID_SIZE = Some (action_task a)"
  by (cases a; simp add: read_action action_fields_defs task_sizes text_ok_def)

text \<open>What a lease line writes into the slot of its task.\<close>

lemma lease_line_fields:
  assumes "action_ok (Lease t ag n e)"
  shows "read_str (action_line now (Lease t ag n e)) ''status'' WT_TASK_STATUS_SIZE = Some ''leased''"
    and "read_or (action_line now (Lease t ag n e)) ''eventType'' 32 d = ''lease''"
    and "read_longlong_or (action_line now (Lease t ag n e)) ''leaseExpiresAtUnixMs'' old = e"
  using assms
  by (simp_all add: read_action action_fields_defs task_sizes read_or_read_str read_longlong_or_def)

lemma lease_slot:
  assumes "action_ok (Lease t ag n e)" "ex ''lease''"
  shows "t_status (slot_task (event_slot ex (action_line now (Lease t ag n e)) slot)) = ''leased''"
    and "slot_expires (event_slot ex (action_line now (Lease t ag n e)) slot) = e"
    and "slot_owner (event_slot ex (action_line now (Lease t ag n e)) slot) = slot_owner slot"
    and "t_executionHost (slot_task (event_slot ex (action_line now (Lease t ag n e)) slot)) = t_executionHost (slot_task slot)"
  using assms lease_line_fields [OF assms(1)]
  by (simp_all add: event_slot_def Let_def read_keep_Some)

lemma lease_queued:
  assumes "action_ok (Lease t ag n e)"
  shows "\<not> is_queued (queued_event (action_line now (Lease t ag n e)) task)"
  using lease_line_fields(1) [OF assms] by (simp add: queued_event_def is_queued_def read_keep_Some)

lemma after_lease_queued:
  assumes "action_ok (Lease t ag n e)" "task \<in> set (fold queued_step (ls @ [action_line now (Lease t ag n e)]) [])"
    and "t_taskId task = t"
  shows "\<not> is_queued task"
proof -
  have "\<exists>old. task = queued_event (action_line now (Lease t ag n e)) old"
    by (rule queued_step_event [OF fold_distinct(1)])
      (use assms action_schema [OF assms(1)] action_taskId [OF assms(1)] in auto)
  with lease_queued [OF assms(1)] show ?thesis by auto
qed

lemma after_lease_slot:
  assumes "action_ok (Lease t ag n e)" "slot \<in> set (fold (claim_step ex) (ls @ [action_line now (Lease t ag n e)]) [])"
    and "t_taskId (slot_task slot) = t" "ex ''lease''"
  shows "t_status (slot_task slot) = ''leased'' \<and> slot_expires slot = e"
proof -
  have "\<exists>old. slot = event_slot ex (action_line now (Lease t ag n e)) old"
    by (rule claim_step_event [OF fold_distinct(2)])
      (use assms action_schema [OF assms(1)] action_taskId [OF assms(1)] in auto)
  then obtain old where "slot = event_slot ex (action_line now (Lease t ag n e)) old" ..
  with lease_slot(1,2) [of t ag n e ex now old] assms(1,4) show ?thesis by simp
qed

text \<open>An event line updates the one slot of its task; a stuck, unpinned slot is offered to its owner.\<close>

lemma claim_step_updates:
  assumes "slot \<in> set (fold (claim_step ex) ls [])" "t_taskId (slot_task slot) = t"
    and "read_str line ''taskId'' WT_TASK_ID_SIZE = Some t" "is_task_event line" "\<not> is_package line"
  shows "event_slot ex line slot \<in> set (fold (claim_step ex) (ls @ [line]) [])"
proof -
  let ?slots = "fold (claim_step ex) ls []"
  obtain i where i: "findKnownTask (map slot_task ?slots) t = Some i"
    using assms(1,2) findKnownTask_None [of "map slot_task ?slots" t] by (cases "findKnownTask (map slot_task ?slots) t") auto
  obtain j where j: "j < length ?slots" "?slots ! j = slot" using assms(1) by (auto simp: in_set_conv_nth)
  have "i < length ?slots" "(t_taskId \<circ> slot_task) (?slots ! i) = (t_taskId \<circ> slot_task) (?slots ! j)"
    using findKnownTask_Some [OF i] j assms(2) by auto
  then have "i = j"
    using fold_distinct(2) [of ex ls] j(1)
    by (metis (no_types, lifting) length_map nth_eq_iff_index_eq nth_map)
  with i j assms(3-5) have "claim_step ex line ?slots = ?slots[j := event_slot ex line slot]"
    by (simp add: claim_step_def)
  with j show ?thesis by (simp add: set_update_memI)
qed

lemma stuck_slot_offered:
  assumes "slot \<in> set (fold (claim_step (\<lambda>e. e = ''lease'')) (ledger_lines ledger) [])"
    and "is_stuck later slot" "t_executionHost (slot_task slot) = []" "slot_owner slot = owner"
  shows "wtTaskFindClaimableForAgent ledger owner later \<noteq> None"
proof -
  have "List.find (\<lambda>slot. is_stuck later slot \<and> t_executionHost (slot_task slot) = [] \<and> slot_owner slot = owner)
      (fold (claim_step (\<lambda>e. e = ''lease'')) (ledger_lines ledger) []) \<noteq> None"
    using assms by (auto simp: find_None_iff)
  then show ?thesis by (simp add: wtTaskFindClaimableForAgent_def split: option.split)
qed

section \<open>Properties\<close>

text \<open>A line of an event that changes nothing in the slots of other tasks.\<close>

lemma update_elem: "x \<in> set (xs[i := y]) \<Longrightarrow> x = y \<or> x \<in> set xs"
  using set_update_subset_insert [of xs i y] by blast

lemma claim_step_old:
  assumes "\<not> is_package line" "slot \<in> set (claim_step ex line slots)"
  shows "slot \<in> set slots \<or>
    (\<exists>old \<in> set slots. slot = event_slot ex line old \<and> read_str line ''taskId'' WT_TASK_ID_SIZE = Some (t_taskId (slot_task old)))"
  using assms
  by (auto simp: claim_step_def split: option.splits if_splits dest!: findKnownTask_Some update_elem intro: nth_mem)

lemma queued_step_old:
  assumes "\<not> is_package line" "task \<in> set (queued_step line tasks)"
  shows "task \<in> set tasks \<or>
    (\<exists>old \<in> set tasks. task = queued_event line old \<and> read_str line ''taskId'' WT_TASK_ID_SIZE = Some (t_taskId old))"
  using assms
  by (auto simp: queued_step_def split: option.splits if_splits dest!: findKnownTask_Some update_elem intro: nth_mem)

text \<open>
  What may happen at a task until \<open>later\<close> without giving its lease up: renewals and further leases
  that run longer, kill requests, and status events that do not put it back into the queue.
\<close>

fun respects_lease :: "string \<Rightarrow> int \<Rightarrow> ledger_action \<Rightarrow> bool" where
  "respects_lease t later (Lease t' ag n e) \<longleftrightarrow> (t' = t \<longrightarrow> later < e)"
| "respects_lease t later (Renew t' ag n e) \<longleftrightarrow> (t' = t \<longrightarrow> later < e)"
| "respects_lease t later (Reclaim t' p b w m) \<longleftrightarrow> t' \<noteq> t"
| "respects_lease t later (Status t' st b m) \<longleftrightarrow> (t' = t \<longrightarrow> st \<noteq> ''queued'' \<and> st \<noteq> ''assigned'')"
| "respects_lease t later (Kill t' w b) \<longleftrightarrow> True"

lemma respects_status:
  assumes "action_ok a" "respects_lease (action_task a) later a" "\<forall>t w b. a \<noteq> Kill t w b"
  shows "read_str (action_line now a) ''status'' WT_TASK_STATUS_SIZE \<noteq> None"
    and "read_keep (action_line now a) ''status'' WT_TASK_STATUS_SIZE old \<notin> {''queued'', ''assigned''}"
proof -
  obtain st where st: "read_str (action_line now a) ''status'' WT_TASK_STATUS_SIZE = Some st" "st \<notin> {''queued'', ''assigned''}"
    using assms by (cases a) (simp_all add: read_action action_fields_defs task_sizes text_ok_def)
  then show "read_str (action_line now a) ''status'' WT_TASK_STATUS_SIZE \<noteq> None"
    "read_keep (action_line now a) ''status'' WT_TASK_STATUS_SIZE old \<notin> {''queued'', ''assigned''}"
    by (simp_all add: read_keep_Some [OF st(1)] st)
qed

lemma respects_expiry:
  assumes "action_ok a" "respects_lease (action_task a) later a" "\<forall>t w b. a \<noteq> Kill t w b"
    and "ex ''lease''" "\<not> ex ''status''" "later < slot_expires slot"
  shows "later < slot_expires (event_slot ex (action_line now a) slot)"
  using assms
  by (cases a) (simp_all add: event_slot_def Let_def read_or_read_str read_longlong_or_def read_action action_fields_defs task_sizes text_ok_def)

definition held :: "string \<Rightarrow> int \<Rightarrow> claim_slot \<Rightarrow> bool" where
  "held t later slot \<longleftrightarrow> (t_taskId (slot_task slot) = t \<longrightarrow> later < slot_expires slot \<and> \<not> is_queued (slot_task slot))"

lemma held_step:
  assumes "action_ok a" "respects_lease t later a" "ex ''lease''" "\<not> ex ''status''"
    and "\<forall>slot \<in> set slots. held t later slot" "slot \<in> set (claim_step ex (action_line now a) slots)"
  shows "held t later slot"
proof (cases "\<exists>old \<in> set slots. slot = event_slot ex (action_line now a) old \<and> action_task a = t_taskId (slot_task old) \<and> action_task a = t
    \<and> (\<forall>t w b. a \<noteq> Kill t w b)")
  case True
  then obtain old where old: "old \<in> set slots" "slot = event_slot ex (action_line now a) old" "action_task a = t_taskId (slot_task old)"
    and t: "action_task a = t" and kind: "\<forall>t w b. a \<noteq> Kill t w b" by blast
  have "later < slot_expires old" using assms(5) old t by (auto simp: held_def)
  moreover have "t_status (slot_task slot) \<notin> {''queued'', ''assigned''}"
    using respects_status(2) [OF assms(1) _ kind] assms(2) t old(2) by (simp add: event_slot_def Let_def)
  ultimately show ?thesis
    using respects_expiry [OF assms(1) _ kind assms(3,4)] assms(2) t old(2) by (auto simp: held_def is_queued_def)
next
  case False
  have "\<not> is_task_event (action_line now a) \<Longrightarrow> claim_step ex (action_line now a) slots = slots"
    using action_schema(1) [OF assms(1)] by (simp add: claim_step_def split: option.split)
  with claim_step_old [OF action_schema(1) [OF assms(1)] assms(6)] False assms(5,6)
  show ?thesis
    using action_schema(2) [OF assms(1), of now] action_taskId [OF assms(1), of now]
    by (auto simp: held_def)
qed

lemma held_queued_step:
  assumes "action_ok a" "respects_lease t later a" "\<forall>task \<in> set tasks. t_taskId task = t \<longrightarrow> \<not> is_queued task"
    and "task \<in> set (queued_step (action_line now a) tasks)" "t_taskId task = t"
  shows "\<not> is_queued task"
proof (cases "\<forall>t w b. a \<noteq> Kill t w b")
  case True
  from queued_step_old [OF action_schema(1) [OF assms(1)] assms(4)] show ?thesis
    using assms(2,3,5) respects_status(2) [OF assms(1) _ True] action_taskId [OF assms(1), of now]
    by (auto simp: is_queued_def queued_event_def)
next
  case False
  then have "queued_step (action_line now a) tasks = tasks"
    using action_schema [OF assms(1), of now] by (auto simp: queued_step_def split: option.split)
  with assms(3-5) show ?thesis by simp
qed

lemma held_history:
  assumes "history_ok history" "list_all (respects_lease t later) (map snd history)" "ex ''lease''" "\<not> ex ''status''"
  shows "\<forall>slot \<in> set slots. held t later slot \<Longrightarrow>
      \<forall>slot \<in> set (fold (claim_step ex) (map (\<lambda>(now, a). action_line now a) history) slots). held t later slot"
    and "\<forall>task \<in> set tasks. t_taskId task = t \<longrightarrow> \<not> is_queued task \<Longrightarrow>
      \<forall>task \<in> set (fold queued_step (map (\<lambda>(now, a). action_line now a) history) tasks). t_taskId task = t \<longrightarrow> \<not> is_queued task"
  using assms
proof (induction history arbitrary: slots tasks)
  case (Cons h history)
  obtain now a where h: "h = (now, a)" by (cases h)
  { case 1
    then show ?case using Cons.IH(1) [of "claim_step ex (action_line now a) slots"] held_step [of a t later ex slots _ now] h
      by (simp add: history_ok_def)
  next
    case 2
    then show ?case using Cons.IH(2) [of "queued_step (action_line now a) tasks"] held_queued_step [of a t later tasks _ now] h
      by (simp add: history_ok_def) }
qed simp_all

text \<open>
  C19. Mutual exclusion while a lease runs. An agent has written a lease of a task, without a write
  fault, to a ledger of whole records with any content. As long as everything the writers append
  afterwards respects it (anything about other tasks; for this task kill requests, status events other
  than \<open>queued\<close> and \<open>assigned\<close>, and renewals and leases that run beyond the moment of asking), neither
  claim scan offers the task to any agent on any host before the expiry written in the lease itself.
  Nothing is said about the time between that expiry and the one of a renewal, in which
  \<open>wtTaskFindClaimableForAgent\<close> does offer the task (see \<open>renewal_does_not_protect\<close>).
\<close>

theorem leased_task_not_offered:
  assumes "clean_tail (bytes ledger)" and "action_ok (Lease t ag n e)" and "is_long now" and "later < e"
    and "wtTaskAppendLeaseEvent NoFault True now t ag n e ledger = (True, ledger')"
    and "history_ok history" and "list_all (respects_lease t later) (map snd history)"
  shows "(wtTaskFindClaimableForAgent (run_history history ledger') someone later = Some task \<longrightarrow> t_taskId task \<noteq> t) \<and>
    (wtTaskFindClaimableForAgentOnHost (run_history history ledger') someone host later = Some task \<longrightarrow> t_taskId task \<noteq> t)"
proof -
  let ?l = "run_history history ledger'" and ?more = "map (\<lambda>(now, a). action_line now a) history"
  have perf: "ledger' = snd (perform now (Lease t ag n e) ledger)" using assms(5) by simp
  have lines': "ledger_lines ledger' = ledger_lines ledger @ [action_line now (Lease t ag n e)]" and clean: "clean_tail (bytes ledger')"
    using perform_lines [OF assms(2,3,1)] by (simp_all add: action_line_def perf del: perform.simps)
  have lines: "ledger_lines ?l = (ledger_lines ledger @ [action_line now (Lease t ag n e)]) @ ?more"
    using run_history_lines [OF clean assms(6)] lines' by simp
  have slots: "\<not> is_stuck later slot \<and> \<not> is_queued (slot_task slot)"
    if "slot \<in> set (fold (claim_step ex) (ledger_lines ?l) [])" "t_taskId (slot_task slot) = t" "ex ''lease''" "\<not> ex ''status''" for ex slot
  proof -
    have "\<forall>slot \<in> set (fold (claim_step ex) (ledger_lines ledger @ [action_line now (Lease t ag n e)]) []). held t later slot"
      using after_lease_slot [where ex = ex, OF assms(2) _ _ that(3)] assms(4) by (auto simp: held_def is_queued_def)
    from held_history(1) [where ex = ex, OF assms(6,7) that(3,4) this] that(1,2) show ?thesis
      unfolding lines fold_append comp_def by (auto simp: held_def is_stuck_def)
  qed
  have "\<forall>task \<in> set (fold queued_step (ledger_lines ledger @ [action_line now (Lease t ag n e)]) []). t_taskId task = t \<longrightarrow> \<not> is_queued task"
    using after_lease_queued [OF assms(2)] by blast
  from held_history(2) [where ex = "\<lambda>e. e = ''lease''", OF assms(6,7) _ _ this]
  have queued: "t_taskId task \<noteq> t" if "wtTaskFindQueuedForAgent ?l someone = Some task" for task
    using that by (auto simp: wtTaskFindQueuedForAgent_def lines dest!: find_Some)
  have "t_taskId task \<noteq> t" if "wtTaskFindClaimableForAgent ?l someone later = Some task"
    using that queued slots
    by (auto simp: wtTaskFindClaimableForAgent_def split: option.splits dest!: find_Some)
  moreover have "t_taskId task \<noteq> t" if "wtTaskFindClaimableForAgentOnHost ?l someone host later = Some task"
    using that slots by (auto simp: wtTaskFindClaimableForAgentOnHost_def dest!: find_Some)
  ultimately show ?thesis by blast
qed

text \<open>
  Stuck work is recovered: when the lease just written has run out and the task belongs to the
  agent (and is not pinned to a host), the agent is offered a task again.
\<close>

theorem expired_lease_offered_again:
  assumes "clean_tail (bytes ledger)" and "action_ok (Lease t ag n e)" and "is_long now" and "0 < e" and "e \<le> later"
    and "wtTaskAppendLeaseEvent NoFault True now t ag n e ledger = (True, ledger')"
    and "slot \<in> set (fold (claim_step (\<lambda>e. e = ''lease'')) (ledger_lines ledger) [])"
    and "t_taskId (slot_task slot) = t" and "slot_owner slot = owner" and "t_executionHost (slot_task slot) = []"
  shows "wtTaskFindClaimableForAgent ledger' owner later \<noteq> None"
proof -
  let ?ex = "\<lambda>e. e = ''lease''" and ?line = "action_line now (Lease t ag n e)"
  have lines: "ledger_lines ledger' = ledger_lines ledger @ [?line]"
    using perform_lines(1) [OF assms(2,3,1)] assms(6) by (simp add: action_line_def)
  let ?new = "event_slot ?ex ?line slot"
  have mem: "?new \<in> set (fold (claim_step ?ex) (ledger_lines ledger') [])"
    unfolding lines
    by (rule claim_step_updates [OF assms(7,8) action_taskId [OF assms(2), simplified]])
      (simp_all add: action_schema [OF assms(2)])
  have "is_stuck later ?new" "t_executionHost (slot_task ?new) = []" "slot_owner ?new = owner"
    using lease_slot [OF assms(2), of ?ex now slot] assms(4,5,9,10) by (simp_all add: is_stuck_def)
  with mem show ?thesis by (rule stuck_slot_offered)
qed

text \<open>A small ledger to evaluate the scans on: one package, queued for one agent.\<close>

definition package_fields :: "string \<Rightarrow> string \<Rightarrow> (string \<times> jval) list" where
  "package_fields taskId agentName =
     [(''schema'', JStr ''woventeam.task_package.v0.1''), (''taskId'', JStr taskId),
      (''assignedAgent'', JStr agentName), (''status'', JStr ''queued''), (''createdAtUnixMs'', JNum 5)]"

definition package_line :: "string \<Rightarrow> string \<Rightarrow> string" where
  "package_line taskId agentName = render_object (package_fields taskId agentName) @ [NL]"

lemma key_text_package_keys [simp]:
  "key_text ''assignedRole''" "key_text ''title''" "key_text ''body''" "key_text ''modelId''" "key_text ''profile''"
  "key_text ''executionHost''" "key_text ''scope''" "key_text ''network''" "key_text ''credentialClass''"
  "key_text ''ttlSeconds''" "key_text ''maxWallClockSeconds''" "key_text ''requiresCleanWorktree''"
  "key_text ''timeoutSeconds''" "key_text ''maxOutputBytes''"
  by (simp_all add: key_text_def is_alnum_def is_digit_def)

lemma read_package:
  assumes "text_ok 128 taskId" "text_ok 64 agentName" "key_text k"
  shows "0 < n \<Longrightarrow> read_str (package_line taskId agentName) k n =
      (case map_of (package_fields taskId agentName) k of Some (JStr s) \<Rightarrow> if length s < n then Some s else None | _ \<Rightarrow> None)"
proof -
  have "clean_fields (package_fields taskId agentName)"
    using assms(1,2) by (simp add: package_fields_def text_ok_def)
  from read_str_render [OF this assms(3), of "[NL]"]
  show "0 < n \<Longrightarrow> read_str (package_line taskId agentName) k n =
      (case map_of (package_fields taskId agentName) k of Some (JStr s) \<Rightarrow> if length s < n then Some s else None | _ \<Rightarrow> None)"
    by (simp add: package_line_def)
qed

definition demo_ledger :: log_file where "demo_ledger = Some (package_line ''t1'' ''claude'')"

lemma demo_lines: "ledger_lines demo_ledger = [package_line ''t1'' ''claude'']" "clean_tail (bytes demo_ledger)"
proof -
  have wf: "wf_fields (package_fields ''t1'' ''claude'')" by (simp add: package_fields_def)
  have "length (render_object (package_fields ''t1'' ''claude'')) < 1000"
    by (simp add: package_fields_def length_render_object_simps escape_char_def show_int_def show_nat.simps)
  then show "ledger_lines demo_ledger = [package_line ''t1'' ''claude'']"
    using file_lines_record [of "render_object (package_fields ''t1'' ''claude'')" 16384] render_object_line [OF wf]
    by (simp add: ledger_lines_def demo_ledger_def package_line_def task_sizes)
  show "clean_tail (bytes demo_ledger)"
    by (simp add: demo_ledger_def package_line_def)
qed

lemma demo_implements: "implements demo_ledger idle"
proof -
  have "\<not> lineHasSchema (package_line ''t1'' ''claude'') ''woventeam.task_event.v0.1''"
    "read_str (package_line ''t1'' ''claude'') ''schema'' 128 = Some ''woventeam.task_package.v0.1''"
    by (simp_all add: lineHasSchema_def read_package text_ok_def package_fields_def)
  then show ?thesis
    by (simp add: implements_def demo_lines idle_def shows_lease_def wtTaskFindActiveLease_def lease_step_def no_lease_def
        wtTaskCancelRequested_def cancel_step_def)
qed

lemma demo_slot:
  "\<exists>slot. fold (claim_step ex) (ledger_lines demo_ledger) [] = [slot] \<and> t_taskId (slot_task slot) = ''t1'' \<and>
     slot_owner slot = ''claude'' \<and> t_executionHost (slot_task slot) = []"
proof -
  have ok: "text_ok 128 ''t1''" "text_ok 64 ''claude''" by (simp_all add: text_ok_def)
  note rd = read_package [OF ok]
  let ?line = "package_line ''t1'' ''claude''"
  have "read_str ?line ''taskId'' WT_TASK_ID_SIZE = Some ''t1''" "is_package ?line"
    by (simp_all add: rd package_fields_def task_sizes is_package_def lineHasSchema_def)
  moreover have "findKnownTask [] ''t1'' = None" by (simp add: findKnownTask_def)
  ultimately have "claim_step ex ?line [] =
      [package_slot ?line \<lparr> slot_task = new_task ''t1'', slot_owner = [], slot_expires = 0 \<rparr>]"
    by (simp add: claim_step_def)
  then show ?thesis
    by (simp add: demo_lines package_slot_def populateTaskPackageFields_def populateTaskAutonomy_def Let_def
        new_task_def read_or_read_str rd package_fields_def task_sizes)
qed

theorem leased_task_not_offered_witness:
  "\<not> (\<exists>task. wtTaskFindClaimableForAgent (run_history
       [(2, Status ''t1'' ''running'' ''claude'' ''m''), (3, Lease ''t2'' ''gemini'' 1 400), (4, Renew ''t1'' ''claude'' 1 1500)]
       (snd (wtTaskAppendLeaseEvent NoFault True 1 ''t1'' ''claude'' 1 900 demo_ledger))) ''claude'' 500 = Some task \<and>
     t_taskId task = ''t1'')"
proof -
  let ?h = "[(2, Status ''t1'' ''running'' ''claude'' ''m''), (3, Lease ''t2'' ''gemini'' 1 400), (4, Renew ''t1'' ''claude'' 1 1500)]"
  have ok: "action_ok (Lease ''t1'' ''claude'' 1 900)" "is_long 1" "history_ok ?h"
    by (simp_all add: history_ok_def text_ok_def c_int_defs)
  have "wtTaskAppendLeaseEvent NoFault True 1 ''t1'' ''claude'' 1 900 demo_ledger =
      (True, snd (wtTaskAppendLeaseEvent NoFault True 1 ''t1'' ''claude'' 1 900 demo_ledger))"
    using perform_succeeds(1) [OF ok(1,2), of demo_ledger] by simp
  from leased_task_not_offered [OF demo_lines(2) ok(1,2) _ this ok(3), of 500 "''claude''"] show ?thesis by simp
qed

theorem expired_lease_offered_again_witness:
  "wtTaskFindClaimableForAgent (snd (wtTaskAppendLeaseEvent NoFault True 1 ''t1'' ''claude'' 1 900 demo_ledger)) ''claude'' 900 \<noteq> None"
proof -
  have ok: "action_ok (Lease ''t1'' ''claude'' 1 900)" "is_long 1" by (simp_all add: text_ok_def c_int_defs)
  have w: "wtTaskAppendLeaseEvent NoFault True 1 ''t1'' ''claude'' 1 900 demo_ledger =
      (True, snd (wtTaskAppendLeaseEvent NoFault True 1 ''t1'' ''claude'' 1 900 demo_ledger))"
    using perform_succeeds(1) [OF ok, of demo_ledger] by simp
  obtain slot where "slot \<in> set (fold (claim_step (\<lambda>e. e = ''lease'')) (ledger_lines demo_ledger) [])"
    "t_taskId (slot_task slot) = ''t1''" "slot_owner slot = ''claude''" "t_executionHost (slot_task slot) = []"
    using demo_slot [of "\<lambda>e. e = ''lease''"] by force
  from expired_lease_offered_again [OF demo_lines(2) ok _ _ w this] show ?thesis by simp
qed

lemma renewal_line_fields:
  assumes "action_ok (Renew t ag n e)"
  shows "read_str (action_line now (Renew t ag n e)) ''status'' WT_TASK_STATUS_SIZE = Some ''running''"
    and "read_or (action_line now (Renew t ag n e)) ''eventType'' 32 d = ''lease_renewal''"
  using assms by (simp_all add: read_action action_fields_defs task_sizes read_or_read_str)

text \<open>
  (A defect.) Renewing a lease does not keep the task from being taken: \<open>wtTaskFindClaimableForAgent\<close>
  only looks at the original lease event, so once that expiry has passed it offers the owner a task
  again although its running attempt has just renewed the lease far into the future.
\<close>

theorem renewal_does_not_protect:
  assumes "clean_tail (bytes ledger)" and "action_ok (Renew t ag n e)" and "is_long now"
    and "slot \<in> set (fold (claim_step (\<lambda>e. e = ''lease'')) (ledger_lines ledger) [])"
    and "t_taskId (slot_task slot) = t" and "slot_owner slot = owner" and "t_executionHost (slot_task slot) = []"
    and "0 < slot_expires slot" and "slot_expires slot \<le> later"
  shows "wtTaskFindClaimableForAgent (snd (wtTaskAppendLeaseRenewal NoFault True now t ag n e ledger)) owner later \<noteq> None"
proof -
  let ?ex = "\<lambda>e. e = ''lease''" and ?line = "action_line now (Renew t ag n e)"
  let ?ledger = "snd (wtTaskAppendLeaseRenewal NoFault True now t ag n e ledger)"
  have lines: "ledger_lines ?ledger = ledger_lines ledger @ [?line]"
    using perform_lines(1) [OF assms(2,3,1)] by (simp add: action_line_def)
  let ?new = "event_slot ?ex ?line slot"
  have mem: "?new \<in> set (fold (claim_step ?ex) (ledger_lines ?ledger) [])"
    unfolding lines
    by (rule claim_step_updates [OF assms(4,5) action_taskId [OF assms(2), simplified]])
      (simp_all add: action_schema [OF assms(2)])
  have "is_stuck later ?new" "t_executionHost (slot_task ?new) = []" "slot_owner ?new = owner"
    using renewal_line_fields [OF assms(2)] assms(6-9) by (simp_all add: is_stuck_def event_slot_def Let_def read_keep_Some)
  with mem show ?thesis by (rule stuck_slot_offered)
qed

theorem renewal_does_not_protect_witness:
  "wtTaskFindClaimableForAgent (snd (wtTaskAppendLeaseRenewal NoFault True 800 ''t1'' ''claude'' 1 5000
     (snd (wtTaskAppendLeaseEvent NoFault True 1 ''t1'' ''claude'' 1 900 demo_ledger)))) ''claude'' 1000 \<noteq> None"
proof -
  let ?ex = "\<lambda>e. e = ''lease''"
  have ok: "action_ok (Lease ''t1'' ''claude'' 1 900)" "is_long 1" "action_ok (Renew ''t1'' ''claude'' 1 5000)" "is_long 800"
    by (simp_all add: text_ok_def c_int_defs)
  let ?ledger = "snd (perform 1 (Lease ''t1'' ''claude'' 1 900) demo_ledger)"
  have lines: "ledger_lines ?ledger = ledger_lines demo_ledger @ [action_line 1 (Lease ''t1'' ''claude'' 1 900)]"
    and clean: "clean_tail (bytes ?ledger)"
    using perform_lines [OF ok(1,2) demo_lines(2)] by (simp_all add: action_line_def)
  obtain slot where slot: "slot \<in> set (fold (claim_step ?ex) (ledger_lines demo_ledger) [])"
    "t_taskId (slot_task slot) = ''t1''" "slot_owner slot = ''claude''" "t_executionHost (slot_task slot) = []"
    using demo_slot [of ?ex] by force
  let ?new = "event_slot ?ex (action_line 1 (Lease ''t1'' ''claude'' 1 900)) slot"
  have mem: "?new \<in> set (fold (claim_step ?ex) (ledger_lines ?ledger) [])"
    unfolding lines
    by (rule claim_step_updates [OF slot(1,2) action_taskId [OF ok(1), simplified]])
      (simp_all add: action_schema [OF ok(1)])
  have "wtTaskFindClaimableForAgent (snd (wtTaskAppendLeaseRenewal NoFault True 800 ''t1'' ''claude'' 1 5000 ?ledger)) ''claude'' 1000 \<noteq> None"
    by (rule renewal_does_not_protect [OF clean ok(3,4) mem])
      (use slot lease_slot [OF ok(1), of ?ex 1 slot] in simp_all)
  then show ?thesis by simp
qed

end
