(* ===== verification/Task_Blocked.thy ===== *)
theory Task_Blocked
  imports Claim_Protocol
begin

text \<open>
  \<open>wtTaskAppendBlockedDependents\<close> of \<^verbatim>\<open>src/src/wt_task_store.c\<close>: find the packages that name the
  blocked task in their \<open>dependencies\<close> array, and append a \<open>blocked\<close> status event for every one of
  them whose status (as of the scan) is not final and not blocked already.
\<close>

text \<open>\<open>match < end\<close> compares positions in the line: the earlier one leaves the longer rest.\<close>

definition lineDependsOnTask :: "string \<Rightarrow> string \<Rightarrow> bool" where
  "lineDependsOnTask line blockedTaskId =
     (case strstr line (DQ # ''dependencies'' @ [DQ]) of
        None \<Rightarrow> False
      | Some dependencies \<Rightarrow>
          (case strchr dependencies (CHR '']'') of
             None \<Rightarrow> False
           | Some list_end \<Rightarrow>
               (case strstr dependencies (snprintf_s (WT_TASK_ID_SIZE + 4) (DQ # blockedTaskId @ [DQ])) of
                  None \<Rightarrow> False
                | Some found_at \<Rightarrow> length found_at > length list_end)))"

type_synonym block_state = "WtTaskSummary list \<times> string list"

definition block_step :: "string \<Rightarrow> string \<Rightarrow> block_state \<Rightarrow> block_state" where
  "block_step blockedTaskId line st =
     (let (tasks, deps) = st in
      case read_str line ''taskId'' WT_TASK_ID_SIZE of
        None \<Rightarrow> (tasks, deps)
      | Some taskId \<Rightarrow>
          (let known = findKnownTask tasks taskId in
           if is_package line then
             (let (tasks1, index) =
                (if known = None \<and> length tasks < 256 then (tasks @ [new_task taskId], Some (length tasks))
                 else (tasks, known))
              in case index of
                   None \<Rightarrow> (tasks1, deps)
                 | Some i \<Rightarrow>
                     (tasks1[i := (tasks1 ! i) \<lparr> t_status := read_or line ''status'' WT_TASK_STATUS_SIZE ''queued'' \<rparr>],
                      if lineDependsOnTask line blockedTaskId \<and> length deps < 256
                      then deps @ [snprintf_s WT_TASK_ID_SIZE taskId] else deps))
           else if is_task_event line then
             (case known of
                None \<Rightarrow> (tasks, deps)
              | Some i \<Rightarrow> (tasks[i := (tasks ! i) \<lparr> t_status :=
                    read_keep line ''status'' WT_TASK_STATUS_SIZE (t_status (tasks ! i)) \<rparr>], deps))
           else (tasks, deps)))"

definition may_block :: "WtTaskSummary list \<Rightarrow> string \<Rightarrow> bool" where
  "may_block tasks taskId =
     (case findKnownTask tasks taskId of
        None \<Rightarrow> False
      | Some i \<Rightarrow> \<not> terminal_status (t_status (tasks ! i)) \<and> t_status (tasks ! i) \<noteq> ''blocked'')"

definition blocked_message :: "string \<Rightarrow> string" where
  "blocked_message blockedTaskId = snprintf_s 256 (''Blocked because dependency '' @ blockedTaskId @ '' is blocked.'')"

text \<open>
  The second loop: \<open>io k\<close> is what happens to the \<open>k\<close>-th append. The first component is the return
  value, the number of events written or -1.
\<close>

fun append_blocked ::
    "(nat \<Rightarrow> io_fault) \<Rightarrow> bool \<Rightarrow> int \<Rightarrow> string \<Rightarrow> string \<Rightarrow> WtTaskSummary list \<Rightarrow> string list \<Rightarrow> nat \<Rightarrow> log_file \<Rightarrow> int \<times> log_file" where
  "append_blocked io sync now blockedTaskId createdBy tasks [] appended ledger = (int appended, ledger)"
| "append_blocked io sync now blockedTaskId createdBy tasks (dep # deps) appended ledger =
     (if \<not> may_block tasks dep then append_blocked io sync now blockedTaskId createdBy tasks deps appended ledger
      else
        (let (ok, ledger') = wtTaskAppendStatusEvent (io appended) sync now dep ''blocked'' createdBy
                               (blocked_message blockedTaskId) ledger
         in if \<not> ok then (-1, ledger')
            else append_blocked io sync now blockedTaskId createdBy tasks deps (appended + 1) ledger'))"

definition wtTaskAppendBlockedDependents ::
    "(nat \<Rightarrow> io_fault) \<Rightarrow> bool \<Rightarrow> int \<Rightarrow> string \<Rightarrow> string \<Rightarrow> log_file \<Rightarrow> int \<times> log_file" where
  "wtTaskAppendBlockedDependents io sync now blockedTaskId createdBy ledger =
     (case ledger of
        None \<Rightarrow> (0, None)
      | Some _ \<Rightarrow>
          (let (tasks, deps) = fold (block_step blockedTaskId) (ledger_lines ledger) ([], [])
           in append_blocked io sync now blockedTaskId createdBy tasks deps 0 ledger))"

section \<open>The events it writes\<close>

definition blocked_action :: "string \<Rightarrow> string \<Rightarrow> string \<Rightarrow> ledger_action" where
  "blocked_action blockedTaskId createdBy dep =
     Status dep ''blocked'' createdBy (blocked_message blockedTaskId)"

lemma append_blocked_spec:
  assumes "text_ok 128 blockedTaskId" "text_ok 64 createdBy" "is_long now"
    and "clean_tail (bytes ledger)" "\<forall>dep \<in> set deps. text_ok 128 dep"
  shows "case append_blocked (\<lambda>_. NoFault) True now blockedTaskId createdBy tasks deps appended ledger of (rc, ledger') \<Rightarrow>
    rc = int appended + int (length (filter (may_block tasks) deps)) \<and> clean_tail (bytes ledger') \<and>
    ledger_lines ledger' = ledger_lines ledger @
      map (\<lambda>dep. action_line now (blocked_action blockedTaskId createdBy dep)) (filter (may_block tasks) deps)"
  using assms(4,5)
proof (induction deps arbitrary: appended ledger)
  case (Cons dep deps)
  show ?case
  proof (cases "may_block tasks dep")
    case True
    let ?a = "blocked_action blockedTaskId createdBy dep"
    have "text_ok 512 (blocked_message blockedTaskId)"
      using assms(1) length_snprintf_s [of 256] by (auto simp: blocked_message_def text_ok_def intro: order_less_trans)
    then have ok: "action_ok ?a"
      using assms(2) Cons.prems(2) by (simp add: blocked_action_def) (simp add: text_ok_def)
    note lines = perform_lines [OF ok assms(3) Cons.prems(1)]
    have "wtTaskAppendStatusEvent NoFault True now dep ''blocked'' createdBy (blocked_message blockedTaskId) ledger =
        (True, snd (perform now ?a ledger))"
      using perform_succeeds(1) [OF ok assms(3), of ledger] by (simp add: blocked_action_def)
    with True have "append_blocked (\<lambda>_. NoFault) True now blockedTaskId createdBy tasks (dep # deps) appended ledger =
        append_blocked (\<lambda>_. NoFault) True now blockedTaskId createdBy tasks deps (appended + 1) (snd (perform now ?a ledger))"
      by simp
    with Cons.IH [OF lines(2), of "appended + 1"] Cons.prems(2) True lines(1) show ?thesis
      by (simp add: action_line_def case_prod_beta)
  next
    case False
    with Cons show ?thesis by simp
  qed
qed simp

section \<open>The dependents, read off the ledger\<close>

text \<open>The quoted id stands between the word \<open>dependencies\<close> of the line and the bracket that closes its array.\<close>

definition names_dependency :: "string \<Rightarrow> string \<Rightarrow> bool" where
  "names_dependency line taskId \<longleftrightarrow>
     (\<exists>rest before behind. strstr line (DQ # ''dependencies'' @ [DQ]) = Some rest \<and> CHR '']'' \<in> set rest \<and>
        takeWhile (\<lambda>c. c \<noteq> CHR '']'') rest = before @ (DQ # taskId @ [DQ]) @ behind)"

lemma strstr_first: "strstr (u @ p @ v) p = Some m \<Longrightarrow> length (p @ v) \<le> length m"
proof (induction u)
  case Nil
  have "starts_with p (p @ v)" by simp
  with Nil show ?case by (cases "p @ v") (auto simp del: starts_with_append)
next
  case (Cons c u)
  then show ?case by (cases "starts_with p (c # u @ p @ v)") auto
qed

lemma depends_iff:
  assumes "length taskId < 128" "CHR '']'' \<notin> set taskId"
  shows "lineDependsOnTask line taskId \<longleftrightarrow> names_dependency line taskId"
proof -
  let ?q = "DQ # taskId @ [DQ]" and ?bra = "\<lambda>c. c \<noteq> CHR '']''"
  have q: "snprintf_s (WT_TASK_ID_SIZE + 4) ?q = ?q" "CHR '']'' \<notin> set ?q"
    using assms by (simp_all add: snprintf_s_def task_sizes)
  have "(case strstr d ?q of None \<Rightarrow> False | Some m \<Rightarrow> length e < length m) \<longleftrightarrow> (\<exists>u w. takeWhile ?bra d = u @ ?q @ w)"
    if e: "strchr d (CHR '']'') = Some e" for d e
  proof -
    from strchr_Some [OF e] obtain a e' where d: "d = a @ e" "e = CHR '']'' # e'" "CHR '']'' \<notin> set a" by blast
    then have a: "takeWhile ?bra d = a" by (auto simp: takeWhile_append)
    show ?thesis
    proof
      assume "case strstr d ?q of None \<Rightarrow> False | Some m \<Rightarrow> length e < length m"
      then obtain m where m: "strstr d ?q = Some m" "length e < length m" by (auto split: option.splits)
      from strstr_Some [OF m(1)] obtain u b where u: "d = u @ m" "m = ?q @ b" by blast
      with d(1) m(2) obtain x where x: "a = u @ x" "m = x @ e" by (auto simp: append_eq_append_conv2)
      have "prefix ?q x"
      proof (rule ccontr)
        assume no: "\<not> prefix ?q x"
        have "x @ e = ?q @ b" using u(2) x(2) by simp
        then have "prefix ?q (x @ e)" "prefix x (x @ e)" by (metis prefixI, blast intro: prefixI)
        then have "prefix ?q x \<or> prefix x ?q" by (rule prefix_same_cases)
        with no have "prefix x ?q" by blast
        then obtain y where y: "?q = x @ y" by (rule prefixE)
        with no have "y \<noteq> []" by (metis append_Nil2 prefix_order.order_refl)
        note y = y this
        with \<open>x @ e = ?q @ b\<close> d(2) have "hd y = CHR '']''" by (cases y) auto
        with y q(2) show False by (cases y) auto
      qed
      with a x show "\<exists>u w. takeWhile ?bra d = u @ ?q @ w" by (auto simp: prefix_def)
    next
      assume "\<exists>u w. takeWhile ?bra d = u @ ?q @ w"
      then obtain u w where uw: "d = u @ ?q @ (w @ e)" using a d(1) by auto
      obtain m where m: "strstr d ?q = Some m" using strstr_append [of u ?q "w @ e"] uw by auto
      from strstr_first [of u ?q "w @ e" m] m uw have "length e < length m" by simp
      with m show "case strstr d ?q of None \<Rightarrow> False | Some m \<Rightarrow> length e < length m" by simp
    qed
  qed
  moreover have "strchr d (CHR '']'') \<noteq> None \<longleftrightarrow> CHR '']'' \<in> set d" for d by (simp add: strchr_None)
  ultimately show ?thesis
    unfolding lineDependsOnTask_def names_dependency_def q(1)
    by (fastforce split: option.splits)
qed

text \<open>
  What one line says about a task: which task it packages, and the status it gives a task. A package
  without a status is queued; an event without one says nothing.
\<close>

definition packaged :: "string \<Rightarrow> string option" where
  "packaged line = (if is_package line then read_str line ''taskId'' WT_TASK_ID_SIZE else None)"

definition status_given :: "string \<Rightarrow> string \<Rightarrow> string option" where
  "status_given taskId line =
     (if read_str line ''taskId'' WT_TASK_ID_SIZE \<noteq> Some taskId then None
      else if is_package line then Some (read_or line ''status'' WT_TASK_STATUS_SIZE ''queued'')
      else if is_task_event line then
        (case wtJsonReadString line ''status'' WT_TASK_STATUS_SIZE of
           ReadOk s \<Rightarrow> Some s | ReadFail x \<Rightarrow> x | ReadCut s \<Rightarrow> Some s | ReadOverrun \<Rightarrow> None)
      else None)"

definition last_status :: "string \<Rightarrow> string list \<Rightarrow> string option" where
  "last_status taskId ls = (case rev (List.map_filter (status_given taskId) ls) of [] \<Rightarrow> None | s # _ \<Rightarrow> Some s)"

definition open_task :: "string list \<Rightarrow> string \<Rightarrow> bool" where
  "open_task ls taskId \<longleftrightarrow> (case last_status taskId ls of None \<Rightarrow> False
     | Some s \<Rightarrow> s \<notin> {''complete'', ''failed'', ''cancelled'', ''closed'', ''blocked''})"

definition dependents :: "string \<Rightarrow> string list \<Rightarrow> string list" where
  "dependents taskId ls = List.map_filter packaged (filter (\<lambda>line. names_dependency line taskId) ls)"

lemma map_filter_snoc: "List.map_filter f (xs @ [x]) = List.map_filter f xs @ (case f x of None \<Rightarrow> [] | Some y \<Rightarrow> [y])"
  by (simp add: map_filter_def split: option.split)

lemma last_status_snoc:
  "last_status t (ls @ [l]) = (case status_given t l of None \<Rightarrow> last_status t ls | Some s \<Rightarrow> Some s)"
  by (simp add: last_status_def map_filter_snoc split: option.split)

lemma dependents_snoc:
  "dependents t (ls @ [l]) = dependents t ls @ (case packaged l of Some d \<Rightarrow> (if names_dependency l t then [d] else []) | None \<Rightarrow> [])"
  by (simp add: dependents_def map_filter_snoc split: option.split)

lemma length_map_filter_le: "length (List.map_filter f (filter P xs)) \<le> length (List.map_filter f xs)"
  by (induction xs) (auto simp: map_filter_simps split: option.split)

lemma distinct_map_filter_filter:
  "distinct (List.map_filter f xs) \<Longrightarrow> distinct (List.map_filter f (filter P xs))"
proof (induction xs)
  case (Cons x xs)
  have "set (List.map_filter f (filter P xs)) \<subseteq> set (List.map_filter f xs)" by (auto simp: map_filter_def)
  with Cons show ?case by (auto simp: map_filter_simps split: option.splits)
qed simp

lemma dependents_subset: "set (dependents t ls) \<subseteq> set (List.map_filter packaged ls)"
  by (auto simp: dependents_def map_filter_def)

lemma status_given_other: "read_str line ''taskId'' WT_TASK_ID_SIZE = Some t \<Longrightarrow> t' \<noteq> t \<Longrightarrow> status_given t' line = None"
  by (simp add: status_given_def)

text \<open>The loop tracks the packaged tasks with their last status, and the dependents.\<close>

lemma block_scan:
  assumes "length blockedTaskId < 128" "CHR '']'' \<notin> set blockedTaskId"
    and "distinct (List.map_filter packaged ls)" "length (List.map_filter packaged ls) \<le> 256"
  shows "\<exists>tasks. fold (block_step blockedTaskId) ls ([], []) = (tasks, dependents blockedTaskId ls) \<and>
    map t_taskId tasks = List.map_filter packaged ls \<and>
    (\<forall>task \<in> set tasks. last_status (t_taskId task) ls = Some (t_status task))"
  using assms(3,4)
proof (induction ls rule: rev_induct)
  case Nil
  show ?case by (simp add: dependents_def map_filter_simps)
next
  case (snoc l ls)
  have pre: "distinct (List.map_filter packaged ls)" "length (List.map_filter packaged ls) \<le> 256"
    using snoc.prems by (auto simp: map_filter_snoc split: option.splits)
  from snoc.IH [OF pre] obtain tasks where
    tasks: "fold (block_step blockedTaskId) ls ([], []) = (tasks, dependents blockedTaskId ls)"
      "map t_taskId tasks = List.map_filter packaged ls"
    and st: "\<forall>task \<in> set tasks. last_status (t_taskId task) ls = Some (t_status task)" by blast
  have ids: "distinct (map t_taskId tasks)" using pre(1) tasks(2) by simp
  show ?case
  proof (cases "read_str l ''taskId'' WT_TASK_ID_SIZE")
    case None
    then have "packaged l = None" "status_given t l = None" for t by (simp_all add: packaged_def status_given_def)
    moreover have "block_step blockedTaskId l (tasks, dependents blockedTaskId ls) = (tasks, dependents blockedTaskId ls)"
      using None by (simp add: block_step_def)
    ultimately show ?thesis
      using tasks st by (simp add: map_filter_snoc dependents_snoc last_status_snoc)
  next
    case (Some t)
    note other = status_given_other [OF Some]
    show ?thesis
    proof (cases "is_package l")
      case True
      then have pk: "packaged l = Some t" using Some by (simp add: packaged_def)
      with snoc.prems have new: "t \<notin> set (List.map_filter packaged ls)" "length (List.map_filter packaged ls) < 256"
        by (simp_all add: map_filter_snoc)
      then have "t \<notin> t_taskId ` set tasks" "length tasks < 256"
        using tasks(2) by (metis list.set_map) (metis new(2) tasks(2) length_map)
      then have none: "findKnownTask tasks t = None" by (simp add: findKnownTask_None)
      have short: "length t < 128" by (rule line_taskId_length [OF Some])
      have "length (dependents blockedTaskId ls) < 256"
        using length_map_filter_le [of packaged "\<lambda>line. names_dependency line blockedTaskId" ls] new(2)
        by (simp add: dependents_def)
      moreover have "snprintf_s WT_TASK_ID_SIZE t = t" using short by (simp add: snprintf_s_def task_sizes)
      moreover have "status_given t l = Some (read_or l ''status'' WT_TASK_STATUS_SIZE ''queued'')"
        using True Some by (simp add: status_given_def)
      moreover have "t_taskId task \<noteq> t" if "task \<in> set tasks" for task
        using that \<open>t \<notin> t_taskId ` set tasks\<close> by blast
      moreover have "block_step blockedTaskId l (tasks, dependents blockedTaskId ls) =
          (tasks @ [(new_task t) \<lparr> t_status := read_or l ''status'' WT_TASK_STATUS_SIZE ''queued'' \<rparr>],
           dependents blockedTaskId ls @ (if names_dependency l blockedTaskId then [t] else []))"
        using none Some True \<open>length tasks < 256\<close> depends_iff [OF assms(1,2), of l] calculation(1,2)
        by (simp add: block_step_def Let_def)
      ultimately show ?thesis
        using tasks st pk other new_task_taskId [OF short]
        by (simp add: map_filter_snoc dependents_snoc last_status_snoc)
    next
      case False
      then have pk: "packaged l = None" by (simp add: packaged_def)
      have idle: ?thesis if "block_step blockedTaskId l (tasks, dependents blockedTaskId ls) = (tasks, dependents blockedTaskId ls)"
        "\<And>task. task \<in> set tasks \<Longrightarrow> status_given (t_taskId task) l = None"
        using that tasks st pk by (simp add: map_filter_snoc dependents_snoc last_status_snoc)
      show ?thesis
      proof (cases "is_task_event l")
        case False
        with \<open>\<not> is_package l\<close> Some show ?thesis
          by (intro idle) (simp_all add: block_step_def status_given_def)
      next
        case True
        show ?thesis
        proof (cases "findKnownTask tasks t")
          case None
          then have "t_taskId task \<noteq> t" if "task \<in> set tasks" for task using that by (auto simp: findKnownTask_None)
          with None True \<open>\<not> is_package l\<close> Some other show ?thesis
            by (intro idle) (simp_all add: block_step_def)
        next
          case known: (Some i)
          have i: "i < length tasks" "t_taskId (tasks ! i) = t" using findKnownTask_Some [OF known] by blast+
          let ?new = "(tasks ! i) \<lparr> t_status := read_keep l ''status'' WT_TASK_STATUS_SIZE (t_status (tasks ! i)) \<rparr>"
          let ?tasks = "tasks[i := ?new]"
          have step: "block_step blockedTaskId l (tasks, dependents blockedTaskId ls) = (?tasks, dependents blockedTaskId ls)"
            using known True \<open>\<not> is_package l\<close> Some by (simp add: block_step_def)
          have "map t_taskId ?tasks = map t_taskId tasks" using i(1) by (simp add: map_update_same)
          moreover have "last_status (t_taskId task) (ls @ [l]) = Some (t_status task)" if "task \<in> set ?tasks" for task
          proof (cases "t_taskId task = t")
            case True
            have "task = ?new" by (rule update_unique [OF ids i(1) that]) (simp add: True i)
            moreover have "last_status t ls = Some (t_status (tasks ! i))" using st i by (metis nth_mem)
            ultimately show ?thesis
              using True \<open>is_task_event l\<close> \<open>\<not> is_package l\<close> Some i(2)
              by (auto simp: last_status_snoc status_given_def read_keep_def split: json_read.splits option.splits)
          next
            case False
            then have "task \<in> set tasks" using update_elem [OF that] i by auto
            with st other [OF False] show ?thesis by (simp add: last_status_snoc)
          qed
          ultimately show ?thesis
            using tasks step pk by (simp add: map_filter_snoc dependents_snoc)
        qed
      qed
    qed
  qed
qed

lemma may_block_open:
  assumes "\<forall>task \<in> set tasks. last_status (t_taskId task) ls = Some (t_status task)" "dep \<in> set (map t_taskId tasks)"
  shows "may_block tasks dep \<longleftrightarrow> open_task ls dep"
proof -
  obtain i where i: "findKnownTask tasks dep = Some i"
    using assms(2) findKnownTask_None [of tasks dep] by (cases "findKnownTask tasks dep") auto
  note k = findKnownTask_Some [OF this]
  then have "last_status dep ls = Some (t_status (tasks ! i))" using assms(1) by (metis nth_mem)
  then show ?thesis by (auto simp: may_block_def i open_task_def terminal_status_def)
qed

section \<open>Properties\<close>

text \<open>
  C36. Blocking a task reaches its open dependents. In a ledger with one package per task and at most
  256 of them, the dependents are the tasks whose package names the blocked task in its
  \<open>dependencies\<close> array, and one is open when the last status that a package or event of the ledger
  gives it is none of complete, failed, cancelled, closed and blocked. The operation appends exactly
  one \<open>blocked\<close> status event for each open dependent, in the order of the packages, leaves every
  other line as it was, and returns their number, when no append fails, the blocked id has no closing
  bracket in it and the texts fit and have no control characters.
\<close>

theorem blocked_dependents_exact:
  assumes "clean_tail (bytes ledger)" and "ledger \<noteq> None"
    and "text_ok 128 blockedTaskId" and "CHR '']'' \<notin> set blockedTaskId" and "text_ok 64 createdBy" and "is_long now"
    and "distinct (List.map_filter packaged (ledger_lines ledger))"
    and "length (List.map_filter packaged (ledger_lines ledger)) \<le> 256"
    and "\<forall>dep \<in> set (dependents blockedTaskId (ledger_lines ledger)). text_ok 128 dep"
    and "wtTaskAppendBlockedDependents (\<lambda>_. NoFault) True now blockedTaskId createdBy ledger = (rc, ledger')"
  shows "let opens = filter (open_task (ledger_lines ledger)) (dependents blockedTaskId (ledger_lines ledger)) in
    distinct opens \<and> rc = int (length opens) \<and>
    ledger_lines ledger' = ledger_lines ledger @
      map (\<lambda>dep. action_line now (Status dep ''blocked'' createdBy (blocked_message blockedTaskId))) opens"
proof -
  let ?ls = "ledger_lines ledger"
  have "length blockedTaskId < 128" using assms(3) by (simp add: text_ok_def)
  from block_scan [OF this assms(4,7,8)] obtain tasks where
    scan: "fold (block_step blockedTaskId) ?ls ([], []) = (tasks, dependents blockedTaskId ?ls)"
      "map t_taskId tasks = List.map_filter packaged ?ls"
    and st: "\<forall>task \<in> set tasks. last_status (t_taskId task) ?ls = Some (t_status task)" by blast
  have same: "filter (may_block tasks) (dependents blockedTaskId ?ls) = filter (open_task ?ls) (dependents blockedTaskId ?ls)"
    by (rule filter_cong [OF refl may_block_open [OF st]]) (use dependents_subset scan(2) in auto)
  have "distinct (dependents blockedTaskId ?ls)"
    unfolding dependents_def by (rule distinct_map_filter_filter [OF assms(7)])
  with append_blocked_spec [OF assms(3,5,6,1,9), where tasks = tasks and appended = 0] assms(2,10) scan(1) same show ?thesis
    by (simp add: wtTaskAppendBlockedDependents_def blocked_action_def Let_def split: option.splits)
qed

text \<open>A package that depends on \<open>t0\<close>.\<close>

definition dependent_line :: string where
  "dependent_line = ''{'' @ DQ # ''schema'' @ DQ # '':'' @ DQ # ''woventeam.task_package.v0.1'' @ DQ # '','' @
     DQ # ''taskId'' @ DQ # '':'' @ DQ # ''t1'' @ DQ # '','' @
     DQ # ''dependencies'' @ DQ # '':['' @ DQ # ''t0'' @ DQ # '']}'' @ [NL]"

definition dependent_ledger :: log_file where "dependent_ledger = Some dependent_line"

lemma dependent_reads:
  "read_str dependent_line ''taskId'' 128 = Some ''t1''" "is_package dependent_line"
  "read_or dependent_line ''status'' 32 ''queued'' = ''queued''" "lineDependsOnTask dependent_line ''t0''"
  by code_simp+

lemma dependent_lines: "ledger_lines dependent_ledger = [dependent_line]" "clean_tail (bytes dependent_ledger)"
proof -
  define r where "r = butlast dependent_line"
  have l: "dependent_line = r @ [NL]" by (simp add: r_def dependent_line_def)
  have "NL \<notin> set r" "c_string r" "length r + 1 < 16384"
    by (simp_all add: r_def dependent_line_def)
  then show "ledger_lines dependent_ledger = [dependent_line]"
    by (simp add: ledger_lines_def dependent_ledger_def l task_sizes file_lines_record)
  show "clean_tail (bytes dependent_ledger)" by (simp add: dependent_ledger_def l)
qed

lemma dependent_dependents:
  "List.map_filter packaged (ledger_lines dependent_ledger) = [''t1'']" "dependents ''t0'' (ledger_lines dependent_ledger) = [''t1'']"
  "open_task (ledger_lines dependent_ledger) ''t1''"
  using dependent_reads depends_iff [of "''t0''" dependent_line]
  by (simp_all add: dependent_lines packaged_def dependents_def open_task_def last_status_def status_given_def
      map_filter_simps task_sizes)

theorem blocked_dependents_exact_witness:
  "fst (wtTaskAppendBlockedDependents (\<lambda>_. NoFault) True 5 ''t0'' ''ceo'' dependent_ledger) = 1"
proof -
  have ok: "text_ok 128 ''t0''" "CHR '']'' \<notin> set ''t0''" "text_ok 64 ''ceo''" "is_long 5" "dependent_ledger \<noteq> None"
    "text_ok 128 ''t1''"
    by (simp_all add: text_ok_def c_int_defs dependent_ledger_def)
  from blocked_dependents_exact [OF dependent_lines(2) ok(5,1-4) _ _ _ prod.collapse [symmetric]] show ?thesis
    by (simp add: dependent_dependents ok(6) Let_def)
qed

end
