(* ===== verification/Token_Budget.thy ===== *)
theory Token_Budget
  imports Task_Ledger
begin

text \<open>
  \<open>wtTaskSummarizeTokenBudgets\<close> of \<^verbatim>\<open>src/src/wt_task_store.c\<close>: one pass over the ledger that adds up
  the allocated tokens of packages and the actual tokens and cost of usage records, for all time
  and for the last 24 hours and 30 days. Every \<open>+=\<close> wraps at its C type.
\<close>

record WtTokenSummary =
  dayWindowAllocatedTokens :: int
  monthWindowAllocatedTokens :: int
  allTimeAllocatedTokens :: int
  dayWindowActualTokens :: int
  monthWindowActualTokens :: int
  allTimeActualTokens :: int
  dayWindowActualCostCents :: int
  monthWindowActualCostCents :: int
  allTimeActualCostCents :: int
  dayWindowPackages :: int
  monthWindowPackages :: int
  allTimePackages :: int
  dayWindowUsageEvents :: int
  monthWindowUsageEvents :: int
  allTimeUsageEvents :: int

definition zero_summary :: WtTokenSummary where
  "zero_summary = \<lparr> dayWindowAllocatedTokens = 0, monthWindowAllocatedTokens = 0, allTimeAllocatedTokens = 0,
     dayWindowActualTokens = 0, monthWindowActualTokens = 0, allTimeActualTokens = 0,
     dayWindowActualCostCents = 0, monthWindowActualCostCents = 0, allTimeActualCostCents = 0,
     dayWindowPackages = 0, monthWindowPackages = 0, allTimePackages = 0,
     dayWindowUsageEvents = 0, monthWindowUsageEvents = 0, allTimeUsageEvents = 0 \<rparr>"

definition dayWindowMs :: int where "dayWindowMs = 24 * 60 * 60 * 1000"
definition monthWindowMs :: int where "monthWindowMs = 30 * dayWindowMs"

text \<open>A count that is missing, not a number or negative counts as zero.\<close>

definition read_count :: "string \<Rightarrow> string \<Rightarrow> int" where
  "read_count line key = (case wtJsonReadLong line key of None \<Rightarrow> 0 | Some v \<Rightarrow> (if v < 0 then 0 else v))"

definition in_window :: "int \<Rightarrow> int \<Rightarrow> string \<Rightarrow> bool" where
  "in_window nowUnixMs window line \<longleftrightarrow>
     (let createdAt = read_longlong_or line ''createdAtUnixMs'' 0
      in createdAt > 0 \<and> createdAt \<ge> sll (nowUnixMs - window))"

definition add_package :: "int \<Rightarrow> string \<Rightarrow> WtTokenSummary \<Rightarrow> WtTokenSummary" where
  "add_package nowUnixMs line s =
     (let maxTokens = read_count line ''maxTokens'';
          s = s \<lparr> allTimeAllocatedTokens := sll (allTimeAllocatedTokens s + maxTokens),
                  allTimePackages := to_int32 (allTimePackages s + 1) \<rparr>;
          s = (if in_window nowUnixMs monthWindowMs line
               then s \<lparr> monthWindowAllocatedTokens := sll (monthWindowAllocatedTokens s + maxTokens),
                        monthWindowPackages := to_int32 (monthWindowPackages s + 1) \<rparr> else s)
      in if in_window nowUnixMs dayWindowMs line
         then s \<lparr> dayWindowAllocatedTokens := sll (dayWindowAllocatedTokens s + maxTokens),
                  dayWindowPackages := to_int32 (dayWindowPackages s + 1) \<rparr> else s)"

definition add_usage :: "int \<Rightarrow> string \<Rightarrow> WtTokenSummary \<Rightarrow> WtTokenSummary" where
  "add_usage nowUnixMs line s =
     (let totalTokens = read_count line ''totalTokens''; cost = read_count line ''estimatedCostCents'';
          s = s \<lparr> allTimeActualTokens := sll (allTimeActualTokens s + totalTokens),
                  allTimeActualCostCents := sll (allTimeActualCostCents s + cost),
                  allTimeUsageEvents := to_int32 (allTimeUsageEvents s + 1) \<rparr>;
          s = (if in_window nowUnixMs monthWindowMs line
               then s \<lparr> monthWindowActualTokens := sll (monthWindowActualTokens s + totalTokens),
                        monthWindowActualCostCents := sll (monthWindowActualCostCents s + cost),
                        monthWindowUsageEvents := to_int32 (monthWindowUsageEvents s + 1) \<rparr> else s)
      in if in_window nowUnixMs dayWindowMs line
         then s \<lparr> dayWindowActualTokens := sll (dayWindowActualTokens s + totalTokens),
                  dayWindowActualCostCents := sll (dayWindowActualCostCents s + cost),
                  dayWindowUsageEvents := to_int32 (dayWindowUsageEvents s + 1) \<rparr> else s)"

definition summary_step :: "int \<Rightarrow> string \<Rightarrow> WtTokenSummary \<Rightarrow> WtTokenSummary" where
  "summary_step nowUnixMs line s =
     (if lineHasSchema line ''woventeam.task_package.v0.1'' then add_package nowUnixMs line s
      else if lineHasSchema line ''woventeam.task_usage.v0.1'' then add_usage nowUnixMs line s
      else s)"

definition wtTaskSummarizeTokenBudgets :: "log_file \<Rightarrow> int \<Rightarrow> WtTokenSummary" where
  "wtTaskSummarizeTokenBudgets ledger nowUnixMs = fold (summary_step nowUnixMs) (ledger_lines ledger) zero_summary"

section \<open>The totals as sums\<close>

definition is_pkg :: "string \<Rightarrow> bool" where "is_pkg l = lineHasSchema l ''woventeam.task_package.v0.1''"
definition is_use :: "string \<Rightarrow> bool" where "is_use l = lineHasSchema l ''woventeam.task_usage.v0.1''"

definition packages :: "log_file \<Rightarrow> string list" where
  "packages ledger = filter is_pkg (ledger_lines ledger)"

definition usages :: "log_file \<Rightarrow> string list" where
  "usages ledger = filter is_use (ledger_lines ledger)"

definition total :: "string \<Rightarrow> string list \<Rightarrow> int" where
  "total key ls = sum_list (map (\<lambda>l. read_count l key) ls)"

lemma sll_cong: "sll (sll a + b) = sll (a + b)"
proof -
  have "(sll a + b + 2 ^ 63) mod 2 ^ 64 = ((a + 2 ^ 63) mod 2 ^ 64 + b) mod 2 ^ 64"
    by (simp add: sll_def algebra_simps)
  also have "\<dots> = (a + b + 2 ^ 63) mod 2 ^ 64"
    by (simp only: mod_add_left_eq) (simp add: ac_simps)
  finally show ?thesis by (simp add: sll_def)
qed

lemma sll_zero: "sll 0 = 0"
  by (simp add: is_long_def LONG_MAX_def LONG_MIN_def)

lemma is_pkg_not_use: "is_pkg l \<Longrightarrow> \<not> is_use l"
  by (simp add: is_pkg_def is_use_def lineHasSchema_def)

text \<open>One line, one field at a time.\<close>

lemma summary_step_fields:
  "allTimeAllocatedTokens (summary_step now l s) = (if is_pkg l then sll (allTimeAllocatedTokens s + read_count l ''maxTokens'') else allTimeAllocatedTokens s)"
  "monthWindowAllocatedTokens (summary_step now l s) = (if is_pkg l \<and> in_window now monthWindowMs l then sll (monthWindowAllocatedTokens s + read_count l ''maxTokens'') else monthWindowAllocatedTokens s)"
  "dayWindowAllocatedTokens (summary_step now l s) = (if is_pkg l \<and> in_window now dayWindowMs l then sll (dayWindowAllocatedTokens s + read_count l ''maxTokens'') else dayWindowAllocatedTokens s)"
  "allTimeActualTokens (summary_step now l s) = (if is_use l then sll (allTimeActualTokens s + read_count l ''totalTokens'') else allTimeActualTokens s)"
  "monthWindowActualTokens (summary_step now l s) = (if is_use l \<and> in_window now monthWindowMs l then sll (monthWindowActualTokens s + read_count l ''totalTokens'') else monthWindowActualTokens s)"
  "dayWindowActualTokens (summary_step now l s) = (if is_use l \<and> in_window now dayWindowMs l then sll (dayWindowActualTokens s + read_count l ''totalTokens'') else dayWindowActualTokens s)"
  "allTimeActualCostCents (summary_step now l s) = (if is_use l then sll (allTimeActualCostCents s + read_count l ''estimatedCostCents'') else allTimeActualCostCents s)"
  "monthWindowActualCostCents (summary_step now l s) = (if is_use l \<and> in_window now monthWindowMs l then sll (monthWindowActualCostCents s + read_count l ''estimatedCostCents'') else monthWindowActualCostCents s)"
  "dayWindowActualCostCents (summary_step now l s) = (if is_use l \<and> in_window now dayWindowMs l then sll (dayWindowActualCostCents s + read_count l ''estimatedCostCents'') else dayWindowActualCostCents s)"
  using is_pkg_not_use [of l]
  by (simp_all add: summary_step_def add_package_def add_usage_def Let_def flip: is_pkg_def is_use_def)

lemma total_snoc: "total key (ls @ [l]) = total key ls + read_count l key" "total key [] = 0"
  by (simp_all add: total_def)

lemma fold_summary:
  fixes ls :: "string list" and now :: int
  defines "S \<equiv> fold (summary_step now) ls zero_summary"
    and "P \<equiv> filter is_pkg ls"
    and "U \<equiv> filter is_use ls"
  shows "allTimeAllocatedTokens S = sll (total ''maxTokens'' P)"
    and "monthWindowAllocatedTokens S = sll (total ''maxTokens'' (filter (in_window now monthWindowMs) P))"
    and "dayWindowAllocatedTokens S = sll (total ''maxTokens'' (filter (in_window now dayWindowMs) P))"
    and "allTimeActualTokens S = sll (total ''totalTokens'' U)"
    and "monthWindowActualTokens S = sll (total ''totalTokens'' (filter (in_window now monthWindowMs) U))"
    and "dayWindowActualTokens S = sll (total ''totalTokens'' (filter (in_window now dayWindowMs) U))"
    and "allTimeActualCostCents S = sll (total ''estimatedCostCents'' U)"
    and "monthWindowActualCostCents S = sll (total ''estimatedCostCents'' (filter (in_window now monthWindowMs) U))"
    and "dayWindowActualCostCents S = sll (total ''estimatedCostCents'' (filter (in_window now dayWindowMs) U))"
  unfolding S_def P_def U_def
  by (induction ls rule: rev_induct) (simp_all add: zero_summary_def sll_zero summary_step_fields sll_cong total_snoc)

section \<open>Properties\<close>

text \<open>
  C34. Every total is the sum of its column over exactly the records it names: packages or usage
  records, of all time or with a time stamp inside the window, reduced to a \<open>long long\<close>; missing,
  malformed and negative counts contribute nothing.
\<close>

theorem token_totals:
  "allTimeAllocatedTokens (wtTaskSummarizeTokenBudgets ledger now) = sll (total ''maxTokens'' (packages ledger)) \<and>
   monthWindowAllocatedTokens (wtTaskSummarizeTokenBudgets ledger now) =
     sll (total ''maxTokens'' (filter (in_window now monthWindowMs) (packages ledger))) \<and>
   dayWindowAllocatedTokens (wtTaskSummarizeTokenBudgets ledger now) =
     sll (total ''maxTokens'' (filter (in_window now dayWindowMs) (packages ledger))) \<and>
   allTimeActualTokens (wtTaskSummarizeTokenBudgets ledger now) = sll (total ''totalTokens'' (usages ledger)) \<and>
   monthWindowActualTokens (wtTaskSummarizeTokenBudgets ledger now) =
     sll (total ''totalTokens'' (filter (in_window now monthWindowMs) (usages ledger))) \<and>
   dayWindowActualTokens (wtTaskSummarizeTokenBudgets ledger now) =
     sll (total ''totalTokens'' (filter (in_window now dayWindowMs) (usages ledger))) \<and>
   allTimeActualCostCents (wtTaskSummarizeTokenBudgets ledger now) = sll (total ''estimatedCostCents'' (usages ledger)) \<and>
   monthWindowActualCostCents (wtTaskSummarizeTokenBudgets ledger now) =
     sll (total ''estimatedCostCents'' (filter (in_window now monthWindowMs) (usages ledger))) \<and>
   dayWindowActualCostCents (wtTaskSummarizeTokenBudgets ledger now) =
     sll (total ''estimatedCostCents'' (filter (in_window now dayWindowMs) (usages ledger)))"
  unfolding wtTaskSummarizeTokenBudgets_def packages_def usages_def fold_summary by simp

end
