(* ===== verification/Projection.thy ===== *)
theory Projection
  imports Task_Scan "HOL-Library.List_Lexorder" "HOL-Library.Char_ord"
begin

text \<open>
  The read model of \<^verbatim>\<open>src/src/wt_task_projection.c\<close>: the SQLite database that is rebuilt from the
  task ledger. A table is the list of its rows in rowid order, a row is a record with the columns of
  the \<open>CREATE TABLE\<close> statement, and each SQL statement of the file is the function on these lists
  that the statement denotes: \<open>INSERT\<close> appends a row, \<open>ON CONFLICT DO UPDATE\<close> rewrites the row with
  the same key (\<open>upsert\<close>), \<open>UPDATE ... SET\<close> with its \<open>CASE\<close> expressions rewrites the rows that the
  \<open>WHERE\<close> clause selects, every right-hand side being evaluated in the old row. The failures of SQLite
  that the program reacts to (opening, schema, commit) are the argument of \<open>wtTaskProjectionRebuild\<close>;
  single statements inside the transaction are taken to succeed (their result is ignored there).
  Integer columns are exact; the counters stay far below 2^63, where SQLite would leave integers.
\<close>

section \<open>Tables\<close>

record task_row =
  c_task_id :: string
  c_initiative_id :: string
  c_parent_task_id :: string
  c_requested_by_role :: string
  c_assigned_role :: string
  c_assigned_agent :: string
  c_model_id :: string
  c_priority :: string
  c_status :: string
  c_title :: string
  c_body :: string
  c_tool_profile :: string
  c_autonomy_level :: string
  c_autonomy_scope :: string
  c_autonomy_network :: string
  c_autonomy_credential_class :: string
  c_autonomy_ttl_seconds :: int
  c_autonomy_max_wall_clock_seconds :: int
  c_autonomy_requires_clean_worktree :: int
  c_max_tokens :: int
  c_created_at_ms :: int
  c_updated_at_ms :: int
  c_event_count :: int
  c_lease_owner :: string
  c_lease_expires_at_ms :: int
  c_leased_at_ms :: int
  c_running_at_ms :: int
  c_attempt_count :: int
  c_failure_cause :: string
  c_last_reclaim_reason :: string
  c_reclaim_count :: int
  c_artifact_state :: string
  c_last_reviewer :: string
  c_last_review_notes :: string
  c_accepted_at_ms :: int
  c_accepted_artifact_path :: string

record event_row =
  e_task_id :: string
  e_schema :: string
  e_event_type :: string
  e_status :: string
  e_assigned_agent :: string
  e_message :: string
  e_created_by :: string
  e_created_at_ms :: int
  e_raw_json :: string

record control_row =
  k_agent :: string
  k_state :: string
  k_message :: string
  k_updated_at_ms :: int

record heartbeat_row =
  h_agent :: string
  h_host :: string
  h_current_task_id :: string
  h_lease_expires_at_ms :: int
  h_status_line :: string
  h_last_seen_ms :: int

record milestone_row =
  m_task_id :: string
  m_milestone :: string
  m_message :: string
  m_created_by :: string
  m_created_at_ms :: int

record kill_row =
  x_task_id :: string
  x_reason :: string
  x_created_by :: string
  x_created_at_ms :: int

record deliverable_row =
  d_deliverable_id :: string
  d_task_id :: string
  d_initiative_id :: string
  d_source_workspace_path :: string
  d_deliverable_path :: string
  d_packaging_mode :: string
  d_size_bytes :: int
  d_sha256 :: string
  d_reviewer :: string
  d_supersedes :: string
  d_created_by :: string
  d_created_at_ms :: int
  d_raw_json :: string

record scan_row =
  s_scan_id :: string
  s_deliverable_id :: string
  s_task_id :: string
  s_scanned_path :: string
  s_matched :: int
  s_hit_count :: int
  s_packaging_mode :: string
  s_created_at_ms :: int
  s_raw_json :: string

record projection =
  tasks :: "task_row list"
  task_events :: "event_row list"
  agent_controls :: "control_row list"
  heartbeats :: "heartbeat_row list"
  milestones :: "milestone_row list"
  kill_events :: "kill_row list"
  deliverables :: "deliverable_row list"
  secret_scans :: "scan_row list"

definition empty_projection :: projection where
  "empty_projection = \<lparr> tasks = [], task_events = [], agent_controls = [], heartbeats = [], milestones = [],
     kill_events = [], deliverables = [], secret_scans = [] \<rparr>"

section \<open>SQL statements on tables\<close>

text \<open>\<open>INSERT ... ON CONFLICT(key) DO UPDATE SET ...\<close>: \<open>merge\<close> combines the stored and the excluded row.\<close>

definition upsert :: "('r \<Rightarrow> string) \<Rightarrow> ('r \<Rightarrow> 'r \<Rightarrow> 'r) \<Rightarrow> 'r \<Rightarrow> 'r list \<Rightarrow> 'r list" where
  "upsert key merge row table =
     (if key row \<in> set (map key table)
      then map (\<lambda>old. if key old = key row then merge old row else old) table
      else table @ [row])"

text \<open>\<open>UPDATE ... SET ... WHERE key = k\<close>\<close>

definition update_where :: "('r \<Rightarrow> string) \<Rightarrow> string \<Rightarrow> ('r \<Rightarrow> 'r) \<Rightarrow> 'r list \<Rightarrow> 'r list" where
  "update_where key k f table = map (\<lambda>r. if key r = k then f r else r) table"

section \<open>The rows read from a ledger line\<close>

definition package_row :: "string \<Rightarrow> task_row" where
  "package_row line =
     (let created = read_longlong_or line ''createdAtUnixMs'' 0 in
      \<lparr> c_task_id = read_or line ''taskId'' WT_TASK_ID_SIZE [],
        c_initiative_id = read_or line ''initiativeId'' WT_TASK_ID_SIZE [],
        c_parent_task_id = read_or line ''parentTaskId'' WT_TASK_ID_SIZE [],
        c_requested_by_role = read_or line ''requestedByRole'' WT_TASK_AGENT_SIZE [],
        c_assigned_role = read_or line ''assignedRole'' WT_TASK_AGENT_SIZE [],
        c_assigned_agent = read_or line ''assignedAgent'' WT_TASK_AGENT_SIZE ''all'',
        c_model_id = read_or line ''modelId'' WT_TASK_MODEL_SIZE [],
        c_priority = read_or line ''priority'' 32 ''normal'',
        c_status = read_or line ''status'' WT_TASK_STATUS_SIZE ''queued'',
        c_title = read_or line ''title'' WT_TASK_TITLE_SIZE ''Untitled task'',
        c_body = read_or line ''body'' WT_TASK_BODY_SIZE [],
        c_tool_profile = read_or line ''profile'' WT_TASK_POLICY_SIZE ''observe'',
        c_autonomy_level = read_or line ''autonomyLevel'' WT_TASK_POLICY_SIZE [],
        c_autonomy_scope = read_or line ''scope'' WT_TASK_BODY_SIZE [],
        c_autonomy_network = read_or line ''network'' WT_TASK_POLICY_SIZE ''none'',
        c_autonomy_credential_class = read_or line ''credentialClass'' WT_TASK_POLICY_SIZE ''none'',
        c_autonomy_ttl_seconds = read_long_or line ''ttlSeconds'' 0,
        c_autonomy_max_wall_clock_seconds = read_long_or line ''maxWallClockSeconds'' 0,
        c_autonomy_requires_clean_worktree = read_long_or line ''requiresCleanWorktree'' 0,
        c_max_tokens = read_long_or line ''maxTokens'' 0,
        c_created_at_ms = created,
        c_updated_at_ms = created,
        c_event_count = 0,
        c_lease_owner = [], c_lease_expires_at_ms = 0, c_leased_at_ms = 0, c_running_at_ms = 0,
        c_attempt_count = 0, c_failure_cause = [], c_last_reclaim_reason = [], c_reclaim_count = 0,
        c_artifact_state = [], c_last_reviewer = [], c_last_review_notes = [], c_accepted_at_ms = 0,
        c_accepted_artifact_path = [] \<rparr>)"

text \<open>\<open>DO UPDATE SET\<close>: the package columns are overwritten, the columns the events drive are kept.\<close>

definition merge_package :: "task_row \<Rightarrow> task_row \<Rightarrow> task_row" where
  "merge_package old excluded =
     excluded \<lparr> c_updated_at_ms := max (c_updated_at_ms old) (c_updated_at_ms excluded),
        c_event_count := c_event_count old,
        c_lease_owner := c_lease_owner old, c_lease_expires_at_ms := c_lease_expires_at_ms old,
        c_leased_at_ms := c_leased_at_ms old, c_running_at_ms := c_running_at_ms old,
        c_attempt_count := c_attempt_count old, c_failure_cause := c_failure_cause old,
        c_last_reclaim_reason := c_last_reclaim_reason old, c_reclaim_count := c_reclaim_count old,
        c_artifact_state := c_artifact_state old, c_last_reviewer := c_last_reviewer old,
        c_last_review_notes := c_last_review_notes old, c_accepted_at_ms := c_accepted_at_ms old,
        c_accepted_artifact_path := c_accepted_artifact_path old \<rparr>"

definition projectPackage :: "string \<Rightarrow> projection \<Rightarrow> projection" where
  "projectPackage line db = db \<lparr> tasks := upsert c_task_id merge_package (package_row line) (tasks db) \<rparr>"

text \<open>The local variables of \<open>insertEvent\<close> after its reads.\<close>

record event_fields =
  ev_row :: event_row
  ev_retryCause :: string
  ev_reclaimReason :: string
  ev_artifactState :: string
  ev_reviewer :: string
  ev_notes :: string
  ev_path :: string
  ev_priority :: string
  ev_leaseExpiresAtMs :: int
  ev_attempt :: int

definition first_of :: "string \<Rightarrow> string \<Rightarrow> string \<Rightarrow> nat \<Rightarrow> string" where
  "first_of line key1 key2 n = (let v = read_or line key1 n [] in if v = [] then read_or line key2 n [] else v)"

definition read_event :: "string \<Rightarrow> string \<Rightarrow> event_fields" where
  "read_event line schema =
     \<lparr> ev_row =
         \<lparr> e_task_id = read_or line ''taskId'' WT_TASK_ID_SIZE [],
           e_schema = schema,
           e_event_type = read_or line ''eventType'' 64
             (if schema = ''woventeam.task_request.v0.1'' then ''request'' else ''event''),
           e_status = read_or line ''status'' WT_TASK_STATUS_SIZE [],
           e_assigned_agent = read_or line ''assignedAgent'' WT_TASK_AGENT_SIZE [],
           e_message = first_of line ''message'' ''title'' WT_TASK_BODY_SIZE,
           e_created_by = first_of line ''createdBy'' ''requestedBy'' WT_TASK_AGENT_SIZE,
           e_created_at_ms = read_longlong_or line ''createdAtUnixMs'' 0,
           e_raw_json = line \<rparr>,
       ev_retryCause = read_or line ''retryCause'' 64 [],
       ev_reclaimReason = read_or line ''reclaimReason'' 64 [],
       ev_artifactState = read_or line ''artifactState'' 64 [],
       ev_reviewer = read_or line ''reviewer'' WT_TASK_AGENT_SIZE [],
       ev_notes = read_or line ''reviewNotes'' WT_TASK_BODY_SIZE [],
       ev_path = read_or line ''artifactPath'' 512 [],
       ev_priority = read_or line ''priority'' 32 [],
       ev_leaseExpiresAtMs = read_longlong_or line ''leaseExpiresAtUnixMs'' 0,
       ev_attempt = read_long_or line ''attempt'' 0 \<rparr>"

text \<open>The \<open>UPDATE tasks SET\<close> statement: one \<open>CASE\<close> expression per column.\<close>

definition apply_event :: "event_fields \<Rightarrow> task_row \<Rightarrow> task_row" where
  "apply_event ev r =
     (let ty = e_event_type (ev_row ev); st = e_status (ev_row ev); ag = e_assigned_agent (ev_row ev);
          at = e_created_at_ms (ev_row ev) in
      r \<lparr> c_status := (if st \<noteq> [] then st else c_status r),
          c_assigned_agent := (if ag \<noteq> [] then ag else c_assigned_agent r),
          c_lease_owner := (if ty = ''lease'' then ag else if ty = ''reclaim'' then [] else c_lease_owner r),
          c_lease_expires_at_ms :=
            (if ty = ''lease'' then ev_leaseExpiresAtMs ev else if ty = ''reclaim'' then 0 else c_lease_expires_at_ms r),
          c_leased_at_ms := (if ty = ''lease'' then at else if ty = ''reclaim'' then 0 else c_leased_at_ms r),
          c_running_at_ms :=
            (if ty = ''status'' \<and> st = ''running'' then at else if ty = ''reclaim'' then 0 else c_running_at_ms r),
          c_attempt_count := (if ty = ''lease'' then max (c_attempt_count r + 1) (ev_attempt ev) else c_attempt_count r),
          c_failure_cause :=
            (if ty = ''status'' \<and> st = ''failed'' \<and> ev_retryCause ev \<noteq> [] then ev_retryCause ev
             else if ty = ''lease'' \<or> ty = ''reclaim'' then [] else c_failure_cause r),
          c_last_reclaim_reason := (if ty = ''reclaim'' then ev_reclaimReason ev else c_last_reclaim_reason r),
          c_reclaim_count := (if ty = ''reclaim'' then c_reclaim_count r + 1 else c_reclaim_count r),
          c_artifact_state :=
            (if ty = ''artifact'' \<and> ev_artifactState ev \<noteq> [] then ev_artifactState ev else c_artifact_state r),
          c_last_reviewer := (if ty = ''artifact'' \<and> ev_reviewer ev \<noteq> [] then ev_reviewer ev else c_last_reviewer r),
          c_last_review_notes := (if ty = ''artifact'' then ev_notes ev else c_last_review_notes r),
          c_accepted_at_ms := (if ty = ''artifact'' \<and> ev_artifactState ev = ''accepted'' then at else c_accepted_at_ms r),
          c_accepted_artifact_path :=
            (if ty = ''artifact'' \<and> ev_artifactState ev = ''accepted'' \<and> ev_path ev \<noteq> [] then ev_path ev
             else c_accepted_artifact_path r),
          c_priority := (if ty = ''priority'' \<and> ev_priority ev \<noteq> [] then ev_priority ev else c_priority r),
          c_updated_at_ms := max (c_updated_at_ms r) at,
          c_event_count := c_event_count r + 1 \<rparr>)"

definition event_updates :: "event_fields \<Rightarrow> bool" where
  "event_updates ev \<longleftrightarrow> e_status (ev_row ev) \<noteq> [] \<or> e_assigned_agent (ev_row ev) \<noteq> [] \<or>
     e_event_type (ev_row ev) \<in> {''reclaim'', ''artifact'', ''priority''}"

definition insertEvent :: "string \<Rightarrow> string \<Rightarrow> projection \<Rightarrow> projection" where
  "insertEvent line schema db =
     (let ev = read_event line schema; t = e_task_id (ev_row ev);
          db' = db \<lparr> task_events := task_events db @ [ev_row ev] \<rparr> in
      if t \<noteq> [] \<and> event_updates ev
      then db' \<lparr> tasks := update_where c_task_id t (apply_event ev) (tasks db) \<rparr> else db')"

definition replace_row :: "'r \<Rightarrow> 'r \<Rightarrow> 'r" where
  "replace_row old excluded = excluded"

definition projectAgentControl :: "string \<Rightarrow> projection \<Rightarrow> projection" where
  "projectAgentControl line db =
     (let row = \<lparr> k_agent = read_or line ''agent'' WT_TASK_AGENT_SIZE [],
                  k_state = (if read_or line ''action'' 32 [] = ''pause'' then ''paused'' else ''active''),
                  k_message = read_or line ''message'' WT_TASK_TITLE_SIZE [],
                  k_updated_at_ms = read_longlong_or line ''createdAtUnixMs'' 0 \<rparr> in
      db \<lparr> agent_controls := upsert k_agent replace_row row (agent_controls db) \<rparr>)"

definition projectHeartbeat :: "string \<Rightarrow> projection \<Rightarrow> projection" where
  "projectHeartbeat line db =
     (let row = \<lparr> h_agent = read_or line ''agent'' WT_TASK_AGENT_SIZE [],
                  h_host = read_or line ''host'' 128 [],
                  h_current_task_id = read_or line ''currentTaskId'' WT_TASK_ID_SIZE [],
                  h_lease_expires_at_ms = read_longlong_or line ''leaseExpiresAtUnixMs'' 0,
                  h_status_line = read_or line ''statusLine'' WT_TASK_BODY_SIZE [],
                  h_last_seen_ms = read_longlong_or line ''createdAtUnixMs'' 0 \<rparr> in
      db \<lparr> heartbeats := upsert h_agent replace_row row (heartbeats db) \<rparr>)"

definition projectMilestone :: "string \<Rightarrow> projection \<Rightarrow> projection" where
  "projectMilestone line db =
     db \<lparr> milestones := milestones db @
       [\<lparr> m_task_id = read_or line ''taskId'' WT_TASK_ID_SIZE [],
          m_milestone = read_or line ''milestone'' 64 [],
          m_message = read_or line ''message'' WT_TASK_BODY_SIZE [],
          m_created_by = read_or line ''createdBy'' WT_TASK_AGENT_SIZE [],
          m_created_at_ms = read_longlong_or line ''createdAtUnixMs'' 0 \<rparr>] \<rparr>"

definition projectKillEvent :: "string \<Rightarrow> projection \<Rightarrow> projection" where
  "projectKillEvent line db =
     db \<lparr> kill_events := kill_events db @
       [\<lparr> x_task_id = read_or line ''taskId'' WT_TASK_ID_SIZE [],
          x_reason = read_or line ''reason'' 128 [],
          x_created_by = read_or line ''createdBy'' WT_TASK_AGENT_SIZE [],
          x_created_at_ms = read_longlong_or line ''createdAtUnixMs'' 0 \<rparr>] \<rparr>"

definition projectDeliverable :: "string \<Rightarrow> projection \<Rightarrow> projection" where
  "projectDeliverable line db =
     db \<lparr> deliverables := deliverables db @
       [\<lparr> d_deliverable_id = read_or line ''deliverableId'' 128 [],
          d_task_id = read_or line ''taskId'' WT_TASK_ID_SIZE [],
          d_initiative_id = read_or line ''initiativeId'' WT_TASK_ID_SIZE [],
          d_source_workspace_path = read_or line ''sourceWorkspacePath'' 512 [],
          d_deliverable_path = read_or line ''deliverablePath'' 512 [],
          d_packaging_mode = read_or line ''packagingMode'' 32 ''copy'',
          d_size_bytes = read_longlong_or line ''sizeBytes'' 0,
          d_sha256 = read_or line ''sha256'' 80 [],
          d_reviewer = read_or line ''reviewer'' WT_TASK_AGENT_SIZE [],
          d_supersedes = read_or line ''supersedes'' 128 [],
          d_created_by = read_or line ''createdBy'' WT_TASK_AGENT_SIZE [],
          d_created_at_ms = read_longlong_or line ''createdAtUnixMs'' 0,
          d_raw_json = line \<rparr>] \<rparr>"

text \<open>The substring scan for \<open>"matched": true\<close>.\<close>

definition matched_flag :: "string \<Rightarrow> int" where
  "matched_flag line =
     (case strstr line (DQ # ''matched'' @ [DQ]) of
        None \<Rightarrow> 0
      | Some m \<Rightarrow>
          (case strchr m (CHR '':'') of
             None \<Rightarrow> 0
           | Some colon \<Rightarrow>
               (if starts_with ''true'' (dropWhile (\<lambda>c. c = CHR '' '' \<or> c = TAB) (tl colon)) then 1 else 0)))"

definition projectSecretScan :: "string \<Rightarrow> projection \<Rightarrow> projection" where
  "projectSecretScan line db =
     db \<lparr> secret_scans := secret_scans db @
       [\<lparr> s_scan_id = read_or line ''scanId'' 128 [],
          s_deliverable_id = read_or line ''deliverableId'' 128 [],
          s_task_id = read_or line ''taskId'' WT_TASK_ID_SIZE [],
          s_scanned_path = read_or line ''scannedPath'' 512 [],
          s_matched = matched_flag line,
          s_hit_count = read_long_or line ''hitCount'' 0,
          s_packaging_mode = read_or line ''packagingMode'' 32 [],
          s_created_at_ms = read_longlong_or line ''createdAtUnixMs'' 0,
          s_raw_json = line \<rparr>] \<rparr>"

section \<open>The rebuild\<close>

definition project_line :: "string \<Rightarrow> projection \<Rightarrow> projection" where
  "project_line raw db =
     (let line = strip_eol raw in
      if lineHasSchema line ''woventeam.task_package.v0.1'' then projectPackage line db
      else if lineHasSchema line ''woventeam.task_event.v0.1'' then insertEvent line ''woventeam.task_event.v0.1'' db
      else if lineHasSchema line ''woventeam.task_request.v0.1'' then insertEvent line ''woventeam.task_request.v0.1'' db
      else if lineHasSchema line ''woventeam.agent_control.v0.1'' then projectAgentControl line db
      else if lineHasSchema line ''woventeam.heartbeat.v0.1'' then projectHeartbeat line db
      else if lineHasSchema line ''woventeam.milestone.v0.1'' then projectMilestone line db
      else if lineHasSchema line ''woventeam.kill_event.v0.1'' then projectKillEvent line db
      else if lineHasSchema line ''woventeam.deliverable.v0.1'' then projectDeliverable line db
      else if lineHasSchema line ''woventeam.secret_scan.v0.1'' then projectSecretScan line db
      else db)"

definition project_ledger :: "log_file \<Rightarrow> projection" where
  "project_ledger ledger = fold project_line (ledger_lines ledger) empty_projection"

datatype rebuild_fault = RebuildNoFault | DatabaseOpenFails | SchemaFails | CommitFails

text \<open>
  Result and database afterwards. The tables are dropped and created inside the transaction: a failing
  schema statement is rolled back, and a connection closed after a failed \<open>COMMIT\<close> rolls back.
\<close>

definition wtTaskProjectionRebuild ::
    "(string \<Rightarrow> bool) \<Rightarrow> rebuild_fault \<Rightarrow> string \<Rightarrow> log_file \<Rightarrow> projection option \<Rightarrow> bool \<times> projection option" where
  "wtTaskProjectionRebuild makes_dir fault dbPath ledger db =
     (if \<not> wtRoomEnsureParentDirs makes_dir dbPath \<or> fault = DatabaseOpenFails \<or> fault = SchemaFails then (False, db)
      else if fault = CommitFails then (False, db)
      else (True, Some (project_ledger ledger)))"

section \<open>Queries\<close>

text \<open>A database is \<open>None\<close> when it cannot be opened or has no tables yet (the prepare fails).\<close>

definition active_row :: "task_row \<Rightarrow> bool" where
  "active_row r \<longleftrightarrow> c_status r \<notin> {''complete'', ''failed'', ''cancelled'', ''closed''}"

definition countActiveWhere :: "projection option \<Rightarrow> (task_row \<Rightarrow> string) \<Rightarrow> string \<Rightarrow> int" where
  "countActiveWhere db column v =
     (case db of
        None \<Rightarrow> -1
      | Some p \<Rightarrow> to_int32 (int (length (filter (\<lambda>r. column r = v \<and> active_row r) (tasks p)))))"

definition wtTaskProjectionCountActiveForAgent :: "projection option \<Rightarrow> string \<Rightarrow> int" where
  "wtTaskProjectionCountActiveForAgent db agentName = countActiveWhere db c_assigned_agent agentName"

definition wtTaskProjectionCountActiveForParent :: "projection option \<Rightarrow> string \<Rightarrow> int" where
  "wtTaskProjectionCountActiveForParent db parentTaskId = countActiveWhere db c_parent_task_id parentTaskId"

definition wtTaskProjectionCountActiveForInitiative :: "projection option \<Rightarrow> string \<Rightarrow> int" where
  "wtTaskProjectionCountActiveForInitiative db initiativeId = countActiveWhere db c_initiative_id initiativeId"

text \<open>Outcome (0 resolved, 1 nothing accepted, -1 no task) and the two output buffers.\<close>

definition wtTaskProjectionResolveAcceptedArtifact ::
    "projection option \<Rightarrow> string \<Rightarrow> nat \<Rightarrow> nat \<Rightarrow> int \<times> string \<times> string" where
  "wtTaskProjectionResolveAcceptedArtifact db taskId initiativeIdSize artifactPathSize =
     (case db of
        None \<Rightarrow> (-1, [], [])
      | Some p \<Rightarrow>
          (case find (\<lambda>r. c_task_id r = taskId) (tasks p) of
             None \<Rightarrow> (-1, [], [])
           | Some r \<Rightarrow>
               (let init = snprintf_s initiativeIdSize (c_initiative_id r) in
                if c_artifact_state r = ''accepted'' \<and> c_accepted_artifact_path r \<noteq> []
                then (0, init, snprintf_s artifactPathSize (c_accepted_artifact_path r))
                else (1, init, []))))"

text \<open>\<open>SUM\<close> over integers raises an error as soon as a partial sum leaves 64 bits.\<close>

fun sql_sum :: "int \<Rightarrow> int list \<Rightarrow> int option" where
  "sql_sum acc [] = Some acc"
| "sql_sum acc (x # xs) = (if is_long (acc + x) then sql_sum (acc + x) xs else None)"

definition sum_active_tokens :: "projection option \<Rightarrow> (task_row \<Rightarrow> bool) \<Rightarrow> int" where
  "sum_active_tokens db sel =
     (case db of
        None \<Rightarrow> -1
      | Some p \<Rightarrow>
          (case sql_sum 0 (map c_max_tokens (filter (\<lambda>r. sel r \<and> active_row r) (tasks p))) of
             None \<Rightarrow> -1
           | Some n \<Rightarrow> n))"

definition wtTaskProjectionAllocatedTokensForInitiative :: "projection option \<Rightarrow> string \<Rightarrow> int" where
  "wtTaskProjectionAllocatedTokensForInitiative db initiativeId =
     sum_active_tokens db (\<lambda>r. c_initiative_id r = initiativeId)"

text \<open>SQLite's \<open>LIKE\<close> on ASCII text: \<open>%\<close> any text, \<open>_\<close> any character, letters without regard to case.\<close>

definition lower_ascii :: "char \<Rightarrow> char" where
  "lower_ascii c = (if 65 \<le> (of_char c :: nat) \<and> (of_char c :: nat) \<le> 90 then char_of ((of_char c :: nat) + 32) else c)"

fun sql_like :: "string \<Rightarrow> string \<Rightarrow> bool" where
  "sql_like [] s = (s = [])"
| "sql_like (p # ps) [] = (p = CHR ''%'' \<and> sql_like ps [])"
| "sql_like (p # ps) (c # cs) =
     (if p = CHR ''%'' then sql_like ps (c # cs) \<or> sql_like (p # ps) cs
      else (p = CHR ''_'' \<or> lower_ascii p = lower_ascii c) \<and> sql_like ps cs)"

definition wtTaskProjectionAllocatedTokensForModelFamily :: "projection option \<Rightarrow> string \<Rightarrow> int" where
  "wtTaskProjectionAllocatedTokensForModelFamily db modelFamily =
     (let pattern = snprintf_s 128 (modelFamily @ ''/%'') in
      sum_active_tokens db (\<lambda>r. sql_like pattern (c_model_id r)))"

section \<open>The capacity board\<close>

text \<open>
  The bounded output buffer: \<open>appendRaw\<close> leaves it alone when the text does not fit, and the callers
  ignore that.
\<close>

definition appendRaw :: "nat \<Rightarrow> string \<Rightarrow> string \<Rightarrow> string \<times> bool" where
  "appendRaw bufferSize text out =
     (if length out + length text + 1 \<ge> bufferSize then (out, False) else (out @ text, True))"

definition appendJsonString :: "nat \<Rightarrow> string \<Rightarrow> string \<Rightarrow> string \<times> bool" where
  "appendJsonString bufferSize text out =
     (case wtJsonEscape text (WT_TASK_BODY_SIZE * 2) of
        None \<Rightarrow> (out, False)
      | Some escaped \<Rightarrow>
          (let (out1, ok1) = appendRaw bufferSize [DQ] out in
           if \<not> ok1 then (out1, False)
           else (let (out2, ok2) = appendRaw bufferSize escaped out1 in
                 if \<not> ok2 then (out2, False) else appendRaw bufferSize [DQ] out2)))"

text \<open>A row of the \<open>GROUP BY\<close> queries; its order is \<open>ORDER BY COUNT(*) DESC, key\<close>.\<close>

datatype group_row = Group (group_key: string) (group_count: nat)

instantiation group_row :: linorder
begin

definition less_eq_group_row :: "group_row \<Rightarrow> group_row \<Rightarrow> bool" where
  "less_eq_group_row a b \<longleftrightarrow> group_count b < group_count a \<or> (group_count a = group_count b \<and> group_key a \<le> group_key b)"

definition less_group_row :: "group_row \<Rightarrow> group_row \<Rightarrow> bool" where
  "less_group_row a b \<longleftrightarrow> group_count b < group_count a \<or> (group_count a = group_count b \<and> group_key a < group_key b)"

instance
  by standard (auto simp: less_eq_group_row_def less_group_row_def intro: group_row.expand)

end

definition group_active :: "(task_row \<Rightarrow> string) \<Rightarrow> task_row list \<Rightarrow> group_row list" where
  "group_active column rows =
     (let keys = map column (filter (\<lambda>r. column r \<noteq> [] \<and> active_row r) rows) in
      map (\<lambda>k. Group k (count_list keys k)) (remdups keys))"

fun board_rows :: "nat \<Rightarrow> string \<Rightarrow> bool \<Rightarrow> group_row list \<Rightarrow> string \<Rightarrow> string" where
  "board_rows n label first [] out = out"
| "board_rows n label first (Group k c # gs) out =
     (let out1 = (if first then out else fst (appendRaw n '','' out));
          out2 = fst (appendRaw n (''{'' @ [DQ] @ label @ [DQ] @ '':'') out1);
          out3 = fst (appendJsonString n k out2);
          out4 = fst (appendRaw n (snprintf_s 256 ('','' @ [DQ] @ ''activeTasks'' @ [DQ] @ '':'' @
                   show_int (to_int32 (int c)) @ ''}'')) out3)
      in board_rows n label False gs out4)"

definition wtTaskProjectionReadCapacityJson :: "projection option \<Rightarrow> nat \<Rightarrow> string option" where
  "wtTaskProjectionReadCapacityJson db n =
     (case db of
        None \<Rightarrow> None
      | Some p \<Rightarrow>
          (case appendRaw n (''{'' @ [DQ] @ ''ok'' @ [DQ] @ '':true,'' @ [DQ] @ ''agents'' @ [DQ] @ '':['') [] of
             (_, False) \<Rightarrow> None
           | (out0, True) \<Rightarrow>
               (let out1 = board_rows n ''agent'' True (sort_key group_key (group_active c_assigned_agent (tasks p))) out0;
                    out2 = fst (appendRaw n (''],'' @ [DQ] @ ''initiatives'' @ [DQ] @ '':['') out1);
                    out3 = board_rows n ''initiativeId'' True (take 50 (sort (group_active c_initiative_id (tasks p)))) out2;
                    out4 = fst (appendRaw n (''],'' @ [DQ] @ ''parents'' @ [DQ] @ '':['') out3);
                    out5 = board_rows n ''parentTaskId'' True (take 50 (sort (group_active c_parent_task_id (tasks p)))) out4
                in Some (fst (appendRaw n '']}'' out5)))))"

end
