(* ===== verification/Projection_Facts.thy ===== *)
theory Projection_Facts
  imports Projection Claim_Protocol
begin

text \<open>
  What the rebuilt read model promises: its invariant for every ledger, the columns that a history of
  lease actions gives the row of a task, and its agreement with the ledger scans on the leases in force.
\<close>

section \<open>Keyed tables\<close>

text \<open>The interface of a table with a primary key: merging never changes the key.\<close>

locale keyed_table =
  fixes key :: "'r \<Rightarrow> string" and merge :: "'r \<Rightarrow> 'r \<Rightarrow> 'r"
  assumes merge_key: "key old = key row \<Longrightarrow> key (merge old row) = key row"
begin

lemma upsert_keys: "map key (upsert key merge row table) = map key table @ (if key row \<in> set (map key table) then [] else [key row])"
  by (auto simp: upsert_def merge_key)

lemma upsert_distinct: "distinct (map key table) \<Longrightarrow> distinct (map key (upsert key merge row table))"
  by (simp add: upsert_keys del: set_map)

lemma upsert_rows:
  "r \<in> set (upsert key merge row table) \<Longrightarrow>
   r \<in> set table \<or> r = row \<or> (\<exists>old \<in> set table. key old = key row \<and> r = merge old row)"
  by (auto simp: upsert_def split: if_splits)

lemma find_merged:
  "k \<noteq> key row \<Longrightarrow>
   find (\<lambda>r. key r = k) (map (\<lambda>old. if key old = key row then merge old row else old) table) = find (\<lambda>r. key r = k) table"
  by (induction table) (auto simp: merge_key)

text \<open>Looking another key up after an upsert finds what was there before.\<close>

lemma upsert_other:
  "k \<noteq> key row \<Longrightarrow> find (\<lambda>r. key r = k) (upsert key merge row table) = find (\<lambda>r. key r = k) table"
proof (cases "key row \<in> set (map key table)")
  case False
  moreover have "find (\<lambda>r. key r = k) (table @ [row]) = find (\<lambda>r. key r = k) table" if "k \<noteq> key row"
    using that by (induction table) auto
  ultimately show "k \<noteq> key row \<Longrightarrow> ?thesis" by (simp add: upsert_def)
qed (simp add: upsert_def find_merged)

end

interpretation tasks: keyed_table c_task_id merge_package
  by unfold_locales (simp add: merge_package_def)

interpretation controls: keyed_table k_agent replace_row
  by unfold_locales (simp add: replace_row_def)

interpretation heartbeats: keyed_table h_agent replace_row
  by unfold_locales (simp add: replace_row_def)

lemma update_where_keys: "(\<And>r. key (f r) = key r) \<Longrightarrow> map key (update_where key k f table) = map key table"
  by (simp add: update_where_def)

section \<open>The invariant\<close>

definition row_ok :: "event_row list \<Rightarrow> task_row \<Rightarrow> bool" where
  "row_ok events r \<longleftrightarrow> c_created_at_ms r \<le> c_updated_at_ms r \<and> 0 \<le> c_attempt_count r \<and>
     0 \<le> c_reclaim_count r \<and> c_reclaim_count r \<le> c_event_count r \<and>
     c_event_count r \<le> int (length (filter (\<lambda>e. e_task_id e = c_task_id r) events))"

definition projection_ok :: "projection \<Rightarrow> bool" where
  "projection_ok db \<longleftrightarrow> distinct (map c_task_id (tasks db)) \<and> distinct (map k_agent (agent_controls db)) \<and>
     distinct (map h_agent (heartbeats db)) \<and> list_all (row_ok (task_events db)) (tasks db)"

lemma row_ok_more_events: "row_ok events r \<Longrightarrow> row_ok (events @ [e]) r"
  by (auto simp: row_ok_def)

lemma apply_event_key [simp]: "c_task_id (apply_event ev r) = c_task_id r"
  by (simp add: apply_event_def Let_def)

lemma row_ok_apply_event:
  "row_ok events r \<Longrightarrow> e_task_id (ev_row ev) = c_task_id r \<Longrightarrow> row_ok (events @ [ev_row ev]) (apply_event ev r)"
  by (auto simp: row_ok_def apply_event_def Let_def)

lemma projection_ok_package: "projection_ok db \<Longrightarrow> projection_ok (projectPackage line db)"
proof -
  assume ok: "projection_ok db"
  have new: "row_ok events (package_row line)" for events
    by (simp add: row_ok_def package_row_def Let_def)
  have "row_ok events (merge_package old excluded)" if "row_ok events old" "row_ok events excluded" "c_task_id old = c_task_id excluded"
    for events old excluded
    using that by (auto simp: row_ok_def merge_package_def)
  with ok new show ?thesis
    by (auto simp: projection_ok_def projectPackage_def list_all_iff dest!: tasks.upsert_rows intro: tasks.upsert_distinct)
qed

lemma projection_ok_event: "projection_ok db \<Longrightarrow> projection_ok (insertEvent line schema db)"
proof -
  assume ok: "projection_ok db"
  let ?ev = "read_event line schema"
  have "row_ok (task_events db @ [ev_row ?ev]) r"
    if "r \<in> set (update_where c_task_id (e_task_id (ev_row ?ev)) (apply_event ?ev) (tasks db))" for r
    using that ok row_ok_apply_event [of "task_events db" _ ?ev] row_ok_more_events
    by (auto simp: update_where_def projection_ok_def list_all_iff split: if_splits)
  with ok show ?thesis
    by (auto simp: insertEvent_def Let_def projection_ok_def list_all_iff update_where_keys row_ok_more_events)
qed

lemma projection_ok_line: "projection_ok db \<Longrightarrow> projection_ok (project_line line db)"
  using projection_ok_package projection_ok_event
  by (auto simp: project_line_def Let_def projectAgentControl_def projectHeartbeat_def projectMilestone_def
      projectKillEvent_def projectDeliverable_def projectSecretScan_def projection_ok_def
      intro: controls.upsert_distinct heartbeats.upsert_distinct)

text \<open>
  C23. The read model is consistent for every ledger, well-formed or not: it has at most one row per
  task, per agent control and per heartbeat, and in each task row the update time is not before the
  creation time, and reclaims are among the events counted, which are events stored for the task.
\<close>

theorem projection_invariant: "projection_ok (project_ledger ledger)"
proof -
  have "projection_ok (fold project_line ls db)" if "projection_ok db" for ls db
    using that by (induction ls arbitrary: db) (simp_all add: projection_ok_line)
  then show ?thesis
    by (simp add: project_ledger_def projection_ok_def empty_projection_def)
qed

section \<open>The board and the lease machine\<close>

definition row_of :: "projection \<Rightarrow> string \<Rightarrow> task_row option" where
  "row_of db taskId = find (\<lambda>r. c_task_id r = taskId) (tasks db)"

lemma find_update_where:
  assumes "\<And>r. key (f r) = key r"
  shows "find (\<lambda>r. key r = k) (update_where key k' f table) =
    (if k = k' then map_option f (find (\<lambda>r. key r = k) table) else find (\<lambda>r. key r = k) table)"
  using assms by (induction table) (auto simp: update_where_def)

text \<open>A written record as the rebuild sees it: the line end is stripped, the fields are read back.\<close>

lemma strip_record [simp]: "strip_eol (render_object fs @ [NL]) = render_object fs"
proof -
  have "render_object fs \<noteq> []" "last (render_object fs) = CHR ''}''"
    by (simp_all add: render_object_def)
  then have "trim_end (\<lambda>c. c = NL \<or> c = CR) (render_object fs) = render_object fs"
    by (intro trim_end_idle) simp
  then show ?thesis by (simp add: strip_eol_def trim_end_def)
qed

definition str_field :: "(string \<times> jval) list \<Rightarrow> string \<Rightarrow> nat \<Rightarrow> string \<Rightarrow> string" where
  "str_field fs k n d = (case map_of fs k of Some (JStr s) \<Rightarrow> if length s < n then s else d | _ \<Rightarrow> d)"

definition num_field :: "(string \<times> jval) list \<Rightarrow> string \<Rightarrow> int" where
  "num_field fs k = (case map_of fs k of Some (JNum v) \<Rightarrow> clamp64 v | _ \<Rightarrow> 0)"

lemma read_fields:
  assumes "clean_fields fs" "key_text k"
  shows "0 < n \<Longrightarrow> length d < n \<Longrightarrow> read_or (render_object fs) k n d = str_field fs k n d"
    and "read_long_or (render_object fs) k 0 = num_field fs k"
    and "read_longlong_or (render_object fs) k 0 = num_field fs k"
  using read_str_render [OF assms, of "[]" n] read_long_render [OF assms, of "[]"]
  by (auto simp: read_or_read_str str_field_def num_field_def read_long_or_def read_longlong_or_def
      split: option.split jval.split)

lemma key_text_event_keys [simp]:
  "key_text ''title''" "key_text ''requestedBy''" "key_text ''priority''"
  by (simp_all add: key_text_def is_alnum_def is_digit_def)

lemma schema_record:
  assumes "clean_fields fs" "map_of fs ''schema'' = Some (JStr s)" "length s < 128"
  shows "lineHasSchema (render_object fs) x \<longleftrightarrow> x = s"
  using read_str_render [OF assms(1), of "''schema''" "[]" 128] assms(2,3) by (auto simp: lineHasSchema_def)

lemma read_event_record:
  assumes "clean_fields fs"
  shows "read_event (render_object fs) ''woventeam.task_event.v0.1'' =
     \<lparr> ev_row =
         \<lparr> e_task_id = str_field fs ''taskId'' 128 [],
           e_schema = ''woventeam.task_event.v0.1'',
           e_event_type = str_field fs ''eventType'' 64 ''event'',
           e_status = str_field fs ''status'' 32 [],
           e_assigned_agent = str_field fs ''assignedAgent'' 64 [],
           e_message = (let v = str_field fs ''message'' 2048 [] in if v = [] then str_field fs ''title'' 2048 [] else v),
           e_created_by = (let v = str_field fs ''createdBy'' 64 [] in if v = [] then str_field fs ''requestedBy'' 64 [] else v),
           e_created_at_ms = num_field fs ''createdAtUnixMs'',
           e_raw_json = render_object fs \<rparr>,
       ev_retryCause = str_field fs ''retryCause'' 64 [],
       ev_reclaimReason = str_field fs ''reclaimReason'' 64 [],
       ev_artifactState = str_field fs ''artifactState'' 64 [],
       ev_reviewer = str_field fs ''reviewer'' 64 [],
       ev_notes = str_field fs ''reviewNotes'' 2048 [],
       ev_path = str_field fs ''artifactPath'' 512 [],
       ev_priority = str_field fs ''priority'' 32 [],
       ev_leaseExpiresAtMs = num_field fs ''leaseExpiresAtUnixMs'',
       ev_attempt = num_field fs ''attempt'' \<rparr>"
  by (simp add: read_event_def first_of_def read_fields [OF assms] task_sizes Let_def)

text \<open>A task event written to the ledger and the row of its task.\<close>

definition record_event :: "(string \<times> jval) list \<Rightarrow> event_fields" where
  "record_event fs = read_event (render_object fs) ''woventeam.task_event.v0.1''"

lemma project_event_record:
  assumes "clean_fields fs" "map_of fs ''schema'' = Some (JStr ''woventeam.task_event.v0.1'')" "t \<noteq> []"
  shows "row_of (project_line (render_object fs @ [NL]) db) t =
    (if str_field fs ''taskId'' 128 [] = t \<and> event_updates (record_event fs)
     then map_option (apply_event (record_event fs)) (row_of db t) else row_of db t)"
proof -
  have "project_line (render_object fs @ [NL]) db = insertEvent (render_object fs) ''woventeam.task_event.v0.1'' db"
    using schema_record [OF assms(1,2)] by (simp add: project_line_def)
  moreover have "e_task_id (ev_row (record_event fs)) = str_field fs ''taskId'' 128 []"
    by (simp add: record_event_def read_event_record [OF assms(1)])
  ultimately show ?thesis
    using assms(3)
    by (auto simp: insertEvent_def Let_def row_of_def find_update_where record_event_def)
qed

text \<open>What one action does to the row of its task.\<close>

fun row_step :: "int \<Rightarrow> ledger_action \<Rightarrow> task_row \<Rightarrow> task_row" where
  "row_step now (Lease t ag n e) r = r \<lparr> c_status := ''leased'',
     c_assigned_agent := (if ag = [] then c_assigned_agent r else ag),
     c_lease_owner := ag, c_lease_expires_at_ms := e, c_leased_at_ms := now,
     c_attempt_count := max (c_attempt_count r + 1) n, c_failure_cause := [],
     c_updated_at_ms := max (c_updated_at_ms r) now, c_event_count := c_event_count r + 1 \<rparr>"
| "row_step now (Renew t ag n e) r = r \<lparr> c_status := ''running'',
     c_assigned_agent := (if ag = [] then c_assigned_agent r else ag),
     c_updated_at_ms := max (c_updated_at_ms r) now, c_event_count := c_event_count r + 1 \<rparr>"
| "row_step now (Reclaim t p b w m) r = r \<lparr> c_status := ''queued'',
     c_assigned_agent := (if p = [] then c_assigned_agent r else p),
     c_lease_owner := [], c_lease_expires_at_ms := 0, c_leased_at_ms := 0, c_running_at_ms := 0,
     c_failure_cause := [], c_last_reclaim_reason := w, c_reclaim_count := c_reclaim_count r + 1,
     c_updated_at_ms := max (c_updated_at_ms r) now, c_event_count := c_event_count r + 1 \<rparr>"
| "row_step now (Status t s b m) r = (if s = [] then r else r \<lparr> c_status := s,
     c_running_at_ms := (if s = ''running'' then now else c_running_at_ms r),
     c_updated_at_ms := max (c_updated_at_ms r) now, c_event_count := c_event_count r + 1 \<rparr>)"
| "row_step now (Kill t w b) r = r"

text \<open>The update of each kind of event, written as a row update.\<close>

lemma apply_event_kinds:
  "e_event_type (ev_row ev) = ''lease'' \<Longrightarrow> e_status (ev_row ev) = ''leased'' \<Longrightarrow>
     apply_event ev r = row_step (e_created_at_ms (ev_row ev))
       (Lease t (e_assigned_agent (ev_row ev)) (ev_attempt ev) (ev_leaseExpiresAtMs ev)) r"
  "e_event_type (ev_row ev) = ''lease_renewal'' \<Longrightarrow> e_status (ev_row ev) = ''running'' \<Longrightarrow>
     apply_event ev r = row_step (e_created_at_ms (ev_row ev)) (Renew t (e_assigned_agent (ev_row ev)) n e) r"
  "e_event_type (ev_row ev) = ''reclaim'' \<Longrightarrow> e_status (ev_row ev) = ''queued'' \<Longrightarrow>
     apply_event ev r = row_step (e_created_at_ms (ev_row ev))
       (Reclaim t (e_assigned_agent (ev_row ev)) b (ev_reclaimReason ev) m) r"
  "e_event_type (ev_row ev) = ''status'' \<Longrightarrow> e_status (ev_row ev) \<noteq> [] \<Longrightarrow> e_assigned_agent (ev_row ev) = [] \<Longrightarrow>
     ev_retryCause ev = [] \<Longrightarrow>
     apply_event ev r = row_step (e_created_at_ms (ev_row ev)) (Status t (e_status (ev_row ev)) b m) r"
  by (rule task_row.equality; simp add: apply_event_def Let_def)+

lemma action_row:
  assumes "action_ok a" "is_long now" "\<forall>t w b. a \<noteq> Kill t w b"
  shows "str_field (action_fields now a) ''taskId'' 128 [] = action_task a"
    and "map_of (action_fields now a) ''schema'' = Some (JStr ''woventeam.task_event.v0.1'')"
    and "(if event_updates (record_event (action_fields now a)) then apply_event (record_event (action_fields now a)) r else r)
      = row_step now a r"
proof -
  note defs = action_fields_defs text_ok_def str_field_def num_field_def is_int32_is_long
  show "str_field (action_fields now a) ''taskId'' 128 [] = action_task a"
    "map_of (action_fields now a) ''schema'' = Some (JStr ''woventeam.task_event.v0.1'')"
    using assms by (cases a; simp add: defs)+
  let ?ev = "record_event (action_fields now a)"
  let ?fs = "action_fields now a"
  have ev: "e_event_type (ev_row ?ev) = str_field ?fs ''eventType'' 64 ''event''"
    "e_status (ev_row ?ev) = str_field ?fs ''status'' 32 []"
    "e_assigned_agent (ev_row ?ev) = str_field ?fs ''assignedAgent'' 64 []"
    "e_created_at_ms (ev_row ?ev) = num_field ?fs ''createdAtUnixMs''"
    "ev_retryCause ?ev = str_field ?fs ''retryCause'' 64 []"
    "ev_reclaimReason ?ev = str_field ?fs ''reclaimReason'' 64 []"
    "ev_leaseExpiresAtMs ?ev = num_field ?fs ''leaseExpiresAtUnixMs''"
    "ev_attempt ?ev = num_field ?fs ''attempt''"
    by (simp_all add: record_event_def read_event_record [OF clean_action_fields [OF assms(1)]])
  have at: "e_created_at_ms (ev_row ?ev) = now"
    unfolding ev using assms by (cases a) (simp_all add: defs)
  show "(if event_updates ?ev then apply_event ?ev r else r) = row_step now a r"
  proof (cases a)
    case (Lease t ag n e)
    have "e_event_type (ev_row ?ev) = ''lease''" "e_status (ev_row ?ev) = ''leased''" "e_assigned_agent (ev_row ?ev) = ag"
      "ev_attempt ?ev = n" "ev_leaseExpiresAtMs ?ev = e"
      unfolding ev using assms Lease by (simp_all add: defs)
    then show ?thesis using apply_event_kinds(1) [of ?ev r t] at Lease by (simp add: event_updates_def)
  next
    case (Renew t ag n e)
    have "e_event_type (ev_row ?ev) = ''lease_renewal''" "e_status (ev_row ?ev) = ''running''" "e_assigned_agent (ev_row ?ev) = ag"
      unfolding ev using assms Renew by (simp_all add: defs)
    then show ?thesis using apply_event_kinds(2) [of ?ev r t n e] at Renew by (simp add: event_updates_def)
  next
    case (Reclaim t p b w m)
    have "e_event_type (ev_row ?ev) = ''reclaim''" "e_status (ev_row ?ev) = ''queued''" "e_assigned_agent (ev_row ?ev) = p"
      "ev_reclaimReason ?ev = w"
      unfolding ev using assms Reclaim by (simp_all add: defs)
    then show ?thesis using apply_event_kinds(3) [of ?ev r t b m] at Reclaim by (simp add: event_updates_def)
  next
    case (Status t st b m)
    have "e_event_type (ev_row ?ev) = ''status''" "e_status (ev_row ?ev) = st" "e_assigned_agent (ev_row ?ev) = []"
      "ev_retryCause ?ev = []"
      unfolding ev using assms Status by (simp_all add: defs)
    note f = this
    have step: "row_step now a r = row_step now (Status t st b m) r" by (simp only: Status)
    show ?thesis
    proof (cases "st = []")
      case True
      with f have "\<not> event_updates ?ev" by (simp add: event_updates_def)
      with True step show ?thesis by simp
    next
      case False
      with f have "event_updates ?ev" by (simp add: event_updates_def)
      with apply_event_kinds(4) [OF f(1) _ f(3,4), of r t b m] False step f(2) at show ?thesis by (simp only: if_True not_False_eq_True)
    qed
  qed (use assms(3) in simp)
qed

lemma project_action:
  assumes "action_ok a" "is_long now" "t \<noteq> []"
  shows "row_of (project_line (action_line now a) db) t =
    (if action_task a = t then map_option (row_step now a) (row_of db t) else row_of db t)"
proof (cases "\<forall>t w b. a \<noteq> Kill t w b")
  case True
  have "map_option (row_step now a) = (\<lambda>x. if event_updates (record_event (action_fields now a))
      then map_option (apply_event (record_event (action_fields now a))) x else x)"
    unfolding fun_eq_iff using action_row(3) [OF assms(1,2) True]
    by (metis (no_types, lifting) option.map_cong0 option.map_ident)
  then show ?thesis
    using project_event_record [OF clean_action_fields [OF assms(1)] action_row(2) [OF assms(1,2) True] assms(3), of db]
      action_row(1) [OF assms(1,2) True]
    by (simp add: action_line_def fun_eq_iff)
next
  case False
  then obtain t' w b where a: "a = Kill t' w b" by blast
  have "lineHasSchema (render_object (action_fields now a)) x \<longleftrightarrow> x = ''woventeam.kill_event.v0.1''" for x
    by (rule schema_record [OF clean_action_fields [OF assms(1)]]) (simp_all add: a kill_fields_def)
  then have "project_line (action_line now a) db = projectKillEvent (render_object (action_fields now a)) db"
    by (simp add: project_line_def action_line_def)
  moreover have "map_option (row_step now a) x = x" for x by (cases x) (simp_all add: a)
  ultimately show ?thesis by (simp add: projectKillEvent_def row_of_def)
qed

text \<open>Running the writer and rebuilding is one step of the read model.\<close>

lemma project_perform:
  assumes "action_ok a" "is_long now" "clean_tail (bytes ledger)"
  shows "project_ledger (snd (perform now a ledger)) = project_line (action_line now a) (project_ledger ledger)"
  by (simp add: project_ledger_def perform_lines(1) [OF assms] flip: action_line_def)

text \<open>
  The board as its users read it: the status, the lease owner, the attempts and the reclaims of a
  task, and what each action means for them.
\<close>

record board_columns =
  bc_status :: string
  bc_owner :: string
  bc_attempts :: int
  bc_reclaims :: int

definition columns_of :: "task_row \<Rightarrow> board_columns" where
  "columns_of r = \<lparr> bc_status = c_status r, bc_owner = c_lease_owner r, bc_attempts = c_attempt_count r,
     bc_reclaims = c_reclaim_count r \<rparr>"

fun board_action :: "ledger_action \<Rightarrow> board_columns \<Rightarrow> board_columns" where
  "board_action (Lease t ag n e) b =
     b \<lparr> bc_status := ''leased'', bc_owner := ag, bc_attempts := max (bc_attempts b + 1) n \<rparr>"
| "board_action (Renew t ag n e) b = b \<lparr> bc_status := ''running'' \<rparr>"
| "board_action (Reclaim t p w why m) b =
     b \<lparr> bc_status := ''queued'', bc_owner := [], bc_reclaims := bc_reclaims b + 1 \<rparr>"
| "board_action (Status t st w m) b = (if st = [] then b else b \<lparr> bc_status := st \<rparr>)"
| "board_action (Kill t why w) b = b"

definition task_actions :: "string \<Rightarrow> (int \<times> ledger_action) list \<Rightarrow> ledger_action list" where
  "task_actions t history = filter (\<lambda>a. action_task a = t) (map snd history)"

text \<open>The row and the abstract lease state of one task agree on a lease in force.\<close>

definition row_agrees :: "task_row \<Rightarrow> (string \<times> int \<times> int) option \<Rightarrow> bool \<Rightarrow> bool" where
  "row_agrees r x renewed \<longleftrightarrow> (case x of None \<Rightarrow> True
     | Some (holder, expires, attempt) \<Rightarrow>
         c_lease_owner r = holder \<and> attempt \<le> c_attempt_count r \<and> (\<not> renewed \<longrightarrow> c_lease_expires_at_ms r = expires))"

lemma row_agrees_step:
  "row_agrees r (in_force st t) (extended st t) \<Longrightarrow>
   row_agrees (if action_task a = t then row_step now a r else r) (in_force (transition a st) t) (extended (transition a st) t)"
  by (cases a) (auto simp: row_agrees_def split: option.splits)

lemma row_step_columns: "columns_of (row_step now a r) = board_action a (columns_of r)"
  by (cases a) (simp_all add: columns_of_def)

lemma board_history:
  assumes "implements ledger st" "history_ok history" "t \<noteq> []"
    and "row_of (project_ledger ledger) t = Some r" "row_agrees r (in_force st t) (extended st t)"
  shows "\<exists>r'. row_of (project_ledger (run_history history ledger)) t = Some r' \<and>
     row_agrees r' (in_force (fold (\<lambda>(now, a). transition a) history st) t) (extended (fold (\<lambda>(now, a). transition a) history st) t) \<and>
     columns_of r' = fold board_action (task_actions t history) (columns_of r)"
  using assms
proof (induction history arbitrary: ledger st r)
  case (Cons h history)
  obtain now a where h: "h = (now, a)" by (cases h)
  let ?ledger = "snd (perform now a ledger)" and ?r = "if action_task a = t then row_step now a r else r"
  have ok: "action_ok a" "is_long now" "history_ok history" using Cons.prems(2) h by (simp_all add: history_ok_def)
  have "row_of (project_ledger ?ledger) t = Some ?r"
    using Cons.prems(3,4) ok implements_clean [OF Cons.prems(1)] by (simp add: project_perform project_action)
  from Cons.IH [OF simulation_step [OF Cons.prems(1) ok(1,2)] ok(3) Cons.prems(3) this row_agrees_step [OF Cons.prems(5)]]
  obtain r' where "row_of (project_ledger (run_history history ?ledger)) t = Some r'"
    "row_agrees r' (in_force (fold (\<lambda>(now, a). transition a) history (transition a st)) t)
      (extended (fold (\<lambda>(now, a). transition a) history (transition a st)) t)"
    "columns_of r' = fold board_action (task_actions t history) (columns_of ?r)"
    by blast
  moreover have "fold board_action (task_actions t (h # history)) (columns_of r) =
      fold board_action (task_actions t history) (columns_of ?r)"
    by (simp add: task_actions_def h row_step_columns)
  ultimately show ?case by (simp add: run_history_def h)
qed (simp add: run_history_def task_actions_def)

text \<open>
  C3. The status board follows the protocol and agrees with the workers on leases. Start from a ledger
  in which the task has a row and no lease in force, and take any history of leases, renewals,
  reclaims, status events and kills of any tasks, written without faults. The row rebuilt from the
  ledger has exactly the status, lease owner, attempts and reclaims that the actions on the task, in
  their order, give it: a lease sets the owner and raises the attempts to its own number and by one at
  least, a reclaim clears the owner, puts the task back into the queue and is counted, a renewal leaves
  it running. Whenever the active-lease scan reports a lease, the row names the same holder and no
  earlier attempt, and the same expiry unless the lease was renewed.
\<close>

theorem board_agrees_with_leases:
  assumes "implements ledger st" and "in_force st t = None" and "row_of (project_ledger ledger) t = Some r"
    and "history_ok history" and "t \<noteq> []" and "length t < 128"
  shows "\<exists>r'. row_of (project_ledger (run_history history ledger)) t = Some r' \<and>
     columns_of r' = fold board_action (task_actions t history) (columns_of r) \<and>
     (lv_active (wtTaskFindActiveLease (run_history history ledger) t 64) \<longrightarrow>
       c_lease_owner r' = lv_holder (wtTaskFindActiveLease (run_history history ledger) t 64) \<and>
       lv_attempt (wtTaskFindActiveLease (run_history history ledger) t 64) \<le> c_attempt_count r' \<and>
       (\<not> extended (fold (\<lambda>(now, a). transition a) history st) t \<longrightarrow>
         c_lease_expires_at_ms r' = lv_expires (wtTaskFindActiveLease (run_history history ledger) t 64)))"
proof -
  let ?st = "fold (\<lambda>(now, a). transition a) history st"
  have "row_agrees r (in_force st t) (extended st t)" using assms(2) by (simp add: row_agrees_def)
  from board_history [OF assms(1,4,5,3) this] obtain r' where
    r': "row_of (project_ledger (run_history history ledger)) t = Some r'"
      "columns_of r' = fold board_action (task_actions t history) (columns_of r)"
    and agrees: "row_agrees r' (in_force ?st t) (extended ?st t)" by blast
  have "shows_lease (wtTaskFindActiveLease (run_history history ledger) t 64) (in_force ?st t) (extended ?st t)"
    using implements_lease [OF implements_history [OF assms(1,4)] assms(6)] .
  with agrees r' show ?thesis
    by (auto simp: row_agrees_def shows_lease_def split: option.splits)
qed

lemma clean_package_fields: "clean_fields (package_fields ''t1'' ''claude'')"
  by (simp add: package_fields_def)

lemma demo_row:
  "\<exists>r. row_of (project_ledger demo_ledger) ''t1'' = Some r \<and> c_reclaim_count r = 0 \<and> c_attempt_count r = 0 \<and>
    c_accepted_artifact_path r = [] \<and> c_artifact_state r = []"
proof -
  have "lineHasSchema (render_object (package_fields ''t1'' ''claude'')) x \<longleftrightarrow> x = ''woventeam.task_package.v0.1''" for x
    by (rule schema_record [OF clean_package_fields]) (simp_all add: package_fields_def)
  then have "project_ledger demo_ledger = projectPackage (render_object (package_fields ''t1'' ''claude'')) empty_projection"
    by (simp add: project_ledger_def demo_lines package_line_def project_line_def)
  moreover have "c_task_id (package_row (render_object (package_fields ''t1'' ''claude''))) = ''t1''"
    by (simp add: package_row_def Let_def read_fields [OF clean_package_fields] str_field_def task_sizes) (simp add: package_fields_def)
  ultimately show ?thesis
    by (simp add: projectPackage_def upsert_def empty_projection_def row_of_def)
      (simp add: package_row_def Let_def)
qed

theorem board_agrees_with_leases_witness:
  "\<exists>r. row_of (project_ledger (run_history [(1, Lease ''t1'' ''claude'' 1 900),
       (2, Reclaim ''t1'' ''claude'' ''ceo'' ''operator'' ''stuck''), (3, Lease ''t1'' ''gemini'' 2 950)] demo_ledger)) ''t1'' = Some r \<and>
     columns_of r = \<lparr> bc_status = ''leased'', bc_owner = ''gemini'', bc_attempts = 2, bc_reclaims = 1 \<rparr> \<and>
     c_lease_expires_at_ms r = 950"
proof -
  let ?h = "[(1, Lease ''t1'' ''claude'' 1 900), (2, Reclaim ''t1'' ''claude'' ''ceo'' ''operator'' ''stuck''),
    (3, Lease ''t1'' ''gemini'' 2 950)]"
  have ok: "history_ok ?h" by (simp add: history_ok_def text_ok_def c_int_defs)
  obtain r where r: "row_of (project_ledger demo_ledger) ''t1'' = Some r" "c_reclaim_count r = 0" "c_attempt_count r = 0"
    using demo_row by blast
  have "shows_lease (wtTaskFindActiveLease (run_history ?h demo_ledger) ''t1'' 64) (Some (''gemini'', 950, 2)) False"
    using implements_lease [OF implements_history [OF demo_implements ok], of "''t1''"] by (simp add: idle_def)
  with board_agrees_with_leases [OF demo_implements _ r(1) ok] r(2,3) show ?thesis
    by (auto simp: idle_def shows_unrenewed task_actions_def columns_of_def)
qed

end
