(* ===== verification/Projection_Queries.thy ===== *)
theory Projection_Queries
  imports Projection_Facts
begin

text \<open>
  The queries of the read model that drive decisions of the daemon: which artifact of a task is the
  accepted one, how many tokens are already allocated (the inputs of the budget policy), and the
  capacity board.
\<close>

section \<open>The accepted artifact\<close>












section \<open>Allocated tokens\<close>

lemma sql_sum_nonneg:
  "list_all (\<lambda>x. 0 \<le> x) xs \<Longrightarrow> 0 \<le> acc \<Longrightarrow> acc \<le> LONG_MAX \<Longrightarrow>
   sql_sum acc xs = (if acc + sum_list xs \<le> LONG_MAX then Some (acc + sum_list xs) else None)"
proof (induction xs arbitrary: acc)
  case (Cons x xs)
  have nn: "0 \<le> sum_list xs" using Cons.prems(1) by (intro sum_list_nonneg) (auto simp: list_all_iff)
  show ?case
  proof (cases "acc + x \<le> LONG_MAX")
    case True
    with Cons.prems have "is_long (acc + x)" by (simp add: is_long_def LONG_MIN_def)
    with Cons.IH [of "acc + x"] Cons.prems True show ?thesis by (simp add: add.assoc)
  next
    case False
    then have "\<not> is_long (acc + x)" by (simp add: is_long_def)
    with False nn show ?thesis by simp
  qed
qed simp

lemma sum_active_tokens_nonneg:
  assumes "list_all (\<lambda>r. 0 \<le> c_max_tokens r) (tasks p)"
  shows "sum_active_tokens (Some p) sel =
    (let s = sum_list (map c_max_tokens (filter (\<lambda>r. sel r \<and> active_row r) (tasks p))) in if s \<le> LONG_MAX then s else -1)"
proof -
  have "list_all (\<lambda>x. 0 \<le> x) (map c_max_tokens (filter (\<lambda>r. sel r \<and> active_row r) (tasks p)))"
    using assms by (auto simp: list_all_iff)
  from sql_sum_nonneg [OF this, of 0] show ?thesis
    by (auto simp: sum_active_tokens_def Let_def LONG_MAX_def)
qed

text \<open>The \<open>LIKE\<close> pattern of a plain family name: a prefix, letters compared without case.\<close>

definition plain_family :: "string \<Rightarrow> bool" where
  "plain_family f \<longleftrightarrow> CHR ''%'' \<notin> set f \<and> CHR ''_'' \<notin> set f \<and> length f < 64"

definition family_of_model :: "string \<Rightarrow> string \<Rightarrow> bool" where
  "family_of_model f model \<longleftrightarrow> map lower_ascii (take (length f + 1) model) = map lower_ascii (f @ ''/'')"

lemma sql_like_any: "sql_like ''%'' s"
  by (induction s) simp_all

lemma sql_like_prefix:
  assumes "CHR ''%'' \<notin> set p" "CHR ''_'' \<notin> set p"
  shows "sql_like (p @ ''%'') s \<longleftrightarrow> map lower_ascii (take (length p) s) = map lower_ascii p"
  using assms
proof (induction p arbitrary: s)
  case (Cons c p)
  then show ?case by (cases s) (auto simp: eq_commute)
qed (simp add: sql_like_any)

lemma family_pattern:
  assumes "plain_family f"
  shows "sql_like (snprintf_s 128 (f @ ''/%'')) model \<longleftrightarrow> family_of_model f model"
proof -
  have "sql_like ((f @ ''/'') @ ''%'') model \<longleftrightarrow> family_of_model f model"
    unfolding family_of_model_def using assms
    by (subst sql_like_prefix) (auto simp: plain_family_def)
  with assms show ?thesis by (simp add: plain_family_def)
qed

text \<open>On names without capital letters the membership is the prefix match the comments describe.\<close>

definition no_capitals :: "string \<Rightarrow> bool" where
  "no_capitals s \<longleftrightarrow> map lower_ascii s = s"

lemma family_prefix:
  assumes "no_capitals f" "no_capitals model"
  shows "family_of_model f model \<longleftrightarrow> prefix (f @ ''/'') model"
proof -
  have "map lower_ascii (take k model) = take k model" for k
    using assms(2) by (simp add: no_capitals_def flip: take_map)
  moreover have "map lower_ascii (f @ ''/'') = f @ ''/''"
    using assms(1) by (simp add: no_capitals_def lower_ascii_def)
  ultimately have "family_of_model f model \<longleftrightarrow> take (length (f @ ''/'')) model = f @ ''/''"
    by (simp only: family_of_model_def) simp
  then show ?thesis by (metis prefix_def append_eq_conv_conj append_take_drop_id)
qed

text \<open>
  C35. The inputs of the budget policy. Over packages with non-negative token requests, the allocation
  of an initiative is the exact sum over its active tasks, and the allocation of a model family is the
  exact sum over the active tasks whose model id begins with the family name and a slash, when the name
  has no \<open>%\<close> and \<open>_\<close>, is shorter than 64 bytes, and neither it nor the model ids have capital letters;
  or either is the error -1 once its sum leaves 64 bits: it never wraps. (With capital letters or
  wildcards the code's \<open>LIKE\<close> is not the prefix match that its comment describes.)
\<close>

theorem token_allocation_exact:
  assumes "list_all (\<lambda>r. 0 \<le> c_max_tokens r) (tasks p)" and "plain_family f"
    and "no_capitals f" and "list_all (\<lambda>r. no_capitals (c_model_id r)) (tasks p)"
  shows "(let s = sum_list (map c_max_tokens (filter (\<lambda>r. c_initiative_id r = i \<and> active_row r) (tasks p))) in
      wtTaskProjectionAllocatedTokensForInitiative (Some p) i = (if s \<le> LONG_MAX then s else -1)) \<and>
    (let s = sum_list (map c_max_tokens (filter (\<lambda>r. prefix (f @ ''/'') (c_model_id r) \<and> active_row r) (tasks p))) in
      wtTaskProjectionAllocatedTokensForModelFamily (Some p) f = (if s \<le> LONG_MAX then s else -1))"
proof -
  have "filter (\<lambda>r. family_of_model f (c_model_id r) \<and> active_row r) (tasks p) =
      filter (\<lambda>r. prefix (f @ ''/'') (c_model_id r) \<and> active_row r) (tasks p)"
    using assms(4) family_prefix [OF assms(3)] by (intro filter_cong refl) (auto simp: list_all_iff)
  then show ?thesis
    unfolding wtTaskProjectionAllocatedTokensForInitiative_def wtTaskProjectionAllocatedTokensForModelFamily_def Let_def
      family_pattern [OF assms(2)] sum_active_tokens_nonneg [OF assms(1)]
    by presburger
qed

definition token_row :: "string \<Rightarrow> string \<Rightarrow> string \<Rightarrow> int \<Rightarrow> task_row" where
  "token_row taskId model status n = (package_row []) \<lparr> c_task_id := taskId, c_initiative_id := ''i'', c_model_id := model,
     c_status := status, c_max_tokens := n \<rparr>"

lemma token_row_simps [simp]:
  "c_initiative_id (token_row t m s n) = ''i''" "c_model_id (token_row t m s n) = m"
  "c_status (token_row t m s n) = s" "c_max_tokens (token_row t m s n) = n"
  by (simp_all add: token_row_def)

theorem token_allocation_exact_witness:
  "wtTaskProjectionAllocatedTokensForModelFamily (Some (empty_projection \<lparr> tasks :=
     [token_row ''a'' ''openai/gpt'' ''queued'' 5, token_row ''b'' ''openai/o'' ''running'' 6,
      token_row ''c'' ''openai/o'' ''complete'' 7, token_row ''d'' ''openai-x/o'' ''queued'' 8] \<rparr>)) ''openai'' = 11"
proof -
  let ?p = "empty_projection \<lparr> tasks :=
     [token_row ''a'' ''openai/gpt'' ''queued'' 5, token_row ''b'' ''openai/o'' ''running'' 6,
      token_row ''c'' ''openai/o'' ''complete'' 7, token_row ''d'' ''openai-x/o'' ''queued'' 8] \<rparr>"
  have lower: "no_capitals ''openai''" "no_capitals ''openai/gpt''" "no_capitals ''openai/o''" "no_capitals ''openai-x/o''" by code_simp+
  have "list_all (\<lambda>r. 0 \<le> c_max_tokens r) (tasks ?p)" "plain_family ''openai''" "list_all (\<lambda>r. no_capitals (c_model_id r)) (tasks ?p)"
    by (simp_all add: plain_family_def lower)
  from token_allocation_exact [OF this(1,2) lower(1) this(3), of "''i''"] show ?thesis
    by (simp add: active_row_def Let_def LONG_MAX_def)
qed

end
