(* ===== verification/Agent_Wait.thy ===== *)
theory Agent_Wait
  imports Lease_Protocol Config
begin

text \<open>
  \<open>waitForAdapterChild\<close> of \<^verbatim>\<open>src/src/wt_agent.c\<close>: waiting for the adapter process while renewing
  the lease, watching for a cancel request and enforcing the timeout.

  The world around the loop is a sequence of \<open>tick\<close>s, one per round: what \<open>waitpid(WNOHANG)\<close>
  answers, the clock, what other processes have appended to the ledger by then, whether the child
  goes away in the grace period after \<open>SIGTERM\<close>, its status once it is killed, and the clock and
  failure of a renewal written in the round. One round is \<open>wait_step\<close>; the loop is a partial
  function, so that a wait that never returns is \<open>None\<close>.
\<close>

section \<open>The world of the loop\<close>

datatype child_poll = StillRunning | ChildDone int | PollError

record tick =
  tick_poll :: child_poll
  tick_now :: int
  tick_others :: "log_file \<Rightarrow> log_file"
  tick_grace :: bool
  tick_killed :: int
  tick_ms :: int
  tick_fault :: io_fault

datatype signal = SIGTERM | SIGKILL

record wait_result =
  w_status :: int
  w_timedOut :: bool
  w_cancelled :: bool
  w_finalExpiry :: int
  w_signals :: "signal list"

record wait_state =
  lastRenewal :: int
  lastCancelCheck :: int
  currentLeaseExpiry :: int
  wait_ledger :: log_file

section \<open>The loop\<close>

definition positive_or :: "int \<Rightarrow> int \<Rightarrow> int" where
  "positive_or v d = (if v > 0 then v else d)"

definition lease_expiry :: "WtConfig \<Rightarrow> int \<Rightarrow> int" where
  "lease_expiry c now = sll (now * 1000 + positive_or (leaseDurationSeconds c) 900 * 1000)"

text \<open>\<open>Inl\<close> leaves the loop (\<open>None\<close> is the return value -1), \<open>Inr\<close> goes to the next round.\<close>

definition wait_step ::
    "WtConfig \<Rightarrow> string \<Rightarrow> string \<Rightarrow> int \<Rightarrow> int \<Rightarrow> tick \<Rightarrow> wait_state
       \<Rightarrow> (wait_result option \<times> log_file) + wait_state" where
  "wait_step c agentName taskId timeoutSeconds start t st =
     (let now = tick_now t; ledger = tick_others t (wait_ledger st) in
      case tick_poll t of
        ChildDone status \<Rightarrow>
          Inl (Some \<lparr> w_status = status, w_timedOut = False, w_cancelled = False,
                      w_finalExpiry = currentLeaseExpiry st, w_signals = [] \<rparr>, ledger)
      | PollError \<Rightarrow> Inl (None, ledger)
      | StillRunning \<Rightarrow>
          (if to_int32 (now - start) \<ge> timeoutSeconds then
             Inl (Some \<lparr> w_status = tick_killed t, w_timedOut = True, w_cancelled = False,
                         w_finalExpiry = currentLeaseExpiry st, w_signals = [SIGKILL] \<rparr>, ledger)
           else (let check = to_int32 (now - lastCancelCheck st) \<ge> positive_or (cancelPollIntervalSeconds c) 5;
                     st1 = st \<lparr> lastCancelCheck := (if check then now else lastCancelCheck st), wait_ledger := ledger \<rparr> in
             if check \<and> wtTaskCancelRequested ledger taskId then
               Inl (Some \<lparr> w_status = tick_killed t, w_timedOut = False, w_cancelled = True,
                           w_finalExpiry = currentLeaseExpiry st,
                           w_signals = (if tick_grace t then [SIGTERM] else [SIGTERM, SIGKILL]) \<rparr>, ledger)
             else if to_int32 (now - lastRenewal st) \<ge> positive_or (leaseRenewalIntervalSeconds c) 600 then
               Inr (st1 \<lparr> lastRenewal := now, currentLeaseExpiry := lease_expiry c now,
                          wait_ledger := snd (wtTaskAppendLeaseRenewal (tick_fault t) (fsyncEachMessage c) (tick_ms t)
                            taskId agentName 1 (lease_expiry c now) ledger) \<rparr>)
             else Inr st1)))"

partial_function (option) wait_from ::
    "WtConfig \<Rightarrow> string \<Rightarrow> string \<Rightarrow> int \<Rightarrow> int \<Rightarrow> (nat \<Rightarrow> tick) \<Rightarrow> nat \<Rightarrow> wait_state
       \<Rightarrow> (wait_result option \<times> log_file) option" where
  "wait_from c agentName taskId timeoutSeconds start env i st =
     (case wait_step c agentName taskId timeoutSeconds start (env i) st of
        Inl result \<Rightarrow> Some result
      | Inr st' \<Rightarrow> wait_from c agentName taskId timeoutSeconds start env (Suc i) st')"

definition waitForAdapterChild ::
    "WtConfig \<Rightarrow> string \<Rightarrow> string \<Rightarrow> int \<Rightarrow> int \<Rightarrow> (nat \<Rightarrow> tick) \<Rightarrow> log_file \<Rightarrow> (wait_result option \<times> log_file) option" where
  "waitForAdapterChild c agentName taskId timeoutSeconds start env ledger =
     wait_from c agentName taskId timeoutSeconds start env 0
       \<lparr> lastRenewal = start, lastCancelCheck = start, currentLeaseExpiry = lease_expiry c start, wait_ledger = ledger \<rparr>"

section \<open>The wait ends\<close>

lemma wait_from_stops:
  assumes "start + int (i + k) \<le> tick_now (env (i + k))" "tick_now (env (i + k)) - start < 2 ^ 31"
    and "timeoutSeconds \<le> int (i + k)"
  shows "\<exists>r. wait_from c agentName taskId timeoutSeconds start env i st = Some r"
  using assms
proof (induction k arbitrary: i st)
  case 0
  have "to_int32 (tick_now (env i) - start) = tick_now (env i) - start"
    using 0 by (intro to_int32_id) (simp add: is_int32_def)
  with 0 show ?case
    by (subst wait_from.simps) (auto simp: wait_step_def Let_def split: child_poll.split)
next
  case (Suc k)
  have "\<exists>r. wait_from c agentName taskId timeoutSeconds start env (Suc i) st' = Some r" for st'
    by (rule Suc.IH) (use Suc.prems in simp_all)
  then show ?case
    by (subst wait_from.simps) (auto split: sum.split)
qed

text \<open>
  C21. The wait always returns. If every round advances the clock by a second at least, which is what
  the \<open>sleep(1)\<close> of the loop does, then by round \<open>timeoutSeconds\<close> at the latest the loop is left:
  with the child's status, with the child killed, or with an error; whatever the child, the ledger
  and the other processes do.
\<close>

theorem adapter_wait_terminates:
  assumes "\<forall>i. start + int i \<le> tick_now (env i)" and "tick_now (env (nat timeoutSeconds)) - start < 2 ^ 31"
  shows "\<exists>r. waitForAdapterChild c agentName taskId timeoutSeconds start env ledger = Some r"
  unfolding waitForAdapterChild_def
proof (rule wait_from_stops [where k = "nat timeoutSeconds"])
  show "start + int (0 + nat timeoutSeconds) \<le> tick_now (env (0 + nat timeoutSeconds))"
    using assms(1) [rule_format, of "nat timeoutSeconds"] by simp
qed (use assms(2) in simp_all)

definition idle_tick :: "int \<Rightarrow> tick" where
  "idle_tick now = \<lparr> tick_poll = StillRunning, tick_now = now, tick_others = (\<lambda>l. l), tick_grace = True,
     tick_killed = 9, tick_ms = now * 1000, tick_fault = NoFault \<rparr>"

theorem adapter_wait_terminates_witness:
  "\<exists>r. waitForAdapterChild wtConfigInitDefaults ''claude'' ''t1'' 1800 100 (\<lambda>i. idle_tick (100 + int i)) None = Some r"
  by (rule adapter_wait_terminates) (simp_all add: idle_tick_def)

section \<open>A cancel request stops the child\<close>

text \<open>
  A kill record of the task, and the records that start it anew: a lease, and the routing and
  assignment events after which, as \<^verbatim>\<open>wt_task_store.h\<close> has it, an earlier cancel does not count.
\<close>

definition kill_record :: "string \<Rightarrow> string \<Rightarrow> bool" where
  "kill_record taskId line \<longleftrightarrow> lineHasSchema line ''woventeam.kill_event.v0.1'' \<and>
     read_str line ''taskId'' WT_TASK_ID_SIZE = Some taskId"

definition restarts :: "string \<Rightarrow> string \<Rightarrow> bool" where
  "restarts taskId line \<longleftrightarrow> lineHasSchema line ''woventeam.task_event.v0.1'' \<and>
     read_str line ''taskId'' WT_TASK_ID_SIZE = Some taskId \<and>
     read_str line ''eventType'' 32 \<in> {Some ''lease'', Some ''routing'', Some ''assignment''}"

text \<open>A cancel is pending: a kill record of the task stands in the ledger with none of them behind it.\<close>

definition kill_pending :: "string \<Rightarrow> log_file \<Rightarrow> bool" where
  "kill_pending taskId l \<longleftrightarrow> clean_tail (bytes l) \<and>
     (\<exists>earlier k later. ledger_lines l = earlier @ k # later \<and> kill_record taskId k \<and> (\<forall>x \<in> set later. \<not> restarts taskId x))"

text \<open>What other processes may do meanwhile: append whole lines, none of which starts the task anew.\<close>

definition quiet :: "string \<Rightarrow> (log_file \<Rightarrow> log_file) \<Rightarrow> bool" where
  "quiet taskId f \<longleftrightarrow> (\<forall>l. clean_tail (bytes l) \<longrightarrow> clean_tail (bytes (f l)) \<and>
     (\<exists>ls. ledger_lines (f l) = ledger_lines l @ ls \<and> (\<forall>x \<in> set ls. \<not> restarts taskId x)))"

lemma cancel_stays: "\<forall>x \<in> set ls. \<not> restarts taskId x \<Longrightarrow> fold (cancel_step taskId) ls True"
proof (induction ls)
  case (Cons l ls)
  then have "cancel_step taskId l True"
    by (auto simp: cancel_step_def restarts_def lineHasSchema_def split: option.split)
  with Cons show ?case by simp
qed simp

lemma kill_pending_requested: "kill_pending taskId l \<Longrightarrow> wtTaskCancelRequested l taskId"
proof -
  assume "kill_pending taskId l"
  then obtain earlier k later where l: "ledger_lines l = earlier @ k # later" "kill_record taskId k"
    "\<forall>x \<in> set later. \<not> restarts taskId x" by (auto simp: kill_pending_def)
  then have "cancel_step taskId k b" for b by (simp add: cancel_step_def kill_record_def lineHasSchema_def)
  with l cancel_stays [OF l(3)] show ?thesis by (simp add: wtTaskCancelRequested_def)
qed

lemma kill_pending_more:
  assumes "kill_pending taskId l" "clean_tail (bytes l')" "ledger_lines l' = ledger_lines l @ ls" "\<forall>x \<in> set ls. \<not> restarts taskId x"
  shows "kill_pending taskId l'"
proof -
  obtain earlier k later where "ledger_lines l = earlier @ k # later" "kill_record taskId k" "\<forall>x \<in> set later. \<not> restarts taskId x"
    using assms(1) by (auto simp: kill_pending_def)
  with assms(3,4) have "ledger_lines l' = earlier @ k # (later @ ls)" "\<forall>x \<in> set (later @ ls). \<not> restarts taskId x" by auto
  with assms(2) \<open>kill_record taskId k\<close> show ?thesis unfolding kill_pending_def by blast
qed

lemma kill_pending_quiet: "kill_pending taskId l \<Longrightarrow> quiet taskId f \<Longrightarrow> kill_pending taskId (f l)"
  using kill_pending_more [of taskId l "f l"] by (auto simp: quiet_def kill_pending_def)

lemma append_sync: "wtTaskAppendRecord NoFault sync r l = wtTaskAppendRecord NoFault True r l"
  by (simp add: wtTaskAppendRecord_def write_record_def)

lemma renewal_sync: "wtTaskAppendLeaseRenewal NoFault sync ms t ag n e l = wtTaskAppendLeaseRenewal NoFault True ms t ag n e l"
  unfolding wtTaskAppendLeaseRenewal_def write_event_def append_sync [of sync] ..

lemma kill_pending_renewal:
  assumes "kill_pending taskId l" "action_ok (Renew taskId ag n e)" "is_long ms"
  shows "kill_pending taskId (snd (wtTaskAppendLeaseRenewal NoFault sync ms taskId ag n e l))"
proof -
  have clean: "clean_tail (bytes l)" using assms(1) by (simp add: kill_pending_def)
  have "\<not> restarts taskId (action_line ms (Renew taskId ag n e))"
    using assms(2) by (simp add: restarts_def read_action action_fields_defs)
  with kill_pending_more [OF assms(1)] perform_lines [OF assms(2,3) clean, folded action_line_def] show ?thesis
    by (simp add: renewal_sync [of sync])
qed

text \<open>
  A round in which the child runs on, the clock is within the timeout, others do not start the task
  anew, and a renewal would be written.
\<close>

definition orderly :: "string \<Rightarrow> int \<Rightarrow> int \<Rightarrow> tick \<Rightarrow> bool" where
  "orderly taskId timeoutSeconds start t \<longleftrightarrow> tick_poll t = StillRunning \<and> start \<le> tick_now t \<and>
     tick_now t - start < timeoutSeconds \<and> tick_now t - start < 2 ^ 31 \<and>
     quiet taskId (tick_others t) \<and> tick_fault t = NoFault \<and> is_long (tick_ms t)"

definition cancel_interval :: "WtConfig \<Rightarrow> int" where
  "cancel_interval c = positive_or (cancelPollIntervalSeconds c) 5"

lemma wait_step_orderly:
  assumes "orderly taskId timeoutSeconds start t" "kill_pending taskId (wait_ledger st)"
    and "text_ok 128 taskId" "text_ok 64 agentName" "start \<le> lastCancelCheck st" "lastCancelCheck st - start < 2 ^ 31"
  shows "lastCancelCheck st + cancel_interval c \<le> tick_now t \<Longrightarrow>
      \<exists>r l. wait_step c agentName taskId timeoutSeconds start t st = Inl (Some r, l) \<and>
        w_cancelled r \<and> \<not> w_timedOut r \<and> w_signals r \<noteq> [] \<and> hd (w_signals r) = SIGTERM"
    and "tick_now t < lastCancelCheck st + cancel_interval c \<Longrightarrow>
      \<exists>st'. wait_step c agentName taskId timeoutSeconds start t st = Inr st' \<and>
        lastCancelCheck st' = lastCancelCheck st \<and> kill_pending taskId (wait_ledger st')"
proof -
  let ?l = "tick_others t (wait_ledger st)"
  have l: "kill_pending taskId ?l"
    using kill_pending_quiet [OF assms(2)] assms(1) by (simp add: orderly_def)
  have c32: "to_int32 (tick_now t - start) = tick_now t - start"
    "to_int32 (tick_now t - lastCancelCheck st) = tick_now t - lastCancelCheck st"
    using assms(1,5,6) by (auto simp: orderly_def is_int32_def intro!: to_int32_id)
  have ok: "action_ok (Renew taskId agentName 1 (lease_expiry c now))" for now
    using assms(3,4) by (simp add: lease_expiry_def is_int32_def)
  note renewed = kill_pending_renewal [OF l ok]
  show "lastCancelCheck st + cancel_interval c \<le> tick_now t \<Longrightarrow>
      \<exists>r l. wait_step c agentName taskId timeoutSeconds start t st = Inl (Some r, l) \<and>
        w_cancelled r \<and> \<not> w_timedOut r \<and> w_signals r \<noteq> [] \<and> hd (w_signals r) = SIGTERM"
    using assms(1) kill_pending_requested [OF l] c32
    by (simp add: wait_step_def Let_def orderly_def cancel_interval_def)
  show "tick_now t < lastCancelCheck st + cancel_interval c \<Longrightarrow>
      \<exists>st'. wait_step c agentName taskId timeoutSeconds start t st = Inr st' \<and>
        lastCancelCheck st' = lastCancelCheck st \<and> kill_pending taskId (wait_ledger st')"
    using assms(1) l c32 renewed
    by (simp add: wait_step_def Let_def orderly_def cancel_interval_def)
qed

lemma wait_cancelled:
  assumes "\<forall>j. i \<le> j \<and> j \<le> i + d \<longrightarrow> orderly taskId timeoutSeconds start (env j)"
    and "kill_pending taskId (wait_ledger st)" "text_ok 128 taskId" "text_ok 64 agentName"
    and "start \<le> lastCancelCheck st" "lastCancelCheck st - start < 2 ^ 31"
    and "lastCancelCheck st + cancel_interval c \<le> tick_now (env (i + d))"
  shows "\<exists>r l. wait_from c agentName taskId timeoutSeconds start env i st = Some (Some r, l) \<and>
     w_cancelled r \<and> \<not> w_timedOut r \<and> w_signals r \<noteq> [] \<and> hd (w_signals r) = SIGTERM"
  using assms
proof (induction d arbitrary: i st)
  case (0 i st)
  have "orderly taskId timeoutSeconds start (env i)" using 0 by simp
  from wait_step_orderly(1) [OF this 0(2-6), of c] 0(7) show ?case
    by (subst wait_from.simps) auto
next
  case (Suc d i st)
  have o: "orderly taskId timeoutSeconds start (env i)" using Suc.prems(1) by simp
  show ?case
  proof (cases "lastCancelCheck st + cancel_interval c \<le> tick_now (env i)")
    case True
    from wait_step_orderly(1) [OF o Suc.prems(2-6) True] show ?thesis by (subst wait_from.simps) auto
  next
    case False
    then obtain st' where st': "wait_step c agentName taskId timeoutSeconds start (env i) st = Inr st'"
      "lastCancelCheck st' = lastCancelCheck st" "kill_pending taskId (wait_ledger st')"
      using wait_step_orderly(2) [OF o Suc.prems(2-6), of c] by auto
    have "\<exists>r l. wait_from c agentName taskId timeoutSeconds start env (Suc i) st' = Some (Some r, l) \<and>
        w_cancelled r \<and> \<not> w_timedOut r \<and> w_signals r \<noteq> [] \<and> hd (w_signals r) = SIGTERM"
      by (rule Suc.IH) (use Suc.prems st'(2,3) in auto)
    with st'(1) show ?thesis by (subst wait_from.simps) simp
  qed
qed

text \<open>
  C20. A cancel request is honoured within one poll interval. Take any round of the wait at which the
  ledger has a kill record of the task with no lease, routing or assignment event of it behind. If the
  child keeps running until a round whose clock is one cancel interval after the last check, all of
  these rounds are within the timeout, the renewals the loop writes in them do not fail, and the other
  processes append only whole records and no lease, routing or assignment of this task, then the wait
  ends with the run marked cancelled, not timed out, and the child's process group was sent
  \<open>SIGTERM\<close> first. The clock may advance in any steps; the task id and the agent name fit their
  buffers.
\<close>

theorem cancel_honoured:
  assumes "\<forall>j. i \<le> j \<and> j \<le> i + d \<longrightarrow> orderly taskId timeoutSeconds start (env j)"
    and "kill_pending taskId (wait_ledger st)" and "text_ok 128 taskId" and "text_ok 64 agentName"
    and "start \<le> lastCancelCheck st" and "lastCancelCheck st - start < 2 ^ 31"
    and "lastCancelCheck st + cancel_interval c \<le> tick_now (env (i + d))"
  shows "\<exists>r l. wait_from c agentName taskId timeoutSeconds start env i st = Some (Some r, l) \<and>
     w_cancelled r \<and> \<not> w_timedOut r \<and> w_signals r \<noteq> [] \<and> hd (w_signals r) = SIGTERM"
  by (rule wait_cancelled [OF assms])

theorem cancel_honoured_witness:
  "\<exists>r l. waitForAdapterChild wtConfigInitDefaults ''claude'' ''t1'' 1800 100 (\<lambda>i. idle_tick (100 + int i))
     (run_history [(1, Kill ''t1'' ''operator'' ''ceo'')] None) = Some (Some r, l) \<and>
     w_cancelled r \<and> \<not> w_timedOut r \<and> w_signals r \<noteq> [] \<and> hd (w_signals r) = SIGTERM"
proof -
  let ?k = "Kill ''t1'' ''operator'' ''ceo''"
  have h: "history_ok [(1, ?k)]" by (simp add: history_ok_def text_ok_def c_int_defs)
  have ok: "action_ok ?k" by (simp add: text_ok_def)
  have "ledger_lines (run_history [(1, ?k)] None) = [action_line 1 ?k]" "clean_tail (bytes (run_history [(1, ?k)] None))"
    using run_history_lines [OF _ h, of None] by (simp_all add: ledger_lines_def)
  moreover have "kill_record ''t1'' (action_line 1 ?k)"
    using ok by (simp add: kill_record_def lineHasSchema_def read_action action_fields_defs task_sizes)
  ultimately have "kill_pending ''t1'' (run_history [(1, ?k)] None)"
    unfolding kill_pending_def by (metis append_Nil empty_iff list.set(1))
  moreover have "quiet ''t1'' (\<lambda>l. l)" by (simp add: quiet_def)
  moreover have "cancel_interval wtConfigInitDefaults = 5"
    by (simp add: cancel_interval_def positive_or_def wtConfigInitDefaults_def)
  ultimately show ?thesis
    unfolding waitForAdapterChild_def
    by (intro cancel_honoured [where d = 5]) (auto simp: orderly_def idle_tick_def text_ok_def c_int_defs)
qed

end
