(* ===== verification/Agent_Files.thy ===== *)
theory Agent_Files
  imports Append_File Security
begin

text \<open>
  The output files of an adapter run in \<^verbatim>\<open>src/src/wt_agent.c\<close>: writing a text file, capping a
  log at the output limit, redacting it in place and reading a snippet of it. A file is absent or its
  bytes. \<open>fault\<close> is the failure of the write, \<open>alloc\<close> tells whether both \<open>malloc\<close> calls succeed.
\<close>

section \<open>Files\<close>

text \<open>\<open>fputs\<close> and \<open>fclose\<close> are not checked: a short write is a success.\<close>

definition writeTextFile :: "io_fault \<Rightarrow> string \<Rightarrow> log_file \<Rightarrow> bool \<times> log_file" where
  "writeTextFile fault content f =
     (if fault = MkdirFails \<or> fault = OpenFails then (False, f)
      else (True, Some (case fault of ShortWrite k \<Rightarrow> take k content | _ \<Rightarrow> content)))"

definition readFileSnippet :: "log_file \<Rightarrow> int \<Rightarrow> nat \<Rightarrow> string" where
  "readFileSnippet f maxBytes bufferSize =
     (case f of
        None \<Rightarrow> []
      | Some s \<Rightarrow>
          (if bufferSize = 0 then []
           else cstr (take (if maxBytes > 0 \<and> maxBytes < int bufferSize - 1 then nat maxBytes else bufferSize - 1) s)))"

text \<open>\<open>truncate\<close> cuts a longer file and pads a shorter one with null bytes.\<close>

definition capFileSize :: "int \<Rightarrow> log_file \<Rightarrow> log_file" where
  "capFileSize maxBytes f =
     (if maxBytes > 0
      then map_option (\<lambda>s. take (nat maxBytes) s @ replicate (nat maxBytes - length s) NUL) f
      else f)"

definition redactFileInPlace :: "io_fault \<Rightarrow> bool \<Rightarrow> int \<Rightarrow> log_file \<Rightarrow> log_file" where
  "redactFileInPlace fault alloc maxBytes f =
     (if maxBytes \<le> 0 \<or> maxBytes > 4 * 1024 * 1024 then f
      else (case f of
              None \<Rightarrow> None
            | Some s \<Rightarrow>
                (if \<not> alloc then f
                 else (case wtRedactSecrets (cstr (take (nat maxBytes) s)) (nat maxBytes + 1) of
                         None \<Rightarrow> f
                       | Some out \<Rightarrow> snd (writeTextFile fault out f)))))"

section \<open>What the readers of a log see\<close>

lemma cstr_pad: "cstr (x @ replicate k NUL) = cstr x"
  by (induction x) (cases k; simp add: cstr_def)+

lemma redact_loop_enough:
  "length out + length (redact s) + 1 < n \<Longrightarrow> redact_loop n out s = Some (out @ redact s)"
proof (induction n out s rule: redact_loop.induct)
  case (2 n out c cs)
  show ?case
  proof (cases "looksSecretAt (c # cs)")
    case True
    with 2 secret_first [OF True] show ?thesis by (simp add: secret_branch)
  next
    case False
    with 2 show ?thesis by (simp add: plain_branch)
  qed
qed simp

text \<open>
  Adapter logs are redacted exactly when the limits allow it. For an output cap between 1 byte
  and 4 MiB, if the redacted text is below the cap, the file ends up as the redacted first
  \<open>maxBytes\<close> bytes of its text, in which no secret prefix is left. With a cap above 4 MiB nothing is
  redacted at all: the raw log stays, padded or cut to the cap.
\<close>

theorem adapter_log_redaction:
  "(0 < maxBytes \<and> maxBytes \<le> 4 * 1024 * 1024 \<and> length (redact (cstr (take (nat maxBytes) s))) < nat maxBytes \<longrightarrow>
      redactFileInPlace NoFault True maxBytes (capFileSize maxBytes (Some s)) = Some (redact (cstr (take (nat maxBytes) s))) \<and>
      no_secret (redact (cstr (take (nat maxBytes) s)))) \<and>
   (4 * 1024 * 1024 < maxBytes \<longrightarrow>
      redactFileInPlace NoFault True maxBytes (capFileSize maxBytes (Some s)) =
        Some (take (nat maxBytes) s @ replicate (nat maxBytes - length s) NUL))"
proof -
  let ?t = "cstr (take (nat maxBytes) s)"
  have "redactFileInPlace NoFault True maxBytes (capFileSize maxBytes (Some s)) = Some (redact ?t)"
    if "0 < maxBytes" "maxBytes \<le> 4 * 1024 * 1024" "length (redact ?t) < nat maxBytes"
  proof -
    have "wtRedactSecrets ?t (nat maxBytes + 1) = Some (redact ?t)"
      using redact_loop_enough [of "[]" ?t "nat maxBytes + 1"] that(3) by (simp add: wtRedactSecrets_def)
    with that(1,2) show ?thesis
      by (simp add: redactFileInPlace_def capFileSize_def cstr_pad writeTextFile_def)
  qed
  moreover have "redactFileInPlace NoFault True maxBytes (capFileSize maxBytes (Some s)) =
      Some (take (nat maxBytes) s @ replicate (nat maxBytes - length s) NUL)" if "4 * 1024 * 1024 < maxBytes"
    using that by (simp add: redactFileInPlace_def capFileSize_def)
  ultimately show ?thesis using no_secret_redact by blast
qed

theorem adapter_log_redaction_witness:
  "redactFileInPlace NoFault True 4194305 (capFileSize 4194305 (Some ''wt_op_secret'')) =
     Some (take 4194305 ''wt_op_secret'' @ replicate (4194305 - 12) NUL) \<and>
   redactFileInPlace NoFault True 64 (capFileSize 64 (Some ''wt_op_secret'')) = Some ''[REDACTED]''"
proof -
  have "redact ''wt_op_secret'' = ''[REDACTED]''"
    by (simp add: redact.simps looksSecretAt_def secret_stop_def is_space_def)
  with adapter_log_redaction [of 64 "''wt_op_secret''"] adapter_log_redaction [of 4194305 "''wt_op_secret''"]
  show ?thesis by (simp add: cstr_def del: take_append)
qed

end
