(* ===== verification/Agent.thy ===== *)
theory Agent
  imports Agent_Wait Agent_Files Claim_Protocol Room_Store
begin

text \<open>
  The local agent of \<^verbatim>\<open>src/src/wt_agent.c\<close>: which adapter may run a task, whether its elevated
  flags are granted, the adapter runs, the claim of an assigned task and one poll of the room.

  The agent works on a \<open>world\<close>: the task ledger, the room log and the other files by path. Each
  access to a shared file is one \<open>moment\<close>: what other processes have written to it by then, the clock
  and the failure of the access; a run gets its moments as a sequence. Terminal output is left out.
\<close>

section \<open>Eligibility\<close>

definition isKnownAgent :: "string \<Rightarrow> bool" where
  "isKnownAgent agentName \<longleftrightarrow> agentName \<in> {''claude'', ''chatgpt'', ''gemini''}"

definition shellSafeText :: "string \<Rightarrow> bool" where
  "shellSafeText v \<longleftrightarrow> v \<noteq> [] \<and> list_all (\<lambda>c. is_alnum c \<or> c \<in> {CHR ''.'', CHR '':'', CHR ''/'', CHR ''_'', CHR ''-'', CHR ''=''}) v"

definition isCodexEligibleTask :: "WtConfig \<Rightarrow> string \<Rightarrow> WtTaskSummary \<Rightarrow> bool" where
  "isCodexEligibleTask c agentName task =
     (if \<not> enableCodexAdapter c \<or> agentName \<noteq> ''chatgpt'' then False
      else if \<not> (t_toolProfile task = ''repo_branch'' \<or> t_toolProfile task = ''test_local'') then False
      else if t_modelId task \<noteq> [] \<and> \<not> starts_with ''openai/'' (t_modelId task) then False
      else True)"

definition isCliArtifactEligibleTask :: "WtConfig \<Rightarrow> string \<Rightarrow> WtTaskSummary \<Rightarrow> bool" where
  "isCliArtifactEligibleTask c agentName task =
     (if agentName = ''claude'' then
        enableClaudeAdapter c \<and> claudeMode c = ''adapter'' \<and>
        (t_modelId task = [] \<or> starts_with ''anthropic/'' (t_modelId task))
      else if agentName = ''gemini'' then
        enableGeminiAdapter c \<and> geminiMode c = ''adapter'' \<and>
        (t_modelId task = [] \<or> starts_with ''google/'' (t_modelId task))
      else False)"

section \<open>Autonomy\<close>

definition profileDefaultAutonomy :: "string \<Rightarrow> string" where
  "profileDefaultAutonomy profile =
     (if profile = ''observe'' then ''observe''
      else if profile = ''repo_branch'' \<or> profile = ''test_local'' then ''ask-batch''
      else ''ask-each'')"

definition configuredAutonomyForAgent :: "WtConfig \<Rightarrow> string \<Rightarrow> string option" where
  "configuredAutonomyForAgent c agentName =
     (if agentName = ''claude'' \<and> claudeDefaultAutonomyLevel c \<noteq> [] then Some (claudeDefaultAutonomyLevel c)
      else if agentName = ''chatgpt'' \<and> chatgptDefaultAutonomyLevel c \<noteq> [] then Some (chatgptDefaultAutonomyLevel c)
      else if agentName = ''gemini'' \<and> geminiDefaultAutonomyLevel c \<noteq> [] then Some (geminiDefaultAutonomyLevel c)
      else if defaultAutonomyLevel c \<noteq> [] then Some (defaultAutonomyLevel c) else None)"

definition effectiveAutonomyLevel :: "WtConfig \<Rightarrow> string \<Rightarrow> WtTaskSummary \<Rightarrow> nat \<Rightarrow> string" where
  "effectiveAutonomyLevel c agentName task bufferSize =
     (if t_autonomyLevel task \<noteq> [] then snprintf_s bufferSize (t_autonomyLevel task)
      else snprintf_s bufferSize (case configuredAutonomyForAgent c agentName of
             Some configured \<Rightarrow> configured | None \<Rightarrow> profileDefaultAutonomy (t_toolProfile task)))"

definition scopeCoversAdapter :: "string \<Rightarrow> bool" where
  "scopeCoversAdapter scope \<longleftrightarrow>
     strstr scope ''workspace'' \<noteq> None \<or> strstr scope ''adapter'' \<noteq> None \<or> strstr scope ''*'' \<noteq> None"

text \<open>\<open>clean\<close> is the answer of the two \<open>git diff --quiet\<close> commands.\<close>

definition cleanWorktreeRequiredOk :: "bool \<Rightarrow> WtTaskSummary \<Rightarrow> bool" where
  "cleanWorktreeRequiredOk clean task = (if t_autonomyRequiresCleanWorktree task = 0 then True else clean)"

text \<open>The flag, the level and the reason; both buffers of the callers have 64 and 256 bytes.\<close>

definition autonomyGrantActive ::
    "WtConfig \<Rightarrow> bool \<Rightarrow> string \<Rightarrow> WtTaskSummary \<Rightarrow> string \<Rightarrow> int \<Rightarrow> nat \<Rightarrow> nat \<Rightarrow> log_file \<Rightarrow> bool \<times> string \<times> string" where
  "autonomyGrantActive c clean agentName task adapterName nowUnixMs levelSize reasonSize ledger =
     (let level = effectiveAutonomyLevel c agentName task levelSize;
          r = wtTaskReadLatestAutonomyRevocation ledger (t_taskId task) WT_TASK_AGENT_SIZE in
      if rev_at r > 0 then
        (False, level, snprintf_s reasonSize (''autonomy revoked by '' @ (if rev_by r \<noteq> [] then rev_by r else ''operator'')))
      else if level \<noteq> ''autonomous'' then
        (False, level, snprintf_s reasonSize (''autonomy level '' @ level @ '' does not permit elevated adapter flags''))
      else if t_autonomyTtlSeconds task \<le> 0 \<or> \<not> scopeCoversAdapter (t_autonomyScope task) then
        (False, level, snprintf_s reasonSize ''autonomy grant missing ttl or adapter/workspace scope'')
      else (let grantStart = (if t_autonomyCreatedAtUnixMs task > 0 then t_autonomyCreatedAtUnixMs task else nowUnixMs) in
        if nowUnixMs > sll (grantStart + sll (t_autonomyTtlSeconds task * 1000)) then
          (False, level, snprintf_s reasonSize ''autonomy grant expired'')
        else if \<not> cleanWorktreeRequiredOk clean task then
          (False, level, snprintf_s reasonSize ''autonomy requires a clean worktree'')
        else (True, level, snprintf_s reasonSize (''autonomy grant permits '' @ adapterName @ '' adapter invocation''))))"

section \<open>The world and its moments\<close>

record agent_world =
  w_ledger :: log_file
  w_room :: log_file
  w_files :: "string \<Rightarrow> log_file"

record moment =
  m_ledger :: "log_file \<Rightarrow> log_file"
  m_room :: "log_file \<Rightarrow> log_file"
  m_ms :: int
  m_fault :: io_fault

definition read_ledger :: "moment \<Rightarrow> agent_world \<Rightarrow> agent_world" where
  "read_ledger m w = w \<lparr> w_ledger := m_ledger m (w_ledger w) \<rparr>"

definition read_room :: "moment \<Rightarrow> agent_world \<Rightarrow> agent_world" where
  "read_room m w = w \<lparr> w_room := m_room m (w_room w) \<rparr>"

definition to_ledger :: "moment \<Rightarrow> (io_fault \<Rightarrow> int \<Rightarrow> log_file \<Rightarrow> bool \<times> log_file) \<Rightarrow> agent_world \<Rightarrow> bool \<times> agent_world" where
  "to_ledger m write w =
     (let (ok, l) = write (m_fault m) (m_ms m) (m_ledger m (w_ledger w)) in (ok, w \<lparr> w_ledger := l \<rparr>))"

definition to_room :: "WtConfig \<Rightarrow> moment \<Rightarrow> WtMessage \<Rightarrow> agent_world \<Rightarrow> bool \<times> agent_world" where
  "to_room c m message w =
     (case wtRoomAppendNewMessage (m_fault m) (fsyncEachMessage c) (m_ms m) message (m_room m (w_room w)) of
        (ok, _, l) \<Rightarrow> (ok, w \<lparr> w_room := l \<rparr>))"

definition appendAgentTaskMessage ::
    "WtConfig \<Rightarrow> moment \<Rightarrow> string \<Rightarrow> WtTaskSummary \<Rightarrow> string \<Rightarrow> string \<Rightarrow> string \<Rightarrow> agent_world \<Rightarrow> bool \<times> agent_world" where
  "appendAgentTaskMessage c m agentName task msgType status detail =
     to_room c m (wtMessageInit \<lparr>
       roomName := snprintf_s WT_MESSAGE_NAME_SIZE (configRoomName c),
       senderName := snprintf_s WT_MESSAGE_NAME_SIZE agentName,
       targetName := ''ceo'',
       messageType := snprintf_s WT_MESSAGE_TYPE_SIZE msgType,
       messageBody := snprintf_s WT_MESSAGE_BODY_SIZE (''taskId='' @ t_taskId task @ '' status='' @ status @
         '' title='' @ t_title task @ (if detail \<noteq> [] then '' detail='' @ detail else [])) \<rparr>)"

section \<open>Adapter runs\<close>

text \<open>
  What an adapter run meets besides its moments: the workspace and prompt, the fork, the worktree
  check, the child's rounds and the files it leaves, and \<open>exit_status\<close>, the decoding of a wait status
  (\<open>WIFEXITED\<close> and \<open>WEXITSTATUS\<close>).
\<close>

record adapter_env =
  ae_moments :: "nat \<Rightarrow> moment"
  ae_workspace :: bool
  ae_prompt_fault :: io_fault
  ae_clean :: bool
  ae_now_ms :: int
  ae_forks :: bool
  ae_start :: int
  ae_ticks :: "nat \<Rightarrow> tick"
  ae_child_files :: "string \<Rightarrow> log_file"
  ae_exit_status :: "int \<Rightarrow> int option"
  ae_alloc :: bool
  ae_file_fault :: "string \<Rightarrow> io_fault"

record adapter_outcome =
  ao_rc :: int
  ao_argv :: "string list"
  ao_world :: agent_world

definition workspace_file :: "string \<Rightarrow> string \<Rightarrow> string" where
  "workspace_file workspace name = snprintf_s 768 (workspace @ ''/'' @ name)"

definition task_workspace :: "WtConfig \<Rightarrow> WtTaskSummary \<Rightarrow> string" where
  "task_workspace c task = snprintf_s 512 (runtimeRootPath c @ ''/'' @ t_taskId task)"

definition task_timeout :: "WtConfig \<Rightarrow> WtTaskSummary \<Rightarrow> int" where
  "task_timeout c task =
     (let t = (if t_timeoutSeconds task > 0 then t_timeoutSeconds task else adapterTimeoutSeconds c) in
      if t \<le> 0 then 1800 else t)"

definition task_max_output :: "WtConfig \<Rightarrow> WtTaskSummary \<Rightarrow> int" where
  "task_max_output c task =
     (let n = (if t_maxOutputBytes task > 0 then t_maxOutputBytes task else adapterMaxOutputBytes c) in
      if n \<le> 0 then 1048576 else n)"

definition adapter_exit_code :: "(int \<Rightarrow> int option) \<Rightarrow> wait_result \<Rightarrow> int" where
  "adapter_exit_code exit_status r =
     (if w_cancelled r then 130 else if w_timedOut r then 124
      else (case exit_status (w_status r) of Some code \<Rightarrow> code | None \<Rightarrow> 125))"

definition adapter_final_status :: "wait_result \<Rightarrow> int \<Rightarrow> string" where
  "adapter_final_status r exitCode = (if w_cancelled r then ''cancelled'' else if exitCode = 0 then ''complete'' else ''failed'')"

definition adapter_retry_cause :: "wait_result \<Rightarrow> int \<Rightarrow> string" where
  "adapter_retry_cause r exitCode =
     (if w_cancelled r then ''operator_cancel''
      else if exitCode \<noteq> 0 then
        (if w_timedOut r then ''timeout'' else if exitCode = 127 then ''adapter_unavailable'' else ''exit_nonzero'')
      else [])"

definition bool_text :: "bool \<Rightarrow> string" where
  "bool_text b = (if b then ''true'' else ''false'')"

definition codex_prompt :: "WtTaskSummary \<Rightarrow> string" where
  "codex_prompt task = snprintf_s 4096
     (''You are a WovenTeam Codex adapter worker running in an isolated per-task workspace.'' @ [NL, NL] @
      ''Task ID: '' @ t_taskId task @ [NL] @ ''Role: '' @ t_assignedRole task @ [NL] @
      ''Tool policy: '' @ t_toolProfile task @ [NL, NL] @
      ''Task title: '' @ t_title task @ [NL, NL] @ ''Task body:'' @ [NL] @ t_body task @ [NL, NL] @
      ''Write your final result as a concise implementation/report note. '' @
      ''Do not modify the WovenTeam repository from this adapter workspace.'')"

definition cli_prompt :: "string \<Rightarrow> string \<Rightarrow> WtTaskSummary \<Rightarrow> string" where
  "cli_prompt agentName adapterName task = snprintf_s 4096
     (''You are WovenTeam agent '' @ agentName @ '' running the '' @ adapterName @ '' artifact adapter.'' @ [NL, NL] @
      ''Task ID: '' @ t_taskId task @ [NL] @ ''Role: '' @ t_assignedRole task @ [NL] @
      ''Tool policy: '' @ t_toolProfile task @ [NL, NL] @
      ''Task title: '' @ t_title task @ [NL, NL] @ ''Task body:'' @ [NL] @ t_body task @ [NL, NL] @
      ''Produce a concise result artifact. Do not modify the WovenTeam repository.'')"

text \<open>The arguments of \<open>exec\<close>, without the trailing null.\<close>

definition codex_argv :: "WtConfig \<Rightarrow> bool \<Rightarrow> string \<Rightarrow> string \<Rightarrow> string \<Rightarrow> string list" where
  "codex_argv c elevated workspace resultPath prompt =
     [gptCommand c, ''exec'', ''--ephemeral'', ''--skip-git-repo-check'', ''--cd'', workspace] @
     (if elevated then [''--dangerously-bypass-approvals-and-sandbox''] else [''--sandbox'', ''workspace-write'']) @
     [''--output-last-message'', resultPath, prompt]"

definition cli_argv :: "string \<Rightarrow> string \<Rightarrow> bool \<Rightarrow> string \<Rightarrow> string list" where
  "cli_argv adapterName command elevated prompt =
     (if adapterName = ''claude'' then
        (if elevated then [command, ''--dangerously-skip-permissions'', ''--bare'', ''--print'', prompt]
         else [command, ''--bare'', ''--print'', prompt])
      else if adapterName = ''gemini'' then
        [command, ''--skip-trust'', ''--approval-mode'', (if elevated then ''yolo'' else ''plan''),
         ''--output-format'', ''text'', ''--prompt'', prompt]
      else [command, prompt])"

definition json_line :: "string \<Rightarrow> string \<Rightarrow> string" where
  "json_line key literal = ''  '' @ [DQ] @ key @ [DQ] @ '': '' @ literal"

definition json_text :: "string \<Rightarrow> string" where
  "json_text s = [DQ] @ s @ [DQ]"

definition manifest_text :: "(string \<times> string) list \<Rightarrow> string" where
  "manifest_text lines = snprintf_s 4096
     (''{'' @ [NL] @ concat (map (\<lambda>(k, v). json_line k v @ '','' @ [NL]) (butlast lines)) @
      (case last lines of (k, v) \<Rightarrow> json_line k v @ [NL]) @ ''}'' @ [NL])"

definition adapter_manifest ::
    "string \<Rightarrow> string \<Rightarrow> WtTaskSummary \<Rightarrow> int \<Rightarrow> int \<Rightarrow> string \<Rightarrow> (string \<times> string) list \<Rightarrow> bool \<Rightarrow> int \<Rightarrow> string" where
  "adapter_manifest adapterName command task timeoutSeconds maxOutputBytes workspace paths timedOut exitCode =
     manifest_text
       ([(''schema'', json_text ''woventeam.adapter_manifest.v0.1''), (''taskId'', json_text (t_taskId task)),
         (''adapter'', json_text adapterName), (''command'', json_text command),
         (''toolProfile'', json_text (t_toolProfile task)), (''timeoutSeconds'', show_int timeoutSeconds),
         (''maxOutputBytes'', show_int maxOutputBytes), (''workspace'', json_text workspace)] @
        map (\<lambda>(k, p). (k, json_text p)) paths @
        [(''timedOut'', bool_text timedOut), (''exitCode'', show_int exitCode)])"

text \<open>Capping and redacting the output files, in the order of the paths.\<close>

definition clean_outputs :: "adapter_env \<Rightarrow> int \<Rightarrow> string list \<Rightarrow> (string \<Rightarrow> log_file) \<Rightarrow> (string \<Rightarrow> log_file)" where
  "clean_outputs env maxBytes paths fs =
     fold (\<lambda>p fs. fs(p := redactFileInPlace (ae_file_fault env p) (ae_alloc env) maxBytes (fs p))) paths
       (fold (\<lambda>p fs. fs(p := capFileSize maxBytes (fs p))) paths fs)"

definition put_file :: "adapter_env \<Rightarrow> string \<Rightarrow> string \<Rightarrow> (string \<Rightarrow> log_file) \<Rightarrow> (string \<Rightarrow> log_file)" where
  "put_file env p content fs = fs(p := snd (writeTextFile (ae_file_fault env p) content (fs p)))"

text \<open>The texts in which the two adapter functions differ, and what each does with the output files.\<close>

record adapter_kind =
  ak_name :: string
  ak_label :: string
  ak_class :: string
  ak_room_start :: string
  ak_argv :: "bool \<Rightarrow> string list"
  ak_outputs :: "wait_result \<Rightarrow> int \<Rightarrow> (string \<Rightarrow> log_file) \<Rightarrow> (string \<Rightarrow> log_file)"

definition adapter_report :: "WtConfig \<Rightarrow> string \<Rightarrow> WtTaskSummary \<Rightarrow> adapter_env \<Rightarrow> adapter_kind \<Rightarrow> bool \<Rightarrow> string \<Rightarrow> string
      \<Rightarrow> wait_result \<Rightarrow> agent_world \<Rightarrow> int \<times> agent_world" where
  "adapter_report c agentName task env kind elevated level why r w =
     (let t = t_taskId task; actor = snprintf_s 128 (''wt-agent@'' @ agentName); sync = fsyncEachMessage c;
          exitCode = adapter_exit_code (ae_exit_status env) r;
          workspace = task_workspace c task;
          w1 = w \<lparr> w_files := ak_outputs kind r exitCode (w_files w) \<rparr>;
          message = snprintf_s 1024 (ak_label kind @ '' adapter exitCode='' @ show_int exitCode @ '' timedOut='' @
            bool_text (w_timedOut r) @ '' cancelled='' @ bool_text (w_cancelled r) @ ''; see task workspace manifest.'');
          finalStatus = adapter_final_status r exitCode;
          w2 = snd (to_ledger (ae_moments env 4) (\<lambda>f ms. wtTaskAppendStatusEventWithCause f sync ms t finalStatus actor message
                 (adapter_retry_cause r exitCode)) w1);
          w3 = snd (to_ledger (ae_moments env 5) (\<lambda>f ms. wtTaskAppendAutonomyEvent f sync ms t (Some actor) (ak_name kind)
                 (if elevated then ''adapter_exit_elevated'' else ''adapter_exit'') (ak_class kind) level why elevated exitCode) w2);
          detail = snprintf_s 1024 (ak_name kind @ '' adapter exitCode='' @ show_int exitCode @ '' workspace='' @ workspace);
          w4 = snd (appendAgentTaskMessage c (ae_moments env 6) agentName task ''task.result'' finalStatus detail w3)
      in (if exitCode = 0 then 0 else 1, w4))"

definition run_adapter :: "WtConfig \<Rightarrow> string \<Rightarrow> WtTaskSummary \<Rightarrow> adapter_env \<Rightarrow> adapter_kind \<Rightarrow> string \<Rightarrow> agent_world
      \<Rightarrow> adapter_outcome option" where
  "run_adapter c agentName task env kind prompt w =
     (let t = t_taskId task; actor = snprintf_s 128 (''wt-agent@'' @ agentName); sync = fsyncEachMessage c;
          promptPath = workspace_file (task_workspace c task) ''prompt.md'';
          (prompted, promptFile) = writeTextFile (ae_prompt_fault env) prompt (w_files w promptPath) in
      if \<not> ae_workspace env then Some \<lparr> ao_rc = 1, ao_argv = [], ao_world = w \<rparr>
      else if \<not> prompted then Some \<lparr> ao_rc = 1, ao_argv = [], ao_world = w \<rparr>
      else
        (let w0 = read_ledger (ae_moments env 0) (w \<lparr> w_files := (w_files w)(promptPath := promptFile) \<rparr>);
             (elevated, level, why) = autonomyGrantActive c (ae_clean env) agentName task (ak_name kind) (ae_now_ms env)
               WT_TASK_POLICY_SIZE 256 (w_ledger w0);
             w1 = snd (to_ledger (ae_moments env 1) (\<lambda>f ms. wtTaskAppendAutonomyEvent f sync ms t (Some actor) (ak_name kind)
                    (if elevated then ''adapter_invocation_elevated'' else ''adapter_invocation'') (ak_class kind) level why elevated (-1)) w0);
             w2 = snd (to_ledger (ae_moments env 2) (\<lambda>f ms. wtTaskAppendStatusEvent f sync ms t ''running'' actor
                    (snprintf_s 512 (ak_label kind @ '' adapter started for taskId='' @ t))) w1);
             w3 = snd (appendAgentTaskMessage c (ae_moments env 3) agentName task ''task.status'' ''running'' (ak_room_start kind) w2)
         in if \<not> ae_forks env then Some \<lparr> ao_rc = 1, ao_argv = [], ao_world = w3 \<rparr>
            else map_option (\<lambda>(result, l).
                   (let w4 = w3 \<lparr> w_ledger := l,
                               w_files := (\<lambda>p. case ae_child_files env p of None \<Rightarrow> w_files w3 p | Some s \<Rightarrow> Some s) \<rparr> in
                    case result of
                      None \<Rightarrow> \<lparr> ao_rc = 1, ao_argv = ak_argv kind elevated, ao_world = w4 \<rparr>
                    | Some r \<Rightarrow>
                        (case adapter_report c agentName task env kind elevated level why r w4 of
                           (rc, w5) \<Rightarrow> \<lparr> ao_rc = rc, ao_argv = ak_argv kind elevated, ao_world = w5 \<rparr>)))
                 (waitForAdapterChild c agentName t (task_timeout c task) (ae_start env) (ae_ticks env) (w_ledger w3))))"

definition codex_kind :: "WtConfig \<Rightarrow> WtTaskSummary \<Rightarrow> adapter_env \<Rightarrow> adapter_kind" where
  "codex_kind c task env =
     (let ws = task_workspace c task; maxBytes = task_max_output c task;
          out = workspace_file ws ''stdout.log''; err = workspace_file ws ''stderr.log''; res = workspace_file ws ''result.md'' in
      \<lparr> ak_name = ''codex'', ak_label = ''Codex'', ak_class = ''codex-cli'', ak_room_start = ''codex adapter started'',
        ak_argv = (\<lambda>elevated. codex_argv c elevated ws res (codex_prompt task)),
        ak_outputs = (\<lambda>r exitCode fs.
          put_file env (workspace_file ws ''manifest.json'')
            (adapter_manifest ''codex'' (gptCommand c) task (task_timeout c task) maxBytes ws
               [(''stdout'', out), (''stderr'', err), (''result'', res)] (w_timedOut r) exitCode)
            (clean_outputs env maxBytes [out, err, res] fs)) \<rparr>)"

definition runCodexAdapter :: "WtConfig \<Rightarrow> string \<Rightarrow> WtTaskSummary \<Rightarrow> adapter_env \<Rightarrow> agent_world \<Rightarrow> adapter_outcome option" where
  "runCodexAdapter c agentName task env w = run_adapter c agentName task env (codex_kind c task env) (codex_prompt task) w"

definition cli_result :: "string \<Rightarrow> int \<Rightarrow> log_file \<Rightarrow> string" where
  "cli_result adapterName maxBytes stdoutFile =
     (let snippet = readFileSnippet stdoutFile (if maxBytes < 2000 then maxBytes else 2000) 2048 in
      if snippet = [] then snprintf_s 2048 (adapterName @ '' adapter produced no stdout result.'') else snippet)"

definition cli_kind :: "WtConfig \<Rightarrow> string \<Rightarrow> WtTaskSummary \<Rightarrow> adapter_env \<Rightarrow> string \<Rightarrow> string \<Rightarrow> adapter_kind" where
  "cli_kind c agentName task env adapterName command =
     (let ws = task_workspace c task; maxBytes = task_max_output c task; promptPath = workspace_file ws ''prompt.md'';
          out = workspace_file ws ''stdout.log''; err = workspace_file ws ''stderr.log''; res = workspace_file ws ''result.md'' in
      \<lparr> ak_name = adapterName, ak_label = adapterName, ak_class = snprintf_s 128 (adapterName @ ''-cli''),
        ak_room_start = snprintf_s 512 (adapterName @ '' adapter started for taskId='' @ t_taskId task),
        ak_argv = (\<lambda>elevated. cli_argv adapterName command elevated (cli_prompt agentName adapterName task)),
        ak_outputs = (\<lambda>r exitCode fs.
          (let fs1 = clean_outputs env maxBytes [out, err] fs;
               fs2 = put_file env res (cli_result adapterName maxBytes (fs1 out)) fs1
           in put_file env (workspace_file ws ''manifest.json'')
                (adapter_manifest adapterName command task (task_timeout c task) maxBytes ws
                   [(''prompt'', promptPath), (''stdout'', out), (''stderr'', err), (''result'', res)] (w_timedOut r) exitCode)
                fs2)) \<rparr>)"

definition runCliArtifactAdapter ::
    "WtConfig \<Rightarrow> string \<Rightarrow> WtTaskSummary \<Rightarrow> adapter_env \<Rightarrow> string \<Rightarrow> string \<Rightarrow> agent_world \<Rightarrow> adapter_outcome option" where
  "runCliArtifactAdapter c agentName task env adapterName command w =
     run_adapter c agentName task env (cli_kind c agentName task env adapterName command) (cli_prompt agentName adapterName task) w"

section \<open>An assigned task\<close>

record task_env =
  te_moments :: "nat \<Rightarrow> moment"
  te_now_ms :: int
  te_adapter :: adapter_env

definition lease_duration :: "WtConfig \<Rightarrow> int" where
  "lease_duration c = positive_or (leaseDurationSeconds c) 900"

text \<open>The stub path: two status events, each followed by its room message.\<close>

definition stub_step :: "WtConfig \<Rightarrow> moment \<Rightarrow> moment \<Rightarrow> string \<Rightarrow> WtTaskSummary \<Rightarrow> string \<Rightarrow> string \<Rightarrow> string \<Rightarrow> string
      \<Rightarrow> agent_world \<Rightarrow> bool \<times> agent_world" where
  "stub_step c m1 m2 agentName task status message msgType detail w =
     (let actor = snprintf_s 128 (''wt-agent@'' @ agentName);
          (ok, w1) = to_ledger m1 (\<lambda>f ms. wtTaskAppendStatusEvent f (fsyncEachMessage c) ms (t_taskId task) status actor message) w in
      if \<not> ok then (False, w1) else appendAgentTaskMessage c m2 agentName task msgType status detail w1)"

definition run_claimed :: "WtConfig \<Rightarrow> string \<Rightarrow> task_env \<Rightarrow> WtTaskSummary \<Rightarrow> agent_world \<Rightarrow> (int \<times> agent_world) option" where
  "run_claimed c agentName env task w =
     (let actor = snprintf_s 128 (''wt-agent@'' @ agentName);
          level = effectiveAutonomyLevel c agentName task WT_TASK_POLICY_SIZE;
          w1 = (if level = ''autonomous'' then
                  snd (to_ledger (te_moments env 5) (\<lambda>f ms. wtTaskAppendAutonomyEvent f (fsyncEachMessage c) ms (t_taskId task)
                    (Some actor) agentName ''grant_observed'' ''task-claim'' level
                    ''agent claim entered autonomous policy path'' True (-1)) w)
                else w) in
      if isCodexEligibleTask c agentName task then
        map_option (\<lambda>out. (ao_rc out, ao_world out)) (runCodexAdapter c agentName task (te_adapter env) w1)
      else if isCliArtifactEligibleTask c agentName task then
        map_option (\<lambda>out. (ao_rc out, ao_world out))
          (if agentName = ''claude''
           then runCliArtifactAdapter c agentName task (te_adapter env) ''claude'' (claudeCommand c) w1
           else runCliArtifactAdapter c agentName task (te_adapter env) ''gemini'' (geminiCommand c) w1)
      else
        (let (ok1, w2) = stub_step c (te_moments env 6) (te_moments env 7) agentName task ''running''
               ''Stub agent accepted assigned task.'' ''task.status'' ''stub agent accepted task'' w1 in
         if \<not> ok1 then Some (1, w2)
         else (let (ok2, w3) = stub_step c (te_moments env 8) (te_moments env 9) agentName task ''complete''
                 ''Stub agent completed the assignment path without harness execution.'' ''task.result''
                 ''assignment path verified; harness execution coming in Sprint 3'' w2 in
               Some (if ok2 then 0 else 1, w3))))"

definition reclaim_message :: "string \<Rightarrow> string \<Rightarrow> string" where
  "reclaim_message agentName holder = snprintf_s 256 (''Auto-reclaim by wt-agent@'' @ agentName @
     '' after lease expired (previous holder='' @ (if holder \<noteq> [] then holder else ''unknown'') @ '').'')"

definition handleAssignedTask :: "WtConfig \<Rightarrow> string \<Rightarrow> task_env \<Rightarrow> agent_world \<Rightarrow> (int \<times> agent_world) option" where
  "handleAssignedTask c agentName env w =
     (let now = te_now_ms env; sync = fsyncEachMessage c; w0 = read_ledger (te_moments env 0) w in
      if wtTaskAgentPaused (w_ledger w0) agentName then Some (0, w0)
      else (let w1 = read_ledger (te_moments env 1) w0 in
        case wtTaskFindClaimableForAgent (w_ledger w1) agentName now of
          None \<Rightarrow> Some (0, w1)
        | Some task \<Rightarrow>
            (let w2 = read_ledger (te_moments env 2) w1;
                 v = wtTaskFindActiveLease (w_ledger w2) (t_taskId task) WT_TASK_AGENT_SIZE in
             if lv_active v \<and> lv_expires v > now \<and> lv_holder v \<noteq> agentName then Some (0, w2)
             else
               (let (ok3, w3) =
                      (if lv_active v \<and> lv_expires v \<le> now then
                         to_ledger (te_moments env 3) (\<lambda>f ms. wtTaskAppendReclaimEvent f sync ms (t_taskId task) (lv_holder v) agentName
                           (Some ''lease_expired'')
                           (reclaim_message agentName (lv_holder v))) w2
                       else (True, w2)) in
                if \<not> ok3 then Some (1, w3)
                else (let (ok4, w4) = to_ledger (te_moments env 4) (\<lambda>f ms. wtTaskAppendLeaseEvent f sync ms (t_taskId task) agentName
                            (to_int32 (lv_attempt v + 1)) (sll (now + lease_duration c * 1000))) w3 in
                      if \<not> ok4 then Some (1, w4) else run_claimed c agentName env task w4)))))"

section \<open>One poll of the room\<close>

definition shouldHandle :: "string \<Rightarrow> WtMessage \<Rightarrow> int \<Rightarrow> bool" where
  "shouldHandle agentName message lastHandledId =
     (if messageId message \<le> lastHandledId then False
      else if \<not> (senderName message = ''ceo'' \<or> senderName message = ''system'') then False
      else if \<not> (targetName message = ''all'' \<or> targetName message = agentName) then False
      else True)"

definition buildStubReply :: "string \<Rightarrow> WtMessage \<Rightarrow> nat \<Rightarrow> string" where
  "buildStubReply agentName trigger bufferSize =
     snprintf_s bufferSize
       (if agentName = ''claude'' then
          ''[stub claude] I received messageId '' @ show_int (messageId trigger) @
          '' and can respond from the shared room transcript.''
        else if agentName = ''chatgpt'' then
          ''[stub chatgpt] I can see messageId '' @ show_int (messageId trigger) @
          '' in the same durable room state and will treat it as authoritative.''
        else
          ''[stub gemini] I confirm the message bus is working from shared transcript messageId '' @
          show_int (messageId trigger) @ ''.'')"

text \<open>The room part of \<open>handleOnce\<close>: return value, message answered (if a reply was stored), world.\<close>

definition answer_room :: "WtConfig \<Rightarrow> string \<Rightarrow> moment \<Rightarrow> moment \<Rightarrow> io_fault \<Rightarrow> agent_world \<Rightarrow> int \<times> int option \<times> agent_world" where
  "answer_room c agentName m1 m2 state_fault w =
     (let limit0 = (if contextMessageCount c > 0 then contextMessageCount c else 20);
          limit = (if limit0 > 256 then 256 else limit0);
          w1 = read_room m1 w;
          messages = wtRoomReadRecent (w_room w1) limit 256;
          lastHandledId = wtRoomReadAgentState (w_files w1) (roomLogPath c) agentName in
      case List.find (\<lambda>m. shouldHandle agentName m lastHandledId) (rev messages) of
        None \<Rightarrow> (0, None, w1)
      | Some m \<Rightarrow>
          (let (ok, w2) = to_room c m2 (wtMessageInit \<lparr>
                 roomName := snprintf_s WT_MESSAGE_NAME_SIZE (configRoomName c),
                 senderName := snprintf_s WT_MESSAGE_NAME_SIZE agentName,
                 targetName := ''ceo'', messageType := ''chat'', replyToMessageId := messageId m,
                 messageBody := buildStubReply agentName m WT_MESSAGE_BODY_SIZE \<rparr>) w1 in
           if \<not> ok then (1, None, w2)
           else (case wtRoomWriteAgentState state_fault (roomLogPath c) agentName (messageId m) (w_files w2) of
                   (stored, fs) \<Rightarrow> (if stored then 0 else 1, Some (messageId m), w2 \<lparr> w_files := fs \<rparr>))))"

record poll_env =
  pe_task :: task_env
  pe_read :: moment
  pe_reply :: moment
  pe_state_fault :: io_fault

definition handleOnce :: "WtConfig \<Rightarrow> string \<Rightarrow> poll_env \<Rightarrow> agent_world \<Rightarrow> (int \<times> int option \<times> agent_world) option" where
  "handleOnce c agentName env w =
     (case handleAssignedTask c agentName (pe_task env) w of
        None \<Rightarrow> None
      | Some (taskRc, w1) \<Rightarrow>
          (if taskRc \<noteq> 0 then Some (taskRc, None, w1)
           else Some (answer_room c agentName (pe_read env) (pe_reply env) (pe_state_fault env) w1)))"

text \<open>The \<open>--loop\<close> mode of \<open>main\<close>: polls until one fails; the result is the ids answered.\<close>

fun agent_loop :: "WtConfig \<Rightarrow> string \<Rightarrow> poll_env list \<Rightarrow> agent_world \<Rightarrow> int list" where
  "agent_loop c agentName [] w = []"
| "agent_loop c agentName (env # envs) w =
     (case handleOnce c agentName env w of
        None \<Rightarrow> []
      | Some (rc, answered, w') \<Rightarrow>
          (case answered of None \<Rightarrow> [] | Some i \<Rightarrow> [i]) @ (if rc \<noteq> 0 then [] else agent_loop c agentName envs w'))"

end
