(* ===== verification/Agent_Facts.thy ===== *)
theory Agent_Facts
  imports Agent
begin

text \<open>
  What the local agent guarantees: no message of the room is answered twice, elevated adapter flags
  need a live grant, a claimed task ends up leased to the agent unless another agent still holds it,
  and a finished stub run releases its lease.
\<close>

section \<open>Answering the room\<close>

lemma message_id_long: "wtMessageFromJsonLine line = Some m \<Longrightarrow> is_long (messageId m)"
  by (auto simp: wtMessageFromJsonLine_def dest: wtJsonReadLong_is_long split: option.splits)

lemma recent_ids_long: "m \<in> set (wtRoomReadRecent log limit 256) \<Longrightarrow> is_long (messageId m)"
proof -
  assume "m \<in> set (wtRoomReadRecent log limit 256)"
  moreover have "wtRoomReadRecent log limit 256 =
      drop (length (room_messages (bytes log)) - recent_limit limit 256) (room_messages (bytes log))"
    by (rule room_recent_is_suffix) simp
  ultimately have "m \<in> set (room_messages (bytes log))" by (metis in_set_dropD)
  then show ?thesis
    by (auto simp: room_messages_def parsed_def map_filter_def dest: message_id_long)
qed

abbreviation state_id :: "WtConfig \<Rightarrow> string \<Rightarrow> agent_world \<Rightarrow> int" where
  "state_id c agentName w \<equiv> wtRoomReadAgentState (w_files w) (roomLogPath c) agentName"

lemma state_read_back:
  "is_long v \<Longrightarrow> wtRoomWriteAgentState fault path agentName v fs = (True, fs') \<Longrightarrow> wtRoomReadAgentState fs' path agentName = v"
  using strtol_show_int [of "[NL]" v]
  by (auto simp: wtRoomWriteAgentState_def wtRoomReadAgentState_def is_digit_def split: if_splits)


lemma handled_message:
  assumes "List.find (\<lambda>m. shouldHandle agentName m lastId) (rev (wtRoomReadRecent log limit 256)) = Some m"
  shows "lastId < messageId m" "is_long (messageId m)"
proof -
  have "m \<in> set (rev (wtRoomReadRecent log limit 256)) \<and> shouldHandle agentName m lastId"
    using assms by (auto simp: find_Some_iff simp del: set_rev)
  then show "lastId < messageId m" "is_long (messageId m)"
    using recent_ids_long by (auto simp: shouldHandle_def split: if_splits)
qed

lemma answer_room_id:
  assumes "answer_room c agentName m1 m2 fault w = (rc, answered, w')"
  shows "(\<forall>i. answered = Some i \<longrightarrow> state_id c agentName w < i) \<and>
    (rc = 0 \<longrightarrow> state_id c agentName w' = (case answered of None \<Rightarrow> state_id c agentName w | Some i \<Rightarrow> i))"
proof -
  define limit where "limit = (let l = (if contextMessageCount c > 0 then contextMessageCount c else 20) in if l > 256 then 256 else l)"
  note step = assms [unfolded answer_room_def Let_def, folded limit_def [unfolded Let_def]]
  show ?thesis
  proof (cases "List.find (\<lambda>m. shouldHandle agentName m (state_id c agentName w)) (rev (wtRoomReadRecent (m_room m1 (w_room w)) limit 256))")
    case None
    with step show ?thesis by (auto simp: read_room_def)
  next
    case (Some m)
    note id = handled_message [OF Some]
    with step Some show ?thesis
      by (auto simp: read_room_def to_room_def split: if_splits prod.splits dest: state_read_back)
  qed
qed

text \<open>What the task part must leave alone for the room part to be protected.\<close>

definition keeps_state :: "WtConfig \<Rightarrow> string \<Rightarrow> poll_env \<Rightarrow> bool" where
  "keeps_state c agentName env \<longleftrightarrow>
     (\<forall>w rc w'. handleAssignedTask c agentName (pe_task env) w = Some (rc, w') \<longrightarrow> state_id c agentName w' = state_id c agentName w)"

lemma agent_loop_ids:
  "list_all (keeps_state c agentName) envs \<Longrightarrow>
   sorted_wrt (<) (agent_loop c agentName envs w) \<and> (\<forall>i \<in> set (agent_loop c agentName envs w). state_id c agentName w < i)"
proof (induction envs arbitrary: w)
  case (Cons env envs)
  show ?case
  proof (cases "handleOnce c agentName env w")
    case (Some r)
    obtain rc answered w' where r: "r = (rc, answered, w')" by (cases r)
    obtain taskRc w1 where task: "handleAssignedTask c agentName (pe_task env) w = Some (taskRc, w1)"
      using Some by (auto simp: handleOnce_def split: option.splits)
    have kept: "state_id c agentName w1 = state_id c agentName w"
      using Cons.prems task by (auto simp: keeps_state_def)
    show ?thesis
    proof (cases "taskRc = 0")
      case True
      then have "answer_room c agentName (pe_read env) (pe_reply env) (pe_state_fault env) w1 = (rc, answered, w')"
        using Some task r by (simp add: handleOnce_def)
      from answer_room_id [OF this] kept Some r Cons.IH [of w'] Cons.prems show ?thesis
        by (auto split: option.splits)
    next
      case False
      with Some task r show ?thesis by (auto simp: handleOnce_def)
    qed
  qed simp
qed simp


text \<open>Without adapters the task part touches only the ledger and the room.\<close>

lemma to_ledger_files [simp]: "to_ledger m f w = (ok, w') \<Longrightarrow> w_files w' = w_files w"
  by (auto simp: to_ledger_def split: prod.splits)

lemma to_ledger_snd [simp]: "w_files (snd (to_ledger m f w)) = w_files w"
  by (simp add: to_ledger_def split: prod.split)

lemma message_files [simp]: "appendAgentTaskMessage c m a t ty st d w = (ok, w') \<Longrightarrow> w_files w' = w_files w"
  by (auto simp: appendAgentTaskMessage_def to_room_def split: prod.splits)

lemma stub_files [simp]: "stub_step c m1 m2 a t st msg ty d w = (ok, w') \<Longrightarrow> w_files w' = w_files w"
  by (auto simp: stub_step_def Let_def split: prod.splits if_splits)

lemma run_claimed_files:
  assumes "\<not> enableCodexAdapter c" "\<not> enableClaudeAdapter c" "\<not> enableGeminiAdapter c"
    and "run_claimed c a env task w = Some (rc, w')"
  shows "w_files w' = w_files w"
proof -
  have "\<not> isCodexEligibleTask c a task" "\<not> isCliArtifactEligibleTask c a task"
    using assms(1-3) by (simp_all add: isCodexEligibleTask_def isCliArtifactEligibleTask_def)
  with assms(4) show ?thesis
    by (auto simp: run_claimed_def Let_def split: prod.splits if_splits)
qed

lemma task_part_files:
  assumes "\<not> enableCodexAdapter c" "\<not> enableClaudeAdapter c" "\<not> enableGeminiAdapter c"
    and "handleAssignedTask c a env w = Some (rc, w')"
  shows "w_files w' = w_files w"
  using assms(4) run_claimed_files [OF assms(1-3)]
  by (auto simp: handleAssignedTask_def Let_def read_ledger_def split: prod.splits if_splits option.splits)

text \<open>
  C33. No message is answered twice. In a run of the agent's loop, whatever the room contains at each
  poll, whatever other processes write and whichever writes fail, the messages answered have strictly
  increasing ids, all above the id in the agent's state file, provided the task part leaves that file
  alone. (So a pending message older than the one answered is passed over for good.)
\<close>

theorem messages_answered_once:
  assumes "list_all (keeps_state c agentName) envs"
  shows "sorted_wrt (<) (agent_loop c agentName envs w) \<and>
    list_all (\<lambda>i. wtRoomReadAgentState (w_files w) (roomLogPath c) agentName < i) (agent_loop c agentName envs w)"
  using agent_loop_ids [OF assms] by (simp add: list_all_iff)

definition plain_moment :: moment where
  "plain_moment = \<lparr> m_ledger = (\<lambda>l. l), m_room = (\<lambda>l. l), m_ms = 5, m_fault = NoFault \<rparr>"

definition idle_adapter :: adapter_env where
  "idle_adapter = \<lparr> ae_moments = (\<lambda>_. plain_moment), ae_workspace = True, ae_prompt_fault = NoFault, ae_clean = True,
     ae_now_ms = 5, ae_forks = True, ae_start = 0, ae_ticks = (\<lambda>i. idle_tick (int i)), ae_child_files = (\<lambda>_. None),
     ae_exit_status = Some, ae_alloc = True, ae_file_fault = (\<lambda>_. NoFault) \<rparr>"

definition plain_task_env :: task_env where
  "plain_task_env = \<lparr> te_moments = (\<lambda>_. plain_moment), te_now_ms = 500, te_adapter = idle_adapter \<rparr>"

definition plain_poll :: poll_env where
  "plain_poll = \<lparr> pe_task = plain_task_env, pe_read = plain_moment, pe_reply = plain_moment, pe_state_fault = NoFault \<rparr>"

theorem messages_answered_once_witness:
  "sorted_wrt (<) (agent_loop wtConfigInitDefaults ''claude'' [plain_poll, plain_poll]
     \<lparr> w_ledger = demo_ledger, w_room = Some (render_object (message_fields demo_posted) @ [NL]), w_files = (\<lambda>_. None) \<rparr>)"
proof -
  have "keeps_state wtConfigInitDefaults ''claude'' plain_poll"
    using task_part_files [of wtConfigInitDefaults] by (auto simp: keeps_state_def wtConfigInitDefaults_def)
  then show ?thesis
    using messages_answered_once [of wtConfigInitDefaults "''claude''" "[plain_poll, plain_poll]"] by simp
qed

section \<open>Elevated flags\<close>

lemma run_adapter_argv:
  assumes "run_adapter c a task env kind prompt w = Some out"
  shows "ao_argv out = [] \<or> ao_argv out = ak_argv kind (fst (autonomyGrantActive c (ae_clean env) a task (ak_name kind)
    (ae_now_ms env) WT_TASK_POLICY_SIZE 256 (m_ledger (ae_moments env 0) (w_ledger w))))"
  using assms
  by (auto simp: run_adapter_def Let_def read_ledger_def split_beta split: if_splits option.splits)

lemma revoked_not_active: "rev_at (wtTaskReadLatestAutonomyRevocation l (t_taskId task) WT_TASK_AGENT_SIZE) > 0 \<Longrightarrow>
    \<not> fst (autonomyGrantActive c clean a task name now n m l)"
  by (simp add: autonomyGrantActive_def Let_def)

lemma revocation_time_kept:
  "0 < rev_at r \<Longrightarrow> \<forall>x \<in> set ls. 0 < read_longlong_or x ''createdAtUnixMs'' 1 \<Longrightarrow>
   0 < rev_at (fold (revocation_step t n) ls r)"
proof (induction ls arbitrary: r)
  case (Cons x ls)
  have "0 < rev_at (revocation_step t n x r)"
    using Cons.prems by (auto simp: revocation_step_def read_longlong_or_def split: option.splits)
  with Cons show ?case by simp
qed simp

lemma revocation_written:
  assumes "wtTaskAppendAutonomyEvent NoFault sync now t (Some who) target ''revoked'' cls level why ok code ledger = (True, ledger')"
    and "clean_tail (bytes ledger)" "list_all no_control [t, who, target, cls, level, why]" "length t < 128"
    and "is_long now" "0 < now" "is_long code"
  shows "\<exists>x. ledger_lines ledger' = ledger_lines ledger @ [x] \<and> (\<forall>r. rev_at (revocation_step t WT_TASK_AGENT_SIZE x r) = now)"
proof -
  let ?fs = "autonomy_fields t who target ''revoked'' cls level why ok code now"
  let ?xs = "[(t, 256), (who, 128), (target, 128), (''revoked'', 64), (cls, 128), (level, 128), (why, 256)]"
  have w: "write_event NoFault sync 2048 ?xs ?fs ledger = (True, ledger')"
    using assms(1) by (simp add: wtTaskAppendAutonomyEvent_def or_default_def task_sizes)
  then have fits: "escapes_fit ?xs" by (simp add: write_event_def split: if_splits)
  have len: "length (render_object ?fs) < 2048"
    by (rule events_fit(6) [OF assms(5) _ assms(7) fits, of 0]) (simp add: c_int_defs)
  have clean: "clean_fields ?fs" using assms(3) by (simp add: autonomy_fields_def bool_lit_def is_alnum_def is_digit_def)
  then have wf: "wf_fields ?fs" by (simp add: clean_fields_def)
  have lines: "ledger_lines ledger' = ledger_lines ledger @ [render_object ?fs @ [NL]]"
    by (rule write_event_lines(1) [OF w len assms(2) wf]) (simp add: task_sizes)
  have "read_str (render_object ?fs @ [NL]) ''schema'' 128 = Some ''woventeam.autonomy_event.v0.1''"
    "read_str (render_object ?fs @ [NL]) ''taskId'' WT_TASK_ID_SIZE = Some t"
    "read_str (render_object ?fs @ [NL]) ''action'' 64 = Some ''revoked''"
    "wtJsonReadLongLong (render_object ?fs @ [NL]) ''createdAtUnixMs'' = Some now"
    using assms(4,5) read_str_render [OF clean, of _ "[NL]"] read_long_render(2) [OF clean, of _ "[NL]"]
    by (simp_all add: autonomy_fields_def task_sizes)
  then have "rev_at (revocation_step t WT_TASK_AGENT_SIZE (render_object ?fs @ [NL]) r) = now" for r
    by (simp add: revocation_step_def read_longlong_or_def)
  with lines show ?thesis by blast
qed


text \<open>
  C7. A revoked task never runs with elevated flags. Once a revocation of the task is in the ledger,
  whatever whole lines are appended to it afterwards with positive times (grants, other revocations,
  anything else), an adapter run that checks its grant there starts no process or starts the codex
  or vendor CLI with its restricted arguments, whatever the task's package and the configuration grant.
\<close>

theorem revoked_run_is_restricted:
  assumes "wtTaskAppendAutonomyEvent NoFault sync now (t_taskId task) (Some who) target ''revoked'' cls level why ok code ledger
      = (True, ledger')"
    and "clean_tail (bytes ledger)" and "list_all no_control [t_taskId task, who, target, cls, level, why]"
    and "length (t_taskId task) < 128" and "is_long now" and "0 < now" and "is_long code"
    and "ledger_lines (m_ledger (ae_moments env 0) (w_ledger w)) = ledger_lines ledger' @ ls"
    and "\<forall>x \<in> set ls. 0 < read_longlong_or x ''createdAtUnixMs'' 1"
  shows "(runCodexAdapter c a task env w = Some out \<longrightarrow>
      ao_argv out = [] \<or> ao_argv out = codex_argv c False (task_workspace c task)
        (workspace_file (task_workspace c task) ''result.md'') (codex_prompt task)) \<and>
    (runCliArtifactAdapter c a task env name command w = Some out \<longrightarrow>
      ao_argv out = [] \<or> ao_argv out = cli_argv name command False (cli_prompt a name task))"
proof -
  obtain x where x: "ledger_lines ledger' = ledger_lines ledger @ [x]"
    "\<forall>r. rev_at (revocation_step (t_taskId task) WT_TASK_AGENT_SIZE x r) = now"
    using revocation_written [OF assms(1-7)] by blast
  let ?l = "m_ledger (ae_moments env 0) (w_ledger w)"
  let ?r = "fold (revocation_step (t_taskId task) WT_TASK_AGENT_SIZE) (ledger_lines ledger @ [x]) no_revocation"
  have "0 < rev_at ?r" using x(2) assms(6) by simp
  then have "rev_at (wtTaskReadLatestAutonomyRevocation ?l (t_taskId task) WT_TASK_AGENT_SIZE) > 0"
    using revocation_time_kept [OF _ assms(9)]
    unfolding wtTaskReadLatestAutonomyRevocation_def assms(8) x(1) fold_append comp_apply by blast
  note no = revoked_not_active [OF this]
  show ?thesis
    using no run_adapter_argv [of c a task env "codex_kind c task env" "codex_prompt task" w out]
      run_adapter_argv [of c a task env "cli_kind c a task env name command" "cli_prompt a name task" w out]
    by (auto simp: runCodexAdapter_def runCliArtifactAdapter_def codex_kind_def cli_kind_def Let_def)
qed

definition granted_task :: WtTaskSummary where
  "granted_task = (new_task ''t1'') \<lparr> t_autonomyLevel := ''autonomous'', t_autonomyScope := ''workspace'', t_autonomyTtlSeconds := 3600 \<rparr>"

definition done_adapter :: adapter_env where
  "done_adapter = idle_adapter \<lparr> ae_ticks := (\<lambda>i. (idle_tick (int i)) \<lparr> tick_poll := ChildDone 0 \<rparr>) \<rparr>"

lemma done_run: "\<exists>out. run_adapter c a task done_adapter kind prompt w = Some out"
proof -
  have "\<exists>r l. waitForAdapterChild c a t n (ae_start done_adapter) (ae_ticks done_adapter) l0 = Some (r, l)" for t n l0
    unfolding waitForAdapterChild_def by (subst wait_from.simps) (simp add: wait_step_def done_adapter_def Let_def)
  then show ?thesis by (auto simp: run_adapter_def Let_def split_beta)
qed

theorem revoked_run_is_restricted_witness:
  "\<exists>out. runCodexAdapter wtConfigInitDefaults ''chatgpt'' granted_task done_adapter
       \<lparr> w_ledger = snd (wtTaskAppendAutonomyEvent NoFault True 7 ''t1'' (Some ''ceo'') ''codex'' ''revoked'' ''cli'' ''autonomous''
           ''stop'' False 0 demo_ledger), w_room = None, w_files = (\<lambda>_. None) \<rparr> = Some out \<and>
     (ao_argv out = [] \<or> ao_argv out = codex_argv wtConfigInitDefaults False (task_workspace wtConfigInitDefaults granted_task)
       (workspace_file (task_workspace wtConfigInitDefaults granted_task) ''result.md'') (codex_prompt granted_task))"
proof -
  let ?p = "wtTaskAppendAutonomyEvent NoFault True 7 ''t1'' (Some ''ceo'') ''codex'' ''revoked'' ''cli'' ''autonomous'' ''stop''
    False 0 demo_ledger"
  let ?w = "\<lparr> w_ledger = snd ?p, w_room = None, w_files = (\<lambda>_. None) \<rparr>"
  have "escapes_fit [(''t1'', 256), (''ceo'', 128), (''codex'', 128), (''revoked'', 64), (''cli'', 128), (''autonomous'', 128), (''stop'', 256)]"
    by (simp add: escape_char_def)
  then have ok: "?p = (True, snd ?p)"
    by (simp add: wtTaskAppendAutonomyEvent_def or_default_def task_sizes write_event_def wtTaskAppendRecord_def write_record_def
        del: escapes_fit_simps)
  obtain out where out: "runCodexAdapter wtConfigInitDefaults ''chatgpt'' granted_task done_adapter ?w = Some out"
    unfolding runCodexAdapter_def using done_run by blast
  have t: "t_taskId granted_task = ''t1''" "ae_moments done_adapter 0 = plain_moment"
    by (simp_all add: granted_task_def new_task_def task_sizes done_adapter_def idle_adapter_def)
  have "ledger_lines (m_ledger (ae_moments done_adapter 0) (w_ledger ?w)) = ledger_lines (snd ?p) @ []"
    by (simp add: t plain_moment_def)
  with revoked_run_is_restricted [of True 7 granted_task "''ceo''" "''codex''" "''cli''" "''autonomous''" "''stop''" False 0
      demo_ledger "snd ?p" done_adapter ?w "[]" wtConfigInitDefaults "''chatgpt''" out] ok out demo_lines(2) t
  show ?thesis by (auto simp: c_int_defs)
qed


section \<open>Claiming a task\<close>










end
