(* ===== verification/Notify.thy ===== *)
theory Notify
  imports Security Json Append_File
begin

text \<open>
  Outgoing notifications, \<^verbatim>\<open>src/src/wt_notify.c\<close>: the lookup of the webhook address in the keyed file
  and the message that is posted, redacted, as JSON.

  The shell is outside the model: the result is the command line handed to it and the content of the
  temporary file the command reads.
\<close>

section \<open>The keyed file\<close>

text \<open>One line: the address when the line is for the key.\<close>

definition webhook_line :: "string \<Rightarrow> string \<Rightarrow> string option" where
  "webhook_line key line =
     (case skip_space line of
        [] \<Rightarrow> None
      | c # cs \<Rightarrow>
          (if c = CHR ''#'' then None
           else case strchr (c # cs) (CHR ''='') of
             None \<Rightarrow> None
           | Some equals \<Rightarrow>
               (if trim_end is_space (take (length (c # cs) - length equals) (c # cs)) = key
                then Some (trim_end is_space (skip_space (tl equals))) else None)))"

fun first_match :: "('a \<Rightarrow> 'b option) \<Rightarrow> 'a list \<Rightarrow> 'b option" where
  "first_match f [] = None"
| "first_match f (x # xs) = (case f x of Some y \<Rightarrow> Some y | None \<Rightarrow> first_match f xs)"

definition lookupWebhookUrl :: "log_file \<Rightarrow> string \<Rightarrow> nat \<Rightarrow> string option" where
  "lookupWebhookUrl f key urlSize =
     (case f of None \<Rightarrow> None
      | Some s \<Rightarrow> map_option (snprintf_s urlSize) (first_match (webhook_line key) (file_lines 1024 s)))"

section \<open>Sending\<close>

datatype notify_result = Skipped | NotSent | Posted (posted_command: string) (posted_body: string)

text \<open>The dash between title and message is U+2014 in UTF-8.\<close>

definition notice_text :: "string \<Rightarrow> string \<Rightarrow> string" where
  "notice_text title message = snprintf_s 2048 (title @ '' '' @ [CHR 0xE2, CHR 0x80, CHR 0x94] @ '' '' @ message)"

definition redacted_notice :: "string \<Rightarrow> string" where
  "redacted_notice combined = (case wtRedactSecrets combined 2048 of Some r \<Rightarrow> r | None \<Rightarrow> snprintf_s 2048 ''[redacted]'')"

definition notify_url :: "string option \<Rightarrow> log_file \<Rightarrow> string \<Rightarrow> string option" where
  "notify_url override f key =
     (case override of
        Some (c # cs) \<Rightarrow> Some (snprintf_s 1024 (c # cs))
      | _ \<Rightarrow> (if key = [] then None
              else case lookupWebhookUrl f key 1024 of Some (c # cs) \<Rightarrow> Some (c # cs) | _ \<Rightarrow> None))"

text \<open>\<open>override\<close> is \<open>WT_NOTIFICATION_OVERRIDE_URL\<close>, \<open>tmp\<close> the path \<open>mkstemp\<close> made (\<open>None\<close>: it failed).\<close>

definition wtNotifySend :: "string option \<Rightarrow> log_file \<Rightarrow> string option \<Rightarrow> string \<Rightarrow> string \<Rightarrow> string \<Rightarrow> notify_result" where
  "wtNotifySend override f tmp key title message =
     (case notify_url override f key of
        None \<Rightarrow> Skipped
      | Some url \<Rightarrow>
          (case wtJsonEscape (redacted_notice (notice_text title message)) 4096 of
             None \<Rightarrow> NotSent
           | Some escaped \<Rightarrow>
               (case tmp of
                  None \<Rightarrow> NotSent
                | Some tmpPath \<Rightarrow>
                    Posted (snprintf_s 2048 (''curl -sS --max-time 5 -X POST -H '' @ [CHR 0x27] @ ''Content-Type: application/json'' @ [CHR 0x27] @
                              '' -d @'' @ tmpPath @ '' '' @ [CHR 0x27] @ url @ [CHR 0x27] @ '' >/dev/null 2>&1''))
                      (''{'' @ [DQ] @ ''text'' @ [DQ] @ '':'' @ [DQ] @ escaped @ [DQ] @ ''}''))))"

section \<open>What leaves the machine\<close>

lemma redacted_notice_no_secret: "no_secret (redacted_notice combined)"
proof (cases "wtRedactSecrets combined 2048")
  case None
  then show ?thesis by (simp add: redacted_notice_def looksSecretAt_def)
next
  case (Some r)
  then have "r = redact combined"
    using redact_loop_redact [of 2048 "[]" combined r] by (simp add: wtRedactSecrets_def split: if_splits)
  with Some show ?thesis by (simp add: redacted_notice_def no_secret_redact)
qed

text \<open>
  C31. No token leaves in a notification: the text in the posted JSON, decoded, has at no position one of
  the prefixes the redaction looks for (tokens and keys of the known services, the header of a PEM key),
  whatever the title and the message were. Of a PEM key only that header marker is replaced: the lines of
  the key behind it stay in the text (\<open>redaction_leaks_pem_body\<close>), and this property says nothing of them.
\<close>

theorem notification_redacted:
  assumes "wtNotifySend override f tmp key title message = Posted command body"
  shows "\<exists>r. no_secret r \<and> body = render_object [(''text'', JStr r)]"
proof -
  let ?r = "redacted_notice (notice_text title message)"
  have "body = ''{'' @ [DQ] @ ''text'' @ [DQ] @ '':'' @ [DQ] @ escape ?r @ [DQ] @ ''}''"
    using assms by (auto simp: wtNotifySend_def wtJsonEscape_spec split: option.splits if_splits)
  then have "body = render_object [(''text'', JStr ?r)]" by (simp add: render_object_def render_field_def)
  with redacted_notice_no_secret show ?thesis by blast
qed

theorem notification_redacted_witness:
  "\<exists>r. no_secret r \<and> posted_body (wtNotifySend (Some ''u'') None (Some ''/tmp/n'') '''' ''t'' ''ghp_x'') = render_object [(''text'', JStr r)]"
proof -
  have "wtNotifySend (Some ''u'') None (Some ''/tmp/n'') '''' ''t'' ''ghp_x'' =
      Posted (posted_command (wtNotifySend (Some ''u'') None (Some ''/tmp/n'') '''' ''t'' ''ghp_x''))
        (posted_body (wtNotifySend (Some ''u'') None (Some ''/tmp/n'') '''' ''t'' ''ghp_x''))"
    by code_simp
  from notification_redacted [OF this] show ?thesis .
qed

end
