(* ===== verification/Http_Request.thy ===== *)
theory Http_Request
  imports Json
begin

text \<open>
  Requests and responses of the daemon: \<^verbatim>\<open>src/src/wt_http.c\<close> and the request helpers of
  \<^verbatim>\<open>src/src/wt_roomd.c\<close> (\<open>requestHeaderValue\<close>, the body behind the blank line,
  \<open>compactJsonLine\<close>, \<open>appendJsonRaw\<close>, \<open>appendJsonStringValue\<close>, \<open>contentTypeForPath\<close>).

  The socket is the list of the byte counts \<open>recv\<close> has available at its successive calls and the
  bytes the peer sends; a request is the string in the buffer, which the code reads as a C string.
\<close>

definition CRLF :: string where "CRLF = [CR, NL]"

section \<open>Reading a request\<close>

text \<open>\<open>sscanf(s, "Content-Length: %d", &n)\<close> with \<open>n\<close> zero before it: the blank in the format skips any white space.\<close>

definition scan_content_length :: "string \<Rightarrow> int" where
  "scan_content_length s =
     (case strtol (drop (length ''Content-Length:'') s) of None \<Rightarrow> 0 | Some v \<Rightarrow> to_int32 v)"

text \<open>The test after each \<open>recv\<close>; the sum is computed in \<open>size_t\<close>.\<close>

definition request_complete :: "string \<Rightarrow> bool" where
  "request_complete buffer =
     (case strstr (cstr buffer) (CRLF @ CRLF) of
        None \<Rightarrow> False
      | Some headersEnd \<Rightarrow>
          (case strstr (cstr buffer) ''Content-Length:'' of
             None \<Rightarrow> True
           | Some contentLengthHeader \<Rightarrow>
               (let headerBytes = length (cstr buffer) - length headersEnd + 4 in
                (int headerBytes + scan_content_length contentLengthHeader) mod 2 ^ 64 \<le> int (length buffer))))"

fun read_request :: "nat \<Rightarrow> nat list \<Rightarrow> string \<Rightarrow> string \<Rightarrow> string" where
  "read_request bufferSize [] stream buffer = buffer"
| "read_request bufferSize (ready # arrivals) stream buffer =
     (if length buffer + 1 < bufferSize then
        (let piece = take (min ready (bufferSize - length buffer - 1)) stream in
         if piece = [] then buffer
         else if request_complete (buffer @ piece) then buffer @ piece
         else read_request bufferSize arrivals (drop (length piece) stream) (buffer @ piece))
      else buffer)"

definition wtHttpReadRequest :: "nat \<Rightarrow> nat list \<Rightarrow> string \<Rightarrow> string option" where
  "wtHttpReadRequest bufferSize arrivals stream =
     (let buffer = read_request bufferSize arrivals stream [] in if buffer = [] then None else Some buffer)"

section \<open>Sending a response\<close>

record http_response =
  statusCode :: int
  statusText :: string
  contentType :: string
  responseBody :: string

definition response_header :: "http_response \<Rightarrow> string" where
  "response_header r = ''HTTP/1.1 '' @ show_int (statusCode r) @ '' '' @ statusText r @ CRLF @
     ''Content-Type: '' @ contentType r @ CRLF @
     ''Content-Length: '' @ show_nat (length (responseBody r)) @ CRLF @
     ''Connection: close'' @ CRLF @ CRLF"

text \<open>The two \<open>send\<close> calls succeed or fail; the result is the return code and the bytes handed to the socket.\<close>

definition wtHttpSendBytes :: "bool \<Rightarrow> bool \<Rightarrow> http_response \<Rightarrow> int \<times> string" where
  "wtHttpSendBytes header_sent body_sent r =
     (if length (response_header r) \<ge> 512 then (-1, [])
      else if \<not> header_sent then (-1, [])
      else if responseBody r \<noteq> [] \<and> \<not> body_sent then (-1, response_header r)
      else (0, response_header r @ responseBody r))"

text \<open>\<open>wtHttpSendText\<close> takes the length of a C string; its callers pass what they printed.\<close>

definition wtHttpSendText :: "int \<Rightarrow> string \<Rightarrow> string \<Rightarrow> string \<Rightarrow> http_response" where
  "wtHttpSendText code reason kind body =
     \<lparr> statusCode = code, statusText = reason, contentType = kind, responseBody = cstr body \<rparr>"

definition contentTypeForPath :: "string \<Rightarrow> string" where
  "contentTypeForPath path =
     (if strstr path ''.css'' \<noteq> None then ''text/css; charset=utf-8''
      else if strstr path ''.js'' \<noteq> None then ''application/javascript; charset=utf-8''
      else if strstr path ''.html'' \<noteq> None then ''text/html; charset=utf-8''
      else ''text/plain; charset=utf-8'')"

text \<open>\<open>serveFile\<close> on the content of the file; allocation succeeds and the file does not change under the read.\<close>

definition serveFile :: "(string \<Rightarrow> string option) \<Rightarrow> string \<Rightarrow> http_response" where
  "serveFile fs path =
     (case fs path of
        None \<Rightarrow> wtHttpSendText 404 ''Not Found'' ''text/plain; charset=utf-8'' (''not found'' @ [NL])
      | Some content \<Rightarrow>
          (if length content > 1024 * 1024 then
             wtHttpSendText 500 ''Internal Server Error'' ''text/plain; charset=utf-8'' (''file error'' @ [NL])
           else \<lparr> statusCode = 200, statusText = ''OK'', contentType = contentTypeForPath path,
                  responseBody = content \<rparr>))"

section \<open>Parts of a request\<close>

text \<open>\<open>strstr(request, "\r\n\r\n") + 4\<close>.\<close>

definition request_body :: "string \<Rightarrow> string option" where
  "request_body request = map_option (drop 4) (strstr request (CRLF @ CRLF))"

definition lower_char :: "char \<Rightarrow> char" where
  "lower_char c = (if 65 \<le> (of_char c :: nat) \<and> (of_char c :: nat) \<le> 90 then char_of ((of_char c :: nat) + 32) else c)"

text \<open>\<open>strncasecmp(s, name, strlen(name)) == 0\<close>.\<close>

definition starts_with_nocase :: "string \<Rightarrow> string \<Rightarrow> bool" where
  "starts_with_nocase name s = starts_with (map lower_char name) (map lower_char s)"

text \<open>One header line without its end: the value when the name matches.\<close>

definition header_line_value :: "string \<Rightarrow> string \<Rightarrow> string option" where
  "header_line_value name line =
     (if starts_with_nocase name line \<and> starts_with '':'' (drop (length name) line)
      then Some (trim_end is_blank (dropWhile is_blank (drop (length name + 1) line)))
      else None)"

function header_scan :: "string \<Rightarrow> nat \<Rightarrow> string \<Rightarrow> string option" where
  "header_scan name bufferSize cursor =
     (case strstr cursor CRLF of
        None \<Rightarrow> None
      | Some lineEnd \<Rightarrow>
          (let line = take (length cursor - length lineEnd) cursor in
           if line = [] then None
           else case header_line_value name line of
                  Some v \<Rightarrow> Some (take (bufferSize - 1) v)
                | None \<Rightarrow> header_scan name bufferSize (drop 2 lineEnd)))"
  by pat_completeness auto
termination
proof (relation "measure (\<lambda>(_, _, s). length s)", goal_cases)
  case (2 name bufferSize cursor lineEnd line)
  then have "length lineEnd < length cursor" by (auto dest: strstr_Some)
  then show ?case by simp
qed simp

declare header_scan.simps [simp del]

definition requestHeaderValue :: "string \<Rightarrow> string \<Rightarrow> nat \<Rightarrow> string option" where
  "requestHeaderValue request headerName bufferSize = header_scan headerName bufferSize request"

section \<open>Bounded JSON output\<close>

fun compact_loop :: "nat \<Rightarrow> bool \<Rightarrow> bool \<Rightarrow> string \<Rightarrow> string \<Rightarrow> string" where
  "compact_loop outputSize inString escaped out [] = out"
| "compact_loop outputSize inString escaped out (v # cs) =
     (if length out + 1 \<ge> outputSize then out
      else if escaped then compact_loop outputSize inString False (out @ [v]) cs
      else if v = BSL \<and> inString then compact_loop outputSize inString True (out @ [v]) cs
      else if v = DQ then compact_loop outputSize (\<not> inString) False (out @ [v]) cs
      else if \<not> inString \<and> (v = NL \<or> v = CR \<or> v = TAB) then compact_loop outputSize inString False out cs
      else compact_loop outputSize inString False (out @ [v]) cs)"

definition compactJsonLine :: "string \<Rightarrow> nat \<Rightarrow> string" where
  "compactJsonLine input outputSize = compact_loop outputSize False False [] input"

text \<open>The buffer is its content; \<open>None\<close> is the return of -1, which leaves it as it was.\<close>

definition appendJsonRaw :: "nat \<Rightarrow> string \<Rightarrow> string \<Rightarrow> string option" where
  "appendJsonRaw bufferSize text buffer =
     (if length buffer + length text + 1 \<ge> bufferSize then None else Some (buffer @ text))"

text \<open>A refused piece keeps the pieces before it; the scratch buffer of the escaped text has at least 64 bytes.\<close>

definition appendJsonStringValue :: "nat \<Rightarrow> string \<Rightarrow> string \<Rightarrow> bool \<times> string" where
  "appendJsonStringValue bufferSize text buffer =
     (case wtJsonEscape text (max 64 (length text * 6 + 1)) of
        None \<Rightarrow> (False, buffer)
      | Some escaped \<Rightarrow>
          (case appendJsonRaw bufferSize [DQ] buffer of
             None \<Rightarrow> (False, buffer)
           | Some b1 \<Rightarrow>
               (case appendJsonRaw bufferSize escaped b1 of
                  None \<Rightarrow> (False, b1)
                | Some b2 \<Rightarrow>
                    (case appendJsonRaw bufferSize [DQ] b2 of None \<Rightarrow> (False, b2) | Some b3 \<Rightarrow> (True, b3)))))"

end
