(* ===== verification/Roomd_World.thy ===== *)
theory Roomd_World
  imports Http_Request Agent
begin

text \<open>
  What the request handlers of \<^verbatim>\<open>src/src/wt_roomd.c\<close> share: the world they work on (the files of
  \<open>agent_world\<close>, one \<open>moment\<close> per access as in the agent), the answers they send, the chain of appends
  joined by \<open>||\<close>, \<open>appendTaskRoomEvent\<close>, and the two chat handlers.

  A handler returns the response, the new world and the notifications it asked for; every handler
  sends exactly one response.
\<close>

section \<open>Answers\<close>

datatype notice = Notice (notice_key: string) (notice_title: string) (notice_message: string)

type_synonym served = "http_response \<times> agent_world \<times> notice list"

definition json_reply :: "int \<Rightarrow> string \<Rightarrow> string \<Rightarrow> http_response" where
  "json_reply code reason body = wtHttpSendText code reason ''application/json'' body"

definition ok_reply :: "nat \<Rightarrow> string \<Rightarrow> http_response" where
  "ok_reply n body = wtHttpSendText 200 ''OK'' ''application/json; charset=utf-8'' (snprintf_s n body)"

text \<open>A value that is printed between quotes as it is, without escaping.\<close>

definition raw_str :: "string \<Rightarrow> jval" where
  "raw_str s = JLit ([DQ] @ s @ [DQ])"

definition error_body :: "string \<Rightarrow> string" where
  "error_body e = render_object [(''ok'', JLit ''false''), (''error'', raw_str e)] @ [NL]"

definition not_ok_body :: string where
  "not_ok_body = render_object [(''ok'', JLit ''false'')] @ [NL]"

definition ok_body :: "(string \<times> jval) list \<Rightarrow> string" where
  "ok_body fs = render_object ((''ok'', JLit ''true'') # fs) @ [NL]"

definition bad_request :: "string \<Rightarrow> http_response" where
  "bad_request e = json_reply 400 ''Bad Request'' (error_body e)"

definition server_error :: "string \<Rightarrow> http_response" where
  "server_error e = json_reply 500 ''Internal Server Error'' (error_body e)"

definition missing_body :: http_response where
  "missing_body = json_reply 400 ''Bad Request'' not_ok_body"

text \<open>A request that is refused before anything was written.\<close>

definition refuse :: "http_response \<Rightarrow> agent_world \<Rightarrow> served" where
  "refuse r w = (r, w, [])"

section \<open>Appends\<close>

text \<open>\<open>a() != 0 || b() != 0 || ...\<close>: the appends up to the first that fails.\<close>

fun run_appends :: "(agent_world \<Rightarrow> bool \<times> agent_world) list \<Rightarrow> agent_world \<Rightarrow> bool \<times> agent_world" where
  "run_appends [] w = (True, w)"
| "run_appends (a # as) w = (case a w of (ok, w') \<Rightarrow> if ok then run_appends as w' else (False, w'))"

definition append_line :: "WtConfig \<Rightarrow> moment \<Rightarrow> string \<Rightarrow> agent_world \<Rightarrow> bool \<times> agent_world" where
  "append_line c m line w = to_ledger m (\<lambda>fault _. wtTaskAppendRecord fault (fsyncEachMessage c) line) w"

definition room_target :: "string \<Rightarrow> string" where
  "room_target who =
     (if who \<in> {''claude'', ''chatgpt'', ''gemini'', ''ceo'', ''all''} then who else ''all'')"

definition appendTaskRoomEvent ::
    "WtConfig \<Rightarrow> moment \<Rightarrow> string \<Rightarrow> string \<Rightarrow> string \<Rightarrow> string \<Rightarrow> string \<Rightarrow> agent_world \<Rightarrow> bool \<times> agent_world" where
  "appendTaskRoomEvent c m taskId target kind status title w =
     to_room c m (wtMessageInit \<lparr>
       roomName := snprintf_s WT_MESSAGE_NAME_SIZE (configRoomName c),
       senderName := ''system'',
       targetName := room_target target,
       messageType := snprintf_s WT_MESSAGE_TYPE_SIZE kind,
       messageBody := snprintf_s WT_MESSAGE_BODY_SIZE (''taskId='' @ taskId @ '' status='' @ status @
         '' title='' @ (if title \<noteq> [] then title else ''Untitled task'')) \<rparr>) w"

text \<open>
  Where a handler ignores the result of \<open>wtJsonEscape\<close>, a text that does not fit leaves its first
  pieces in the buffer without a terminator; \<open>junk\<close> is what the memory behind them holds.
\<close>

fun escape_partial :: "nat \<Rightarrow> string \<Rightarrow> string \<Rightarrow> string" where
  "escape_partial outputSize out [] = out"
| "escape_partial outputSize out (c # cs) =
     (if length out + length (escape_char c) + 1 > outputSize then out
      else escape_partial outputSize (out @ escape_char c) cs)"

definition escape_unchecked :: "string \<Rightarrow> string \<Rightarrow> nat \<Rightarrow> string" where
  "escape_unchecked junk s outputSize =
     (case wtJsonEscape s outputSize of Some t \<Rightarrow> t | None \<Rightarrow> escape_partial outputSize [] s @ junk)"

section \<open>Chat messages\<close>

definition handlePostMessage :: "WtConfig \<Rightarrow> (nat \<Rightarrow> moment) \<Rightarrow> string \<Rightarrow> agent_world \<Rightarrow> served" where
  "handlePostMessage c ms request w =
     (case request_body request of
        None \<Rightarrow> refuse missing_body w
      | Some body \<Rightarrow>
          (case (read_str body ''senderName'' WT_MESSAGE_NAME_SIZE, read_str body ''targetName'' WT_MESSAGE_NAME_SIZE,
                 read_str body ''messageType'' WT_MESSAGE_TYPE_SIZE, read_str body ''messageBody'' WT_MESSAGE_BODY_SIZE) of
             (Some sender, Some target, Some kind, Some text) \<Rightarrow>
               (let message = wtMessageInit \<lparr> roomName := snprintf_s WT_MESSAGE_NAME_SIZE (configRoomName c),
                      senderName := sender, targetName := target, messageType := kind, messageBody := text \<rparr> in
                if \<not> wtMessageValidateNames message then refuse (bad_request ''invalid message'') w
                else (case wtRoomAppendNewMessage (m_fault (ms 0)) (fsyncEachMessage c) (m_ms (ms 0)) message
                             (m_room (ms 0) (w_room w)) of
                        (ok, stored, log) \<Rightarrow>
                          (if \<not> ok then (server_error ''append failed'', w \<lparr> w_room := log \<rparr>, [])
                           else (ok_reply (WT_MESSAGE_JSON_SIZE + 32)
                                   (ok_body [(''message'', JLit (the (wtMessageToJson stored WT_MESSAGE_JSON_SIZE)))]),
                                 w \<lparr> w_room := log \<rparr>, []))))
           | _ \<Rightarrow> refuse (bad_request ''invalid message'') w))"

text \<open>
  The array of the recent messages, as many as fit. A message that cannot be printed leaves the
  uninitialised buffer of its round, \<open>junk i\<close>.
\<close>

fun messages_array :: "(nat \<Rightarrow> string) \<Rightarrow> nat \<Rightarrow> nat \<Rightarrow> string \<Rightarrow> WtMessage list \<Rightarrow> string" where
  "messages_array junk bodySize i out [] = out"
| "messages_array junk bodySize i out (m # ms) =
     (let json = (case wtMessageToJson m WT_MESSAGE_JSON_SIZE of Some j \<Rightarrow> j | None \<Rightarrow> junk i) in
      if length out + length json + 3 \<ge> bodySize then out
      else messages_array junk bodySize (i + 1) (out @ (if i > 0 then '','' else []) @ json) ms)"

definition sendMessagesJson :: "(nat \<Rightarrow> string) \<Rightarrow> log_file \<Rightarrow> int \<Rightarrow> http_response" where
  "sendMessagesJson junk log limit =
     wtHttpSendText 200 ''OK'' ''application/json; charset=utf-8''
       (messages_array junk (WT_MESSAGE_JSON_SIZE * 4) 0 ''['' (wtRoomReadRecent log limit 256) @ '']'')"

section \<open>What the appends leave alone\<close>

lemma append_line_room [simp]: "w_room (snd (append_line c m line w)) = w_room w"
  by (simp add: append_line_def to_ledger_def split: prod.split)

lemma append_line_files [simp]: "w_files (snd (append_line c m line w)) = w_files w"
  by (simp add: append_line_def to_ledger_def split: prod.split)

lemma to_room_ledger [simp]: "w_ledger (snd (to_room c m message w)) = w_ledger w"
  by (simp add: to_room_def split: prod.split)

lemma appendTaskRoomEvent_ledger [simp]: "w_ledger (snd (appendTaskRoomEvent c m t target kind status title w)) = w_ledger w"
  by (simp add: appendTaskRoomEvent_def)

lemma appendTaskRoomEvent_files [simp]: "w_files (snd (appendTaskRoomEvent c m t target kind status title w)) = w_files w"
  by (simp add: appendTaskRoomEvent_def to_room_def split: prod.split)

lemma run_appends_ok: "fst (run_appends (a # as) w) \<Longrightarrow> fst (a w) \<and> run_appends (a # as) w = run_appends as (snd (a w))"
  by (auto split: prod.splits if_splits)

end
