(* ===== verification/Roomd_Auth.thy ===== *)
theory Roomd_Auth
  imports Http_Request Security Policy Task_Scan
begin

text \<open>
  Who may do what at the daemon: the operator session, bearer tokens kept as issue and revoke records
  in the task ledger, and the address list, from \<^verbatim>\<open>src/src/wt_roomd.c\<close> (\<open>readFileToken\<close> to
  \<open>requireOperatorAuth\<close>, and \<open>makeToken\<close>).

  The two scans of the ledger are two reads of the file: other processes may append in between, so
  \<open>validateBearerToken\<close> gets the ledger twice. \<open>None\<close> is a ledger that could not be opened.
\<close>

section \<open>The operator session\<close>

definition peerIsLocal :: "string \<Rightarrow> bool" where
  "peerIsLocal peerIp \<longleftrightarrow> peerIp = ''127.0.0.1'' \<or> peerIp = ''::1''"

text \<open>The first line of the file without the white space at its end.\<close>

definition readFileToken :: "log_file \<Rightarrow> nat \<Rightarrow> string option" where
  "readFileToken f tokenSize =
     (case f of
        None \<Rightarrow> None
      | Some s \<Rightarrow>
          (if s = [] then None
           else (let token = trim_end (\<lambda>c. c = NL \<or> c = CR \<or> c = CHR '' '' \<or> c = TAB)
                               (cstr (fst (fgets_line (tokenSize - 1) s)))
                 in if token = [] then None else Some token)))"

definition bytesToHex :: "u8 list \<Rightarrow> nat \<Rightarrow> string" where
  "bytesToHex bs outSize =
     (if outSize < length bs * 2 + 1 then []
      else concat (map (\<lambda>b. [hex_nibble (drop_bit 4 b AND 0x0f), hex_nibble (b AND 0x0f)]) bs))"

text \<open>
  What \<open>makeToken\<close> takes from the system: the clock, sixteen and eight bytes of \<open>/dev/urandom\<close>
  (\<open>None\<close> when they cannot be read), the second and the process id.
\<close>

record token_source =
  ts_ms :: int
  ts_token :: "u8 list option"
  ts_id :: "u8 list option"
  ts_time :: int
  ts_pid :: int

definition makeToken :: "token_source \<Rightarrow> nat \<Rightarrow> nat \<Rightarrow> string \<times> string" where
  "makeToken src tokenSize tokenIdSize =
     (case (ts_token src, ts_id src) of
        (Some tokenEntropy, Some idEntropy) \<Rightarrow>
          (snprintf_s tokenSize (''wt_'' @ show_int (ts_ms src) @ ''_'' @ bytesToHex tokenEntropy 33),
           snprintf_s tokenIdSize (''tok_'' @ show_int (ts_ms src) @ ''_'' @ bytesToHex idEntropy 17))
      | _ \<Rightarrow>
          (snprintf_s tokenSize (''wt_'' @ show_int (ts_ms src) @ ''_unavailable_'' @ show_int (ts_time src) @ ''_'' @ show_int (ts_pid src)),
           snprintf_s tokenIdSize (''tok_'' @ show_int (ts_ms src) @ ''_'' @ show_int (ts_time src) @ ''_'' @ show_int (ts_pid src))))"

text \<open>The token and the session file; a failing \<open>open\<close> is \<open>OpenFails\<close>, the other results are not looked at.\<close>

definition ensureOperatorSession :: "io_fault \<Rightarrow> token_source \<Rightarrow> nat \<Rightarrow> log_file \<Rightarrow> string option \<times> log_file" where
  "ensureOperatorSession fault src tokenSize session =
     (case readFileToken session tokenSize of
        Some token \<Rightarrow> (Some token, session)
      | None \<Rightarrow>
          (let (token, _) = makeToken src tokenSize 64 in
           if fault = OpenFails then (None, session)
           else (Some token, Some (case fault of ShortWrite k \<Rightarrow> take k (token @ [NL]) | _ \<Rightarrow> token @ [NL]))))"

definition cookie_stop :: "char \<Rightarrow> bool" where
  "cookie_stop c \<longleftrightarrow> c = CHR '';'' \<or> c = CHR '' '' \<or> c = TAB \<or> c = CR \<or> c = NL"

definition session_cookie :: "string \<Rightarrow> nat \<Rightarrow> string option" where
  "session_cookie cookie tokenSize =
     (case strstr cookie ''wt_operator_session='' of
        None \<Rightarrow> None
      | Some hit \<Rightarrow>
          (let token = take (tokenSize - 1) (takeWhile (\<lambda>c. \<not> cookie_stop c) (drop (length ''wt_operator_session='') hit))
           in if token = [] then None else Some token))"

definition extractOperatorSession :: "string \<Rightarrow> nat \<Rightarrow> string option" where
  "extractOperatorSession request tokenSize =
     (case requestHeaderValue request ''X-WovenTeam-Operator-Session'' tokenSize of
        Some (c # cs) \<Rightarrow> Some (c # cs)
      | _ \<Rightarrow> Option.bind (requestHeaderValue request ''Cookie'' 1024) (\<lambda>cookie. session_cookie cookie tokenSize))"

definition validateOperatorSession :: "log_file \<Rightarrow> string \<Rightarrow> bool" where
  "validateOperatorSession session request =
     (case readFileToken session 512 of
        None \<Rightarrow> False
      | Some expected \<Rightarrow>
          (case extractOperatorSession request 512 of None \<Rightarrow> False | Some presented \<Rightarrow> expected = presented))"

section \<open>Comma-separated lists\<close>

text \<open>\<open>strtok_r(copy, ",")\<close> and the trimming of each item, shared by the address and the profile lists.\<close>

definition list_items :: "nat \<Rightarrow> string \<Rightarrow> string list" where
  "list_items copySize v =
     map (\<lambda>item. trim_end is_blank (dropWhile is_blank item)) (split_tokens (CHR '','') [] (snprintf_s copySize v))"

definition ipAllowedByConfig :: "WtConfig \<Rightarrow> string \<Rightarrow> bool" where
  "ipAllowedByConfig c peerIp =
     (if peerIp = [] then False
      else list_ex (\<lambda>item. item = ''*'' \<or> item = peerIp) (list_items WT_PATH_SIZE (remoteAllowedIps c)))"

section \<open>Bearer tokens\<close>

definition extractBearerToken :: "string \<Rightarrow> nat \<Rightarrow> string option" where
  "extractBearerToken request tokenSize =
     (case requestHeaderValue request ''Authorization'' 512 of
        None \<Rightarrow> None
      | Some authorization \<Rightarrow>
          (if \<not> starts_with ''Bearer '' authorization then None
           else (let token = snprintf_s tokenSize (drop (length ''Bearer '') authorization)
                 in if token = [] then None else Some token)))"

text \<open>The test of a token line is a substring search, not a parse of the schema field.\<close>

definition auth_token_mark :: string where
  "auth_token_mark = [DQ] @ ''schema'' @ [DQ] @ '':'' @ [DQ] @ ''woventeam.auth_token.v0.1'' @ [DQ]"

definition token_line :: "string \<Rightarrow> bool" where
  "token_line line \<longleftrightarrow> strstr line auth_token_mark \<noteq> None"

definition revokes_token :: "string \<Rightarrow> string \<Rightarrow> bool" where
  "revokes_token tokenId line \<longleftrightarrow> token_line line \<and> read_str line ''eventType'' 32 = Some ''revoke'' \<and>
     read_str line ''tokenId'' 64 = Some tokenId"

definition token_revoked_step :: "string \<Rightarrow> string \<Rightarrow> bool \<Rightarrow> bool" where
  "token_revoked_step tokenId line revoked = (if revokes_token tokenId line then True else revoked)"

definition tokenRevoked :: "log_file \<Rightarrow> string \<Rightarrow> bool" where
  "tokenRevoked ledger tokenId = fold (token_revoked_step tokenId) (ledger_lines ledger) False"

record WtAuthContext =
  auth_role :: string
  auth_subject :: string
  auth_tokenId :: string
  auth_reason :: string

definition no_auth :: WtAuthContext where
  "no_auth = \<lparr> auth_role = [], auth_subject = [], auth_tokenId = [], auth_reason = [] \<rparr>"

text \<open>
  An issue record for the presented token; one without a hash may carry the token itself. No writer of
  the program writes a hash of 127 bytes or a token of 255; such a field is left without a terminator,
  and it is taken to end there.
\<close>

definition issues_token :: "string \<Rightarrow> string \<Rightarrow> bool" where
  "issues_token token line \<longleftrightarrow> token_line line \<and> read_str line ''eventType'' 32 = Some ''issue'' \<and>
     (let lineTokenHash = read_keep line ''tokenHash'' 128 [];
          lineToken = read_keep line ''token'' 256 [] in
      if lineTokenHash \<noteq> [] then lineTokenHash = wtTokenHash token 128
      else lineToken \<noteq> [] \<and> lineToken = token)"

record token_scan =
  tk_auth :: WtAuthContext
  tk_issuedAt :: int
  tk_ttl :: int
  tk_found :: bool

definition token_scan_step :: "string \<Rightarrow> string \<Rightarrow> token_scan \<Rightarrow> token_scan" where
  "token_scan_step token line v =
     (if \<not> issues_token token line then v
      else (let a = tk_auth v in
        \<lparr> tk_auth = a \<lparr> auth_role := read_keep line ''role'' 32 (auth_role a),
                        auth_subject := read_keep line ''subject'' WT_TASK_AGENT_SIZE (auth_subject a),
                        auth_tokenId := read_keep line ''tokenId'' 64 (auth_tokenId a) \<rparr>,
          tk_issuedAt = read_longlong_or line ''issuedAtUnixMs'' (tk_issuedAt v),
          tk_ttl = read_long_or line ''ttlSeconds'' (tk_ttl v),
          tk_found = True \<rparr>))"

definition scan_tokens :: "string \<Rightarrow> log_file \<Rightarrow> token_scan" where
  "scan_tokens token ledger = fold (token_scan_step token) (ledger_lines ledger)
     \<lparr> tk_auth = no_auth, tk_issuedAt = 0, tk_ttl = 0, tk_found = False \<rparr>"

definition token_expired :: "int \<Rightarrow> token_scan \<Rightarrow> bool" where
  "token_expired now v \<longleftrightarrow> tk_ttl v > 0 \<and> tk_issuedAt v > 0 \<and> now > sll (tk_issuedAt v + sll (tk_ttl v * 1000))"

text \<open>\<open>ledger\<close> is the file at the first scan, \<open>ledger'\<close> at the second; an empty role requires none.\<close>

definition validateBearerToken ::
    "WtConfig \<Rightarrow> log_file \<Rightarrow> log_file \<Rightarrow> int \<Rightarrow> string \<Rightarrow> string \<Rightarrow> string \<Rightarrow> bool \<times> WtAuthContext" where
  "validateBearerToken c ledger ledger' now request peerIp requiredRole =
     (if \<not> ipAllowedByConfig c peerIp then (False, no_auth \<lparr> auth_reason := ''ip_not_allowed'' \<rparr>)
      else case extractBearerToken request 512 of
        None \<Rightarrow> (False, no_auth \<lparr> auth_reason := ''bearer_required'' \<rparr>)
      | Some token \<Rightarrow>
          (if ledger = None then (False, no_auth \<lparr> auth_reason := ''token_unknown'' \<rparr>)
           else (let v = scan_tokens token ledger; a = tk_auth v in
             if \<not> tk_found v then (False, a \<lparr> auth_reason := ''token_unknown'' \<rparr>)
             else if tokenRevoked ledger' (auth_tokenId a) then (False, a \<lparr> auth_reason := ''token_revoked'' \<rparr>)
             else if token_expired now v then (False, a \<lparr> auth_reason := ''token_expired'' \<rparr>)
             else if requiredRole \<noteq> [] \<and> requiredRole \<noteq> auth_role a then (False, a \<lparr> auth_reason := ''role_forbidden'' \<rparr>)
             else (True, a \<lparr> auth_reason := ''ok'' \<rparr>))))"

text \<open>\<open>None\<close> lets the request through; otherwise the 401 that was sent.\<close>

definition requireOperatorAuth ::
    "WtConfig \<Rightarrow> log_file \<Rightarrow> log_file \<Rightarrow> log_file \<Rightarrow> int \<Rightarrow> string \<Rightarrow> string \<Rightarrow> http_response option" where
  "requireOperatorAuth c session ledger ledger' now request peerIp =
     (if validateOperatorSession session request then None
      else case validateBearerToken c ledger ledger' now request peerIp ''operator'' of
        (True, _) \<Rightarrow> None
      | (False, auth) \<Rightarrow>
          Some (wtHttpSendText 401 ''Unauthorized'' ''application/json; charset=utf-8''
            (snprintf_s 256 (render_object [(''ok'', JLit ''false''), (''error'', JStr ''operator_auth_required''),
               (''reason'', JStr (if auth_reason auth \<noteq> [] then auth_reason auth else ''bearer_required''))] @ [NL]))))"

section \<open>The scans as scanners\<close>

interpretation revocations: line_scanner "token_revoked_step tokenId" "revokes_token tokenId" for tokenId
  by unfold_locales (simp add: token_revoked_step_def)

interpretation issues: line_scanner "token_scan_step token" "issues_token token" for token
  by unfold_locales (simp add: token_scan_step_def)

lemma tokenRevoked_iff: "tokenRevoked ledger tokenId \<longleftrightarrow> (\<exists>line \<in> set (ledger_lines ledger). revokes_token tokenId line)"
proof -
  have "fold (token_revoked_step tokenId) ls b \<longleftrightarrow> b \<or> (\<exists>line \<in> set ls. revokes_token tokenId line)" for ls b
    by (induction ls arbitrary: b) (auto simp: token_revoked_step_def)
  then show ?thesis by (simp add: tokenRevoked_def)
qed

lemma token_found_iff: "tk_found (scan_tokens token ledger) \<longleftrightarrow> (\<exists>line \<in> set (ledger_lines ledger). issues_token token line)"
proof -
  have "tk_found (fold (token_scan_step token) ls v) \<longleftrightarrow> tk_found v \<or> (\<exists>line \<in> set ls. issues_token token line)" for ls v
    by (induction ls arbitrary: v) (auto simp: token_scan_step_def Let_def)
  then show ?thesis by (simp add: scan_tokens_def)
qed

end
