(* ===== verification/Roomd_Routing.thy ===== *)
theory Roomd_Routing
  imports Roomd_World Roomd_Auth Projection Token_Budget
begin

text \<open>
  The decisions the daemon takes before it admits a task, from \<^verbatim>\<open>src/src/wt_roomd.c\<close>: the autonomy
  level and grant fields of a request, which roles may spawn which, the routing of a task to an agent
  and a model, the totals handed to the policy evaluator, the capacity limits, and what a host
  advertises.

  A query may find another state of the projection database than the rebuild left (a locked or
  removed file, a rebuild of another process): \<open>db i\<close> is what query \<open>i\<close> finds.
\<close>

section \<open>Autonomy of a request\<close>

definition daemonProfileAutonomy :: "string \<Rightarrow> string" where
  "daemonProfileAutonomy profile =
     (if profile = ''observe'' then ''observe''
      else if profile \<in> {''repo_branch'', ''test_local''} then ''ask-batch'' else ''ask-each'')"

definition daemonConfiguredAutonomy :: "WtConfig \<Rightarrow> string \<Rightarrow> string option" where
  "daemonConfiguredAutonomy c who =
     (if who = ''claude'' \<and> claudeDefaultAutonomyLevel c \<noteq> [] then Some (claudeDefaultAutonomyLevel c)
      else if who = ''chatgpt'' \<and> chatgptDefaultAutonomyLevel c \<noteq> [] then Some (chatgptDefaultAutonomyLevel c)
      else if who = ''gemini'' \<and> geminiDefaultAutonomyLevel c \<noteq> [] then Some (geminiDefaultAutonomyLevel c)
      else if defaultAutonomyLevel c = [] then None else Some (defaultAutonomyLevel c))"

definition resolveAutonomyLevel :: "WtConfig \<Rightarrow> string \<Rightarrow> string \<Rightarrow> string \<Rightarrow> nat \<Rightarrow> string" where
  "resolveAutonomyLevel c body who profile bufferSize =
     (case read_str body ''autonomyLevel'' bufferSize of
        Some (ch # level) \<Rightarrow> ch # level
      | _ \<Rightarrow> snprintf_s bufferSize (case daemonConfiguredAutonomy c who of
               Some configured \<Rightarrow> configured | None \<Rightarrow> daemonProfileAutonomy profile))"

definition or_none :: "string \<Rightarrow> string" where
  "or_none s = (if s \<noteq> [] then s else ''none'')"

definition readAutonomyGrantFields :: "string \<Rightarrow> WtPolicyInput \<Rightarrow> WtPolicyInput" where
  "readAutonomyGrantFields body i = i \<lparr>
     in_autonomyScope := read_keep body ''scope'' WT_TASK_BODY_SIZE [],
     in_autonomyNetwork := or_none (read_keep body ''network'' WT_TASK_POLICY_SIZE []),
     in_autonomyCredentialClass := or_none (read_keep body ''credentialClass'' WT_TASK_POLICY_SIZE []),
     in_autonomyTtlSeconds := read_long_or body ''ttlSeconds'' (in_autonomyTtlSeconds i),
     in_autonomyMaxWallClockSeconds := read_long_or body ''maxWallClockSeconds'' (in_autonomyMaxWallClockSeconds i),
     in_autonomyRequiresCleanWorktree :=
       (case wtJsonReadLong body ''requiresCleanWorktree'' of Some v \<Rightarrow> v \<noteq> 0 | None \<Rightarrow> in_autonomyRequiresCleanWorktree i),
     in_autonomyCreatedAtUnixMs := read_longlong_or body ''createdAtUnixMs'' (in_autonomyCreatedAtUnixMs i) \<rparr>"

section \<open>Roles, agents and models\<close>

definition pgmRoles :: "string list" where
  "pgmRoles = [''project_manager'', ''software_architect'', ''systems_architect'']"

definition pmRoles :: "string list" where
  "pmRoles = [''software_architect'', ''systems_architect'', ''mockup_artist'',
     ''graphic_artist'', ''frontend_dev'', ''backend_dev'', ''database_engineer'',
     ''code_reviewer'', ''tester'', ''performance_engineer'',
     ''systems_administrator'', ''network_administrator'', ''database_administrator'',
     ''integration_specialist'', ''deployment_engineer'', ''technical_writer'']"

definition roleMaySpawn :: "string \<Rightarrow> string \<Rightarrow> bool" where
  "roleMaySpawn requestingRole requestedRole =
     (if requestingRole = ''program_manager'' then List.member pgmRoles requestedRole
      else if requestingRole = ''project_manager'' then List.member pmRoles requestedRole
      else False)"

definition defaultAgentForRole :: "string \<Rightarrow> nat \<Rightarrow> string" where
  "defaultAgentForRole role agentSize = snprintf_s agentSize
     (if role \<in> {''backend_dev'', ''frontend_dev'', ''database_engineer'', ''tester'', ''code_reviewer''} then ''chatgpt''
      else if role \<in> {''technical_writer'', ''project_manager''} then ''claude''
      else if role \<in> {''software_architect'', ''systems_architect'', ''performance_engineer''} then ''gemini''
      else ''all'')"

definition agentSupportsProfile :: "string \<Rightarrow> string \<Rightarrow> bool" where
  "agentSupportsProfile who profile =
     (if who = ''chatgpt'' then profile \<in> {''repo_branch'', ''test_local'', ''observe''}
      else if who = ''claude'' \<or> who = ''gemini'' then profile \<in> {''observe'', ''ops_read''}
      else False)"

definition shouldRouteAgent :: "string \<Rightarrow> bool" where
  "shouldRouteAgent who \<longleftrightarrow> who = [] \<or> who = ''all'' \<or> who = ''router''"

definition routeAgentForTask :: "WtConfig \<Rightarrow> string \<Rightarrow> string \<Rightarrow> string \<Rightarrow> nat \<Rightarrow> string" where
  "routeAgentForTask c role profile who agentSize =
     (if \<not> roleRoutingEnabled c \<or> \<not> shouldRouteAgent who then who
      else if profile = ''repo_branch'' \<or> profile = ''test_local'' then snprintf_s agentSize ''chatgpt''
      else (let routed = defaultAgentForRole role agentSize in
            if \<not> agentSupportsProfile routed profile
            then snprintf_s agentSize (if profile = ''ops_read'' then ''gemini'' else ''claude'')
            else routed))"

definition defaultModelForAgent :: "string \<Rightarrow> nat \<Rightarrow> string \<Rightarrow> string" where
  "defaultModelForAgent who modelSize modelId =
     (if who = ''claude'' then snprintf_s modelSize ''anthropic/claude-sonnet''
      else if who = ''gemini'' then snprintf_s modelSize ''google/gemini-pro''
      else if who = ''chatgpt'' then snprintf_s modelSize ''openai/gpt-5.3-codex''
      else modelId)"

definition modelMatchesAgent :: "string \<Rightarrow> string \<Rightarrow> bool" where
  "modelMatchesAgent who modelId =
     (if modelId = [] then False
      else if who = ''claude'' then starts_with ''anthropic/'' modelId
      else if who = ''gemini'' then starts_with ''google/'' modelId
      else if who = ''chatgpt'' then starts_with ''openai/'' modelId
      else True)"

text \<open>The model of an admitted task: an empty one, or an unfit one of a routed task, is replaced.\<close>

definition admitted_model :: "bool \<Rightarrow> string \<Rightarrow> string \<Rightarrow> string" where
  "admitted_model routed who modelId =
     (if modelId = [] \<or> (routed \<and> \<not> modelMatchesAgent who modelId)
      then defaultModelForAgent who WT_TASK_MODEL_SIZE modelId else modelId)"

section \<open>The policy input\<close>

definition not_negative :: "int \<Rightarrow> int" where
  "not_negative v = (if v < 0 then 0 else v)"

definition preparePolicyInput :: "log_file \<Rightarrow> (nat \<Rightarrow> projection option) \<Rightarrow> int \<Rightarrow> int \<Rightarrow> WtPolicyInput \<Rightarrow> WtPolicyInput" where
  "preparePolicyInput ledger db summaryNow now i =
     (let summary = wtTaskSummarizeTokenBudgets ledger summaryNow;
          perInitiative = (if in_initiativeId i \<noteq> [] then
             not_negative (wtTaskProjectionAllocatedTokensForInitiative (db 0) (in_initiativeId i)) else 0);
          perFamily = (case wtPolicyExtractModelFamily (in_modelId i) 64 of
             None \<Rightarrow> 0
           | Some modelFamily \<Rightarrow> not_negative (wtTaskProjectionAllocatedTokensForModelFamily (db 1) modelFamily));
          activeAgent = (if in_assignedAgent i \<noteq> [] then wtTaskProjectionCountActiveForAgent (db 2) (in_assignedAgent i) else -1);
          activeInitiative = (if in_initiativeId i \<noteq> [] then
             wtTaskProjectionCountActiveForInitiative (db 3) (in_initiativeId i) else -1)
      in i \<lparr> in_dayWindowAllocatedTokens := dayWindowAllocatedTokens summary,
             in_monthWindowAllocatedTokens := monthWindowAllocatedTokens summary,
             in_initiativeAllocatedTokens := perInitiative,
             in_modelFamilyAllocatedTokens := perFamily,
             in_activeTasksForAgent := not_negative activeAgent,
             in_activeTasksForInitiative := not_negative activeInitiative,
             in_nowUnixMs := now \<rparr>)"

text \<open>The \<open>memset\<close> and the fields both admission handlers set.\<close>

definition admission_input ::
    "string \<Rightarrow> string \<Rightarrow> string \<Rightarrow> string \<Rightarrow> string \<Rightarrow> string \<Rightarrow> string \<Rightarrow> string \<Rightarrow> int \<Rightarrow> WtPolicyInput" where
  "admission_input body taskId role who modelId profile initiativeId level maxTokens =
     (readAutonomyGrantFields body
        \<lparr> in_taskId = taskId, in_assignedRole = role, in_assignedAgent = who, in_modelId = modelId,
          in_toolProfile = profile, in_initiativeId = initiativeId, in_autonomyLevel = level,
          in_autonomyScope = [], in_autonomyNetwork = [], in_autonomyCredentialClass = [],
          in_autonomyTtlSeconds = 0, in_autonomyMaxWallClockSeconds = 0, in_autonomyRequiresCleanWorktree = False,
          in_autonomyCreatedAtUnixMs = 0, in_autonomyRevokedAtUnixMs = 0, in_maxTokens = 0, in_nowUnixMs = 0,
          in_dayWindowAllocatedTokens = 0, in_monthWindowAllocatedTokens = 0, in_initiativeAllocatedTokens = 0,
          in_modelFamilyAllocatedTokens = 0, in_activeTasksForAgent = 0, in_activeTasksForInitiative = 0 \<rparr>)
        \<lparr> in_maxTokens := maxTokens \<rparr>"

section \<open>Denials\<close>

definition denial_fields :: "string \<Rightarrow> string \<Rightarrow> WtPolicyDecision \<Rightarrow> string \<Rightarrow> int \<Rightarrow> (string \<times> jval) list" where
  "denial_fields taskId initiativeId decision createdBy now =
     [(''schema'', JStr ''woventeam.policy_decision.v0.1''), (''taskId'', JStr taskId),
      (''initiativeId'', JStr initiativeId), (''decision'', JStr ''deny''), (''reason'', JStr (dec_reason decision)),
      (''message'', JStr (dec_message decision)), (''createdBy'', JStr createdBy), (''createdAtUnixMs'', JNum now)]"

text \<open>The result of the append is ignored; the notice is sent whenever the texts fit their buffers.\<close>

definition recordPolicyDenial ::
    "WtConfig \<Rightarrow> moment \<Rightarrow> string \<Rightarrow> string \<Rightarrow> WtPolicyDecision \<Rightarrow> string \<Rightarrow> agent_world \<Rightarrow> agent_world \<times> notice list" where
  "recordPolicyDenial c m taskId initiativeId decision createdBy w =
     (let xs = [(taskId, WT_TASK_ID_SIZE * 2), (initiativeId, WT_TASK_ID_SIZE * 2),
                (dec_reason decision, WT_POLICY_REASON_SIZE * 2), (dec_message decision, WT_POLICY_MESSAGE_SIZE * 2),
                (createdBy, WT_TASK_AGENT_SIZE * 2)] in
      if \<not> escapes_fit xs then (w, [])
      else (snd (to_ledger m (\<lambda>fault ms. write_event fault (fsyncEachMessage c) WT_TASK_LEDGER_LINE_SIZE xs
                   (denial_fields taskId initiativeId decision createdBy ms)) w),
            [Notice (notificationEscalateKey c)
               (snprintf_s 256 (''policy denial ('' @ dec_reason decision @ '')'')) (dec_message decision)]))"

section \<open>Capacity\<close>

text \<open>One limit: -1 when the count could not be read, 1 when it is reached, \<open>None\<close> when there is room.\<close>

definition capacity_check :: "int \<Rightarrow> int \<Rightarrow> string \<Rightarrow> string \<Rightarrow> (int \<times> string) option" where
  "capacity_check count cap what who =
     (if count < 0 then Some (-1, ''capacity read failed'')
      else if cap > 0 \<and> count \<ge> cap then Some (1, snprintf_s 256 (what @ '' capacity exceeded for '' @ who))
      else None)"

definition enforceCapacity ::
    "WtConfig \<Rightarrow> bool \<Rightarrow> (nat \<Rightarrow> projection option) \<Rightarrow> string \<Rightarrow> string \<Rightarrow> string \<Rightarrow> int \<times> string" where
  "enforceCapacity c rebuilt db who initiativeId parentTaskId =
     (if \<not> rebuilt then (-1, ''projection rebuild failed'')
      else case capacity_check (wtTaskProjectionCountActiveForAgent (db 0) who) (maxActiveTasksPerAgent c) ''agent'' who of
        Some r \<Rightarrow> r
      | None \<Rightarrow>
          (case (if initiativeId = [] then None
                 else capacity_check (wtTaskProjectionCountActiveForInitiative (db 1) initiativeId)
                        (maxTasksPerInitiative c) ''initiative'' initiativeId) of
             Some r \<Rightarrow> r
           | None \<Rightarrow>
               (case (if parentTaskId = [] then None
                      else capacity_check (wtTaskProjectionCountActiveForParent (db 2) parentTaskId)
                             (maxSubtasksPerParent c) ''parent subtask'' parentTaskId) of
                  Some r \<Rightarrow> r
                | None \<Rightarrow> (0, []))))"

section \<open>What a host advertises\<close>

definition host_event_mark :: string where
  "host_event_mark = [DQ] @ ''schema'' @ [DQ] @ '':'' @ [DQ] @ ''woventeam.host_event.v0.1'' @ [DQ]"

definition host_line :: "string \<Rightarrow> string \<Rightarrow> string \<Rightarrow> bool" where
  "host_line host who line \<longleftrightarrow> strstr line host_event_mark \<noteq> None \<and>
     read_str line ''host'' WT_TASK_AGENT_SIZE = Some host \<and> read_str line ''agent'' WT_TASK_AGENT_SIZE = Some who"

definition host_step :: "string \<Rightarrow> string \<Rightarrow> nat \<Rightarrow> string \<Rightarrow> bool \<times> string \<Rightarrow> bool \<times> string" where
  "host_step host who profilesSize line v =
     (if host_line host who line then (True, read_keep line ''profiles'' profilesSize (snd v)) else v)"

text \<open>Whether the host is known for the agent, and the last profiles it advertised.\<close>

definition readHostProfiles :: "log_file \<Rightarrow> string \<Rightarrow> string \<Rightarrow> nat \<Rightarrow> bool \<times> string" where
  "readHostProfiles ledger host who profilesSize =
     fold (host_step host who profilesSize) (ledger_lines ledger) (False, [])"

definition profileInList :: "string \<Rightarrow> string \<Rightarrow> bool" where
  "profileInList profiles profile =
     (if profile = [] then True else if profiles = [] then False
      else list_ex (\<lambda>item. item = ''*'' \<or> item = profile) (list_items 256 profiles))"

interpretation hosts: line_scanner "host_step host who n" "host_line host who" for host who n
  by unfold_locales (simp add: host_step_def)

definition host_offers :: "log_file \<Rightarrow> string \<Rightarrow> string \<Rightarrow> string \<Rightarrow> bool" where
  "host_offers ledger host who profile =
     (case readHostProfiles ledger host who 256 of (known, profiles) \<Rightarrow> known \<and> profileInList profiles profile)"

end
