(* ===== verification/Roomd_Admission.thy ===== *)
theory Roomd_Admission
  imports Roomd_Routing
begin

text \<open>
  How a task enters the ledger: \<open>handlePostTaskPackage\<close> and \<open>handlePostTaskRequest\<close> of
  \<^verbatim>\<open>src/src/wt_roomd.c\<close>. Both parse the request, route the task, rebuild the projection, ask the
  policy evaluator, check the capabilities of a pinned host and append the records and room messages.

  \<open>roomd_env\<close> is what a handler meets: its moments, the outcome of each rebuild, the database each
  query finds, and the memory behind a buffer that was not terminated.
\<close>

record roomd_env =
  re_moments :: "nat \<Rightarrow> moment"
  re_mkdir :: "string \<Rightarrow> bool"
  re_rebuild :: "nat \<Rightarrow> rebuild_fault"
  re_old_db :: "projection option"
  re_query :: "nat \<Rightarrow> projection option \<Rightarrow> projection option"
  re_junk :: "nat \<Rightarrow> string"

definition rebuildProjection :: "WtConfig \<Rightarrow> roomd_env \<Rightarrow> nat \<Rightarrow> log_file \<Rightarrow> bool \<times> projection option" where
  "rebuildProjection c env k ledger =
     wtTaskProjectionRebuild (re_mkdir env) (re_rebuild env k) (taskProjectionDbPath c) ledger (re_old_db env)"

definition clock :: "roomd_env \<Rightarrow> nat \<Rightarrow> int" where
  "clock env k = m_ms (re_moments env k)"

section \<open>The parts both handlers have\<close>

record admission =
  ad_taskId :: string
  ad_role :: string
  ad_agent :: string
  ad_routed :: bool
  ad_initiative :: string
  ad_profile :: string
  ad_model :: string
  ad_title :: string
  ad_host :: string
  ad_maxTokens :: int

text \<open>Routing and the choice of the model.\<close>

definition route_admission :: "WtConfig \<Rightarrow> admission \<Rightarrow> admission" where
  "route_admission c a =
     (let who = routeAgentForTask c (ad_role a) (ad_profile a) (ad_agent a) WT_TASK_AGENT_SIZE;
          routed = shouldRouteAgent (ad_agent a)
      in a \<lparr> ad_agent := who, ad_routed := routed, ad_model := admitted_model routed who (ad_model a) \<rparr>)"

text \<open>The evaluator's input for a routed task; \<open>db\<close> is the rebuilt projection.\<close>

definition policy_input_of :: "WtConfig \<Rightarrow> roomd_env \<Rightarrow> string \<Rightarrow> admission \<Rightarrow> projection option \<Rightarrow> log_file \<Rightarrow> WtPolicyInput" where
  "policy_input_of c env body a db ledger =
     preparePolicyInput ledger (\<lambda>k. re_query env k db) (clock env 1) (clock env 2)
       (admission_input body (ad_taskId a) (ad_role a) (ad_agent a) (ad_model a) (ad_profile a) (ad_initiative a)
          (resolveAutonomyLevel c body (ad_agent a) (ad_profile a) WT_TASK_POLICY_SIZE) (ad_maxTokens a))"

definition denial_reply :: "roomd_env \<Rightarrow> WtPolicyDecision \<Rightarrow> http_response" where
  "denial_reply env decision =
     (let escapedReason = escape_unchecked (re_junk env 0) (dec_reason decision) (WT_POLICY_REASON_SIZE * 2);
          escapedDetail = escape_unchecked (re_junk env 1) (dec_message decision) (WT_POLICY_MESSAGE_SIZE * 2) in
      json_reply 409 ''Conflict''
        (snprintf_s 1536 (render_object [(''ok'', JLit ''false''), (''error'', raw_str escapedDetail),
           (''reason'', raw_str escapedReason), (''detail'', raw_str escapedDetail)] @ [NL])))"

definition capability_decision :: "admission \<Rightarrow> WtPolicyDecision" where
  "capability_decision a = setDecision False ''capability_unmet''
     (''Host '' @ ad_host a @ '' does not advertise '' @ ad_profile a @ '' for '' @ ad_agent a @ ''.'')"

definition capability_reply :: http_response where
  "capability_reply = json_reply 409 ''Conflict''
     (render_object [(''ok'', JLit ''false''), (''error'', raw_str ''capability_unmet''),
        (''reason'', raw_str ''capability_unmet'')] @ [NL])"

definition deny_admission ::
    "WtConfig \<Rightarrow> roomd_env \<Rightarrow> admission \<Rightarrow> WtPolicyDecision \<Rightarrow> string \<Rightarrow> http_response \<Rightarrow> agent_world \<Rightarrow> served" where
  "deny_admission c env a decision createdBy reply w =
     (case recordPolicyDenial c (re_moments env 3) (ad_taskId a) (ad_initiative a) decision createdBy w of
        (w', notices) \<Rightarrow> (reply, w', notices))"

text \<open>
  The checks from the rebuild to the host. \<open>accept\<close> is what the handler does with an admitted task;
  \<open>denied_by\<close> and \<open>unmet_by\<close> are the names on the two kinds of denial record.
\<close>

definition admit ::
    "WtConfig \<Rightarrow> roomd_env \<Rightarrow> string \<Rightarrow> admission \<Rightarrow> string \<Rightarrow> string \<Rightarrow> (agent_world \<Rightarrow> served) \<Rightarrow> agent_world \<Rightarrow> served" where
  "admit c env body a denied_by unmet_by accept w =
     (let w0 = read_ledger (re_moments env 0) w in
      case rebuildProjection c env 0 (w_ledger w0) of
        (False, _) \<Rightarrow> refuse (server_error ''projection rebuild failed'') w0
      | (True, db) \<Rightarrow>
          (let w1 = read_ledger (re_moments env 1) w0;
               decision = wtPolicyEvaluateTaskPackage c (policy_input_of c env body a db (w_ledger w1)) in
           if \<not> dec_allowed decision then deny_admission c env a decision denied_by (denial_reply env decision) w1
           else if ad_host a = [] then accept w1
           else (let w2 = read_ledger (re_moments env 2) w1 in
                 if \<not> host_offers (w_ledger w2) (ad_host a) (ad_agent a) (ad_profile a)
                 then deny_admission c env a (capability_decision a) unmet_by capability_reply w2
                 else accept w2)))"

section \<open>Task packages\<close>

definition parse_package :: "string \<Rightarrow> (admission \<times> string) option" where
  "parse_package body =
     (case (read_str body ''schema'' 128, read_str body ''taskId'' WT_TASK_ID_SIZE, read_str body ''assignedRole'' WT_TASK_AGENT_SIZE) of
        (Some schema, Some taskId, Some role) \<Rightarrow>
          (if schema \<noteq> ''woventeam.task_package.v0.1'' then None
           else Some (\<lparr> ad_taskId = taskId, ad_role = role,
                   ad_agent = read_or body ''assignedAgent'' WT_TASK_AGENT_SIZE ''router'', ad_routed = False,
                   ad_initiative = read_or body ''initiativeId'' WT_TASK_ID_SIZE [],
                   ad_profile = read_or body ''profile'' WT_TASK_POLICY_SIZE ''observe'',
                   ad_model = read_keep body ''modelId'' WT_TASK_MODEL_SIZE [],
                   ad_title = read_or body ''title'' WT_TASK_TITLE_SIZE ''Untitled task'',
                   ad_host = read_or body ''executionHost'' WT_TASK_AGENT_SIZE [],
                   ad_maxTokens = not_negative (read_long_or body ''maxTokens'' 0) \<rparr>,
                 read_or body ''status'' WT_TASK_STATUS_SIZE ''queued''))
      | _ \<Rightarrow> None)"

definition routing_fields :: "admission \<Rightarrow> int \<Rightarrow> (string \<times> jval) list" where
  "routing_fields a now =
     [(''schema'', JStr ''woventeam.task_event.v0.1''), (''taskId'', JStr (ad_taskId a)),
      (''eventType'', JStr ''routing''), (''status'', JStr ''assigned''), (''assignedAgent'', JStr (ad_agent a)),
      (''message'', JStr (''Routed '' @ ad_role a @ '' task to '' @ ad_agent a @ '' for '' @ ad_profile a @ ''.'')),
      (''createdBy'', JStr ''wt-roomd''), (''createdAtUnixMs'', JNum now)]"

definition package_reply :: "admission \<Rightarrow> string \<Rightarrow> http_response" where
  "package_reply a status = ok_reply 512 (ok_body [(''taskId'', raw_str (ad_taskId a)),
     (''assignedAgent'', raw_str (ad_agent a)), (''status'', raw_str status)])"

text \<open>The package as it came (made one line), and a routing event when an agent is chosen.\<close>

definition accept_package :: "WtConfig \<Rightarrow> roomd_env \<Rightarrow> string \<Rightarrow> admission \<Rightarrow> string \<Rightarrow> agent_world \<Rightarrow> served" where
  "accept_package c env body a status w =
     (let compact = compactJsonLine body WT_TASK_LEDGER_LINE_SIZE; ms = re_moments env in
      if shouldRouteAgent (ad_agent a) then
        (case run_appends [append_line c (ms 4) compact,
             appendTaskRoomEvent c (ms 6) (ad_taskId a) (ad_agent a) ''task.assign'' status (ad_title a)] w of
           (ok, w') \<Rightarrow> (if ok then package_reply a status else server_error ''append failed'', w', []))
      else if \<not> escapes_fit [(ad_taskId a, WT_TASK_ID_SIZE * 2), (ad_role a, WT_TASK_AGENT_SIZE * 2),
             (ad_agent a, WT_TASK_AGENT_SIZE * 2), (ad_profile a, WT_TASK_POLICY_SIZE * 2)]
        then refuse (bad_request ''task too large'') w
      else
        (case run_appends [append_line c (ms 4) compact,
             append_line c (ms 5) (snprintf_s WT_TASK_LEDGER_LINE_SIZE (render_object (routing_fields a (clock env 4)))),
             appendTaskRoomEvent c (ms 6) (ad_taskId a) (ad_agent a) ''task.assign'' ''assigned'' (ad_title a)] w of
           (ok, w') \<Rightarrow> (if ok then package_reply a ''assigned'' else server_error ''append failed'', w', [])))"

definition handlePostTaskPackage :: "WtConfig \<Rightarrow> roomd_env \<Rightarrow> string \<Rightarrow> agent_world \<Rightarrow> served" where
  "handlePostTaskPackage c env request w =
     (case request_body request of
        None \<Rightarrow> refuse missing_body w
      | Some body \<Rightarrow>
          (case parse_package body of
             None \<Rightarrow> refuse (bad_request ''invalid task package'') w
           | Some (parsed_admission, status) \<Rightarrow>
               (let a = route_admission c parsed_admission in
                admit c env body a (read_or body ''createdBy'' WT_TASK_AGENT_SIZE ''ceo'') ''ceo''
                  (accept_package c env body a status) w)))"

section \<open>Task requests of managers\<close>

record subtask =
  st_parent :: string
  st_requestedBy :: string
  st_requestedByRole :: string
  st_priority :: string
  st_body :: string

definition parse_request :: "string \<Rightarrow> (admission \<times> subtask) option" where
  "parse_request body =
     (case (read_str body ''schema'' 128, read_str body ''parentTaskId'' WT_TASK_ID_SIZE,
            read_str body ''requestedTaskId'' WT_TASK_ID_SIZE, read_str body ''initiativeId'' WT_TASK_ID_SIZE,
            read_str body ''requestedByRole'' WT_TASK_AGENT_SIZE, read_str body ''requestedRole'' WT_TASK_AGENT_SIZE,
            read_str body ''title'' WT_TASK_TITLE_SIZE, read_str body ''body'' WT_TASK_BODY_SIZE) of
        (Some schema, Some parent, Some taskId, Some initiative, Some byRole, Some role, Some title, Some taskBody) \<Rightarrow>
          (if schema \<noteq> ''woventeam.task_request.v0.1'' then None
           else Some (\<lparr> ad_taskId = taskId, ad_role = role,
                   ad_agent = read_or body ''assignedAgent'' WT_TASK_AGENT_SIZE ''router'', ad_routed = False,
                   ad_initiative = initiative,
                   ad_profile = read_or body ''profile'' WT_TASK_POLICY_SIZE ''observe'',
                   ad_model = read_or body ''modelId'' WT_TASK_MODEL_SIZE [],
                   ad_title = title,
                   ad_host = read_or body ''executionHost'' WT_TASK_AGENT_SIZE [],
                   ad_maxTokens = not_negative (read_long_or body ''maxTokens'' 2000000) \<rparr>,
                 \<lparr> st_parent = parent, st_requestedBy = read_or body ''requestedBy'' WT_TASK_AGENT_SIZE byRole,
                   st_requestedByRole = byRole, st_priority = read_or body ''priority'' 32 ''normal'',
                   st_body = taskBody \<rparr>))
      | _ \<Rightarrow> None)"

definition request_escapes :: "admission \<Rightarrow> subtask \<Rightarrow> (string \<times> nat) list" where
  "request_escapes a s =
     [(ad_taskId a, WT_TASK_ID_SIZE * 2), (ad_initiative a, WT_TASK_ID_SIZE * 2),
      (st_requestedBy s, WT_TASK_AGENT_SIZE * 2), (st_requestedByRole s, WT_TASK_AGENT_SIZE * 2),
      (ad_role a, WT_TASK_AGENT_SIZE * 2), (ad_agent a, WT_TASK_AGENT_SIZE * 2), (ad_model a, WT_TASK_MODEL_SIZE * 2),
      (st_priority s, 64), (ad_title a, WT_TASK_TITLE_SIZE * 2), (st_body s, WT_TASK_BODY_SIZE * 2),
      (ad_profile a, WT_TASK_POLICY_SIZE * 2), (st_parent s, WT_TASK_ID_SIZE * 2), (ad_host a, WT_TASK_AGENT_SIZE * 2)]"

definition json_object :: "(string \<times> jval) list \<Rightarrow> jval" where
  "json_object fs = JLit (render_object fs)"

definition request_fields :: "admission \<Rightarrow> subtask \<Rightarrow> int \<Rightarrow> (string \<times> jval) list" where
  "request_fields a s now =
     [(''schema'', JStr ''woventeam.task_request.v0.1''), (''taskId'', JStr (ad_taskId a)),
      (''parentTaskId'', JStr (st_parent s)), (''requestedTaskId'', JStr (ad_taskId a)),
      (''initiativeId'', JStr (ad_initiative a)), (''requestedBy'', JStr (st_requestedBy s)),
      (''requestedByRole'', JStr (st_requestedByRole s)), (''requestedRole'', JStr (ad_role a)),
      (''assignedAgent'', JStr (ad_agent a)), (''modelId'', JStr (ad_model a)), (''priority'', JStr (st_priority s)),
      (''executionHost'', JStr (ad_host a)), (''title'', JStr (ad_title a)), (''body'', JStr (st_body s)),
      (''toolPolicy'', json_object [(''profile'', JStr (ad_profile a))]), (''createdAtUnixMs'', JNum now)]"

definition writes_workspace :: "string \<Rightarrow> bool" where
  "writes_workspace profile \<longleftrightarrow> profile = ''repo_branch'' \<or> profile = ''test_local''"

definition subtask_package_fields :: "admission \<Rightarrow> subtask \<Rightarrow> int \<Rightarrow> (string \<times> jval) list" where
  "subtask_package_fields a s now =
     [(''schema'', JStr ''woventeam.task_package.v0.1''), (''taskId'', JStr (ad_taskId a)),
      (''initiativeId'', JStr (ad_initiative a)), (''createdBy'', JStr (st_requestedBy s)),
      (''assignedRole'', JStr (ad_role a)), (''assignedAgent'', JStr (ad_agent a)), (''modelId'', JStr (ad_model a)),
      (''priority'', JStr (st_priority s)), (''executionHost'', JStr (ad_host a)), (''status'', JStr ''queued''),
      (''title'', JStr (ad_title a)), (''body'', JStr (st_body s)), (''parentTaskId'', JStr (st_parent s)),
      (''requestedByRole'', JStr (st_requestedByRole s)),
      (''task'', json_object [(''title'', JStr (ad_title a)), (''body'', JStr (st_body s)), (''deliverables'', JLit ''[]'')]),
      (''contextRefs'', JLit ''[]''),
      (''acceptanceCriteria'', JLit (''['' @ [DQ] @ ''Task result is recorded in the room and task ledger.'' @ [DQ] @ '']'')),
      (''toolPolicy'', json_object [(''profile'', JStr (ad_profile a)),
         (''filesystem'', JStr (if writes_workspace (ad_profile a) then ''workspace_write'' else ''read_only'')),
         (''network'', JStr (if ad_profile a = ''test_local'' then ''loopback'' else ''none'')),
         (''system'', JStr ''none''),
         (''git'', JStr (if writes_workspace (ad_profile a) then ''branch_only'' else ''none''))]),
      (''budget'', json_object [(''timeoutSeconds'', JNum 1800), (''maxOutputBytes'', JNum 1048576),
         (''maxCostUsd'', JLit ''1.0''), (''maxTokens'', JNum (ad_maxTokens a))]),
      (''dependencies'', JLit (''['' @ [DQ] @ escape (st_parent s) @ [DQ] @ '']'')), (''createdAtUnixMs'', JNum now)]"

definition accept_request :: "WtConfig \<Rightarrow> roomd_env \<Rightarrow> admission \<Rightarrow> subtask \<Rightarrow> agent_world \<Rightarrow> served" where
  "accept_request c env a s w =
     (let w3 = read_ledger (re_moments env 4) w;
          (rebuilt, db) = rebuildProjection c env 1 (w_ledger w3);
          (capacity, capacityError) = enforceCapacity c rebuilt (\<lambda>k. re_query env (k + 4) db) (ad_agent a) (ad_initiative a) (st_parent s);
          ms = re_moments env; now = clock env 5 in
      if capacity \<noteq> 0 then
        refuse (json_reply (if capacity > 0 then 409 else 500) (if capacity > 0 then ''Conflict'' else ''Internal Server Error'')
          (snprintf_s 512 (error_body capacityError))) w3
      else if \<not> escapes_fit (request_escapes a s) then refuse (bad_request ''request too large'') w3
      else
        (case run_appends [
             append_line c (ms 5) (snprintf_s WT_TASK_LEDGER_LINE_SIZE (render_object (request_fields a s now))),
             appendTaskRoomEvent c (ms 6) (ad_taskId a) (ad_agent a) ''task.request'' ''requested'' (ad_title a),
             append_line c (ms 7) (snprintf_s WT_TASK_LEDGER_LINE_SIZE (render_object (subtask_package_fields a s now))),
             appendTaskRoomEvent c (ms 8) (ad_taskId a) (ad_agent a) ''task.assign'' ''queued'' (ad_title a)] w3 of
           (ok, w') \<Rightarrow>
             (if ok then ok_reply 512 (ok_body [(''taskId'', raw_str (ad_taskId a)), (''parentTaskId'', raw_str (st_parent s)),
                  (''assignedRole'', raw_str (ad_role a)), (''assignedAgent'', raw_str (ad_agent a)), (''status'', raw_str ''queued'')])
              else server_error ''append failed'', w', [])))"

definition handlePostTaskRequest :: "WtConfig \<Rightarrow> roomd_env \<Rightarrow> string \<Rightarrow> agent_world \<Rightarrow> served" where
  "handlePostTaskRequest c env request w =
     (case request_body request of
        None \<Rightarrow> refuse missing_body w
      | Some body \<Rightarrow>
          (case parse_request body of
             None \<Rightarrow> refuse (bad_request ''invalid task request'') w
           | Some (parsed_admission, s) \<Rightarrow>
               (if \<not> roleMaySpawn (st_requestedByRole s) (ad_role parsed_admission) then
                  refuse (json_reply 403 ''Forbidden'' (error_body ''role spawn policy denied'')) w
                else (let a = route_admission c parsed_admission in
                      admit c env body a (st_requestedBy s) (st_requestedBy s) (accept_request c env a s) w))))"

end
