(* ===== verification/Roomd_Control.thy ===== *)
theory Roomd_Control
  imports Roomd_World Task_Blocked
begin

text \<open>
  The handlers of \<^verbatim>\<open>src/src/wt_roomd.c\<close> through which people and agents steer existing tasks: cancel,
  autonomy revocation, artifact promotion, reclaim, pause and resume, status events, review gates,
  usage reports, priority, notes and rerouting. Each parses the body, appends its record (and for most
  a room message) and answers.
\<close>

definition body_or_empty :: "string \<Rightarrow> string" where
  "body_or_empty request = (case request_body request of None \<Rightarrow> [] | Some body \<Rightarrow> body)"

definition with_body :: "http_response \<Rightarrow> string \<Rightarrow> (string \<Rightarrow> agent_world \<Rightarrow> served) \<Rightarrow> agent_world \<Rightarrow> served" where
  "with_body otherwise request handle w =
     (case request_body request of None \<Rightarrow> refuse otherwise w | Some body \<Rightarrow> handle body w)"

text \<open>A writer of the task store, at one moment.\<close>

definition event_at :: "WtConfig \<Rightarrow> moment \<Rightarrow> (io_fault \<Rightarrow> bool \<Rightarrow> int \<Rightarrow> log_file \<Rightarrow> bool \<times> log_file) \<Rightarrow> agent_world \<Rightarrow> bool \<times> agent_world" where
  "event_at c m write w = to_ledger m (\<lambda>fault ms. write fault (fsyncEachMessage c) ms) w"

section \<open>Cancel and revocation\<close>

definition handlePostTaskCancel :: "WtConfig \<Rightarrow> (nat \<Rightarrow> moment) \<Rightarrow> string \<Rightarrow> agent_world \<Rightarrow> served" where
  "handlePostTaskCancel c ms request =
     with_body (bad_request ''missing body'') request (\<lambda>body w.
       (case read_str body ''taskId'' WT_TASK_ID_SIZE of
          None \<Rightarrow> refuse (bad_request ''taskId required'') w
        | Some taskId \<Rightarrow>
            (let why = read_or body ''reason'' 64 ''operator''; createdBy = read_or body ''createdBy'' WT_TASK_AGENT_SIZE ''ceo'';
                 message = read_or body ''message'' WT_TASK_TITLE_SIZE (''Task cancel requested ('' @ why @ '').'');
                 (ok, w1) = event_at c (ms 0) (\<lambda>f s now. wtTaskAppendKillEvent f s now taskId (Some why) (Some createdBy)) w in
             if \<not> ok then (server_error ''append failed'', w1, [])
             else (ok_reply 512 (ok_body [(''taskId'', raw_str taskId), (''reason'', raw_str why), (''createdBy'', raw_str createdBy)]),
                   snd (appendTaskRoomEvent c (ms 1) taskId ''all'' ''task.cancel'' ''cancel_requested'' message w1),
                   [Notice (notificationEscalateKey c) (snprintf_s 256 (''task cancel requested ('' @ taskId @ '')'')) message]))))"

definition handlePostAutonomyRevoke :: "WtConfig \<Rightarrow> (nat \<Rightarrow> moment) \<Rightarrow> string \<Rightarrow> agent_world \<Rightarrow> served" where
  "handlePostAutonomyRevoke c ms request =
     with_body missing_body request (\<lambda>body w.
       (case read_str body ''taskId'' WT_TASK_ID_SIZE of
          None \<Rightarrow> refuse (bad_request ''taskId required'') w
        | Some taskId \<Rightarrow>
            (let why = read_or body ''reason'' 256 ''operator revocation''; createdBy = read_or body ''createdBy'' WT_TASK_AGENT_SIZE ''ceo'';
                 (ok, w1) = run_appends
                   [event_at c (ms 0) (\<lambda>f s now. wtTaskAppendAutonomyEvent f s now taskId (Some createdBy) taskId ''revoked''
                       ''operator'' [] why True 0),
                    event_at c (ms 1) (\<lambda>f s now. wtTaskAppendKillEvent f s now taskId (Some ''autonomy-revoke'') (Some createdBy))] w in
             if \<not> ok then (server_error ''append failed'', w1, [])
             else (ok_reply 512 (ok_body [(''taskId'', raw_str taskId), (''status'', raw_str ''autonomy_revoked'')]),
                   snd (appendTaskRoomEvent c (ms 2) taskId ''all'' ''task.autonomy'' ''revoked'' why w1), []))))"

section \<open>Artifacts\<close>

definition isSafeArtifactName :: "string \<Rightarrow> bool" where
  "isSafeArtifactName v =
     (if v = [] then False
      else if \<not> list_all (\<lambda>ch. is_alnum ch \<or> ch = CHR ''_'' \<or> ch = CHR ''-'' \<or> ch = CHR ''.'') v then False
      else strstr v ''..'' = None)"

definition artifact_states :: "string list" where
  "artifact_states = [''draft'', ''reviewed'', ''accepted'', ''rejected'', ''superseded'']"

text \<open>\<open>snprintf\<close> and the \<open>strncat\<close> of the closing parenthesis into a buffer of 192 bytes.\<close>

definition artifact_message :: "string \<Rightarrow> string \<Rightarrow> string \<Rightarrow> string" where
  "artifact_message state reviewer path =
     (let m = snprintf_s WT_TASK_TITLE_SIZE (''artifact '' @ state @ '' by '' @ reviewer @
                (if path \<noteq> [] then '' ('' @ path else [])) in
      if path \<noteq> [] then m @ take (WT_TASK_TITLE_SIZE - length m - 1) '')'' else m)"

definition handlePostTaskArtifact :: "WtConfig \<Rightarrow> (nat \<Rightarrow> moment) \<Rightarrow> string \<Rightarrow> agent_world \<Rightarrow> served" where
  "handlePostTaskArtifact c ms request =
     with_body (bad_request ''missing body'') request (\<lambda>body w.
       (case read_str body ''taskId'' WT_TASK_ID_SIZE of
          None \<Rightarrow> refuse (bad_request ''taskId required'') w
        | Some taskId \<Rightarrow>
            (case read_str body ''state'' 64 of
               None \<Rightarrow> refuse (bad_request ''state required'') w
             | Some state \<Rightarrow>
                 (let reviewer = read_or body ''reviewer'' WT_TASK_AGENT_SIZE ''ceo''; remarks = read_or body ''notes'' WT_TASK_BODY_SIZE [];
                      path = read_or body ''artifactPath'' 512 [] in
                  if \<not> List.member artifact_states state then refuse (bad_request ''unsupported artifact state'') w
                  else if path \<noteq> [] \<and> \<not> isSafeArtifactName path then refuse (bad_request ''invalid artifact path'') w
                  else (case event_at c (ms 0) (\<lambda>f s now. wtTaskAppendArtifactEvent f s now taskId state reviewer remarks path) w of
                    (ok, w1) \<Rightarrow>
                      (if \<not> ok then (server_error ''append failed'', w1, [])
                       else (ok_reply 1024 (ok_body [(''taskId'', raw_str taskId), (''state'', raw_str state),
                               (''reviewer'', raw_str reviewer), (''artifactPath'', raw_str path)]),
                             snd (appendTaskRoomEvent c (ms 1) taskId ''all'' ''task.artifact'' state
                               (artifact_message state reviewer path) w1), [])))))))"

section \<open>Reclaim and control\<close>

definition handlePostTaskReclaim :: "WtConfig \<Rightarrow> (nat \<Rightarrow> moment) \<Rightarrow> string \<Rightarrow> agent_world \<Rightarrow> served" where
  "handlePostTaskReclaim c ms request =
     with_body (bad_request ''missing body'') request (\<lambda>body w.
       (case read_str body ''taskId'' WT_TASK_ID_SIZE of
          None \<Rightarrow> refuse (bad_request ''taskId required'') w
        | Some taskId \<Rightarrow>
            (let why = read_or body ''reason'' 64 ''operator'';
                 message = read_or body ''message'' WT_TASK_TITLE_SIZE
                   (if why = ''operator'' then ''Lease reclaimed by operator.'' else ''Lease reclaimed because it expired.'');
                 createdBy = read_or body ''createdBy'' WT_TASK_AGENT_SIZE ''ceo'' in
             if why \<noteq> ''operator'' \<and> why \<noteq> ''lease_expired'' then refuse (bad_request ''unsupported reclaim reason'') w
             else
               (let w0 = read_ledger (ms 0) w;
                    v = wtTaskFindActiveLease (w_ledger w0) taskId WT_TASK_AGENT_SIZE;
                    (ok, w1) = event_at c (ms 1) (\<lambda>f s now. wtTaskAppendReclaimEvent f s now taskId (lv_holder v) createdBy (Some why) message) w0 in
                if \<not> ok then (server_error ''append failed'', w1, [])
                else (ok_reply 768 (ok_body [(''taskId'', raw_str taskId), (''reason'', raw_str why),
                        (''previousAgent'', raw_str (lv_holder v)), (''previousAttempt'', JNum (lv_attempt v))]),
                      snd (appendTaskRoomEvent c (ms 2) taskId ''all'' ''task.reclaim'' ''queued'' message w1), [])))))"

definition control_fields :: "string \<Rightarrow> string \<Rightarrow> string \<Rightarrow> string \<Rightarrow> int \<Rightarrow> (string \<times> jval) list" where
  "control_fields who action message createdBy now =
     [(''schema'', JStr ''woventeam.agent_control.v0.1''), (''agent'', JStr who), (''action'', JStr action),
      (''message'', JStr message), (''createdBy'', JStr createdBy), (''createdAtUnixMs'', JNum now)]"

definition handlePostAgentControl :: "WtConfig \<Rightarrow> (nat \<Rightarrow> moment) \<Rightarrow> string \<Rightarrow> agent_world \<Rightarrow> served" where
  "handlePostAgentControl c ms request =
     with_body missing_body request (\<lambda>body w.
       (case (read_str body ''agent'' WT_TASK_AGENT_SIZE, read_str body ''action'' 32) of
          (Some who, Some action) \<Rightarrow>
            (let message = read_or body ''message'' WT_TASK_TITLE_SIZE
                   (if action = ''pause'' then ''Agent paused by operator.'' else ''Agent resumed by operator.'');
                 createdBy = read_or body ''createdBy'' WT_TASK_AGENT_SIZE ''ceo'';
                 xs = [(who, WT_TASK_AGENT_SIZE * 2), (action, 64), (message, WT_TASK_TITLE_SIZE * 2), (createdBy, WT_TASK_AGENT_SIZE * 2)] in
             if action \<noteq> ''pause'' \<and> action \<noteq> ''resume'' then refuse (bad_request ''invalid agent control'') w
             else if who \<notin> {''claude'', ''chatgpt'', ''gemini''} then refuse (bad_request ''unknown agent'') w
             else if \<not> escapes_fit xs then refuse (bad_request ''agent control too large'') w
             else (case event_at c (ms 0) (\<lambda>f s now. write_event f s WT_TASK_LEDGER_LINE_SIZE xs
                          (control_fields who action message createdBy now)) w of
               (ok, w1) \<Rightarrow> (if ok then ok_reply 512 (ok_body [(''agent'', raw_str who), (''action'', raw_str action)])
                            else server_error ''append failed'', w1, [])))
        | _ \<Rightarrow> refuse (bad_request ''invalid agent control'') w))"

section \<open>Status events and review gates\<close>

text \<open>The record is the body itself; \<open>io\<close> gives the faults of the dependents' events.\<close>

definition handlePostTaskEvent :: "WtConfig \<Rightarrow> (nat \<Rightarrow> moment) \<Rightarrow> (nat \<Rightarrow> io_fault) \<Rightarrow> string \<Rightarrow> agent_world \<Rightarrow> served" where
  "handlePostTaskEvent c ms io request =
     with_body missing_body request (\<lambda>body w.
       (case (read_str body ''schema'' 128, read_str body ''taskId'' WT_TASK_ID_SIZE, read_str body ''status'' WT_TASK_STATUS_SIZE) of
          (Some schema, Some taskId, Some status) \<Rightarrow>
            (let message = read_or body ''message'' WT_TASK_TITLE_SIZE ''Task status updated.'';
                 createdBy = read_or body ''createdBy'' WT_TASK_AGENT_SIZE ''system'' in
             if schema \<noteq> ''woventeam.task_event.v0.1'' then refuse (bad_request ''invalid task event'') w
             else
               (case run_appends [append_line c (ms 0) (compactJsonLine body WT_TASK_LEDGER_LINE_SIZE),
                   appendTaskRoomEvent c (ms 1) taskId ''all'' (if terminal_status status then ''task.result'' else ''task.status'') status message] w of
                 (ok, w1) \<Rightarrow>
                   (if \<not> ok then (server_error ''append failed'', w1, [])
                    else
                      (let w2 = (if status = ''blocked'' then read_ledger (ms 2) w1 else w1);
                           (rc, l) = (if status = ''blocked''
                              then wtTaskAppendBlockedDependents io (fsyncEachMessage c) (m_ms (ms 2)) taskId createdBy (w_ledger w2)
                              else (0, w_ledger w2)) in
                       (if rc < 0 then server_error ''dependency propagation failed''
                        else ok_reply 512 (ok_body [(''taskId'', raw_str taskId), (''status'', raw_str status), (''createdBy'', raw_str createdBy)]),
                        w2 \<lparr> w_ledger := l \<rparr>, [])))))
        | _ \<Rightarrow> refuse (bad_request ''invalid task event'') w))"

definition gate_fields :: "string \<Rightarrow> string \<Rightarrow> string \<Rightarrow> string \<Rightarrow> int \<Rightarrow> (string \<times> jval) list" where
  "gate_fields taskId status message createdBy now =
     [(''schema'', JStr ''woventeam.task_event.v0.1''), (''taskId'', JStr taskId), (''eventType'', JStr ''review_gate''),
      (''status'', JStr status), (''message'', JStr message), (''createdBy'', JStr createdBy), (''createdAtUnixMs'', JNum now)]"

definition handlePostTaskGate :: "WtConfig \<Rightarrow> (nat \<Rightarrow> moment) \<Rightarrow> string \<Rightarrow> agent_world \<Rightarrow> served" where
  "handlePostTaskGate c ms request =
     with_body missing_body request (\<lambda>body w.
       (case (read_str body ''taskId'' WT_TASK_ID_SIZE, read_str body ''action'' 32) of
          (Some taskId, Some action) \<Rightarrow>
            (let message = read_or body ''message'' WT_TASK_TITLE_SIZE
                   (if action = ''approve'' then ''Task approved from review gate.''
                    else if action = ''reject'' then ''Task rejected from review gate.'' else ''Revision requested from review gate.'');
                 createdBy = read_or body ''createdBy'' WT_TASK_AGENT_SIZE ''ceo'';
                 status = (if action = ''approve'' then ''approved'' else if action = ''reject'' then ''rejected'' else ''revision_requested'');
                 xs = [(taskId, WT_TASK_ID_SIZE * 2), (status, WT_TASK_STATUS_SIZE * 2), (message, WT_TASK_TITLE_SIZE * 2),
                       (createdBy, WT_TASK_AGENT_SIZE * 2)] in
             if action \<notin> {''approve'', ''reject'', ''revision''} then refuse (bad_request ''unsupported gate action'') w
             else if \<not> escapes_fit xs then refuse (bad_request ''gate action too large'') w
             else (case run_appends [event_at c (ms 0) (\<lambda>f s now. write_event f s WT_TASK_LEDGER_LINE_SIZE xs
                          (gate_fields taskId status message createdBy now)),
                        appendTaskRoomEvent c (ms 1) taskId ''all'' ''task.status'' status message] w of
               (ok, w1) \<Rightarrow> (if ok then ok_reply 512 (ok_body [(''taskId'', raw_str taskId), (''status'', raw_str status)])
                            else server_error ''append failed'', w1, [])))
        | _ \<Rightarrow> refuse (bad_request ''invalid gate action'') w))"

section \<open>Usage\<close>

definition usage_fields :: "string \<Rightarrow> string \<Rightarrow> string \<Rightarrow> int \<Rightarrow> int \<Rightarrow> int \<Rightarrow> int \<Rightarrow> string \<Rightarrow> int \<Rightarrow> (string \<times> jval) list" where
  "usage_fields taskId provider modelId inputTokens outputTokens totalTokens cost createdBy now =
     [(''schema'', JStr ''woventeam.task_usage.v0.1''), (''taskId'', JStr taskId), (''provider'', JStr provider),
      (''modelId'', JStr modelId), (''inputTokens'', JNum inputTokens), (''outputTokens'', JNum outputTokens),
      (''totalTokens'', JNum totalTokens), (''estimatedCostCents'', JNum cost), (''createdBy'', JStr createdBy),
      (''createdAtUnixMs'', JNum now)]"

definition at_least_zero :: "int \<Rightarrow> int" where
  "at_least_zero v = (if v < 0 then 0 else v)"

definition handlePostTaskUsage :: "WtConfig \<Rightarrow> (nat \<Rightarrow> moment) \<Rightarrow> string \<Rightarrow> agent_world \<Rightarrow> served" where
  "handlePostTaskUsage c ms request =
     with_body missing_body request (\<lambda>body w.
       (case read_str body ''taskId'' WT_TASK_ID_SIZE of
          None \<Rightarrow> refuse (bad_request ''task id required'') w
        | Some taskId \<Rightarrow>
            (let provider = read_or body ''provider'' WT_NAME_SIZE ''unknown''; modelId = read_or body ''modelId'' WT_TASK_MODEL_SIZE [];
                 createdBy = read_or body ''createdBy'' WT_TASK_AGENT_SIZE ''adapter'';
                 inputTokens = at_least_zero (read_long_or body ''inputTokens'' 0);
                 outputTokens = at_least_zero (read_long_or body ''outputTokens'' 0);
                 reported = at_least_zero (read_long_or body ''totalTokens'' 0);
                 cost = at_least_zero (read_long_or body ''estimatedCostCents'' 0);
                 totalTokens = (if reported = 0 then sll (inputTokens + outputTokens) else reported);
                 xs = [(taskId, WT_TASK_ID_SIZE * 2), (provider, WT_NAME_SIZE * 2), (modelId, WT_TASK_MODEL_SIZE * 2),
                       (createdBy, WT_TASK_AGENT_SIZE * 2)] in
             if \<not> escapes_fit xs then refuse (bad_request ''usage too large'') w
             else (case event_at c (ms 0) (\<lambda>f s now. write_event f s WT_TASK_LEDGER_LINE_SIZE xs
                          (usage_fields taskId provider modelId inputTokens outputTokens totalTokens cost createdBy now)) w of
               (ok, w1) \<Rightarrow> (if ok then ok_reply 512 (ok_body [(''taskId'', raw_str taskId), (''totalTokens'', JNum totalTokens),
                               (''estimatedCostCents'', JNum cost)])
                            else server_error ''append failed'', w1, [])))))"

section \<open>Priority, notes and rerouting\<close>

text \<open>
  These three do not look at the result of \<open>wtJsonEscape\<close>: the texts are printed between quotes as
  they stand in the buffers (\<open>junk\<close> is the memory behind a text that did not fit).
\<close>

definition done_reply :: http_response where
  "done_reply = wtHttpSendText 200 ''OK'' ''application/json; charset=utf-8'' (ok_body [])"

definition handlePostTaskPriority :: "WtConfig \<Rightarrow> (nat \<Rightarrow> moment) \<Rightarrow> (nat \<Rightarrow> string) \<Rightarrow> string \<Rightarrow> agent_world \<Rightarrow> served" where
  "handlePostTaskPriority c ms junk request w =
     (let body = body_or_empty request in
      case (read_str body ''taskId'' WT_TASK_ID_SIZE, read_str body ''priority'' 32) of
        (Some taskId, Some priority) \<Rightarrow>
          (let createdBy = read_or body ''createdBy'' WT_TASK_AGENT_SIZE ''ceo'';
               t = escape_unchecked (junk 0) taskId (WT_TASK_ID_SIZE * 2); p = escape_unchecked (junk 1) priority 64;
               b = escape_unchecked (junk 2) createdBy (WT_TASK_AGENT_SIZE * 2);
               line = snprintf_s 1024 (render_object [(''schema'', JStr ''woventeam.task_event.v0.1''), (''taskId'', raw_str t),
                   (''eventType'', JStr ''priority''), (''priority'', raw_str p),
                   (''message'', raw_str (''Priority set to '' @ p @ ''.'')), (''createdBy'', raw_str b),
                   (''createdAtUnixMs'', JNum (m_ms (ms 0)))]);
               (ok, w1) = append_line c (ms 0) line w in
           (if ok then done_reply else server_error ''append_failed'', w1, []))
      | _ \<Rightarrow> refuse (bad_request ''task_priority_required'') w)"

definition handlePostTaskNote :: "WtConfig \<Rightarrow> (nat \<Rightarrow> moment) \<Rightarrow> (nat \<Rightarrow> string) \<Rightarrow> string \<Rightarrow> agent_world \<Rightarrow> served" where
  "handlePostTaskNote c ms junk request w =
     (let body = body_or_empty request in
      case (read_str body ''taskId'' WT_TASK_ID_SIZE, read_str body ''note'' WT_TASK_BODY_SIZE) of
        (Some taskId, Some note) \<Rightarrow>
          (let createdBy = read_or body ''createdBy'' WT_TASK_AGENT_SIZE ''ceo'';
               t = escape_unchecked (junk 0) taskId (WT_TASK_ID_SIZE * 2); n = escape_unchecked (junk 1) note (WT_TASK_BODY_SIZE * 2);
               b = escape_unchecked (junk 2) createdBy (WT_TASK_AGENT_SIZE * 2);
               line = snprintf_s (WT_TASK_BODY_SIZE * 2 + 512) (render_object [(''schema'', JStr ''woventeam.task_event.v0.1''),
                   (''taskId'', raw_str t), (''eventType'', JStr ''note''), (''message'', raw_str n), (''createdBy'', raw_str b),
                   (''createdAtUnixMs'', JNum (m_ms (ms 0)))]) in
           if note = [] then refuse (bad_request ''task_note_required'') w
           else (case append_line c (ms 0) line w of
             (ok, w1) \<Rightarrow>
               (if ok then (done_reply, snd (appendTaskRoomEvent c (ms 1) taskId ''all'' ''task.note'' ''note'' note w1), [])
                else (server_error ''append_failed'', w1, []))))
      | _ \<Rightarrow> refuse (bad_request ''task_note_required'') w)"

definition handlePostTaskReroute :: "WtConfig \<Rightarrow> (nat \<Rightarrow> moment) \<Rightarrow> (nat \<Rightarrow> string) \<Rightarrow> string \<Rightarrow> agent_world \<Rightarrow> served" where
  "handlePostTaskReroute c ms junk request w =
     (let body = body_or_empty request in
      case (read_str body ''taskId'' WT_TASK_ID_SIZE, read_str body ''assignedAgent'' WT_TASK_AGENT_SIZE) of
        (Some taskId, Some who) \<Rightarrow>
          (let host = read_or body ''executionHost'' WT_TASK_AGENT_SIZE []; createdBy = read_or body ''createdBy'' WT_TASK_AGENT_SIZE ''ceo'';
               t = escape_unchecked (junk 0) taskId (WT_TASK_ID_SIZE * 2); a = escape_unchecked (junk 1) who (WT_TASK_AGENT_SIZE * 2);
               h = escape_unchecked (junk 2) host (WT_TASK_AGENT_SIZE * 2); b = escape_unchecked (junk 3) createdBy (WT_TASK_AGENT_SIZE * 2);
               line = snprintf_s 1280 (render_object [(''schema'', JStr ''woventeam.task_event.v0.1''), (''taskId'', raw_str t),
                   (''eventType'', JStr ''routing''), (''status'', JStr ''queued''), (''assignedAgent'', raw_str a),
                   (''executionHost'', raw_str h), (''message'', JStr ''Task rerouted by operator.''), (''createdBy'', raw_str b),
                   (''createdAtUnixMs'', JNum (m_ms (ms 0)))]);
               (ok, w1) = append_line c (ms 0) line w in
           (if ok then done_reply else server_error ''append_failed'', w1, []))
      | _ \<Rightarrow> refuse (bad_request ''task_agent_required'') w)"

end
