(* ===== verification/Roomd_Remote.thy ===== *)
theory Roomd_Remote
  imports Roomd_Control Roomd_Routing Claim_Protocol
begin

text \<open>
  Remote agents, from \<^verbatim>\<open>src/src/wt_roomd.c\<close>: issuing and revoking tokens, the operator session
  endpoint, host capabilities, the remote claim of a task and remote status events.
\<close>

section \<open>Tokens\<close>

definition issue_fields :: "string \<Rightarrow> string \<Rightarrow> string \<Rightarrow> string \<Rightarrow> string \<Rightarrow> int \<Rightarrow> int \<Rightarrow> (string \<times> jval) list" where
  "issue_fields tokenId tokenHash tokenPreview role subject issuedAt ttlSeconds =
     [(''schema'', JStr ''woventeam.auth_token.v0.1''), (''eventType'', JStr ''issue''), (''tokenId'', JStr tokenId),
      (''tokenHash'', JStr tokenHash), (''tokenPreview'', JStr tokenPreview), (''role'', JStr role), (''subject'', JStr subject),
      (''issuedAtUnixMs'', JNum issuedAt), (''ttlSeconds'', JNum ttlSeconds), (''createdBy'', JStr ''operator''),
      (''createdAtUnixMs'', JNum issuedAt)]"

definition requested_ttl :: "WtConfig \<Rightarrow> string \<Rightarrow> int" where
  "requested_ttl c body =
     (let ttl = read_long_or body ''ttlSeconds'' (if authTokenDefaultTtlSeconds c > 0 then authTokenDefaultTtlSeconds c else 3600)
      in if ttl < 1 then 1 else ttl)"

text \<open>The record is printed into 2048 bytes and appended as printed.\<close>

definition handlePostAuthToken :: "WtConfig \<Rightarrow> (nat \<Rightarrow> moment) \<Rightarrow> token_source \<Rightarrow> string \<Rightarrow> agent_world \<Rightarrow> served" where
  "handlePostAuthToken c ms src request w =
     (let body = body_or_empty request;
          role = read_or body ''role'' 32 ''agent'';
          subject = read_or body ''subject'' WT_TASK_AGENT_SIZE role;
          ttlSeconds = requested_ttl c body;
          (token, tokenId) = makeToken src 512 64;
          tokenHash = wtTokenHash token 128; tokenPreview = wtTokenPreview token 64;
          xs = [(tokenHash, 256), (tokenPreview, 128), (tokenId, 128), (role, 64), (subject, WT_TASK_AGENT_SIZE * 2)] in
      if role \<noteq> ''operator'' \<and> role \<noteq> ''agent'' then refuse (bad_request ''invalid_role'') w
      else if \<not> escapes_fit xs then refuse (server_error ''token_escape_failed'') w
      else (case event_at c (ms 0) (\<lambda>f s now. write_event f s 2048 xs
                   (issue_fields tokenId tokenHash tokenPreview role subject now ttlSeconds)) w of
        (ok, w1) \<Rightarrow>
          (if ok then ok_reply 1024 (ok_body [(''tokenId'', raw_str tokenId), (''token'', raw_str token), (''role'', raw_str role),
               (''subject'', raw_str subject), (''issuedAtUnixMs'', JNum (m_ms (ms 0))), (''ttlSeconds'', JNum ttlSeconds)])
           else server_error ''append_failed'', w1, [])))"

definition revoke_fields :: "string \<Rightarrow> int \<Rightarrow> (string \<times> jval) list" where
  "revoke_fields tokenId now =
     [(''schema'', JStr ''woventeam.auth_token.v0.1''), (''eventType'', JStr ''revoke''), (''tokenId'', raw_str tokenId),
      (''createdBy'', JStr ''operator''), (''createdAtUnixMs'', JNum now)]"

definition handlePostAuthTokenRevoke :: "WtConfig \<Rightarrow> (nat \<Rightarrow> moment) \<Rightarrow> (nat \<Rightarrow> string) \<Rightarrow> string \<Rightarrow> agent_world \<Rightarrow> served" where
  "handlePostAuthTokenRevoke c ms junk request w =
     (let body = body_or_empty request in
      case read_str body ''tokenId'' 64 of
        None \<Rightarrow> refuse (bad_request ''tokenId_required'') w
      | Some tokenId \<Rightarrow>
          (let line = snprintf_s 512 (render_object (revoke_fields (escape_unchecked (junk 0) tokenId 128) (m_ms (ms 0))));
               (ok, w1) = append_line c (ms 0) line w in
           (if ok then ok_reply 256 (ok_body [(''tokenId'', raw_str tokenId), (''status'', raw_str ''revoked'')])
            else server_error ''append_failed'', w1, [])))"

text \<open>The session file is the world's file at the configured path.\<close>

definition forbidden_utf8 :: "string \<Rightarrow> http_response" where
  "forbidden_utf8 e = wtHttpSendText 403 ''Forbidden'' ''application/json; charset=utf-8'' (error_body e)"

definition handleGetOperatorSession :: "WtConfig \<Rightarrow> io_fault \<Rightarrow> token_source \<Rightarrow> string \<Rightarrow> agent_world \<Rightarrow> served" where
  "handleGetOperatorSession c fault src peerIp w =
     (if \<not> peerIsLocal peerIp then refuse (forbidden_utf8 ''local_origin_required'') w
      else
        (let p = operatorSessionPath c; (token, f) = ensureOperatorSession fault src 512 (w_files w p);
             w1 = w \<lparr> w_files := (w_files w)(p := f) \<rparr>;
             fail500 = (\<lambda>e. wtHttpSendText 500 ''Internal Server Error'' ''application/json; charset=utf-8'' (error_body e)) in
         case token of
           None \<Rightarrow> (fail500 ''operator_session_unavailable'', w1, [])
         | Some t \<Rightarrow>
             (case wtJsonEscape t 1024 of
                None \<Rightarrow> (fail500 ''operator_session_encode_failed'', w1, [])
              | Some escaped \<Rightarrow> (ok_reply 1400 (ok_body [(''operatorSession'', raw_str escaped)]), w1, []))))"

section \<open>Hosts\<close>

definition capability_fields :: "string \<Rightarrow> string \<Rightarrow> string \<Rightarrow> string \<Rightarrow> int \<Rightarrow> (string \<times> jval) list" where
  "capability_fields host who profiles adapters now =
     [(''schema'', JStr ''woventeam.host_event.v0.1''), (''eventType'', JStr ''capabilities''), (''host'', JStr host),
      (''agent'', JStr who), (''profiles'', JStr profiles), (''adapters'', JStr adapters),
      (''createdBy'', JStr (''wt-agent@'' @ who)), (''createdAtUnixMs'', JNum now)]"

definition subject_mismatch :: "WtAuthContext \<Rightarrow> string list \<Rightarrow> bool" where
  "subject_mismatch auth names \<longleftrightarrow> auth_role auth = ''agent'' \<and> auth_subject auth \<noteq> [] \<and> auth_subject auth \<notin> set names"

definition forbidden :: "string \<Rightarrow> http_response" where
  "forbidden e = json_reply 403 ''Forbidden'' (error_body e)"

definition handlePostHostCapabilities :: "WtConfig \<Rightarrow> (nat \<Rightarrow> moment) \<Rightarrow> string \<Rightarrow> WtAuthContext \<Rightarrow> agent_world \<Rightarrow> served" where
  "handlePostHostCapabilities c ms request auth w =
     (let body = body_or_empty request in
      case (read_str body ''host'' WT_TASK_AGENT_SIZE, read_str body ''agent'' WT_TASK_AGENT_SIZE) of
        (Some host, Some who) \<Rightarrow>
          (let profiles = read_or body ''profiles'' 256 ''observe''; adapters = read_or body ''adapters'' 256 who;
               xs = [(host, WT_TASK_AGENT_SIZE * 2), (who, WT_TASK_AGENT_SIZE * 2), (profiles, 512), (adapters, 512)] in
           if subject_mismatch auth [who, host] then refuse (forbidden ''subject_mismatch'') w
           else if \<not> escapes_fit xs then refuse (bad_request ''capability_too_large'') w
           else (case event_at c (ms 0) (\<lambda>f s now. write_event f s 2048 xs (capability_fields host who profiles adapters now)) w of
             (ok, w1) \<Rightarrow>
               (if ok then ok_reply 512 (ok_body [(''host'', raw_str host), (''agent'', raw_str who), (''profiles'', raw_str profiles)])
                else server_error ''append_failed'', w1, [])))
      | _ \<Rightarrow> refuse (bad_request ''host_agent_required'') w)"

section \<open>Remote claims\<close>

definition not_claimed :: "string \<Rightarrow> http_response" where
  "not_claimed why = wtHttpSendText 200 ''OK'' ''application/json; charset=utf-8''
     (ok_body [(''claimed'', JLit ''false''), (''reason'', raw_str why)])"

definition capability_unmet_reply :: http_response where
  "capability_unmet_reply = wtHttpSendText 409 ''Conflict'' ''application/json; charset=utf-8''
     (render_object [(''ok'', JLit ''false''), (''error'', raw_str ''capability_unmet''),
        (''reason'', raw_str ''capability_unmet'')] @ [NL])"

definition claim_reply :: "(nat \<Rightarrow> string) \<Rightarrow> WtTaskSummary \<Rightarrow> string \<Rightarrow> string \<Rightarrow> int \<Rightarrow> int \<Rightarrow> http_response" where
  "claim_reply junk task who host attempt expires =
     ok_reply (WT_TASK_BODY_SIZE * 2 + WT_TASK_TITLE_SIZE * 2 + 1024)
       (ok_body [(''claimed'', JLit ''true''), (''taskId'', raw_str (t_taskId task)), (''assignedAgent'', raw_str who),
          (''executionHost'', raw_str host),
          (''title'', raw_str (escape_unchecked (junk 0) (t_title task) (WT_TASK_TITLE_SIZE * 2))),
          (''body'', raw_str (escape_unchecked (junk 1) (t_body task) (WT_TASK_BODY_SIZE * 2))),
          (''profile'', raw_str (escape_unchecked (junk 2) (t_toolProfile task) (WT_TASK_POLICY_SIZE * 2))),
          (''attempt'', JNum attempt), (''leaseExpiresAtUnixMs'', JNum expires)])"

text \<open>
  Moments: the claim scan (0), whose clock is the handler's \<open>nowMs\<close>, the host scan (1), the lease
  scan (2), the reclaim (3) and the lease (4).
\<close>

definition handlePostRemoteClaim :: "WtConfig \<Rightarrow> (nat \<Rightarrow> moment) \<Rightarrow> (nat \<Rightarrow> string) \<Rightarrow> string \<Rightarrow> WtAuthContext \<Rightarrow> agent_world \<Rightarrow> served" where
  "handlePostRemoteClaim c ms junk request auth w =
     (let body = body_or_empty request in
      case (read_str body ''agent'' WT_TASK_AGENT_SIZE, read_str body ''host'' WT_TASK_AGENT_SIZE) of
        (Some who, Some host) \<Rightarrow>
          (if subject_mismatch auth [who, host] then refuse (forbidden ''subject_mismatch'') w
           else
             (let nowMs = m_ms (ms 0); w0 = read_ledger (ms 0) w in
              case wtTaskFindClaimableForAgentOnHost (w_ledger w0) who host nowMs of
                None \<Rightarrow> refuse (not_claimed ''no_task'') w0
              | Some task \<Rightarrow>
                  (let w1 = read_ledger (ms 1) w0 in
                   if \<not> host_offers (w_ledger w1) host who (t_toolProfile task) then
                     refuse capability_unmet_reply w1
                   else
                     (let w2 = read_ledger (ms 2) w1;
                          v = wtTaskFindActiveLease (w_ledger w2) (t_taskId task) WT_TASK_AGENT_SIZE;
                          reclaimMessage = snprintf_s 256 (''Remote auto-reclaim by wt-agent@'' @ who @ '' on '' @ host @ '' after lease expired.'');
                          attempt = to_int32 (lv_attempt v + 1);
                          expires = sll (nowMs + lease_duration c * 1000) in
                      if lv_active v \<and> lv_expires v > nowMs \<and> lv_holder v \<noteq> who then refuse (not_claimed ''foreign_lease'') w2
                      else (case (if lv_active v \<and> lv_expires v \<le> nowMs
                                  then event_at c (ms 3) (\<lambda>f s now. wtTaskAppendReclaimEvent f s now (t_taskId task) (lv_holder v) who
                                         (Some ''lease_expired'') reclaimMessage) w2
                                  else (True, w2)) of
                        (False, w3) \<Rightarrow> (server_error ''reclaim_failed'', w3, [])
                      | (True, w3) \<Rightarrow>
                          (case event_at c (ms 4) (\<lambda>f s now. wtTaskAppendLeaseEvent f s now (t_taskId task) who attempt expires) w3 of
                             (ok, w4) \<Rightarrow> (if ok then claim_reply junk task who host attempt expires else server_error ''lease_failed'', w4, [])))))))
      | _ \<Rightarrow> refuse (bad_request ''agent_host_required'') w)"

section \<open>Remote status events\<close>

definition handlePostRemoteTaskEvent :: "WtConfig \<Rightarrow> (nat \<Rightarrow> moment) \<Rightarrow> string \<Rightarrow> WtAuthContext \<Rightarrow> agent_world \<Rightarrow> served" where
  "handlePostRemoteTaskEvent c ms request auth w =
     (let body = body_or_empty request in
      case (read_str body ''taskId'' WT_TASK_ID_SIZE, read_str body ''status'' WT_TASK_STATUS_SIZE) of
        (Some taskId, Some status) \<Rightarrow>
          (let who = read_or body ''agent'' WT_TASK_AGENT_SIZE (if auth_subject auth \<noteq> [] then auth_subject auth else ''remote'');
               message = read_or body ''message'' WT_TASK_TITLE_SIZE (''Remote agent reported '' @ status @ ''.'');
               actor = snprintf_s (WT_TASK_AGENT_SIZE + 16) (''wt-agent@'' @ who) in
           if status \<notin> {''running'', ''complete'', ''failed'', ''cancelled''} then refuse (bad_request ''unsupported_status'') w
           else if subject_mismatch auth [who] then refuse (forbidden ''subject_mismatch'') w
           else (case event_at c (ms 0) (\<lambda>f s now. wtTaskAppendStatusEvent f s now taskId status actor message) w of
             (ok, w1) \<Rightarrow>
               (if \<not> ok then (server_error ''append_failed'', w1, [])
                else (ok_reply 512 (ok_body [(''taskId'', raw_str taskId), (''status'', raw_str status)]),
                      snd (appendTaskRoomEvent c (ms 1) taskId ''all''
                        (if status = ''complete'' then ''task.result'' else ''task.status'') status message w1), []))))
      | _ \<Rightarrow> refuse (bad_request ''task_status_required'') w)"

end
