(* ===== verification/Roomd_Config.thy ===== *)
theory Roomd_Config
  imports Roomd_Control Config_Facts Token_Budget
begin

text \<open>
  Configuration and token statistics over HTTP, from \<^verbatim>\<open>src/src/wt_roomd.c\<close>: \<open>handlePostConfig\<close>,
  \<open>sendConfigJson\<close>, \<open>sendTokenJson\<close>, and \<open>sendAdaptersJson\<close> with its preflight checks.

  The handler runs in a forked child: the new configuration reaches other requests only through the
  configuration file it writes.
\<close>

section \<open>Reporting the configuration\<close>

definition config_escapes :: "WtConfig \<Rightarrow> (string \<times> nat) list" where
  "config_escapes c =
     [(configPath c, WT_PATH_SIZE * 2), (claudeMode c, WT_NAME_SIZE * 2), (chatgptMode c, WT_NAME_SIZE * 2),
      (geminiMode c, WT_NAME_SIZE * 2), (claudeCommand c, WT_PATH_SIZE * 2), (gptCommand c, WT_PATH_SIZE * 2),
      (geminiCommand c, WT_PATH_SIZE * 2), (blockedVendors c, WT_PATH_SIZE * 2), (defaultAutonomyLevel c, WT_NAME_SIZE * 2),
      (claudeDefaultAutonomyLevel c, WT_NAME_SIZE * 2), (chatgptDefaultAutonomyLevel c, WT_NAME_SIZE * 2),
      (geminiDefaultAutonomyLevel c, WT_NAME_SIZE * 2)]"

definition config_fields :: "WtConfig \<Rightarrow> (string \<times> jval) list" where
  "config_fields c =
     [(''configPath'', JStr (configPath c)), (''tokenTelemetryEnabled'', bool_lit (tokenTelemetryEnabled c)),
      (''tokenDailyBudget'', JNum (tokenDailyBudget c)), (''tokenMonthlyBudget'', JNum (tokenMonthlyBudget c)),
      (''tokenWarningPercent'', JNum (tokenWarningPercent c)), (''tokenCostPerMillionCents'', JNum (tokenCostPerMillionCents c)),
      (''contextMessageCount'', JNum (contextMessageCount c)), (''agentPollMilliseconds'', JNum (agentPollMilliseconds c)),
      (''adapterTimeoutSeconds'', JNum (adapterTimeoutSeconds c)), (''adapterMaxOutputBytes'', JNum (adapterMaxOutputBytes c)),
      (''maxActiveTasksPerAgent'', JNum (maxActiveTasksPerAgent c)), (''maxSubtasksPerParent'', JNum (maxSubtasksPerParent c)),
      (''maxTasksPerInitiative'', JNum (maxTasksPerInitiative c)), (''roleRoutingEnabled'', bool_lit (roleRoutingEnabled c)),
      (''enableCodexAdapter'', bool_lit (enableCodexAdapter c)), (''enableClaudeAdapter'', bool_lit (enableClaudeAdapter c)),
      (''enableGeminiAdapter'', bool_lit (enableGeminiAdapter c)), (''claudeMode'', JStr (claudeMode c)),
      (''chatgptMode'', JStr (chatgptMode c)), (''geminiMode'', JStr (geminiMode c)), (''claudeCommand'', JStr (claudeCommand c)),
      (''gptCommand'', JStr (gptCommand c)), (''geminiCommand'', JStr (geminiCommand c)), (''blockedVendors'', JStr (blockedVendors c)),
      (''tokenBudgetPerInitiative'', JNum (tokenBudgetPerInitiative c)), (''tokenBudgetPerModelFamily'', JNum (tokenBudgetPerModelFamily c)),
      (''defaultAutonomyLevel'', JStr (defaultAutonomyLevel c)), (''claudeDefaultAutonomyLevel'', JStr (claudeDefaultAutonomyLevel c)),
      (''chatgptDefaultAutonomyLevel'', JStr (chatgptDefaultAutonomyLevel c)),
      (''geminiDefaultAutonomyLevel'', JStr (geminiDefaultAutonomyLevel c))]"

definition sendConfigJson :: "WtConfig \<Rightarrow> http_response" where
  "sendConfigJson c =
     (if \<not> escapes_fit (config_escapes c) then server_error ''config serialization failed''
      else ok_reply 8192 (ok_body (config_fields c)))"

section \<open>Changing it\<close>

text \<open>One \<open>if (wtJsonReadLong(...) == 0)\<close>: the field is set when the body has the number.\<close>

definition set_long :: "string \<Rightarrow> string \<Rightarrow> (int \<Rightarrow> WtConfig \<Rightarrow> WtConfig) \<Rightarrow> WtConfig \<Rightarrow> WtConfig" where
  "set_long body key put c = (case wtJsonReadLong body key of None \<Rightarrow> c | Some v \<Rightarrow> put v c)"

definition clamp_percent :: "int \<Rightarrow> int" where
  "clamp_percent v = (let v1 = (if v < 1 then 1 else v) in if v1 > 100 then 100 else v1)"

definition posted_cap :: "int \<Rightarrow> int" where
  "posted_cap v = (if v < 1 then 1 else to_int32 v)"

definition post_numbers :: "string \<Rightarrow> WtConfig \<Rightarrow> WtConfig" where
  "post_numbers body c0 = fold (\<lambda>(key, put) c. set_long body key put c)
     [(''tokenTelemetryEnabled'', \<lambda>v c. c \<lparr> tokenTelemetryEnabled := v \<noteq> 0 \<rparr>),
      (''tokenDailyBudget'', \<lambda>v c. c \<lparr> tokenDailyBudget := if v < 0 then 0 else v \<rparr>),
      (''tokenMonthlyBudget'', \<lambda>v c. c \<lparr> tokenMonthlyBudget := if v < 0 then 0 else v \<rparr>),
      (''tokenWarningPercent'', \<lambda>v c. c \<lparr> tokenWarningPercent := clamp_percent v \<rparr>),
      (''tokenCostPerMillionCents'', \<lambda>v c. c \<lparr> tokenCostPerMillionCents := if v < 0 then 0 else to_int32 v \<rparr>),
      (''enableCodexAdapter'', \<lambda>v c. c \<lparr> enableCodexAdapter := v \<noteq> 0 \<rparr>),
      (''roleRoutingEnabled'', \<lambda>v c. c \<lparr> roleRoutingEnabled := v \<noteq> 0 \<rparr>),
      (''maxActiveTasksPerAgent'', \<lambda>v c. c \<lparr> maxActiveTasksPerAgent := posted_cap v \<rparr>),
      (''maxSubtasksPerParent'', \<lambda>v c. c \<lparr> maxSubtasksPerParent := posted_cap v \<rparr>),
      (''maxTasksPerInitiative'', \<lambda>v c. c \<lparr> maxTasksPerInitiative := posted_cap v \<rparr>),
      (''enableClaudeAdapter'', \<lambda>v c. c \<lparr> enableClaudeAdapter := v \<noteq> 0 \<rparr>),
      (''enableGeminiAdapter'', \<lambda>v c. c \<lparr> enableGeminiAdapter := v \<noteq> 0 \<rparr>),
      (''tokenBudgetPerInitiative'', \<lambda>v c. c \<lparr> tokenBudgetPerInitiative := if v < 0 then 0 else v \<rparr>),
      (''tokenBudgetPerModelFamily'', \<lambda>v c. c \<lparr> tokenBudgetPerModelFamily := if v < 0 then 0 else v \<rparr>)] c0"

text \<open>
  The strings are read straight into the configuration and the return codes are not looked at. The
  configuration lives on the stack of \<open>main\<close> and is never cleared, so a value that is too long leaves its
  beginning without a terminator, running on into \<open>junk k\<close>, what memory holds behind the buffer up to
  the next zero byte when the text is used.
\<close>

definition post_strings :: "(nat \<Rightarrow> string) \<Rightarrow> string \<Rightarrow> WtConfig \<Rightarrow> WtConfig" where
  "post_strings junk body c = c \<lparr>
     claudeMode := read_raw (junk 0) body ''claudeMode'' WT_NAME_SIZE (claudeMode c),
     chatgptMode := read_raw (junk 1) body ''chatgptMode'' WT_NAME_SIZE (chatgptMode c),
     geminiMode := read_raw (junk 2) body ''geminiMode'' WT_NAME_SIZE (geminiMode c),
     claudeCommand := read_raw (junk 3) body ''claudeCommand'' WT_PATH_SIZE (claudeCommand c),
     gptCommand := read_raw (junk 4) body ''gptCommand'' WT_PATH_SIZE (gptCommand c),
     geminiCommand := read_raw (junk 5) body ''geminiCommand'' WT_PATH_SIZE (geminiCommand c),
     blockedVendors := read_raw (junk 6) body ''blockedVendors'' WT_PATH_SIZE (blockedVendors c),
     defaultAutonomyLevel := read_raw (junk 7) body ''defaultAutonomyLevel'' WT_NAME_SIZE (defaultAutonomyLevel c),
     claudeDefaultAutonomyLevel := read_raw (junk 8) body ''claudeDefaultAutonomyLevel'' WT_NAME_SIZE (claudeDefaultAutonomyLevel c),
     chatgptDefaultAutonomyLevel := read_raw (junk 9) body ''chatgptDefaultAutonomyLevel'' WT_NAME_SIZE (chatgptDefaultAutonomyLevel c),
     geminiDefaultAutonomyLevel := read_raw (junk 10) body ''geminiDefaultAutonomyLevel'' WT_NAME_SIZE (geminiDefaultAutonomyLevel c) \<rparr>"

definition handlePostConfig :: "WtConfig \<Rightarrow> io_fault \<Rightarrow> (nat \<Rightarrow> string) \<Rightarrow> string \<Rightarrow> agent_world \<Rightarrow> served" where
  "handlePostConfig c fault junk request =
     with_body missing_body request (\<lambda>body w.
       (if configPath c = [] then
          refuse (json_reply 409 ''Conflict'' (error_body ''config file path unavailable'')) w
        else (let c' = post_strings junk body (post_numbers body c) in
          case wtConfigWriteFile fault c' (configPath c') (w_files w) of
            (ok, fs) \<Rightarrow> (if ok then sendConfigJson c' else server_error ''config write failed'', w \<lparr> w_files := fs \<rparr>, []))))"

section \<open>Token statistics\<close>

text \<open>C division truncates towards zero; the divisors here are positive.\<close>

definition c_div :: "int \<Rightarrow> int \<Rightarrow> int" where
  "c_div a b = sgn a * (\<bar>a\<bar> div b)"

definition cost_cents :: "WtConfig \<Rightarrow> int \<Rightarrow> int" where
  "cost_cents c tokens =
     (if tokenCostPerMillionCents c > 0 then c_div (sll (tokens * tokenCostPerMillionCents c)) 1000000 else 0)"

definition budget_percent :: "int \<Rightarrow> int \<Rightarrow> int" where
  "budget_percent tokens budget = (if budget > 0 then to_int32 (c_div (sll (tokens * 100)) budget) else 0)"

definition token_fields :: "WtConfig \<Rightarrow> WtTokenSummary \<Rightarrow> (string \<times> jval) list" where
  "token_fields c s =
     [(''enabled'', bool_lit (tokenTelemetryEnabled c)), (''tokenDailyBudget'', JNum (tokenDailyBudget c)),
      (''tokenMonthlyBudget'', JNum (tokenMonthlyBudget c)), (''tokenWarningPercent'', JNum (tokenWarningPercent c)),
      (''tokenCostPerMillionCents'', JNum (tokenCostPerMillionCents c)),
      (''dayWindowAllocatedTokens'', JNum (dayWindowAllocatedTokens s)),
      (''monthWindowAllocatedTokens'', JNum (monthWindowAllocatedTokens s)),
      (''allTimeAllocatedTokens'', JNum (allTimeAllocatedTokens s)),
      (''dayWindowActualTokens'', JNum (dayWindowActualTokens s)),
      (''monthWindowActualTokens'', JNum (monthWindowActualTokens s)),
      (''allTimeActualTokens'', JNum (allTimeActualTokens s)),
      (''dayWindowPackages'', JNum (dayWindowPackages s)), (''monthWindowPackages'', JNum (monthWindowPackages s)),
      (''allTimePackages'', JNum (allTimePackages s)), (''dayWindowUsageEvents'', JNum (dayWindowUsageEvents s)),
      (''monthWindowUsageEvents'', JNum (monthWindowUsageEvents s)), (''allTimeUsageEvents'', JNum (allTimeUsageEvents s)),
      (''dayWindowCostCents'', JNum (cost_cents c (dayWindowAllocatedTokens s))),
      (''monthWindowCostCents'', JNum (cost_cents c (monthWindowAllocatedTokens s))),
      (''dayWindowActualCostCents'', JNum (dayWindowActualCostCents s)),
      (''monthWindowActualCostCents'', JNum (monthWindowActualCostCents s)),
      (''allTimeActualCostCents'', JNum (allTimeActualCostCents s)),
      (''dayWindowBudgetPercent'', JNum (budget_percent (dayWindowAllocatedTokens s) (tokenDailyBudget c))),
      (''monthWindowBudgetPercent'', JNum (budget_percent (monthWindowAllocatedTokens s) (tokenMonthlyBudget c)))]"

definition sendTokenJson :: "WtConfig \<Rightarrow> log_file \<Rightarrow> int \<Rightarrow> http_response" where
  "sendTokenJson c ledger now = ok_reply 1024 (ok_body (token_fields c (wtTaskSummarizeTokenBudgets ledger now)))"

section \<open>Adapters\<close>

text \<open>
  \<open>executable p\<close> is \<open>access(p, X_OK) == 0\<close>, \<open>writable p\<close> is \<open>access(p, W_OK | X_OK) == 0\<close>; the
  search path is the value of \<open>PATH\<close>, if it is set.
\<close>

definition path_candidates :: "string option \<Rightarrow> string \<Rightarrow> string list" where
  "path_candidates search command =
     map (\<lambda>dir. snprintf_s WT_PATH_SIZE (dir @ ''/'' @ command))
       (split_tokens (CHR '':'') [] (snprintf_s 1024 (or_default ''/usr/local/bin:/usr/bin:/bin'' search)))"

definition resolveCommandPath :: "(string \<Rightarrow> bool) \<Rightarrow> string option \<Rightarrow> string \<Rightarrow> nat \<Rightarrow> bool \<times> string" where
  "resolveCommandPath executable search command resolvedSize =
     (if command = [] then (False, [])
      else if CHR ''/'' \<in> set command then (executable command, snprintf_s resolvedSize command)
      else (case List.find executable (path_candidates search command) of
              Some p \<Rightarrow> (True, snprintf_s resolvedSize p) | None \<Rightarrow> (False, [])))"

definition pathParentWritable :: "(string \<Rightarrow> bool) \<Rightarrow> string \<Rightarrow> bool" where
  "pathParentWritable writable path =
     (if path = [] then False else if writable path then True
      else writable (case before_last (CHR ''/'') (snprintf_s WT_PATH_SIZE path) of
                       None \<Rightarrow> ''.'' | Some [] \<Rightarrow> ''/'' | Some p \<Rightarrow> p))"

definition failure_class :: "string \<Rightarrow> string" where
  "failure_class message =
     (if strstr message ''timedOut=true'' \<noteq> None then ''timeout''
      else if strstr message ''exitCode=127'' \<noteq> None then ''missing_cli''
      else if strstr message ''exitCode='' \<noteq> None then ''nonzero_exit'' else ''adapter_failed'')"

definition failure_step :: "string \<Rightarrow> string \<Rightarrow> (string \<times> string) option \<Rightarrow> (string \<times> string) option" where
  "failure_step actor line latest =
     (if \<not> lineHasSchema line ''woventeam.task_event.v0.1'' \<or> read_str line ''status'' WT_TASK_STATUS_SIZE \<noteq> Some ''failed'' \<or>
         read_str line ''createdBy'' WT_TASK_AGENT_SIZE \<noteq> Some actor then latest
      else (let message = read_or line ''message'' WT_TASK_TITLE_SIZE ''adapter failed'' in Some (failure_class message, message)))"

definition readLatestAdapterFailure :: "log_file \<Rightarrow> string \<Rightarrow> (string \<times> string) option" where
  "readLatestAdapterFailure ledger agentName =
     fold (failure_step (snprintf_s WT_TASK_AGENT_SIZE (''wt-agent@'' @ agentName))) (ledger_lines ledger) None"

record adapter_checks =
  ac_enabled :: bool
  ac_mode :: bool
  ac_command :: bool
  ac_path :: string
  ac_runtime :: bool
  ac_timeout :: bool
  ac_output :: bool

definition check_adapter :: "WtConfig \<Rightarrow> (string \<Rightarrow> bool) \<Rightarrow> (string \<Rightarrow> bool) \<Rightarrow> string option \<Rightarrow> string \<Rightarrow> bool \<Rightarrow> string \<Rightarrow> string \<Rightarrow> adapter_checks" where
  "check_adapter c executable writable search adapterName enabled mode command =
     (case resolveCommandPath executable search command WT_PATH_SIZE of
        (launchable, p) \<Rightarrow>
          \<lparr> ac_enabled = enabled, ac_mode = (adapterName = ''codex'' \<or> mode = ''adapter''), ac_command = launchable, ac_path = p,
            ac_runtime = pathParentWritable writable (runtimeRootPath c), ac_timeout = adapterTimeoutSeconds c > 0,
            ac_output = adapterMaxOutputBytes c > 0 \<rparr>)"

definition preflight_ok :: "adapter_checks \<Rightarrow> bool" where
  "preflight_ok k \<longleftrightarrow> ac_enabled k \<and> ac_mode k \<and> ac_command k \<and> ac_runtime k \<and> ac_timeout k \<and> ac_output k"

definition preflight_reason :: "adapter_checks \<Rightarrow> string" where
  "preflight_reason k =
     (if \<not> ac_enabled k then ''adapter disabled''
      else if \<not> ac_mode k then ''adapter mode must be adapter''
      else if \<not> ac_command k then ''command is missing or not executable''
      else if \<not> ac_runtime k then ''runtime root or parent is not writable''
      else if \<not> ac_timeout k then ''adapter timeout must be greater than zero''
      else if \<not> ac_output k then ''adapter output cap must be greater than zero'' else ''ready'')"

definition adapter_json :: "WtConfig \<Rightarrow> log_file \<Rightarrow> adapter_checks \<Rightarrow> string \<Rightarrow> string \<Rightarrow> string \<Rightarrow> string \<Rightarrow> string \<Rightarrow> string" where
  "adapter_json c ledger k agentName adapterName mode command profilesJson =
     (let (failureClass, failureMessage) = (case readLatestAdapterFailure ledger agentName of Some f \<Rightarrow> f | None \<Rightarrow> ([], []));
          state = (if ac_command k then ''launchable'' else ''missing'');
          preflight = (if \<not> ac_enabled k then ''disabled'' else if preflight_ok k then ''ready'' else ''not_ready'') in
      if \<not> escapes_fit [(agentName, WT_NAME_SIZE * 2), (adapterName, WT_NAME_SIZE * 2), (mode, WT_NAME_SIZE * 2),
             (command, WT_PATH_SIZE * 2), (ac_path k, WT_PATH_SIZE * 2), (runtimeRootPath c, WT_PATH_SIZE * 2), (state, 64),
             (preflight, 64), (preflight_reason k, 256), (failureClass, 128), (failureMessage, WT_TASK_TITLE_SIZE * 2)] then []
      else snprintf_s 4096 (render_object
        [(''agent'', JStr agentName), (''adapter'', JStr adapterName), (''enabled'', bool_lit (ac_enabled k)), (''mode'', JStr mode),
         (''command'', JStr command), (''commandPath'', JStr (ac_path k)), (''state'', JStr state), (''profiles'', JLit profilesJson),
         (''preflight'', JLit (render_object
            [(''ok'', bool_lit (preflight_ok k)), (''state'', JStr preflight), (''reason'', JStr (preflight_reason k)),
             (''runtimeRootPath'', JStr (runtimeRootPath c)),
             (''checks'', JLit (render_object [(''enabled'', bool_lit (ac_enabled k)), (''modeReady'', bool_lit (ac_mode k)),
                (''commandExecutable'', bool_lit (ac_command k)), (''runtimeWritable'', bool_lit (ac_runtime k)),
                (''timeoutConfigured'', bool_lit (ac_timeout k)), (''outputCapConfigured'', bool_lit (ac_output k))])),
             (''lastFailure'', JLit (render_object [(''class'', JStr failureClass), (''message'', JStr failureMessage)]))]))]))"

text \<open>\<open>strncat(body, piece, sizeof(body) - strlen(body) - 1)\<close>.\<close>

definition strncat_to :: "nat \<Rightarrow> string \<Rightarrow> string \<Rightarrow> string" where
  "strncat_to bodySize body piece = body @ take (bodySize - length body - 1) piece"

definition quoted_list :: "string list \<Rightarrow> string" where
  "quoted_list xs = ''['' @ comma_join (map (\<lambda>x. [DQ] @ x @ [DQ]) xs) @ '']''"

definition sendAdaptersJson :: "WtConfig \<Rightarrow> (nat \<Rightarrow> log_file) \<Rightarrow> (string \<Rightarrow> bool) \<Rightarrow> (string \<Rightarrow> bool) \<Rightarrow> string option \<Rightarrow> http_response" where
  "sendAdaptersJson c ledger executable writable search =
     (let item = (\<lambda>k who name enabled mode command profiles.
            adapter_json c (ledger k) (check_adapter c executable writable search name enabled mode command) who name mode command profiles);
          readers = quoted_list [''observe'', ''ops_read''] in
      wtHttpSendText 200 ''OK'' ''application/json; charset=utf-8''
        (fold (\<lambda>piece body. strncat_to 8192 body piece)
          [item 0 ''chatgpt'' ''codex'' (enableCodexAdapter c) (chatgptMode c) (gptCommand c) (quoted_list [''repo_branch'', ''test_local'']),
           '','', item 1 ''claude'' ''claude'' (enableClaudeAdapter c) (claudeMode c) (claudeCommand c) readers,
           '','', item 2 ''gemini'' ''gemini'' (enableGeminiAdapter c) (geminiMode c) (geminiCommand c) readers, '']}'' @ [NL]]
          (''{'' @ [DQ] @ ''ok'' @ [DQ] @ '':true,'' @ [DQ] @ ''adapters'' @ [DQ] @ '':['')))"

interpretation failures: line_scanner "failure_step actor"
    "\<lambda>line. lineHasSchema line ''woventeam.task_event.v0.1'' \<and> read_str line ''status'' WT_TASK_STATUS_SIZE = Some ''failed'' \<and>
       read_str line ''createdBy'' WT_TASK_AGENT_SIZE = Some actor" for actor
  by unfold_locales (auto simp: failure_step_def)

end
