(* ===== verification/Roomd_Events.thy ===== *)
theory Roomd_Events
  imports Room_Store Task_Ledger
begin

text \<open>
  The event stream of \<^verbatim>\<open>src/src/wt_roomd.c\<close>: \<open>sendSseEvent\<close>, \<open>streamLedgerDelta\<close> and the loop of
  \<open>handleEvents\<close>, which sends the room messages and the ledger records that appear while a client is
  connected.

  A tick sees one state of the room log and one of the ledger. \<open>sends k\<close> says whether the \<open>k\<close>-th
  \<open>send\<close> of a ledger frame in this tick works; \<open>junk\<close> is an uninitialised buffer that is printed when
  a message does not fit its own.
\<close>

definition sse_frame :: "string \<Rightarrow> string \<Rightarrow> string" where
  "sse_frame kind payload = ''event: '' @ kind @ [NL] @ ''data: '' @ payload @ [NL, NL]"

definition sendSseEvent :: "string \<Rightarrow> WtMessage \<Rightarrow> string" where
  "sendSseEvent junk message = snprintf_s (WT_MESSAGE_JSON_SIZE + 64)
     (sse_frame ''message'' (case wtMessageToJson message WT_MESSAGE_JSON_SIZE of Some json \<Rightarrow> json | None \<Rightarrow> junk))"

section \<open>New ledger records\<close>

text \<open>The line without its newline, and without one carriage return before it.\<close>

definition strip_record :: "string \<Rightarrow> string" where
  "strip_record text = (if text \<noteq> [] \<and> last text = CR then butlast text else text)"

lemma ledger_line_progress:
  assumes "rest \<noteq> []" "fgets_line (WT_TASK_LEDGER_LINE_SIZE - 1) rest = (raw, rest')"
  shows "length rest' < length rest"
proof -
  obtain c cs where "rest = c # cs" using assms(1) by (cases rest) auto
  with assms(2) fgets_line_progress [of 16382 c cs] show ?thesis by (simp add: WT_TASK_LEDGER_LINE_SIZE_def)
qed

function delta_loop :: "(nat \<Rightarrow> bool) \<Rightarrow> string \<Rightarrow> nat \<Rightarrow> string list \<Rightarrow> nat \<times> string list" where
  "delta_loop sends rest offset sent =
     (if rest = [] then (offset, sent)
      else (case fgets_line (WT_TASK_LEDGER_LINE_SIZE - 1) rest of (raw, rest') \<Rightarrow>
        (let line = cstr raw in
         if line = [] \<or> last line \<noteq> NL then (offset, sent)
         else if butlast line = [] then delta_loop sends rest' (offset + length raw) sent
         else if \<not> sends (length sent) then (offset + length raw, sent)
         else delta_loop sends rest' (offset + length raw)
                (sent @ [snprintf_s (WT_TASK_LEDGER_LINE_SIZE + 64) (sse_frame ''ledger'' (strip_record (butlast line)))]))))"
  by pat_completeness auto
termination
  by (relation "measure (\<lambda>(_, rest, _, _). length rest)") (auto dest: ledger_line_progress [OF _ sym])

declare delta_loop.simps [simp del]

text \<open>The new offset and the frames sent. A ledger shorter than the offset was replaced: skip to its end.\<close>

definition streamLedgerDelta :: "(nat \<Rightarrow> bool) \<Rightarrow> log_file \<Rightarrow> nat \<Rightarrow> nat \<times> string list" where
  "streamLedgerDelta sends ledger offset =
     (case ledger of
        None \<Rightarrow> (offset, [])
      | Some s \<Rightarrow>
          (if offset > length s then (length s, [])
           else if offset = length s then (offset, [])
           else delta_loop sends (drop offset s) offset []))"

section \<open>The loop\<close>

record sse_state =
  sse_lastId :: int
  sse_offset :: nat
  sse_sent :: "string list"

record sse_view =
  sv_room :: log_file
  sv_ledger :: log_file
  sv_sends :: "nat \<Rightarrow> bool"
  sv_junk :: string

definition heartbeat_frame :: string where
  "heartbeat_frame = '': heartbeat'' @ [NL, NL]"

definition event_tick :: "sse_view \<Rightarrow> sse_state \<Rightarrow> sse_state" where
  "event_tick v st =
     (let messages = wtRoomReadMessagesAfter (sv_room v) (sse_lastId st) 64;
          lastId = (if messages = [] then sse_lastId st else messageId (last messages)) in
      case streamLedgerDelta (sv_sends v) (sv_ledger v) (sse_offset st) of
        (offset, frames) \<Rightarrow>
          \<lparr> sse_lastId = lastId, sse_offset = offset,
            sse_sent = sse_sent st @ map (sendSseEvent (sv_junk v)) messages @ frames @
              (if messages = [] \<and> frames = [] then [heartbeat_frame] else []) \<rparr>)"

definition connect :: "log_file \<Rightarrow> sse_state" where
  "connect ledger = \<lparr> sse_lastId = 0, sse_offset = length (bytes ledger), sse_sent = [] \<rparr>"

definition handleEvents :: "log_file \<Rightarrow> (nat \<Rightarrow> sse_view) \<Rightarrow> sse_state" where
  "handleEvents seed views = fold (\<lambda>tick. event_tick (views tick)) [0..<7200] (connect seed)"

section \<open>One pass over whole records\<close>

definition stored_lines :: "string list \<Rightarrow> string" where
  "stored_lines rs = concat (map (\<lambda>r. r @ [NL]) rs)"

text \<open>Records that fit the line buffer; those that do not stop the stream for good.\<close>

definition streamable :: "string \<Rightarrow> bool" where
  "streamable r \<longleftrightarrow> r \<noteq> [] \<and> NL \<notin> set r \<and> c_string r \<and> last r \<noteq> CR \<and> length r < 16383"

definition ledger_frame :: "string \<Rightarrow> string" where
  "ledger_frame r = sse_frame ''ledger'' r"

lemma stored_lines_simps [simp]:
  "stored_lines [] = []" "stored_lines (r # rs) = r @ NL # stored_lines rs"
  "stored_lines (rs @ rs') = stored_lines rs @ stored_lines rs'"
  by (simp_all add: stored_lines_def)

lemma delta_loop_partial: "NL \<notin> set part \<Longrightarrow> delta_loop sends part offset sent = (offset, sent)"
proof -
  assume nl: "NL \<notin> set part"
  obtain raw rest where f: "fgets_line 16383 part = (raw, rest)" by (cases "fgets_line 16383 part")
  then have "part = raw @ rest" by (rule fgets_line_split)
  with nl have "NL \<notin> set (cstr raw)" by (auto simp: cstr_def dest: set_takeWhileD)
  then have "cstr raw = [] \<or> last (cstr raw) \<noteq> NL" using last_in_set by fastforce
  with f show ?thesis by (subst delta_loop.simps) (auto simp: WT_TASK_LEDGER_LINE_SIZE_def)
qed

text \<open>A record that fills the line buffer is never read as a whole line: the stream does not get past it.\<close>

lemma long_record_blocks:
  assumes "NL \<notin> set r" "16383 \<le> length r"
  shows "delta_loop sends (r @ NL # rest) offset sent = (offset, sent)"
proof -
  let ?r1 = "take 16383 r"
  have l: "length ?r1 = 16383" using assms(2) by simp
  have nl: "NL \<notin> set ?r1" using assms(1) by (auto dest: in_set_takeD)
  have "fgets_line (length ?r1) (?r1 @ (drop 16383 r @ NL # rest)) = (?r1, drop 16383 r @ NL # rest)"
    by (rule fgets_line_full [OF nl])
  then have f: "fgets_line 16383 (r @ NL # rest) = (?r1, drop 16383 r @ NL # rest)"
    unfolding l append_assoc [symmetric] append_take_drop_id .
  have "NL \<notin> set (cstr ?r1)" using nl by (auto simp: cstr_def dest: set_takeWhileD)
  then have "cstr ?r1 = [] \<or> last (cstr ?r1) \<noteq> NL" using last_in_set by fastforce
  with f show ?thesis by (subst delta_loop.simps) (simp add: WT_TASK_LEDGER_LINE_SIZE_def)
qed

lemma delta_loop_record:
  assumes "streamable r"
  shows "delta_loop (\<lambda>_. True) (r @ NL # rest) offset sent = delta_loop (\<lambda>_. True) rest (offset + length r + 1) (sent @ [ledger_frame r])"
proof -
  have r: "r \<noteq> []" "NL \<notin> set r" "c_string r" "last r \<noteq> CR" "length r < 16383" using assms by (auto simp: streamable_def)
  have f: "fgets_line 16383 (r @ NL # rest) = (r @ [NL], rest)"
    using fgets_line_record [of r 16383 rest] r by simp
  have "cstr (r @ [NL]) = r @ [NL]" using r by simp
  moreover have "snprintf_s (WT_TASK_LEDGER_LINE_SIZE + 64) (sse_frame ''ledger'' r) = ledger_frame r"
    using r by (simp add: snprintf_s_def ledger_frame_def sse_frame_def WT_TASK_LEDGER_LINE_SIZE_def)
  ultimately show ?thesis
    using f r by (subst delta_loop.simps) (simp add: WT_TASK_LEDGER_LINE_SIZE_def strip_record_def)
qed

lemma delta_loop_records:
  assumes "\<forall>r \<in> set rs. streamable r" "NL \<notin> set part"
  shows "delta_loop (\<lambda>_. True) (stored_lines rs @ part) offset sent =
    (offset + length (stored_lines rs), sent @ map ledger_frame rs)"
  using assms by (induction rs arbitrary: offset sent) (simp_all add: delta_loop_partial delta_loop_record)

section \<open>All ticks together\<close>

abbreviation newlines :: "string \<Rightarrow> nat" where
  "newlines s \<equiv> length (filter (\<lambda>c. c = NL) s)"

definition one_line :: "string \<Rightarrow> bool" where "one_line r \<longleftrightarrow> NL \<notin> set r"

lemma newlines_stored: "list_all one_line rs \<Longrightarrow> newlines (stored_lines rs) = length rs"
  by (induction rs) (auto simp: one_line_def filter_empty_conv)

lemma newlines_none: "NL \<notin> set s \<Longrightarrow> newlines s = 0"
  by (auto simp: filter_empty_conv)

lemma newlines_prefix: "prefix s t \<Longrightarrow> newlines s \<le> newlines t"
  by (auto simp: prefix_def)

text \<open>Any cut through a sequence of records leaves whole records and a part of one.\<close>

lemma stored_prefix:
  assumes "list_all one_line rs" "NL \<notin> set part" "prefix t (stored_lines rs @ part)"
  shows "\<exists>part'. t = stored_lines (take (newlines t) rs) @ part' \<and> NL \<notin> set part' \<and> newlines t \<le> length rs"
  using assms
proof (induction rs arbitrary: t)
  case Nil
  then have "NL \<notin> set t" by (auto simp: prefix_def)
  then show ?case by (simp add: newlines_none)
next
  case (Cons r rs)
  then have r: "NL \<notin> set r" by (simp add: one_line_def)
  show ?case
  proof (cases "prefix t r")
    case True
    with r have "NL \<notin> set t" by (auto simp: prefix_def)
    then show ?thesis by (simp add: newlines_none)
  next
    case False
    have "prefix t (r @ NL # (stored_lines rs @ part))" using Cons.prems(3) by simp
    with False obtain u where u: "t = r @ NL # u" "prefix u (stored_lines rs @ part)"
      by (auto simp: prefix_append prefix_Cons)
    with Cons.IH [of u] Cons.prems(1,2) r show ?thesis by (auto simp: newlines_none)
  qed
qed

lemma delta_step:
  assumes "bytes ledger = seed @ stored_lines (take k' rs) @ part'" "NL \<notin> set part'" "k \<le> k'" "k' \<le> length rs"
    and "\<forall>r \<in> set rs. streamable r"
  shows "streamLedgerDelta (\<lambda>_. True) ledger (length seed + length (stored_lines (take k rs))) =
    (length seed + length (stored_lines (take k' rs)), map ledger_frame (drop k (take k' rs)))"
proof -
  let ?new = "drop k (take k' rs)"
  have "take k' rs = take k rs @ ?new" using assms(3) by (metis append_take_drop_id min.absorb1 take_take)
  then have split: "stored_lines (take k' rs) = stored_lines (take k rs) @ stored_lines ?new" by (metis stored_lines_simps(3))
  have good: "\<forall>r \<in> set ?new. streamable r" using assms(5) by (auto dest: in_set_dropD in_set_takeD)
  let ?o = "length seed + length (stored_lines (take k rs))"
  show ?thesis
  proof (cases "stored_lines ?new @ part' = []")
    case True
    then have "?new = []" by (cases ?new) auto
    with True assms(1) split show ?thesis by (cases ledger) (auto simp: streamLedgerDelta_def)
  next
    case False
    then obtain s where s: "ledger = Some s" "s = seed @ stored_lines (take k rs) @ stored_lines ?new @ part'"
      using assms(1) split by (cases ledger) auto
    have "drop ?o s = stored_lines ?new @ part'" by (simp add: s(2))
    with s False delta_loop_records [OF good assms(2), of ?o "[]"] split show ?thesis
      by (auto simp: streamLedgerDelta_def)
  qed
qed

definition is_ledger_frame :: "string \<Rightarrow> bool" where
  "is_ledger_frame frame \<longleftrightarrow> starts_with ''event: ledger'' frame"

lemma frame_kinds [simp]:
  "is_ledger_frame (ledger_frame r)" "\<not> is_ledger_frame (sendSseEvent junk m)" "\<not> is_ledger_frame heartbeat_frame"
  by (simp_all add: is_ledger_frame_def ledger_frame_def sendSseEvent_def sse_frame_def snprintf_s_def heartbeat_frame_def
      WT_MESSAGE_JSON_SIZE_def)

lemma event_tick_ledger:
  assumes "streamLedgerDelta (sv_sends v) (sv_ledger v) (sse_offset st) = (offset, map ledger_frame rs)"
  shows "sse_offset (event_tick v st) = offset"
    and "filter is_ledger_frame (sse_sent (event_tick v st)) = filter is_ledger_frame (sse_sent st) @ map ledger_frame rs"
  using assms by (auto simp: event_tick_def Let_def filter_map o_def)

text \<open>A ledger that only grows, seen at the ticks; \<open>rs\<close> are the records completed after the connect.\<close>

definition growing_ledger :: "string \<Rightarrow> (nat \<Rightarrow> log_file) \<Rightarrow> string list \<Rightarrow> string \<Rightarrow> nat \<Rightarrow> bool" where
  "growing_ledger seed ledgers rs part n \<longleftrightarrow>
     (\<forall>i j. i \<le> j \<longrightarrow> prefix (bytes (ledgers i)) (bytes (ledgers j))) \<and> prefix seed (bytes (ledgers 0)) \<and>
     bytes (ledgers n) = seed @ stored_lines rs @ part \<and> (\<forall>r \<in> set rs. streamable r) \<and> NL \<notin> set part"

definition new_bytes :: "string \<Rightarrow> (nat \<Rightarrow> log_file) \<Rightarrow> nat \<Rightarrow> string" where
  "new_bytes seed ledgers i = drop (length seed) (bytes (ledgers i))"

lemma growing_new_bytes:
  assumes "growing_ledger seed ledgers rs part n"
  shows "bytes (ledgers i) = seed @ new_bytes seed ledgers i"
    and "i \<le> j \<Longrightarrow> prefix (new_bytes seed ledgers i) (new_bytes seed ledgers j)"
    and "new_bytes seed ledgers n = stored_lines rs @ part"
proof -
  have pre: "prefix seed (bytes (ledgers i))" for i
    using assms prefix_order.trans unfolding growing_ledger_def by blast
  show b: "bytes (ledgers i) = seed @ new_bytes seed ledgers i" for i using pre [of i] by (auto simp: new_bytes_def prefix_def)
  show "i \<le> j \<Longrightarrow> prefix (new_bytes seed ledgers i) (new_bytes seed ledgers j)"
    using assms unfolding growing_ledger_def b [of i] b [of j] by (metis b same_prefix_prefix)
  show "new_bytes seed ledgers n = stored_lines rs @ part"
    using assms b [of n] by (simp add: growing_ledger_def)
qed

lemma growing_snapshot:
  assumes "growing_ledger seed ledgers rs part n" "i \<le> n"
  obtains part' where
    "new_bytes seed ledgers i = stored_lines (take (newlines (new_bytes seed ledgers i)) rs) @ part'"
    "NL \<notin> set part'" "newlines (new_bytes seed ledgers i) \<le> length rs"
proof -
  have "list_all one_line rs" "NL \<notin> set part"
    using assms(1) by (auto simp: growing_ledger_def list_all_iff streamable_def one_line_def)
  moreover have "prefix (new_bytes seed ledgers i) (stored_lines rs @ part)"
    using growing_new_bytes(2,3) [OF assms(1)] assms(2) by metis
  ultimately show thesis using stored_prefix that by blast
qed

text \<open>How many of the records the ticks before \<open>i\<close> have seen.\<close>

definition seen :: "string \<Rightarrow> (nat \<Rightarrow> log_file) \<Rightarrow> nat \<Rightarrow> nat" where
  "seen seed ledgers i = (case i of 0 \<Rightarrow> 0 | Suc j \<Rightarrow> newlines (new_bytes seed ledgers j))"

definition ticks :: "(nat \<Rightarrow> sse_view) \<Rightarrow> nat \<Rightarrow> sse_state \<Rightarrow> sse_state" where
  "ticks views i st = fold (\<lambda>t. event_tick (views t)) [0..<i] st"

lemma ticks_simps [simp]: "ticks views 0 st = st" "ticks views (Suc i) st = event_tick (views i) (ticks views i st)"
  by (simp_all add: ticks_def)

lemma ticks_send_seen:
  assumes "growing_ledger seed (\<lambda>i. sv_ledger (views i)) rs part n" "\<And>i. sv_sends (views i) = (\<lambda>_. True)"
    and "sse_offset st = length seed" "i \<le> Suc n"
  defines "k \<equiv> seen seed (\<lambda>i. sv_ledger (views i))"
  shows "sse_offset (ticks views i st) = length seed + length (stored_lines (take (k i) rs)) \<and>
    filter is_ledger_frame (sse_sent (ticks views i st)) =
      filter is_ledger_frame (sse_sent st) @ map ledger_frame (take (k i) rs)"
  using assms(4)
proof (induction i)
  case 0
  then show ?case using assms(3) by (simp add: k_def seen_def)
next
  case (Suc i)
  let ?new = "new_bytes seed (\<lambda>i. sv_ledger (views i))"
  obtain part' where p: "?new i = stored_lines (take (newlines (?new i)) rs) @ part'" "NL \<notin> set part'" "newlines (?new i) \<le> length rs"
    using growing_snapshot [OF assms(1), of i] Suc.prems by auto
  have le: "k i \<le> newlines (?new i)"
    using newlines_prefix [OF growing_new_bytes(2) [OF assms(1)], of "i - 1" i] by (cases i) (simp_all add: k_def seen_def)
  have "bytes (sv_ledger (views i)) = seed @ stored_lines (take (newlines (?new i)) rs) @ part'"
    using growing_new_bytes(1) [OF assms(1), of i] p(1) by simp
  from delta_step [OF this p(2) le p(3)] assms(1) Suc
  have "streamLedgerDelta (sv_sends (views i)) (sv_ledger (views i)) (sse_offset (ticks views i st)) =
      (length seed + length (stored_lines (take (newlines (?new i)) rs)), map ledger_frame (drop (k i) (take (newlines (?new i)) rs)))"
    by (simp add: assms(2) growing_ledger_def)
  from event_tick_ledger [OF this] Suc
  have "sse_offset (ticks views (Suc i) st) = length seed + length (stored_lines (take (newlines (?new i)) rs))"
    "filter is_ledger_frame (sse_sent (ticks views (Suc i) st)) = filter is_ledger_frame (sse_sent st) @
       map ledger_frame (take (k i) rs @ drop (k i) (take (newlines (?new i)) rs))" by simp_all
  moreover have "take (k i) rs @ drop (k i) (take (newlines (?new i)) rs) = take (newlines (?new i)) rs"
    using le by (metis append_take_drop_id min.absorb1 take_take)
  moreover have "k (Suc i) = newlines (?new i)" by (simp add: k_def seen_def)
  ultimately show ?case by (simp only: simp_thms)
qed

section \<open>Properties\<close>

text \<open>
  C11. The event stream delivers every ledger record exactly once and in order: however the ticks of a
  connection cut a growing ledger (in the middle of records, several records at a time), the ledger
  frames sent are those of the records completed after the connect, provided they fit the line
  buffer and the sends work.
\<close>

theorem ledger_stream_exactly_once:
  assumes "growing_ledger (bytes seed) (\<lambda>i. sv_ledger (views i)) rs part 7199"
    and "\<And>i. sv_sends (views i) = (\<lambda>_. True)"
  shows "filter is_ledger_frame (sse_sent (handleEvents seed views)) = map ledger_frame rs"
proof -
  have "list_all one_line rs" "NL \<notin> set part"
    using assms(1) by (auto simp: growing_ledger_def list_all_iff streamable_def one_line_def)
  then have "seen (bytes seed) (\<lambda>i. sv_ledger (views i)) (Suc 7199) = length rs"
    using growing_new_bytes(3) [OF assms(1)] by (simp add: seen_def newlines_stored newlines_none)
  moreover have "handleEvents seed views = ticks views (Suc 7199) (connect seed)"
    by (simp add: handleEvents_def ticks_def)
  ultimately show ?thesis
    using ticks_send_seen [OF assms, of "connect seed" "Suc 7199"] by (simp add: connect_def)
qed

text \<open>A record arrives in two pieces: the first tick sees the first piece only.\<close>

definition torn_view :: "nat \<Rightarrow> sse_view" where
  "torn_view i = \<lparr> sv_room = None, sv_ledger = Some (if i = 0 then ''old'' @ [NL] @ ''a'' else ''old'' @ [NL] @ ''ab'' @ [NL]),
     sv_sends = (\<lambda>_. True), sv_junk = [] \<rparr>"

theorem ledger_stream_exactly_once_witness:
  "filter is_ledger_frame (sse_sent (handleEvents (Some (''old'' @ [NL])) torn_view)) = [ledger_frame ''ab'']"
proof -
  have "growing_ledger (bytes (Some (''old'' @ [NL]))) (\<lambda>i. sv_ledger (torn_view i)) [''ab''] [] 7199"
    by (auto simp: growing_ledger_def torn_view_def streamable_def prefix_def)
  moreover have "\<And>i. sv_sends (torn_view i) = (\<lambda>_. True)" by (simp add: torn_view_def)
  ultimately have "filter is_ledger_frame (sse_sent (handleEvents (Some (''old'' @ [NL])) torn_view)) = map ledger_frame [''ab'']"
    by (rule ledger_stream_exactly_once)
  then show ?thesis by (simp only: list.map)
qed

end
