(* ===== verification/Deliverable.thy ===== *)
theory Deliverable
  imports Roomd_Admission
begin

text \<open>
  The deliverables pipeline, \<^verbatim>\<open>src/src/wt_deliverable.c\<close>: packaging modes, the pre-ship secret scan,
  the digest of the source, the four ways to ship, and the two ledger records.

  The tools the code runs through the shell (\<^verbatim>\<open>sha256sum\<close>, \<^verbatim>\<open>tar\<close>, \<^verbatim>\<open>git\<close>, \<^verbatim>\<open>gh\<close>) are a
  parameter that acts on the world; the commands are recorded in the order they run. The regular
  expressions are libc's: \<open>regcomp\<close> accepts an expression or not, \<open>regexec\<close> finds a match or not.
\<close>

definition WT_DELIVERABLE_ID_SIZE :: nat where "WT_DELIVERABLE_ID_SIZE = 64"
definition WT_DELIVERABLE_PATH_SIZE :: nat where "WT_DELIVERABLE_PATH_SIZE = 1024"
definition WT_DELIVERABLE_REASON_SIZE :: nat where "WT_DELIVERABLE_REASON_SIZE = 192"
definition WT_DELIVERABLE_MAX_PATTERNS :: nat where "WT_DELIVERABLE_MAX_PATTERNS = 32"

section \<open>Modes, requests and results\<close>

datatype WtDeliverableMode = MODE_COPY | MODE_TARBALL | MODE_BRANCH | MODE_PR

definition wtDeliverableModeFromString :: "string \<Rightarrow> WtDeliverableMode option" where
  "wtDeliverableModeFromString s =
     (if s = ''copy'' then Some MODE_COPY
      else if s = ''tarball'' then Some MODE_TARBALL
      else if s = ''branch'' then Some MODE_BRANCH
      else if s = ''pull-request'' \<or> s = ''pr'' then Some MODE_PR
      else None)"

fun wtDeliverableModeToString :: "WtDeliverableMode \<Rightarrow> string" where
  "wtDeliverableModeToString MODE_COPY = ''copy''"
| "wtDeliverableModeToString MODE_TARBALL = ''tarball''"
| "wtDeliverableModeToString MODE_BRANCH = ''branch''"
| "wtDeliverableModeToString MODE_PR = ''pull-request''"

text \<open>A pointer that may be \<open>NULL\<close> and is treated like the empty string is the empty string here.\<close>

record WtDeliverableRequest =
  dq_taskId :: string
  dq_initiativeId :: string
  dq_sourcePath :: string
  dq_destBasename :: string
  dq_mode :: WtDeliverableMode
  dq_reviewer :: string
  dq_createdBy :: "string option"
  dq_supersedes :: string
  dq_repoPath :: string
  dq_yesGate :: bool
  dq_prTitle :: "string option"
  dq_prBody :: string
  dq_autonomyElevated :: bool
  dq_autonomyLevel :: string
  dq_fsyncRecord :: bool

record WtDeliverableResult =
  dr_deliverableId :: string
  dr_deliverablePath :: string
  dr_sha256 :: string
  dr_sizeBytes :: int
  dr_scanId :: string
  dr_scanRan :: bool
  dr_scanMatched :: bool
  dr_scanHitCount :: nat
  dr_scanPatterns :: "(string \<times> nat) list"
  dr_errorReason :: string

definition empty_result :: WtDeliverableResult where
  "empty_result = \<lparr> dr_deliverableId = [], dr_deliverablePath = [], dr_sha256 = [], dr_sizeBytes = 0, dr_scanId = [],
     dr_scanRan = False, dr_scanMatched = False, dr_scanHitCount = 0, dr_scanPatterns = [], dr_errorReason = [] \<rparr>"

definition setError :: "string \<Rightarrow> WtDeliverableResult \<Rightarrow> WtDeliverableResult" where
  "setError why r = r \<lparr> dr_errorReason := snprintf_s WT_DELIVERABLE_REASON_SIZE why \<rparr>"

text \<open>The clock and the three random bytes of an id.\<close>

definition makeShortId :: "string \<Rightarrow> nat \<Rightarrow> int \<times> u8 list option \<Rightarrow> string" where
  "makeShortId kind outSize src = snprintf_s outSize
     (kind @ ''_'' @ show_int (fst src) @ (case snd src of Some rnd \<Rightarrow> ''_'' @ bytesToHex rnd 7 | None \<Rightarrow> []))"

section \<open>What a ship meets\<close>

text \<open>
  \<open>w_files\<close> is keyed by the path the program uses. Two different paths can lead to one file, through
  \<^verbatim>\<open>..\<close>, a doubled slash or a link: \<open>de_same_file\<close> says for which paths that is so, and \<open>de_left\<close> what
  the other names of a destination lead to when a copy has failed and unlinked it.
\<close>

record ship_env =
  de_moments :: "nat \<Rightarrow> moment"
  de_readable :: bool
  de_tmp :: "string option"
  de_shell :: "nat \<Rightarrow> string \<Rightarrow> agent_world \<Rightarrow> int \<times> agent_world"
  de_id :: "int \<times> u8 list option"
  de_scan :: "int \<times> u8 list option"
  de_mkdir :: "string \<Rightarrow> bool"
  de_copy_fault :: io_fault
  de_same_file :: "string \<Rightarrow> string \<Rightarrow> bool"
  de_left :: "string \<Rightarrow> log_file"
  de_git_dir :: bool
  de_regcomp :: "string \<Rightarrow> bool"
  de_regexec :: "string \<Rightarrow> string \<Rightarrow> bool"
  de_junk :: string

text \<open>The world and the commands run so far.\<close>

record ship_state =
  ss_world :: agent_world
  ss_commands :: "string list"

definition wtSystemReliable :: "ship_env \<Rightarrow> string \<Rightarrow> ship_state \<Rightarrow> int \<times> ship_state" where
  "wtSystemReliable env cmd st =
     (case de_shell env (length (ss_commands st)) cmd (ss_world st) of
        (rc, w) \<Rightarrow> (rc, \<lparr> ss_world = w, ss_commands = ss_commands st @ [cmd] \<rparr>))"

definition put_world_file :: "string \<Rightarrow> log_file \<Rightarrow> ship_state \<Rightarrow> ship_state" where
  "put_world_file path content st =
     st \<lparr> ss_world := (ss_world st) \<lparr> w_files := (w_files (ss_world st)) (path := content) \<rparr> \<rparr>"

text \<open>The directories \<open>mkdirP\<close> creates; one that exists already is no failure.\<close>

definition mkdirP :: "(string \<Rightarrow> bool) \<Rightarrow> string \<Rightarrow> bool" where
  "mkdirP makes path =
     (let buf = snprintf_s WT_DELIVERABLE_PATH_SIZE path in
      buf \<noteq> [] \<and> list_all (\<lambda>i. buf ! i = CHR ''/'' \<longrightarrow> makes (take i buf)) [1..<length buf] \<and> makes buf)"

section \<open>The digest of the source\<close>

definition sha_command :: "string \<Rightarrow> string \<Rightarrow> string" where
  "sha_command path tmp = snprintf_s (WT_DELIVERABLE_PATH_SIZE + 128)
     (''sha256sum '' @ [CHR 0x27] @ path @ [CHR 0x27] @ '' > '' @ tmp @ '' 2>/dev/null'')"

text \<open>The first word of the tool's output, when it has 64 characters.\<close>

definition read_digest :: "log_file \<Rightarrow> nat \<Rightarrow> string option" where
  "read_digest out hexOutSize =
     (case out of
        None \<Rightarrow> None
      | Some s \<Rightarrow>
          (case file_lines 256 s of
             [] \<Rightarrow> None
           | line # _ \<Rightarrow>
               (let hex = takeWhile (\<lambda>ch. \<not> is_space ch) line in
                if length hex = 64 \<and> 64 < hexOutSize then Some hex else None)))"

text \<open>Digest (or failure) and size; the temporary file is removed.\<close>

definition wtDeliverableSha256 :: "ship_env \<Rightarrow> string \<Rightarrow> nat \<Rightarrow> ship_state \<Rightarrow> string option \<times> int \<times> ship_state" where
  "wtDeliverableSha256 env path hexOutSize st =
     (case w_files (ss_world st) path of
        None \<Rightarrow> (None, 0, st)
      | Some s \<Rightarrow>
          (case de_tmp env of
             None \<Rightarrow> (None, int (length s), st)
           | Some tmp \<Rightarrow>
               (case wtSystemReliable env (sha_command path tmp) (put_world_file tmp (Some []) st) of
                  (rc, st') \<Rightarrow>
                    (if rc \<noteq> 0 then None else read_digest (w_files (ss_world st') tmp) hexOutSize,
                     int (length s), put_world_file tmp None st'))))"

section \<open>The secret scan\<close>

text \<open>One line of the pattern file: name and expression, both trimmed, both not empty.\<close>

definition pattern_line :: "string \<Rightarrow> (string \<times> string) option" where
  "pattern_line line =
     (case skip_space line of
        [] \<Rightarrow> None
      | c # cs \<Rightarrow>
          (if c = CHR ''#'' then None
           else case strchr (c # cs) (CHR ''='') of
             None \<Rightarrow> None
           | Some equals \<Rightarrow>
               (let name = trim_end is_space (take (length (c # cs) - length equals) (c # cs));
                    expr = trim_end is_space (skip_space (tl equals)) in
                if name = [] \<or> expr = [] then None else Some (name, expr))))"

fun load_lines :: "(string \<Rightarrow> bool) \<Rightarrow> nat \<Rightarrow> string list \<Rightarrow> (string \<times> string) list" where
  "load_lines compiles n [] = []"
| "load_lines compiles n (line # lines) =
     (if n = 0 then []
      else case pattern_line line of
        Some (name, expr) \<Rightarrow>
          (if compiles expr then (snprintf_s 64 name, expr) # load_lines compiles (n - 1) lines
           else load_lines compiles n lines)
      | None \<Rightarrow> load_lines compiles n lines)"

definition loadPatterns :: "(string \<Rightarrow> bool) \<Rightarrow> log_file \<Rightarrow> nat \<Rightarrow> (string \<times> string) list option" where
  "loadPatterns compiles f maxPatterns = map_option (\<lambda>s. load_lines compiles maxPatterns (file_lines 512 s)) f"

text \<open>The hits of one expression: the search is repeated one character further, at most 100 times.\<close>

fun pattern_hits :: "(string \<Rightarrow> bool) \<Rightarrow> nat \<Rightarrow> string \<Rightarrow> nat" where
  "pattern_hits found_in hits [] = hits"
| "pattern_hits found_in hits (c # cs) =
     (if \<not> found_in (c # cs) then hits
      else if hits + 1 \<ge> 100 then hits + 1
      else pattern_hits found_in (hits + 1) cs)"

definition scan_step :: "(string \<Rightarrow> string \<Rightarrow> bool) \<Rightarrow> string \<Rightarrow> string \<times> string \<Rightarrow> nat \<times> (string \<times> nat) list \<Rightarrow> nat \<times> (string \<times> nat) list" where
  "scan_step matches content pattern v =
     (let hits = pattern_hits (matches (snd pattern)) 0 content in
      if hits > 0 then (fst v + hits, if length (snd v) < 8 then snd v @ [(fst pattern, hits)] else snd v) else v)"

text \<open>The text the expressions see: the first 4 MiB of the file, up to the first zero byte.\<close>

definition scanned_text :: "string \<Rightarrow> string" where
  "scanned_text content = cstr (take (4 * 1024 * 1024) content)"

definition wtDeliverableScanFile ::
    "ship_env \<Rightarrow> WtConfig \<Rightarrow> string \<Rightarrow> (string \<Rightarrow> log_file) \<Rightarrow> WtDeliverableResult \<Rightarrow> int \<times> WtDeliverableResult" where
  "wtDeliverableScanFile env c path fs result =
     (let r = result \<lparr> dr_scanRan := False, dr_scanMatched := False, dr_scanHitCount := 0, dr_scanPatterns := [] \<rparr> in
      if secretScanPatternsFile c = [] then (0, r)
      else case loadPatterns (de_regcomp env) (fs (secretScanPatternsFile c)) WT_DELIVERABLE_MAX_PATTERNS of
        None \<Rightarrow> (0, r)
      | Some [] \<Rightarrow> (0, r)
      | Some (p # ps) \<Rightarrow>
          (case fs path of
             None \<Rightarrow> (-1, r)
           | Some content \<Rightarrow>
               (case fold (scan_step (de_regexec env) (scanned_text content)) (p # ps) (0, []) of
                  (total_hits, distinct_hits) \<Rightarrow>
                    (0, r \<lparr> dr_scanRan := True, dr_scanHitCount := total_hits, dr_scanPatterns := distinct_hits,
                           dr_scanMatched := total_hits > 0 \<rparr>))))"

section \<open>Ledger records\<close>

text \<open>Both records are refused when they do not fit the 4096 byte buffer.\<close>

definition append_fitting :: "io_fault \<Rightarrow> bool \<Rightarrow> (string \<times> nat) list \<Rightarrow> (string \<times> jval) list \<Rightarrow> log_file \<Rightarrow> bool \<times> log_file" where
  "append_fitting fault sync xs fs ledger =
     (if \<not> escapes_fit xs \<or> length (render_object fs) \<ge> 4096 then (False, ledger)
      else wtTaskAppendRecord fault sync (render_object fs) ledger)"

definition deliverable_fields ::
    "WtDeliverableRequest \<Rightarrow> WtDeliverableResult \<Rightarrow> WtDeliverableMode \<Rightarrow> int \<Rightarrow> (string \<times> jval) list" where
  "deliverable_fields req res mode now =
     [(''schema'', JStr ''woventeam.deliverable.v0.1''), (''deliverableId'', JStr (dr_deliverableId res)),
      (''taskId'', JStr (dq_taskId req)), (''initiativeId'', JStr (dq_initiativeId req)),
      (''sourceWorkspacePath'', JStr (dq_sourcePath req)), (''deliverablePath'', JStr (dr_deliverablePath res)),
      (''packagingMode'', JStr (wtDeliverableModeToString mode)), (''sizeBytes'', JNum (dr_sizeBytes res)),
      (''sha256'', JStr (dr_sha256 res)), (''reviewer'', JStr (dq_reviewer req)),
      (''supersedes'', if dq_supersedes req \<noteq> [] then JStr (dq_supersedes req) else JLit ''null'')] @
     (if dq_autonomyLevel req \<noteq> []
      then [(''autonomyProvenance'', json_object
              [(''elevated'', bool_lit (dq_autonomyElevated req)), (''autonomyLevel'', JStr (dq_autonomyLevel req))])]
      else []) @
     [(''createdBy'', JStr (case dq_createdBy req of Some by \<Rightarrow> by | None \<Rightarrow> ''operator'')), (''createdAtUnixMs'', JNum now)]"

definition appendDeliverableEvent ::
    "io_fault \<Rightarrow> int \<Rightarrow> WtDeliverableRequest \<Rightarrow> WtDeliverableResult \<Rightarrow> WtDeliverableMode \<Rightarrow> log_file \<Rightarrow> bool \<times> log_file" where
  "appendDeliverableEvent fault now req res mode ledger =
     append_fitting fault (dq_fsyncRecord req)
       [(dq_taskId req, WT_TASK_ID_SIZE * 2), (dq_initiativeId req, WT_TASK_ID_SIZE * 2),
        (dq_sourcePath req, WT_DELIVERABLE_PATH_SIZE * 2), (dr_deliverablePath res, WT_DELIVERABLE_PATH_SIZE * 2),
        (dq_reviewer req, WT_TASK_AGENT_SIZE * 2),
        (case dq_createdBy req of Some by \<Rightarrow> by | None \<Rightarrow> ''operator'', WT_TASK_AGENT_SIZE * 2),
        (dq_supersedes req, WT_DELIVERABLE_ID_SIZE * 2), (dr_deliverableId res, WT_DELIVERABLE_ID_SIZE * 2),
        (dq_autonomyLevel req, 64)]
       (deliverable_fields req res mode now) ledger"

text \<open>The array in its 1024 byte buffer: entries as long as 64 bytes are left, the bracket when it fits.\<close>

fun hits_array :: "string \<Rightarrow> bool \<Rightarrow> string \<Rightarrow> (string \<times> nat) list \<Rightarrow> string" where
  "hits_array junk first out [] = (if length out < 1024 then take 1023 (out @ '']'') else take 1023 out)"
| "hits_array junk first out (p # ps) =
     (if length out < 1024 - 64 then
        hits_array junk False (out @ (if first then [] else '','') @
          render_object [(''pattern'', raw_str (escape_unchecked junk (fst p) 128)), (''count'', JNum (int (snd p)))]) ps
      else hits_array junk first out [])"

definition scan_fields ::
    "string \<Rightarrow> WtDeliverableRequest \<Rightarrow> WtDeliverableResult \<Rightarrow> WtDeliverableMode \<Rightarrow> int \<Rightarrow> (string \<times> jval) list" where
  "scan_fields junk req res mode now =
     [(''schema'', JStr ''woventeam.secret_scan.v0.1''), (''scanId'', JStr (dr_scanId res)),
      (''deliverableId'', JStr (dr_deliverableId res)), (''taskId'', JStr (dq_taskId req)),
      (''scannedPath'', JStr (dq_sourcePath req)), (''matched'', bool_lit (dr_scanMatched res)),
      (''hitCount'', JNum (int (dr_scanHitCount res))), (''patternHits'', JLit (hits_array junk True ''['' (dr_scanPatterns res))),
      (''packagingMode'', JStr (wtDeliverableModeToString mode)), (''createdAtUnixMs'', JNum now)]"

definition appendSecretScanEvent ::
    "io_fault \<Rightarrow> string \<Rightarrow> int \<Rightarrow> WtDeliverableRequest \<Rightarrow> WtDeliverableResult \<Rightarrow> WtDeliverableMode \<Rightarrow> log_file \<Rightarrow> bool \<times> log_file" where
  "appendSecretScanEvent fault junk now req res mode ledger =
     (if \<not> dr_scanRan res then (True, ledger)
      else append_fitting fault (dq_fsyncRecord req)
        [(dq_taskId req, WT_TASK_ID_SIZE * 2), (dr_deliverableId res, WT_DELIVERABLE_ID_SIZE * 2),
         (dr_scanId res, WT_DELIVERABLE_ID_SIZE * 2), (dq_sourcePath req, WT_DELIVERABLE_PATH_SIZE * 2)]
        (scan_fields junk req res mode now) ledger)"

definition to_ship_ledger :: "moment \<Rightarrow> (io_fault \<Rightarrow> int \<Rightarrow> log_file \<Rightarrow> bool \<times> log_file) \<Rightarrow> ship_state \<Rightarrow> bool \<times> ship_state" where
  "to_ship_ledger m write st = (case to_ledger m write (ss_world st) of (ok, w) \<Rightarrow> (ok, st \<lparr> ss_world := w \<rparr>))"

section \<open>Packaging\<close>

text \<open>
  The target is truncated, under every name it has, before the source is read: a source that is the same
  file reads as empty, and the copy delivers an empty file. A failing write or \<open>fclose\<close> removes the
  target. The reads do not fail.
\<close>

definition names_file :: "(string \<Rightarrow> string \<Rightarrow> bool) \<Rightarrow> string \<Rightarrow> string \<Rightarrow> bool" where
  "names_file same dst p \<longleftrightarrow> p = dst \<or> same dst p"

definition store_at :: "(string \<Rightarrow> string \<Rightarrow> bool) \<Rightarrow> string \<Rightarrow> string \<Rightarrow> (string \<Rightarrow> log_file) \<Rightarrow> string \<Rightarrow> log_file" where
  "store_at same dst content fs = (\<lambda>p. if names_file same dst p then Some content else fs p)"

definition copyFileBytes ::
    "(string \<Rightarrow> string \<Rightarrow> bool) \<Rightarrow> (string \<Rightarrow> log_file) \<Rightarrow> io_fault \<Rightarrow> string \<Rightarrow> string \<Rightarrow> (string \<Rightarrow> log_file) \<Rightarrow> bool \<times> (string \<Rightarrow> log_file)" where
  "copyFileBytes same left fault src dst fs =
     (if fs src = None \<or> fault = OpenFails then (False, fs)
      else (let opened = store_at same dst [] fs; content = bytes (opened src) in
        if fault = NoFault then (True, store_at same dst content opened)
        else (False, \<lambda>p. if p = dst then None else if same dst p then left p else fs p)))"

definition base_name :: "string \<Rightarrow> string" where
  "base_name path = rev (takeWhile (\<lambda>ch. ch \<noteq> CHR ''/'') (rev path))"

definition dest_base :: "WtDeliverableRequest \<Rightarrow> string" where
  "dest_base req = (if dq_destBasename req \<noteq> [] then dq_destBasename req else base_name (dq_sourcePath req))"

definition copy_to :: "ship_env \<Rightarrow> WtDeliverableRequest \<Rightarrow> string \<Rightarrow> WtDeliverableResult \<Rightarrow> ship_state \<Rightarrow> bool \<times> WtDeliverableResult \<times> ship_state" where
  "copy_to env req path res st =
     (let res' = res \<lparr> dr_deliverablePath := path \<rparr> in
      case copyFileBytes (de_same_file env) (de_left env) (de_copy_fault env) (dq_sourcePath req) path (w_files (ss_world st)) of
        (ok, fs) \<Rightarrow> (ok, if ok then res' else setError ''copy_failed'' res',
                    st \<lparr> ss_world := (ss_world st) \<lparr> w_files := fs \<rparr> \<rparr>))"

definition root_dir :: "WtConfig \<Rightarrow> WtDeliverableRequest \<Rightarrow> string" where
  "root_dir c req = snprintf_s (WT_DELIVERABLE_PATH_SIZE div 2) (deliverableRoot c @ ''/'' @ dq_initiativeId req)"

definition shipCopy :: "ship_env \<Rightarrow> WtConfig \<Rightarrow> WtDeliverableRequest \<Rightarrow> WtDeliverableResult \<Rightarrow> ship_state \<Rightarrow> bool \<times> WtDeliverableResult \<times> ship_state" where
  "shipCopy env c req res st =
     (let destDir = root_dir c req in
      if \<not> mkdirP (de_mkdir env) destDir then (False, setError ''deliverable_root_unwritable'' res, st)
      else copy_to env req (snprintf_s WT_DELIVERABLE_PATH_SIZE (destDir @ ''/'' @ dest_base req)) res st)"

definition quoted :: "string \<Rightarrow> string" where
  "quoted s = [CHR 0x27] @ s @ [CHR 0x27]"

definition tar_command :: "string \<Rightarrow> string \<Rightarrow> string" where
  "tar_command target source =
     (let srcCopy = snprintf_s WT_DELIVERABLE_PATH_SIZE source;
          (parent, entry) = (case before_last (CHR ''/'') srcCopy of
             Some dir \<Rightarrow> (dir, base_name srcCopy) | None \<Rightarrow> (''.'', srcCopy))
      in snprintf_s 4096 (''tar -czf '' @ quoted target @ '' -C '' @ quoted parent @ '' '' @ quoted entry @ '' 2>/dev/null''))"

definition shipTarball :: "ship_env \<Rightarrow> WtConfig \<Rightarrow> WtDeliverableRequest \<Rightarrow> WtDeliverableResult \<Rightarrow> ship_state \<Rightarrow> bool \<times> WtDeliverableResult \<times> ship_state" where
  "shipTarball env c req res st =
     (let destDir = root_dir c req in
      if \<not> mkdirP (de_mkdir env) destDir then (False, setError ''deliverable_root_unwritable'' res, st)
      else (let path = snprintf_s WT_DELIVERABLE_PATH_SIZE (destDir @ ''/'' @ dest_base req @ ''.tar.gz'');
                res' = res \<lparr> dr_deliverablePath := path \<rparr> in
        case wtSystemReliable env (tar_command path (dq_sourcePath req)) st of
          (rc, st') \<Rightarrow> if rc \<noteq> 0 then (False, setError ''tar_failed'' res', st') else (True, res', st')))"

definition runIn :: "ship_env \<Rightarrow> string \<Rightarrow> string \<Rightarrow> ship_state \<Rightarrow> int \<times> ship_state" where
  "runIn env dir cmd st = wtSystemReliable env (snprintf_s 4096 (''cd '' @ quoted dir @ '' && '' @ cmd)) st"

definition branch_name :: "WtConfig \<Rightarrow> WtDeliverableRequest \<Rightarrow> string" where
  "branch_name c req = snprintf_s 128 (deliverableBranchPrefix c @ ''/'' @ dq_initiativeId req)"

definition checkout_command :: "string \<Rightarrow> string" where
  "checkout_command branch = snprintf_s 2048
     (''git fetch origin '' @ quoted branch @ '' 2>/dev/null; git checkout '' @ quoted branch @
      '' 2>/dev/null || git checkout -b '' @ quoted branch @ '' >/dev/null 2>&1'')"

definition commit_message :: "WtDeliverableRequest \<Rightarrow> WtDeliverableResult \<Rightarrow> string" where
  "commit_message req res = snprintf_s 512 (''Ship deliverable '' @ dr_deliverableId res @ '' (task '' @ dq_taskId req @ '')'')"

definition push_command :: "string \<Rightarrow> string \<Rightarrow> string \<Rightarrow> string" where
  "push_command repoRelPath commitMsg branch = snprintf_s 2048
     (''git add '' @ quoted repoRelPath @ '' && git commit -m '' @ [DQ] @ commitMsg @ [DQ] @
      '' >/dev/null 2>&1 && git push -u origin '' @ quoted branch @ '' >/dev/null 2>&1'')"

definition pr_body :: "WtDeliverableRequest \<Rightarrow> WtDeliverableResult \<Rightarrow> string" where
  "pr_body req res = snprintf_s 1024
     (if dq_prBody req \<noteq> [] then dq_prBody req
      else ''Automated deliverable ship.'' @ [NL, NL] @ ''Deliverable: '' @ dr_deliverableId res @ [NL] @
           ''Task: '' @ dq_taskId req @ [NL])"

definition pr_command :: "string \<Rightarrow> string \<Rightarrow> string \<Rightarrow> string" where
  "pr_command branch title body = snprintf_s 2048
     (''gh pr create --head '' @ quoted branch @ '' --title '' @ [DQ] @ title @ [DQ] @ '' --body '' @ [DQ] @ body @ [DQ] @
      '' >/dev/null 2>&1'')"

definition shipBranch :: "ship_env \<Rightarrow> WtConfig \<Rightarrow> WtDeliverableRequest \<Rightarrow> bool \<Rightarrow> WtDeliverableResult \<Rightarrow> ship_state
    \<Rightarrow> bool \<times> WtDeliverableResult \<times> ship_state" where
  "shipBranch env c req openPullRequest res st =
     (let repo = dq_repoPath req; branch = branch_name c req in
      if openPullRequest \<and> \<not> dq_yesGate req then (False, setError ''missing_yes_gate'' res, st)
      else if repo = [] then (False, setError ''repo_path_missing'' res, st)
      else if \<not> de_git_dir env then (False, setError ''repo_not_git'' res, st)
      else case runIn env repo (checkout_command branch) st of (rc1, st1) \<Rightarrow>
        (if rc1 \<noteq> 0 then (False, setError ''git_checkout_failed'' res, st1)
         else (let destDir = snprintf_s (WT_DELIVERABLE_PATH_SIZE div 2) (repo @ ''/deliverables/'' @ dq_initiativeId req) in
           if \<not> mkdirP (de_mkdir env) destDir then (False, setError ''repo_dir_unwritable'' res, st1)
           else case copy_to env req (snprintf_s WT_DELIVERABLE_PATH_SIZE (destDir @ ''/'' @ dest_base req)) res st1 of
             (copied, res2, st2) \<Rightarrow>
               (if \<not> copied then (False, res2, st2)
                else (let commitMsg = commit_message req res2;
                          repoRelPath = snprintf_s WT_DELIVERABLE_PATH_SIZE (''deliverables/'' @ dq_initiativeId req @ ''/'' @ dest_base req) in
                  if wtJsonEscape commitMsg 1024 = None then (False, setError ''commit_msg_encode_failed'' res2, st2)
                  else case runIn env repo (push_command repoRelPath commitMsg branch) st2 of (rc3, st3) \<Rightarrow>
                    (if rc3 \<noteq> 0 then (False, setError ''git_push_failed'' res2, st3)
                     else if \<not> openPullRequest then (True, res2, st3)
                     else (case runIn env repo (pr_command branch (case dq_prTitle req of Some t \<Rightarrow> t | None \<Rightarrow> commitMsg)
                              (pr_body req res2)) st3 of (rc4, st4) \<Rightarrow>
                        (if rc4 \<noteq> 0 then (False, setError ''gh_pr_create_failed'' res2, st4) else (True, res2, st4)))))))))"

section \<open>The pipeline\<close>

definition ship_by_mode :: "ship_env \<Rightarrow> WtConfig \<Rightarrow> WtDeliverableRequest \<Rightarrow> WtDeliverableResult \<Rightarrow> ship_state
    \<Rightarrow> bool \<times> WtDeliverableResult \<times> ship_state" where
  "ship_by_mode env c req res st =
     (case dq_mode req of
        MODE_COPY \<Rightarrow> shipCopy env c req res st
      | MODE_TARBALL \<Rightarrow> shipTarball env c req res st
      | MODE_BRANCH \<Rightarrow> shipBranch env c req False res st
      | MODE_PR \<Rightarrow> shipBranch env c req True res st)"

definition record_scan :: "ship_env \<Rightarrow> nat \<Rightarrow> WtDeliverableRequest \<Rightarrow> WtDeliverableResult \<Rightarrow> ship_state \<Rightarrow> ship_state" where
  "record_scan env k req res st = snd (to_ship_ledger (de_moments env k)
     (\<lambda>fault ms. appendSecretScanEvent fault (de_junk env) ms req res (dq_mode req)) st)"

definition wtDeliverableShip :: "ship_env \<Rightarrow> WtConfig \<Rightarrow> WtDeliverableRequest \<Rightarrow> agent_world \<Rightarrow> bool \<times> WtDeliverableResult \<times> ship_state" where
  "wtDeliverableShip env c req w =
     (let st0 = \<lparr> ss_world = w, ss_commands = [] \<rparr>; src = dq_sourcePath req in
      if dq_taskId req = [] \<or> dq_initiativeId req = [] \<or> src = [] then (False, setError ''missing_required_field'' empty_result, st0)
      else if w_files w src = None \<or> \<not> de_readable env then (False, setError ''source_missing'' empty_result, st0)
      else
        (let res0 = empty_result \<lparr> dr_deliverableId := makeShortId ''deliv'' WT_DELIVERABLE_ID_SIZE (de_id env),
                                  dr_scanId := makeShortId ''scan'' WT_DELIVERABLE_ID_SIZE (de_scan env) \<rparr> in
         case wtDeliverableSha256 env src 80 st0 of
           (None, size_bytes, st1) \<Rightarrow> (False, setError ''sha256_failed'' (res0 \<lparr> dr_sizeBytes := size_bytes \<rparr>), st1)
         | (Some hex, size_bytes, st1) \<Rightarrow>
             (case wtDeliverableScanFile env c src (w_files (ss_world st1)) (res0 \<lparr> dr_sha256 := hex, dr_sizeBytes := size_bytes \<rparr>) of
                (scanRc, res1) \<Rightarrow>
                  (if scanRc < 0 then (False, setError ''secret_scan_failed'' res1, st1)
                   else if dr_scanMatched res1 \<and> (dq_mode req = MODE_BRANCH \<or> dq_mode req = MODE_PR) then
                     (False, setError ''secret_scan_block'' res1, record_scan env 1 req res1 st1)
                   else case ship_by_mode env c req res1 st1 of
                     (False, res2, st2) \<Rightarrow> (False, res2, record_scan env 1 req res2 st2)
                   | (True, res2, st2) \<Rightarrow>
                       (case to_ship_ledger (de_moments env 0) (\<lambda>fault ms. appendDeliverableEvent fault ms req res2 (dq_mode req)) st2 of
                          (False, st3) \<Rightarrow> (False, setError ''ledger_append_failed'' res2, st3)
                        | (True, st3) \<Rightarrow> (True, res2, record_scan env 1 req res2 st3))))))"

end
