(* ===== verification/Roomd_Deliver.thy ===== *)
theory Roomd_Deliver
  imports Deliverable Roomd_Control
begin

text \<open>
  \<open>handlePostTaskDeliverable\<close> of \<^verbatim>\<open>src/src/wt_roomd.c\<close>: resolve the accepted artifact of a task from a
  freshly rebuilt projection, ship it, answer. The ship has its own moments (\<open>ship_env\<close>); moment 0 of
  the handler is its rebuild, moment 1 its room message. The rebuilds after the ship only change the
  database.
\<close>

text \<open>\<open>"key"\<close>, a colon anywhere behind it, blanks, \<open>true\<close>.\<close>

definition true_flag :: "string \<Rightarrow> string \<Rightarrow> bool" where
  "true_flag body key =
     (case strstr body (DQ # key @ [DQ]) of
        None \<Rightarrow> False
      | Some hit \<Rightarrow>
          (case strchr hit (CHR '':'') of
             None \<Rightarrow> False
           | Some colon \<Rightarrow> starts_with ''true'' (dropWhile (\<lambda>c. c = CHR '' '' \<or> c = TAB) (tl colon))))"

definition deliverable_request :: "WtConfig \<Rightarrow> string \<Rightarrow> string \<Rightarrow> WtDeliverableMode \<Rightarrow> string \<Rightarrow> string \<Rightarrow> WtDeliverableRequest" where
  "deliverable_request c body taskId mode initiativeId artifactRel =
     (let by = read_keep body ''createdBy'' WT_TASK_AGENT_SIZE []; title = read_keep body ''prTitle'' 256 [] in
      \<lparr> dq_taskId = taskId, dq_initiativeId = initiativeId,
        dq_sourcePath = snprintf_s WT_DELIVERABLE_PATH_SIZE (runtimeRootPath c @ ''/'' @ taskId @ ''/'' @ artifactRel),
        dq_destBasename = read_keep body ''destBasename'' 256 [], dq_mode = mode,
        dq_reviewer = read_keep body ''reviewer'' WT_TASK_AGENT_SIZE [],
        dq_createdBy = Some (if by \<noteq> [] then by else ''ceo''),
        dq_supersedes = read_keep body ''supersedes'' WT_DELIVERABLE_ID_SIZE [],
        dq_repoPath = read_keep body ''repoPath'' WT_DELIVERABLE_PATH_SIZE [],
        dq_yesGate = true_flag body ''yes'', dq_prTitle = (if title \<noteq> [] then Some title else None),
        dq_prBody = read_keep body ''prBody'' 1024 [],
        dq_autonomyElevated = true_flag body ''autonomyElevated'',
        dq_autonomyLevel = read_keep body ''autonomyLevel'' 64 [], dq_fsyncRecord = fsyncEachMessage c \<rparr>)"

definition ship_status :: "string \<Rightarrow> int \<times> string" where
  "ship_status why =
     (if why \<in> {''secret_scan_block'', ''missing_yes_gate'', ''repo_path_missing'', ''repo_not_git''} then (400, ''Bad Request'')
      else if why = ''source_missing'' then (404, ''Not Found'')
      else (500, ''Internal Server Error''))"

definition ship_failed_reply :: "WtDeliverableResult \<Rightarrow> http_response" where
  "ship_failed_reply res =
     (case ship_status (dr_errorReason res) of (status, why) \<Rightarrow>
        wtHttpSendText status why ''application/json; charset=utf-8'' (snprintf_s 512 (render_object
          [(''ok'', JLit ''false''), (''error'', raw_str (if dr_errorReason res \<noteq> [] then dr_errorReason res else ''unknown'')),
           (''scanMatched'', bool_lit (dr_scanMatched res)), (''hitCount'', JNum (int (dr_scanHitCount res)))] @ [NL])))"

definition shipped_reply :: "WtDeliverableMode \<Rightarrow> WtDeliverableResult \<Rightarrow> http_response" where
  "shipped_reply mode res = ok_reply 2048 (ok_body
     [(''deliverableId'', raw_str (dr_deliverableId res)), (''deliverablePath'', raw_str (dr_deliverablePath res)),
      (''sha256'', raw_str (dr_sha256 res)), (''sizeBytes'', JNum (dr_sizeBytes res)),
      (''packagingMode'', raw_str (wtDeliverableModeToString mode)),
      (''scan'', JLit (render_object [(''ran'', bool_lit (dr_scanRan res)), (''matched'', bool_lit (dr_scanMatched res)),
         (''hitCount'', JNum (int (dr_scanHitCount res)))]))])"

definition handlePostTaskDeliverable :: "WtConfig \<Rightarrow> roomd_env \<Rightarrow> ship_env \<Rightarrow> string \<Rightarrow> agent_world \<Rightarrow> served" where
  "handlePostTaskDeliverable c env ship request =
     with_body (bad_request ''missing body'') request (\<lambda>body w.
       (case read_str body ''taskId'' WT_TASK_ID_SIZE of
          None \<Rightarrow> refuse (bad_request ''taskId required'') w
        | Some taskId \<Rightarrow>
            (case wtDeliverableModeFromString (read_or body ''mode'' WT_NAME_SIZE (deliverableDefaultMode c)) of
               None \<Rightarrow> refuse (bad_request ''invalid mode'') w
             | Some mode \<Rightarrow>
                 (let w0 = read_ledger (re_moments env 0) w in
                  case rebuildProjection c env 0 (w_ledger w0) of
                    (False, _) \<Rightarrow> refuse (server_error ''projection rebuild failed'') w0
                  | (True, db) \<Rightarrow>
                      (case wtTaskProjectionResolveAcceptedArtifact (re_query env 0 db) taskId WT_TASK_ID_SIZE 512 of
                         (rc, initiativeId, artifactRel) \<Rightarrow>
                           (if rc < 0 then refuse (json_reply 404 ''Not Found'' (error_body ''task_not_found'')) w0
                            else if rc = 1 then refuse (json_reply 409 ''Conflict'' (error_body ''task_not_accepted'')) w0
                            else (case wtDeliverableShip ship c (deliverable_request c body taskId mode initiativeId artifactRel) w0 of
                              (False, res, st) \<Rightarrow> (ship_failed_reply res, ss_world st, [])
                            | (True, res, st) \<Rightarrow>
                                (shipped_reply mode res,
                                 snd (appendTaskRoomEvent c (re_moments env 1) taskId ''all'' ''task.deliverable'' ''shipped''
                                   (dr_deliverablePath res) (ss_world st)), []))))))))"

end
