(* ===== verification/Projection_Render.thy ===== *)
theory Projection_Render
  imports Projection "HOL-Library.Product_Lexorder"
begin

text \<open>
  The JSON documents that \<^verbatim>\<open>src/src/wt_task_projection.c\<close> prints from the read model: task summaries,
  task detail, initiatives, agents, heartbeats, milestones, artifacts, and the audit export.

  Every reader is a sequence of \<open>appendRaw\<close> and \<open>appendJsonString\<close> calls whose results are ignored, so
  a document is a list of pieces, each put into the buffer when it fits and left out when it does
  not. Rows that an \<open>ORDER BY\<close> leaves tied keep their order in the table. As in \<open>Projection\<close> a database
  is \<open>None\<close> when it cannot be opened or has no tables yet.
\<close>

section \<open>Pieces\<close>

datatype piece = Raw string | Text string

fun put_piece :: "nat \<Rightarrow> piece \<Rightarrow> string \<Rightarrow> string" where
  "put_piece n (Raw t) out = fst (appendRaw n t out)"
| "put_piece n (Text t) out = fst (appendJsonString n t out)"

definition put_pieces :: "nat \<Rightarrow> piece list \<Rightarrow> string \<Rightarrow> string" where
  "put_pieces n ps out = fold (put_piece n) ps out"

definition quoted_key :: "string \<Rightarrow> string" where
  "quoted_key k = DQ # k @ [DQ, CHR '':'']"

text \<open>The loops over \<open>keys\<close>, the single named values, the number blocks, and the comma between rows.\<close>

fun key_loop :: "bool \<Rightarrow> (string \<times> string) list \<Rightarrow> piece list" where
  "key_loop first [] = []"
| "key_loop first ((k, v) # xs) =
     (if first then [] else [Raw '','']) @ [Raw [DQ], Raw k, Raw [DQ, CHR '':''], Text v] @ key_loop False xs"

definition named_value :: "string \<Rightarrow> string \<Rightarrow> piece list" where
  "named_value k v = [Raw (CHR '','' # quoted_key k), Text v]"

definition number_block :: "(string \<times> int) list \<Rightarrow> string" where
  "number_block xs = concat (map (\<lambda>(k, v). CHR '','' # quoted_key k @ show_int v) xs)"

fun comma_rows :: "bool \<Rightarrow> piece list list \<Rightarrow> piece list" where
  "comma_rows first [] = []"
| "comma_rows first (p # ps) = (if first then [] else [Raw '','']) @ p @ comma_rows False ps"

definition json_bool :: "bool \<Rightarrow> string" where
  "json_bool b = (if b then ''true'' else ''false'')"

section \<open>Task summaries\<close>

definition newest_first :: "task_row \<Rightarrow> int \<times> int" where
  "newest_first r = (- c_updated_at_ms r, - c_created_at_ms r)"

definition summary_pieces :: "task_row \<Rightarrow> piece list" where
  "summary_pieces r =
     [Raw ''{''] @
     key_loop True [(''taskId'', c_task_id r), (''initiativeId'', c_initiative_id r), (''parentTaskId'', c_parent_task_id r),
       (''requestedByRole'', c_requested_by_role r), (''assignedRole'', c_assigned_role r), (''assignedAgent'', c_assigned_agent r),
       (''modelId'', c_model_id r), (''priority'', c_priority r), (''status'', c_status r), (''title'', c_title r),
       (''toolProfile'', c_tool_profile r)] @
     [Raw (snprintf_s 320 (number_block [(''maxTokens'', c_max_tokens r), (''createdAtUnixMs'', c_created_at_ms r),
        (''updatedAtUnixMs'', c_updated_at_ms r), (''eventCount'', to_int32 (c_event_count r))] @ CHR '','' # quoted_key ''leaseOwner'')),
      Text (c_lease_owner r),
      Raw (snprintf_s 320 (number_block [(''leaseExpiresAtUnixMs'', c_lease_expires_at_ms r), (''leasedAtUnixMs'', c_leased_at_ms r),
        (''runningAtUnixMs'', c_running_at_ms r), (''attemptCount'', to_int32 (c_attempt_count r))] @ CHR '','' # quoted_key ''failureCause'')),
      Text (c_failure_cause r)] @
     named_value ''lastReclaimReason'' (c_last_reclaim_reason r) @
     [Raw (snprintf_s 320 (number_block [(''reclaimCount'', to_int32 (c_reclaim_count r))] @ CHR '','' # quoted_key ''artifactState'')),
      Text (c_artifact_state r)] @
     named_value ''lastReviewer'' (c_last_reviewer r) @ named_value ''lastReviewNotes'' (c_last_review_notes r) @
     [Raw (snprintf_s 320 (number_block [(''acceptedAtUnixMs'', c_accepted_at_ms r)] @ CHR '','' # quoted_key ''acceptedArtifactPath'')),
      Text (c_accepted_artifact_path r), Raw ''}'']"

definition summaries_document :: "projection \<Rightarrow> piece list" where
  "summaries_document p =
     [Raw ''[''] @ comma_rows True (map summary_pieces (take 200 (sort_key newest_first (tasks p)))) @ [Raw '']'']"

definition wtTaskProjectionReadSummariesJson :: "projection option \<Rightarrow> nat \<Rightarrow> string option" where
  "wtTaskProjectionReadSummariesJson db n = map_option (\<lambda>p. put_pieces n (summaries_document p) []) db"

section \<open>Task detail\<close>

definition detail_pieces :: "task_row \<Rightarrow> piece list" where
  "detail_pieces r =
     [Raw (''{'' @ quoted_key ''ok'' @ ''true,'' @ quoted_key ''task'' @ ''{'')] @
     key_loop True [(''taskId'', c_task_id r), (''initiativeId'', c_initiative_id r), (''parentTaskId'', c_parent_task_id r),
       (''requestedByRole'', c_requested_by_role r), (''assignedRole'', c_assigned_role r), (''assignedAgent'', c_assigned_agent r),
       (''modelId'', c_model_id r), (''priority'', c_priority r), (''status'', c_status r), (''title'', c_title r), (''body'', c_body r),
       (''toolProfile'', c_tool_profile r)] @
     named_value ''autonomyLevel'' (c_autonomy_level r) @
     [Raw (CHR '','' # quoted_key ''autonomyGrant'' @ ''{'' @ quoted_key ''scope''), Text (c_autonomy_scope r)] @
     named_value ''network'' (c_autonomy_network r) @ named_value ''credentialClass'' (c_autonomy_credential_class r) @
     [Raw (snprintf_s 256 (number_block [(''ttlSeconds'', c_autonomy_ttl_seconds r), (''maxWallClockSeconds'', c_autonomy_max_wall_clock_seconds r)] @
        CHR '','' # quoted_key ''requiresCleanWorktree'' @ json_bool (to_int32 (c_autonomy_requires_clean_worktree r) \<noteq> 0) @ ''}'')),
      Raw (snprintf_s 256 (number_block [(''maxTokens'', c_max_tokens r), (''createdAtUnixMs'', c_created_at_ms r),
        (''updatedAtUnixMs'', c_updated_at_ms r), (''eventCount'', to_int32 (c_event_count r))] @ CHR '','' # quoted_key ''leaseOwner'')),
      Text (c_lease_owner r),
      Raw (snprintf_s 256 (number_block [(''leaseExpiresAtUnixMs'', c_lease_expires_at_ms r), (''leasedAtUnixMs'', c_leased_at_ms r),
        (''runningAtUnixMs'', c_running_at_ms r), (''attemptCount'', to_int32 (c_attempt_count r))] @ CHR '','' # quoted_key ''failureCause'')),
      Text (c_failure_cause r)] @
     named_value ''lastReclaimReason'' (c_last_reclaim_reason r) @
     [Raw (snprintf_s 256 (number_block [(''reclaimCount'', to_int32 (c_reclaim_count r))] @ CHR '','' # quoted_key ''artifactState'')),
      Text (c_artifact_state r)] @
     named_value ''lastReviewer'' (c_last_reviewer r) @ named_value ''lastReviewNotes'' (c_last_review_notes r) @
     [Raw (snprintf_s 256 (number_block [(''acceptedAtUnixMs'', c_accepted_at_ms r)] @ CHR '','' # quoted_key ''acceptedArtifactPath'')),
      Text (c_accepted_artifact_path r), Raw (''},'' @ quoted_key ''events'' @ ''['')]"

text \<open>The row ids of the event table count from 1.\<close>

definition event_pieces :: "int \<times> event_row \<Rightarrow> piece list" where
  "event_pieces ie = (case ie of (i, e) \<Rightarrow>
     [Raw (snprintf_s 256 (''{'' @ quoted_key ''id'' @ show_int i @ '',''))] @
     key_loop True [(''schema'', e_schema e), (''eventType'', e_event_type e), (''status'', e_status e),
       (''assignedAgent'', e_assigned_agent e), (''message'', e_message e), (''createdBy'', e_created_by e)] @
     [Raw (snprintf_s 256 (number_block [(''createdAtUnixMs'', e_created_at_ms e)] @ ''}''))])"

definition with_ids :: "'a list \<Rightarrow> (int \<times> 'a) list" where
  "with_ids rows = zip (map int [1..<length rows + 1]) rows"

definition error_text :: "string \<Rightarrow> string" where
  "error_text e = ''{'' @ quoted_key ''ok'' @ ''false,'' @ quoted_key ''error'' @ [DQ] @ e @ [DQ] @ ''}''"

definition detail_document :: "projection \<Rightarrow> task_row \<Rightarrow> piece list" where
  "detail_document p r =
     detail_pieces r @
     comma_rows True (map event_pieces (filter (\<lambda>(i, e). e_task_id e = c_task_id r) (with_ids (task_events p)))) @ [Raw '']}'']"

text \<open>Result (-1 no database, 1 not found, 0 found) and the buffer.\<close>

definition wtTaskProjectionReadDetailJson :: "projection option \<Rightarrow> string \<Rightarrow> nat \<Rightarrow> int \<times> string" where
  "wtTaskProjectionReadDetailJson db taskId n =
     (case db of
        None \<Rightarrow> (-1, [])
      | Some p \<Rightarrow>
          (case find (\<lambda>r. c_task_id r = taskId) (tasks p) of
             None \<Rightarrow> (1, snprintf_s n (error_text ''task not found''))
           | Some r \<Rightarrow> (0, put_pieces n (detail_document p r) [])))"

section \<open>Initiatives\<close>

definition count_where :: "(task_row \<Rightarrow> bool) \<Rightarrow> task_row list \<Rightarrow> int" where
  "count_where P rows = to_int32 (int (length (filter P rows)))"

fun sql_min :: "int list \<Rightarrow> int" where
  "sql_min [] = 0"
| "sql_min (x # xs) = fold min xs x"

fun sql_max :: "int list \<Rightarrow> int" where
  "sql_max [] = 0"
| "sql_max (x # xs) = fold max xs x"

definition first_title :: "task_row list \<Rightarrow> string" where
  "first_title rows = (case sort_key (\<lambda>r. (c_created_at_ms r, c_task_id r)) rows of [] \<Rightarrow> [] | r # _ \<Rightarrow> c_title r)"

text \<open>The aggregates of one initiative; \<open>last_count\<close> is the column the readers do not share.\<close>

definition initiative_numbers :: "string \<times> int \<Rightarrow> int \<Rightarrow> task_row list \<Rightarrow> (string \<times> int) list" where
  "initiative_numbers last_count total_tokens rows =
     [(''taskCount'', to_int32 (int (length rows))), (''activeTasks'', count_where active_row rows),
      (''completeTasks'', count_where (\<lambda>r. c_status r = ''complete'') rows),
      (''failedTasks'', count_where (\<lambda>r. c_status r = ''failed'') rows),
      (''blockedTasks'', count_where (\<lambda>r. c_status r = ''blocked'') rows), last_count,
      (''maxTokens'', total_tokens), (''createdAtUnixMs'', sql_min (map c_created_at_ms rows)),
      (''updatedAtUnixMs'', sql_max (map c_updated_at_ms rows))]"

definition open_gates :: "task_row list \<Rightarrow> string \<times> int" where
  "open_gates rows =
     (''openGateTasks'', count_where (\<lambda>r. c_status r \<in> {''approved'', ''rejected'', ''revision_requested''}) rows)"

definition initiative_rows :: "string \<Rightarrow> projection \<Rightarrow> task_row list" where
  "initiative_rows initiativeId p = filter (\<lambda>r. c_initiative_id r = initiativeId) (tasks p)"

definition initiative_pieces :: "projection \<Rightarrow> string \<Rightarrow> piece list" where
  "initiative_pieces p i =
     (let rows = initiative_rows i p in
      [Raw (''{'' @ quoted_key ''initiativeId''), Text i] @ named_value ''title'' (first_title rows) @
      [Raw (snprintf_s 512 (number_block (initiative_numbers (open_gates rows) (the (sql_sum 0 (map c_max_tokens rows))) rows) @ ''}''))])"

text \<open>A sum that leaves 64 bits fails the whole statement, which then has no rows.\<close>

definition initiative_ids :: "projection \<Rightarrow> string list" where
  "initiative_ids p =
     (let ids = remdups (filter (\<lambda>i. i \<noteq> []) (map c_initiative_id (tasks p))) in
      if list_all (\<lambda>i. sql_sum 0 (map c_max_tokens (initiative_rows i p)) \<noteq> None) ids
      then take 100 (sort_key (\<lambda>i. (- sql_max (map c_updated_at_ms (initiative_rows i p)), i)) ids) else [])"

definition initiatives_document :: "projection \<Rightarrow> piece list" where
  "initiatives_document p =
     [Raw (''{'' @ quoted_key ''ok'' @ ''true,'' @ quoted_key ''initiatives'' @ ''['')] @
     comma_rows True (map (initiative_pieces p) (initiative_ids p)) @ [Raw ('']}'' @ [NL])]"

definition wtTaskProjectionReadInitiativesJson :: "projection option \<Rightarrow> nat \<Rightarrow> string option" where
  "wtTaskProjectionReadInitiativesJson db n = map_option (\<lambda>p. put_pieces n (initiatives_document p) []) db"

definition task_line_keys :: "task_row \<Rightarrow> (string \<times> string) list" where
  "task_line_keys r =
     [(''taskId'', c_task_id r), (''parentTaskId'', c_parent_task_id r), (''requestedByRole'', c_requested_by_role r),
      (''assignedRole'', c_assigned_role r), (''assignedAgent'', c_assigned_agent r), (''modelId'', c_model_id r),
      (''priority'', c_priority r), (''status'', c_status r), (''title'', c_title r), (''toolProfile'', c_tool_profile r)]"

definition task_line_pieces :: "task_row \<Rightarrow> piece list" where
  "task_line_pieces r =
     [Raw ''{''] @ key_loop True (task_line_keys r) @
     [Raw (snprintf_s 512 (number_block [(''maxTokens'', c_max_tokens r), (''createdAtUnixMs'', c_created_at_ms r),
        (''updatedAtUnixMs'', c_updated_at_ms r), (''eventCount'', to_int32 (c_event_count r))] @ ''}''))]"

definition initiative_document :: "string \<Rightarrow> int \<Rightarrow> task_row list \<Rightarrow> piece list" where
  "initiative_document initiativeId total_tokens rows =
     [Raw (''{'' @ quoted_key ''ok'' @ ''true,'' @ quoted_key ''initiative'' @ ''{'' @ quoted_key ''initiativeId''), Text initiativeId] @
     named_value ''title'' (first_title rows) @
     [Raw (snprintf_s 512 (number_block (initiative_numbers (open_gates rows) total_tokens rows) @ ''},'' @ quoted_key ''tasks'' @ ''[''))] @
     comma_rows True (map task_line_pieces (take 200 (sort_key (\<lambda>r. (newest_first r, c_task_id r)) rows))) @
     [Raw ('']}'' @ [NL])]"

definition wtTaskProjectionReadInitiativeDetailJson :: "projection option \<Rightarrow> string \<Rightarrow> nat \<Rightarrow> int \<times> string" where
  "wtTaskProjectionReadInitiativeDetailJson db initiativeId n =
     (case db of
        None \<Rightarrow> (-1, [])
      | Some p \<Rightarrow>
          (let rows = initiative_rows initiativeId p in
           case (to_int32 (int (length rows)) = 0, sql_sum 0 (map c_max_tokens rows)) of
             (False, Some total_tokens) \<Rightarrow> (0, put_pieces n (initiative_document initiativeId total_tokens rows) [])
           | _ \<Rightarrow> (1, snprintf_s n (error_text ''initiative not found''))))"

section \<open>Agents, heartbeats and milestones\<close>

text \<open>A task is stuck when it has been leased or running for more than fifteen minutes.\<close>

definition stuck_row :: "int \<Rightarrow> task_row \<Rightarrow> bool" where
  "stuck_row now r \<longleftrightarrow>
     (let cutoff = sll (now - 15 * 60 * 1000) in
      (c_status r = ''leased'' \<and> c_leased_at_ms r > 0 \<and> c_leased_at_ms r < cutoff) \<or>
      (c_status r = ''running'' \<and> c_running_at_ms r > 0 \<and> c_running_at_ms r < cutoff))"

text \<open>An overflowing attempt sum fails the statement, and the counts stay 0.\<close>

definition workload_numbers :: "int \<Rightarrow> task_row list \<Rightarrow> int \<Rightarrow> (string \<times> int) list" where
  "workload_numbers now rows controlAtMs =
     (case sql_sum 0 (map c_attempt_count rows) of
        Some attempts \<Rightarrow>
          [(''activeTasks'', count_where active_row rows), (''leasedTasks'', count_where (\<lambda>r. c_status r = ''leased'') rows),
           (''runningTasks'', count_where (\<lambda>r. c_status r = ''running'') rows), (''stuckTasks'', count_where (stuck_row now) rows),
           (''attempts'', to_int32 attempts), (''updatedAtUnixMs'', sql_max (map c_updated_at_ms rows)), (''controlAtUnixMs'', controlAtMs)]
      | None \<Rightarrow>
          [(''activeTasks'', 0), (''leasedTasks'', 0), (''runningTasks'', 0), (''stuckTasks'', 0), (''attempts'', 0),
           (''updatedAtUnixMs'', 0), (''controlAtUnixMs'', controlAtMs)])"

definition appendAgentWorkload :: "projection \<Rightarrow> string \<Rightarrow> int \<Rightarrow> piece list" where
  "appendAgentWorkload p who now =
     (let (state, message, controlAtMs) =
        (case find (\<lambda>k. k_agent k = who) (agent_controls p) of
           Some k \<Rightarrow> (snprintf_s 32 (k_state k), snprintf_s WT_TASK_TITLE_SIZE (k_message k), k_updated_at_ms k)
         | None \<Rightarrow> (''active'', [], 0)) in
      [Raw (''{'' @ quoted_key ''agent''), Text who] @ named_value ''state'' state @ named_value ''message'' message @
      [Raw (snprintf_s 512 (number_block (workload_numbers now (filter (\<lambda>r. c_assigned_agent r = who) (tasks p)) controlAtMs) @ ''}''))])"

definition agents_document :: "int \<Rightarrow> projection \<Rightarrow> piece list" where
  "agents_document now p =
     [Raw (''{'' @ quoted_key ''ok'' @ ''true,'' @ quoted_key ''agents'' @ ''['')] @
     comma_rows True (map (\<lambda>who. appendAgentWorkload p who now) [''claude'', ''chatgpt'', ''gemini'']) @ [Raw ('']}'' @ [NL])]"

text \<open>Only this reader does not prepare its statement before it prints: for it \<open>None\<close> is a database that cannot be opened.\<close>

definition wtTaskProjectionReadAgentsJson :: "projection option \<Rightarrow> int \<Rightarrow> nat \<Rightarrow> string option" where
  "wtTaskProjectionReadAgentsJson db now n = map_option (\<lambda>p. put_pieces n (agents_document now p) []) db"

definition heartbeat_pieces :: "heartbeat_row \<Rightarrow> piece list" where
  "heartbeat_pieces h =
     [Raw (''{'' @ quoted_key ''agent''), Text (h_agent h)] @ named_value ''host'' (h_host h) @
     named_value ''currentTaskId'' (h_current_task_id h) @
     [Raw (snprintf_s 128 (number_block [(''leaseExpiresAtUnixMs'', h_lease_expires_at_ms h)] @ CHR '','' # quoted_key ''statusLine'')),
      Text (h_status_line h), Raw (snprintf_s 128 (number_block [(''lastSeenUnixMs'', h_last_seen_ms h)] @ ''}''))]"

definition heartbeats_document :: "projection \<Rightarrow> piece list" where
  "heartbeats_document p = [Raw ''[''] @ comma_rows True (map heartbeat_pieces (sort_key h_agent (heartbeats p))) @ [Raw '']'']"

definition wtTaskProjectionReadHeartbeatsJson :: "projection option \<Rightarrow> nat \<Rightarrow> string option" where
  "wtTaskProjectionReadHeartbeatsJson db n = map_option (\<lambda>p. put_pieces n (heartbeats_document p) []) db"

definition milestone_pieces :: "int \<times> milestone_row \<Rightarrow> piece list" where
  "milestone_pieces im = (case im of (i, ms) \<Rightarrow>
     [Raw (snprintf_s 64 (''{'' @ quoted_key ''id'' @ show_int i @ CHR '','' # quoted_key ''taskId'')), Text (m_task_id ms)] @
     named_value ''milestone'' (m_milestone ms) @ named_value ''message'' (m_message ms) @ named_value ''createdBy'' (m_created_by ms) @
     [Raw (snprintf_s 64 (number_block [(''createdAtUnixMs'', m_created_at_ms ms)] @ ''}''))])"

definition milestones_document :: "int \<Rightarrow> projection \<Rightarrow> piece list" where
  "milestones_document limit p =
     [Raw ''[''] @ comma_rows True (map milestone_pieces
       (take (nat (if limit > 0 then limit else 50)) (rev (with_ids (milestones p))))) @ [Raw '']'']"

definition wtTaskProjectionReadRecentMilestonesJson :: "projection option \<Rightarrow> int \<Rightarrow> nat \<Rightarrow> string option" where
  "wtTaskProjectionReadRecentMilestonesJson db limit n = map_option (\<lambda>p. put_pieces n (milestones_document limit p) []) db"

end
