(* ===== verification/Projection_Audit.thy ===== *)
theory Projection_Audit
  imports Projection_Render
begin

text \<open>
  The artifact inventory and the audit export of one initiative
  (\<open>wtTaskProjectionReadInitiativeArtifactsJson\<close>, \<open>wtTaskProjectionReadInitiativeAuditJson\<close>). The audit
  combines the projection with the policy decisions and usage records it finds in the ledger, and
  breaks off after \<open>limit\<close> records.
\<close>

section \<open>Artifacts\<close>

text \<open>Accepted ones first, then by acceptance and update time, newest first.\<close>

definition artifact_order :: "task_row \<Rightarrow> int \<times> int \<times> int" where
  "artifact_order r = (if c_artifact_state r = ''accepted'' then -1 else 0, - c_accepted_at_ms r, - c_updated_at_ms r)"

definition artifact_pieces :: "task_row \<Rightarrow> piece list" where
  "artifact_pieces r =
     [Raw (''{'' @ quoted_key ''taskId''), Text (c_task_id r)] @ named_value ''title'' (c_title r) @
     named_value ''assignedAgent'' (c_assigned_agent r) @ named_value ''artifactState'' (c_artifact_state r) @
     named_value ''lastReviewer'' (c_last_reviewer r) @ named_value ''lastReviewNotes'' (c_last_review_notes r) @
     [Raw (snprintf_s 160 (number_block [(''acceptedAtUnixMs'', c_accepted_at_ms r), (''updatedAtUnixMs'', c_updated_at_ms r)] @
        CHR '','' # quoted_key ''acceptedArtifactPath'')),
      Text (c_accepted_artifact_path r), Raw ''}'']"

definition wtTaskProjectionReadInitiativeArtifactsJson :: "projection option \<Rightarrow> string \<Rightarrow> nat \<Rightarrow> string option" where
  "wtTaskProjectionReadInitiativeArtifactsJson db initiativeId n =
     map_option (\<lambda>p.
       (let rows = take 200 (sort_key artifact_order (filter (\<lambda>r. c_artifact_state r \<noteq> []) (initiative_rows initiativeId p)));
            accepted = length (filter (\<lambda>r. c_artifact_state r = ''accepted'') rows) in
        put_pieces n (
          [Raw (''{'' @ quoted_key ''ok'' @ ''true,'' @ quoted_key ''initiativeId''), Text initiativeId,
           Raw (CHR '','' # quoted_key ''artifacts'' @ ''['')] @
          comma_rows True (map artifact_pieces rows) @
          [Raw (snprintf_s 128 ('']'' @ number_block [(''acceptedCount'', int accepted), (''pendingCount'', int (length rows - accepted))] @
             ''}'' @ [NL]))]) [])) db"

section \<open>Records under a limit\<close>

text \<open>What the audit counts while it emits: records, the newest time stamp, and whether it broke off.\<close>

record audit_count =
  au_emitted :: int
  au_latest :: int
  au_truncated :: bool

definition limit_hit :: "int \<Rightarrow> audit_count \<Rightarrow> bool" where
  "limit_hit limit a \<longleftrightarrow> limit > 0 \<and> au_emitted a \<ge> limit"

definition counted :: "int \<Rightarrow> audit_count \<Rightarrow> audit_count" where
  "counted ms a = a \<lparr> au_emitted := au_emitted a + 1, au_latest := (if ms > au_latest a then ms else au_latest a) \<rparr>"

text \<open>The loop over the rows of a query: the rows emitted, before the limit stops it.\<close>

fun emit_rows :: "int \<Rightarrow> ('r \<Rightarrow> int) \<Rightarrow> 'r list \<Rightarrow> audit_count \<Rightarrow> 'r list \<times> audit_count" where
  "emit_rows limit ms [] a = ([], a)"
| "emit_rows limit ms (r # rs) a =
     (if limit_hit limit a then ([], a \<lparr> au_truncated := True \<rparr>)
      else (case emit_rows limit ms rs (counted (ms r) a) of (out, a') \<Rightarrow> (r # out, a')))"

definition since_filter :: "int \<Rightarrow> int \<Rightarrow> bool" where
  "since_filter since ms \<longleftrightarrow> since = 0 \<or> ms \<ge> since"

section \<open>The audit export\<close>

definition audit_task_pieces :: "task_row \<Rightarrow> piece list" where
  "audit_task_pieces r =
     [Raw ''{''] @ key_loop True (task_line_keys r) @
     [Raw (snprintf_s 768 (number_block [(''maxTokens'', c_max_tokens r), (''createdAtUnixMs'', c_created_at_ms r),
        (''updatedAtUnixMs'', c_updated_at_ms r), (''eventCount'', to_int32 (c_event_count r)),
        (''attemptCount'', to_int32 (c_attempt_count r)), (''reclaimCount'', to_int32 (c_reclaim_count r)),
        (''acceptedAtUnixMs'', c_accepted_at_ms r)] @ CHR '','' # quoted_key ''leaseOwner'')),
      Text (c_lease_owner r)] @
     named_value ''failureCause'' (c_failure_cause r) @ named_value ''lastReclaimReason'' (c_last_reclaim_reason r) @
     named_value ''artifactState'' (c_artifact_state r) @ named_value ''lastReviewer'' (c_last_reviewer r) @
     named_value ''lastReviewNotes'' (c_last_review_notes r) @ named_value ''acceptedArtifactPath'' (c_accepted_artifact_path r) @ [Raw ''}'']"

definition audit_event_pieces :: "int \<times> event_row \<Rightarrow> piece list" where
  "audit_event_pieces ie = (case ie of (i, e) \<Rightarrow>
     [Raw (snprintf_s 64 (''{'' @ quoted_key ''id'' @ show_int i @ CHR '','' # quoted_key ''taskId'')), Text (e_task_id e)] @
     concat (map (\<lambda>(k, v). [Raw (CHR '','' # [DQ]), Raw k, Raw [DQ, CHR '':''], Text v])
       [(''schema'', e_schema e), (''eventType'', e_event_type e), (''status'', e_status e),
        (''assignedAgent'', e_assigned_agent e), (''message'', e_message e), (''createdBy'', e_created_by e)]) @
     [Raw (snprintf_s 64 (number_block [(''createdAtUnixMs'', e_created_at_ms e)] @ ''}''))])"

definition audit_events :: "projection \<Rightarrow> string \<Rightarrow> int \<Rightarrow> (int \<times> event_row) list" where
  "audit_events p initiativeId since =
     (let ids = map c_task_id (initiative_rows initiativeId p) in
      sort_key (\<lambda>(i, e). (e_created_at_ms e, i))
        (filter (\<lambda>(i, e). List.member ids (e_task_id e) \<and> since_filter since (e_created_at_ms e)) (with_ids (task_events p))))"

text \<open>
  The scan of the ledger: policy decisions go to the document at once, usage records to a buffer of
  four ledger lines. A record belongs to the initiative through its task, a decision also through its
  own initiative id.
\<close>

datatype audit_kind = Policy_Record | Usage_Record

definition audit_kind_of :: "string \<Rightarrow> audit_kind option" where
  "audit_kind_of line =
     (case read_str line ''schema'' 128 of
        None \<Rightarrow> None
      | Some schema \<Rightarrow>
          (if schema = ''woventeam.policy_decision.v0.1'' then Some Policy_Record
           else if schema = ''woventeam.task_usage.v0.1'' then Some Usage_Record else None))"

definition audit_selects :: "string list \<Rightarrow> string \<Rightarrow> int \<Rightarrow> string \<Rightarrow> audit_kind option" where
  "audit_selects ids initiativeId since line =
     (case (audit_kind_of line, read_str line ''taskId'' WT_TASK_ID_SIZE) of
        (Some kind, Some taskId) \<Rightarrow>
          (if (List.member ids taskId \<or> (kind = Policy_Record \<and> read_str line ''initiativeId'' WT_TASK_ID_SIZE = Some initiativeId)) \<and>
              \<not> (since > 0 \<and> read_longlong_or line ''createdAtUnixMs'' 0 < since)
           then Some kind else None)
      | _ \<Rightarrow> None)"

fun audit_lines :: "int \<Rightarrow> string list \<Rightarrow> string \<Rightarrow> int \<Rightarrow> string list \<Rightarrow> audit_count \<Rightarrow> (audit_kind \<times> string) list \<times> audit_count" where
  "audit_lines limit ids initiativeId since [] a = ([], a)"
| "audit_lines limit ids initiativeId since (line # lines) a =
     (if limit_hit limit a then ([], a \<lparr> au_truncated := True \<rparr>)
      else case audit_selects ids initiativeId since line of
        None \<Rightarrow> audit_lines limit ids initiativeId since lines a
      | Some kind \<Rightarrow>
          (case audit_lines limit ids initiativeId since lines (counted (read_longlong_or line ''createdAtUnixMs'' 0) a) of
             (out, a') \<Rightarrow> ((kind, strip_eol line) # out, a')))"

definition lines_of_kind :: "audit_kind \<Rightarrow> (audit_kind \<times> string) list \<Rightarrow> string list" where
  "lines_of_kind kind xs = map snd (filter (\<lambda>x. fst x = kind) xs)"

fun usage_text :: "nat \<Rightarrow> bool \<Rightarrow> string list \<Rightarrow> string \<Rightarrow> string" where
  "usage_text size_limit first [] out = out"
| "usage_text size_limit first (l # ls) out =
     (let out1 = (if \<not> first \<and> length out + 2 < size_limit then out @ '','' else out);
          out2 = (if length out1 + length l + 1 < size_limit then out1 @ l else out1) in
      usage_text size_limit False ls out2)"

text \<open>A scan is listed once for every deliverable row with its deliverable id.\<close>

definition audit_scans :: "projection \<Rightarrow> string \<Rightarrow> int \<Rightarrow> scan_row list" where
  "audit_scans p initiativeId since =
     concat (map (\<lambda>s. map (\<lambda>_. s) (filter (\<lambda>d. d_deliverable_id d = s_deliverable_id s \<and> d_initiative_id d = initiativeId) (deliverables p)))
       (filter (\<lambda>s. since_filter since (s_created_at_ms s)) (secret_scans p)))"

text \<open>
  The database is opened a second time for deliverables and scans (\<open>db2\<close>); when that fails the head of
  the scan array is missing too.
\<close>

definition audit_shipped :: "projection option \<Rightarrow> string \<Rightarrow> int \<Rightarrow> int \<Rightarrow> audit_count \<Rightarrow> piece list \<times> audit_count" where
  "audit_shipped db2 initiativeId since limit a =
     (case db2 of
        None \<Rightarrow> ([], a)
      | Some p \<Rightarrow>
          (case emit_rows limit d_created_at_ms
                  (filter (\<lambda>d. d_initiative_id d = initiativeId \<and> since_filter since (d_created_at_ms d)) (deliverables p)) a of
             (ds, a1) \<Rightarrow>
               (case emit_rows limit s_created_at_ms (audit_scans p initiativeId since) a1 of
                  (ss, a2) \<Rightarrow>
                    (comma_rows True (map (\<lambda>d. [Raw (d_raw_json d)]) ds) @ [Raw (''],'' @ quoted_key ''secretScans'' @ ''['')] @
                     comma_rows True (map (\<lambda>s. [Raw (s_raw_json s)]) ss), a2))))"

definition audit_tail :: "audit_count \<Rightarrow> string" where
  "audit_tail a = snprintf_s 160 (''],'' @ quoted_key ''truncated'' @ json_bool (au_truncated a) @
     number_block [(''nextSinceUnixMs'', if au_truncated a then sll (au_latest a + 1) else 0), (''emittedCount'', to_int32 (au_emitted a))] @
     ''}'' @ [NL])"

definition no_count :: audit_count where
  "no_count = \<lparr> au_emitted = 0, au_latest = 0, au_truncated = False \<rparr>"

definition audit_pieces ::
    "projection \<Rightarrow> string \<Rightarrow> int \<Rightarrow> (int \<times> event_row) list \<Rightarrow> (audit_kind \<times> string) list \<Rightarrow> piece list \<Rightarrow> audit_count \<Rightarrow> piece list" where
  "audit_pieces p initiativeId total_tokens events recs shipped a =
     (let rows = initiative_rows initiativeId p;
          usage = usage_text (WT_TASK_LEDGER_LINE_SIZE * 4) True (lines_of_kind Usage_Record recs) [] in
      [Raw (''{'' @ quoted_key ''ok'' @ ''true,'' @ quoted_key ''initiativeId''), Text initiativeId,
       Raw (snprintf_s 512 (CHR '','' # quoted_key ''summary'' @ ''{'' @ tl (number_block (initiative_numbers
         (''acceptedArtifacts'', count_where (\<lambda>r. c_artifact_state r = ''accepted'') rows) total_tokens rows)) @
         CHR '','' # quoted_key ''title'')),
       Text (first_title rows), Raw ''}'', Raw (CHR '','' # quoted_key ''tasks'' @ ''['')] @
      comma_rows True (map audit_task_pieces (sort_key (\<lambda>r. (c_created_at_ms r, c_task_id r)) rows)) @
      [Raw (''],'' @ quoted_key ''events'' @ ''['')] @ comma_rows True (map audit_event_pieces events) @
      [Raw (''],'' @ quoted_key ''policyDecisions'' @ ''['')] @
      comma_rows True (map (\<lambda>l. [Raw l]) (lines_of_kind Policy_Record recs)) @
      [Raw (''],'' @ quoted_key ''usage'' @ ''['')] @ (if usage \<noteq> [] then [Raw usage] else []) @
      [Raw (''],'' @ quoted_key ''deliverables'' @ ''['')] @ shipped @ [Raw (audit_tail a)])"

text \<open>The task ids of the initiative, as many as the membership array holds.\<close>

definition audit_ids :: "projection \<Rightarrow> string \<Rightarrow> string list" where
  "audit_ids p initiativeId = map (\<lambda>r. snprintf_s WT_TASK_ID_SIZE (c_task_id r)) (take 1024 (initiative_rows initiativeId p))"

definition wtTaskProjectionReadInitiativeAuditJson ::
    "projection option \<Rightarrow> projection option \<Rightarrow> log_file \<Rightarrow> string \<Rightarrow> int \<Rightarrow> int \<Rightarrow> nat \<Rightarrow> int \<times> string" where
  "wtTaskProjectionReadInitiativeAuditJson db db2 ledger initiativeId since limit n =
     (case db of
        None \<Rightarrow> (-1, [])
      | Some p \<Rightarrow>
          (let rows = initiative_rows initiativeId p in
           case (to_int32 (int (length rows)) = 0, sql_sum 0 (map c_max_tokens rows)) of
             (False, Some total_tokens) \<Rightarrow>
               (case emit_rows limit (\<lambda>(i, e). e_created_at_ms e) (audit_events p initiativeId since) no_count of (events, a1) \<Rightarrow>
                case audit_lines limit (audit_ids p initiativeId) initiativeId since (ledger_lines ledger) a1 of (recs, a2) \<Rightarrow>
                case audit_shipped db2 initiativeId since limit a2 of (shipped, a3) \<Rightarrow>
                  (0, put_pieces n (audit_pieces p initiativeId total_tokens events recs shipped a3) []))
           | _ \<Rightarrow> (1, snprintf_s n (error_text ''initiative not found'' @ [NL]))))"

end
