(* ===== verification/Roomd_Reports.thy ===== *)
theory Roomd_Reports
  imports Projection_Audit Roomd_Admission Roomd_Control Token_Budget
begin

text \<open>
  The endpoints of \<^verbatim>\<open>src/src/wt_roomd.c\<close> that report on tasks: each rebuilds the projection, has
  \<^verbatim>\<open>wt_task_projection.c\<close> print a document into a buffer, and sends it; \<open>sendTaskArtifactsJson\<close> reads the
  workspace of a task instead. The allocations succeed.
\<close>

section \<open>Documents of the projection\<close>

definition projected :: "WtConfig \<Rightarrow> roomd_env \<Rightarrow> (projection option \<Rightarrow> http_response) \<Rightarrow> log_file \<Rightarrow> http_response" where
  "projected c env send ledger =
     (case rebuildProjection c env 0 ledger of
        (False, _) \<Rightarrow> server_error ''projection rebuild failed''
      | (True, db) \<Rightarrow> send (re_query env 0 db))"

definition json_document :: "string \<Rightarrow> http_response" where
  "json_document body = wtHttpSendText 200 ''OK'' ''application/json; charset=utf-8'' body"

definition document_or :: "string \<Rightarrow> string option \<Rightarrow> http_response" where
  "document_or e doc = (case doc of None \<Rightarrow> server_error e | Some body \<Rightarrow> json_document body)"

definition detail_or :: "string \<Rightarrow> int \<times> string \<Rightarrow> http_response" where
  "detail_or e doc =
     (case doc of (rc, body) \<Rightarrow>
        if rc < 0 then server_error e
        else wtHttpSendText (if rc = 1 then 404 else 200) (if rc = 1 then ''Not Found'' else ''OK'') ''application/json; charset=utf-8'' body)"

definition sendTaskSummariesJson :: "WtConfig \<Rightarrow> roomd_env \<Rightarrow> log_file \<Rightarrow> http_response" where
  "sendTaskSummariesJson c env = projected c env (\<lambda>db.
     document_or ''projection read failed'' (wtTaskProjectionReadSummariesJson db (WT_TASK_LEDGER_LINE_SIZE * 16)))"

definition sendTaskDetailJson :: "WtConfig \<Rightarrow> roomd_env \<Rightarrow> string \<Rightarrow> log_file \<Rightarrow> http_response" where
  "sendTaskDetailJson c env taskId ledger =
     (if taskId = [] then bad_request ''task id required''
      else projected c env (\<lambda>db.
        detail_or ''projection read failed'' (wtTaskProjectionReadDetailJson db taskId (WT_TASK_LEDGER_LINE_SIZE * 16))) ledger)"

definition sendInitiativesJson :: "WtConfig \<Rightarrow> roomd_env \<Rightarrow> log_file \<Rightarrow> http_response" where
  "sendInitiativesJson c env = projected c env (\<lambda>db.
     document_or ''initiative read failed'' (wtTaskProjectionReadInitiativesJson db (WT_TASK_LEDGER_LINE_SIZE * 12)))"

definition sendInitiativeDetailJson :: "WtConfig \<Rightarrow> roomd_env \<Rightarrow> string \<Rightarrow> log_file \<Rightarrow> http_response" where
  "sendInitiativeDetailJson c env initiativeId ledger =
     (if initiativeId = [] then bad_request ''initiative id required''
      else projected c env (\<lambda>db. detail_or ''initiative detail read failed''
        (wtTaskProjectionReadInitiativeDetailJson db initiativeId (WT_TASK_LEDGER_LINE_SIZE * 16))) ledger)"

definition sendAgentsJson :: "WtConfig \<Rightarrow> roomd_env \<Rightarrow> log_file \<Rightarrow> http_response" where
  "sendAgentsJson c env = projected c env (\<lambda>db.
     document_or ''agent workload read failed'' (wtTaskProjectionReadAgentsJson db (clock env 0) (WT_TASK_LEDGER_LINE_SIZE * 8)))"

definition sendInitiativeArtifactsJson :: "WtConfig \<Rightarrow> roomd_env \<Rightarrow> string \<Rightarrow> log_file \<Rightarrow> http_response" where
  "sendInitiativeArtifactsJson c env initiativeId = projected c env (\<lambda>db.
     document_or ''artifact inventory read failed''
       (wtTaskProjectionReadInitiativeArtifactsJson db initiativeId (WT_TASK_LEDGER_LINE_SIZE * 8)))"

text \<open>The audit opens the database twice and scans the ledger itself, later than the rebuild (\<open>ledger'\<close>).\<close>

definition sendInitiativeAuditJson :: "WtConfig \<Rightarrow> roomd_env \<Rightarrow> string \<Rightarrow> int \<Rightarrow> int \<Rightarrow> log_file \<Rightarrow> log_file \<Rightarrow> http_response" where
  "sendInitiativeAuditJson c env initiativeId since limit ledger ledger' = projected c env (\<lambda>db.
     detail_or ''audit read failed'' (wtTaskProjectionReadInitiativeAuditJson db (re_query env 1 db) ledger' initiativeId since limit
       (WT_TASK_LEDGER_LINE_SIZE * 64))) ledger"

section \<open>The status snapshot\<close>

definition status_text :: "WtConfig \<Rightarrow> int \<Rightarrow> (nat \<Rightarrow> projection option) \<Rightarrow> WtTokenSummary \<Rightarrow> string" where
  "status_text c now db s =
     (let n = WT_TASK_LEDGER_LINE_SIZE * 8; or_text = (\<lambda>fallback doc. case doc of None \<Rightarrow> fallback | Some t \<Rightarrow> t) in
      render_object
        [(''ok'', JLit ''true''), (''nowUnixMs'', JNum now),
         (''initiatives'', JLit (or_text (render_object [(''ok'', JLit ''false''), (''initiatives'', JLit ''[]'')])
            (wtTaskProjectionReadInitiativesJson (db 0) n))),
         (''agents'', JLit (or_text (render_object [(''ok'', JLit ''false''), (''agents'', JLit ''[]'')])
            (wtTaskProjectionReadAgentsJson (db 1) now n))),
         (''heartbeats'', JLit (or_text ''[]'' (wtTaskProjectionReadHeartbeatsJson (db 2) n))),
         (''recentMilestones'', JLit (or_text ''[]'' (wtTaskProjectionReadRecentMilestonesJson (db 3) 50 n))),
         (''taskSummaries'', JLit (or_text ''[]'' (wtTaskProjectionReadSummariesJson (db 4) n))),
         (''tokens'', json_object
            [(''dayWindowAllocatedTokens'', JNum (dayWindowAllocatedTokens s)), (''monthWindowAllocatedTokens'', JNum (monthWindowAllocatedTokens s)),
             (''dayWindowActualTokens'', JNum (dayWindowActualTokens s)), (''monthWindowActualTokens'', JNum (monthWindowActualTokens s)),
             (''tokenDailyBudget'', JNum (tokenDailyBudget c)), (''tokenMonthlyBudget'', JNum (tokenMonthlyBudget c))]),
         (''adapters'', json_object
            [(''claudeEnabled'', bool_lit (enableClaudeAdapter c)), (''codexEnabled'', bool_lit (enableCodexAdapter c)),
             (''geminiEnabled'', bool_lit (enableGeminiAdapter c))]),
         (''policy'', json_object
            [(''blockedVendors'', raw_str (blockedVendors c)), (''tokenBudgetPerInitiative'', JNum (tokenBudgetPerInitiative c)),
             (''tokenBudgetPerModelFamily'', JNum (tokenBudgetPerModelFamily c))]),
         (''heartbeatIntervalSeconds'', JNum (heartbeatIntervalSeconds c))] @ [NL])"

definition sendStatusJson :: "WtConfig \<Rightarrow> roomd_env \<Rightarrow> log_file \<Rightarrow> log_file \<Rightarrow> http_response" where
  "sendStatusJson c env ledger ledger' =
     (case rebuildProjection c env 0 ledger of
        (False, _) \<Rightarrow> server_error ''projection rebuild failed''
      | (True, db) \<Rightarrow>
          (let body = status_text c (clock env 0) (\<lambda>k. re_query env k db) (wtTaskSummarizeTokenBudgets ledger' (clock env 0)) in
           if length body \<ge> WT_TASK_LEDGER_LINE_SIZE * 32 then server_error ''status payload too large'' else json_document body))"

section \<open>The workspace of a task\<close>

text \<open>Text and size of a file, cut to the buffer; no file is an empty text.\<close>

definition readTextSnippet :: "(string \<Rightarrow> log_file) \<Rightarrow> string \<Rightarrow> nat \<Rightarrow> string \<times> int" where
  "readTextSnippet fs path bufferSize =
     (case fs path of
        None \<Rightarrow> ([], 0)
      | Some s \<Rightarrow> (cstr (take (if bufferSize > 0 then bufferSize - 1 else 0) s), int (length s)))"

definition artifactKindForName :: "string \<Rightarrow> string" where
  "artifactKindForName name =
     (if name = ''result.md'' then ''result'' else if name = ''stdout.log'' then ''stdout''
      else if name = ''stderr.log'' then ''stderr'' else if name = ''manifest.json'' then ''manifest'' else ''file'')"

fun put_json :: "nat \<Rightarrow> piece \<Rightarrow> string \<Rightarrow> bool \<times> string" where
  "put_json n (Raw t) b = (case appendJsonRaw n t b of None \<Rightarrow> (False, b) | Some b' \<Rightarrow> (True, b'))"
| "put_json n (Text t) b = appendJsonStringValue n t b"

text \<open>Appends whose results are ignored, and appends joined by \<open>||\<close>, which stop at the first that fails.\<close>

definition put_jsons :: "nat \<Rightarrow> piece list \<Rightarrow> string \<Rightarrow> string" where
  "put_jsons n ps b = fold (\<lambda>p b. snd (put_json n p b)) ps b"

fun put_until :: "nat \<Rightarrow> piece list \<Rightarrow> string \<Rightarrow> bool \<times> string" where
  "put_until n [] b = (True, b)"
| "put_until n (p # ps) b = (case put_json n p b of (ok, b') \<Rightarrow> if ok then put_until n ps b' else (False, b'))"

definition appendArtifactTextField :: "nat \<Rightarrow> (string \<Rightarrow> log_file) \<Rightarrow> string \<Rightarrow> string \<Rightarrow> string \<Rightarrow> string \<Rightarrow> bool \<times> string" where
  "appendArtifactTextField n fs fieldName workspace fileName b =
     (case readTextSnippet fs (snprintf_s (WT_PATH_SIZE * 2) (workspace @ ''/'' @ fileName)) 12001 of
        (text, bytes_read) \<Rightarrow>
          put_until n [Raw [CHR '','', DQ], Raw fieldName, Raw [DQ, CHR '':''], Text text,
            Raw (snprintf_s 128 (CHR '','' # quoted_key (snprintf_s 64 (fieldName @ ''Bytes'')) @ show_int bytes_read))] b)"

text \<open>\<open>dirs\<close> gives the entries of a directory as \<open>readdir\<close> lists them; a path in \<open>fs\<close> is a regular file.\<close>

definition artifact_files :: "(string \<Rightarrow> log_file) \<Rightarrow> string \<Rightarrow> string list \<Rightarrow> (string \<times> int) list" where
  "artifact_files fs workspace entries =
     concat (map (\<lambda>name.
        if \<not> isSafeArtifactName name \<or> name = ''.'' \<or> name = ''..'' then []
        else case fs (snprintf_s (WT_PATH_SIZE * 4) (workspace @ ''/'' @ name)) of
          None \<Rightarrow> [] | Some s \<Rightarrow> [(name, int (length s))]) entries)"

definition artifact_file_pieces :: "string \<times> int \<Rightarrow> piece list" where
  "artifact_file_pieces f =
     [Raw (''{'' @ quoted_key ''name''), Text (fst f)] @ named_value ''kind'' (artifactKindForName (fst f)) @
     [Raw (snprintf_s 128 (number_block [(''bytes'', snd f)] @ ''}''))]"

definition sendTaskArtifactsJson :: "WtConfig \<Rightarrow> (string \<Rightarrow> string list option) \<Rightarrow> (string \<Rightarrow> log_file) \<Rightarrow> string \<Rightarrow> http_response" where
  "sendTaskArtifactsJson c dirs fs taskId =
     (if \<not> isSafeArtifactName taskId then bad_request ''invalid task id''
      else
        (let workspace = snprintf_s (WT_PATH_SIZE * 2) (runtimeRootPath c @ ''/'' @ taskId);
             n = WT_TASK_LEDGER_LINE_SIZE * 12;
             field = (\<lambda>name file_name b. snd (appendArtifactTextField n fs name workspace file_name b)) in
         json_document
           (put_jsons n [Raw (''}'' @ [NL])]
             (field ''manifestText'' ''manifest.json'' (field ''stderrText'' ''stderr.log''
               (field ''stdoutText'' ''stdout.log'' (field ''resultText'' ''result.md''
                 (put_jsons n (
                    [Raw (''{'' @ quoted_key ''ok'' @ ''true,'' @ quoted_key ''taskId''), Text taskId] @
                    named_value ''workspace'' workspace @
                    [Raw (CHR '','' # quoted_key ''exists'' @ json_bool (dirs workspace \<noteq> None) @ CHR '','' # quoted_key ''files'' @ ''['')] @
                    comma_rows True (map artifact_file_pieces (artifact_files fs workspace
                      (case dirs workspace of None \<Rightarrow> [] | Some entries \<Rightarrow> entries))) @
                    [Raw '']'']) []))))))))"

end
