(* ===== verification/Roomd_Server.thy ===== *)
theory Roomd_Server
  imports Roomd_Admission Roomd_Remote Roomd_Config Roomd_Events Roomd_Deliver Roomd_Reports
begin

text \<open>
  One connection of \<^verbatim>\<open>src/src/wt_roomd.c\<close>: \<open>handleClient\<close> from the request line to the handler, the
  credentials each endpoint asks for, and the read-only endpoints over the ledger and the capacity
  board. \<open>main\<close> runs this in a forked child per connection; children share only the files.
\<close>

section \<open>Endpoints\<close>

datatype endpoint =
    WebFile string | EventStream | GetMessages int | GetTasks | GetCapacity | GetHosts | GetTokens | GetConfig
  | GetAdapters | GetOperatorSession | GetHealth
  | GetTaskSummaries | GetTaskDetail string | GetInitiatives | GetInitiativeDetail string | GetTaskArtifacts string
  | GetAgents | GetStatus | GetInitiativeArtifacts string | GetInitiativeAudit string int int
  | PostMessage | PostTaskPackage | PostTaskRequest | PostTaskEvent | PostTaskGate | PostTaskUsage | PostAgentControl
  | PostTaskReclaim | PostTaskArtifact | PostConfig
  | PostTaskCancel | PostAutonomyRevoke | PostTaskDeliverable | PostTaskPriority | PostTaskReroute | PostTaskNote
  | PostAuthToken | PostAuthTokenRevoke
  | PostHostCapabilities | PostRemoteClaim | PostRemoteTaskEvent
  | NotFound

datatype guard = Open | Operator | AgentToken

fun endpoint_guard :: "endpoint \<Rightarrow> guard" where
  "endpoint_guard PostTaskCancel = Operator"
| "endpoint_guard PostAutonomyRevoke = Operator"
| "endpoint_guard PostTaskDeliverable = Operator"
| "endpoint_guard PostTaskPriority = Operator"
| "endpoint_guard PostTaskReroute = Operator"
| "endpoint_guard PostTaskNote = Operator"
| "endpoint_guard PostAuthToken = Operator"
| "endpoint_guard PostAuthTokenRevoke = Operator"
| "endpoint_guard PostHostCapabilities = AgentToken"
| "endpoint_guard PostRemoteClaim = AgentToken"
| "endpoint_guard PostRemoteTaskEvent = AgentToken"
| "endpoint_guard _ = Open"

text \<open>\<open>strstr(path, key)\<close>, the text behind it cut to the buffer and at the first ampersand.\<close>

definition query_text :: "string \<Rightarrow> string \<Rightarrow> string" where
  "query_text path key =
     (case strstr path key of
        None \<Rightarrow> []
      | Some hit \<Rightarrow> takeWhile (\<lambda>ch. ch \<noteq> CHR ''&'') (snprintf_s WT_TASK_ID_SIZE (drop (length key) hit)))"

definition route_get :: "string \<Rightarrow> endpoint" where
  "route_get path =
     (if path = ''/'' then WebFile ''web/index.html''
      else if path = ''/app.js'' then WebFile ''web/app.js''
      else if path = ''/style.css'' then WebFile ''web/style.css''
      else if path = ''/events'' then EventStream
      else if starts_with ''/api/messages'' path then
        GetMessages (case strstr path ''limit='' of None \<Rightarrow> 50 | Some hit \<Rightarrow> atoi (drop 6 hit))
      else if path = ''/api/tasks'' then GetTasks
      else if path = ''/api/task-summaries'' then GetTaskSummaries
      else if starts_with ''/api/task-detail'' path then GetTaskDetail (query_text path ''taskId='')
      else if path = ''/api/initiatives'' then GetInitiatives
      else if starts_with ''/api/initiative-detail'' path then GetInitiativeDetail (query_text path ''initiativeId='')
      else if starts_with ''/api/task-artifacts'' path then GetTaskArtifacts (query_text path ''taskId='')
      else if path = ''/api/capacity'' then GetCapacity
      else if path = ''/api/agents'' then GetAgents
      else if path = ''/api/hosts'' then GetHosts
      else if path = ''/api/status'' then GetStatus
      else if path = ''/api/tokens'' then GetTokens
      else if path = ''/api/config'' then GetConfig
      else if path = ''/api/adapters'' then GetAdapters
      else if path = ''/api/operator-session'' then GetOperatorSession
      else if starts_with ''/api/initiative-artifacts'' path then GetInitiativeArtifacts (query_text path ''initiativeId='')
      else if starts_with ''/api/initiative-audit'' path then
        GetInitiativeAudit (query_text path ''initiativeId='')
          (case strstr path ''since='' of None \<Rightarrow> 0 | Some hit \<Rightarrow> atol (drop 6 hit))
          (case strstr path ''limit='' of None \<Rightarrow> 0 | Some hit \<Rightarrow> atoi (drop 6 hit))
      else if path = ''/api/health'' then GetHealth
      else NotFound)"

definition post_routes :: "(string \<times> endpoint) list" where
  "post_routes =
     [(''/api/message'', PostMessage), (''/api/task-package'', PostTaskPackage), (''/api/task-request'', PostTaskRequest),
      (''/api/task-event'', PostTaskEvent), (''/api/task-gate'', PostTaskGate), (''/api/task-usage'', PostTaskUsage),
      (''/api/agent-control'', PostAgentControl), (''/api/task-reclaim'', PostTaskReclaim), (''/api/task-cancel'', PostTaskCancel),
      (''/api/autonomy-revoke'', PostAutonomyRevoke), (''/api/task-artifact'', PostTaskArtifact),
      (''/api/task-deliverable'', PostTaskDeliverable), (''/api/task-priority'', PostTaskPriority),
      (''/api/task-reroute'', PostTaskReroute), (''/api/task-note'', PostTaskNote), (''/api/auth-token'', PostAuthToken),
      (''/api/auth-token/revoke'', PostAuthTokenRevoke), (''/api/host-capabilities'', PostHostCapabilities),
      (''/api/remote-claim'', PostRemoteClaim), (''/api/remote-task-event'', PostRemoteTaskEvent), (''/api/config'', PostConfig)]"

definition route :: "string \<Rightarrow> string \<Rightarrow> endpoint" where
  "route verb path =
     (if verb = ''GET'' then route_get path
      else if verb = ''POST'' then (case map_of post_routes path of Some e \<Rightarrow> e | None \<Rightarrow> NotFound)
      else NotFound)"

text \<open>\<open>sscanf(request, "%15s %255s", method, path)\<close>.\<close>

definition scan_word :: "nat \<Rightarrow> string \<Rightarrow> string \<times> string" where
  "scan_word n s =
     (let t = skip_space s; word = take n (takeWhile (\<lambda>ch. \<not> is_space ch) t) in (word, drop (length word) t))"

definition request_line :: "string \<Rightarrow> string \<times> string" where
  "request_line request = (case scan_word 15 request of (verb, rest) \<Rightarrow> (verb, fst (scan_word 255 rest)))"

section \<open>Read-only endpoints\<close>

definition sendTasksJson :: "log_file \<Rightarrow> http_response" where
  "sendTasksJson ledger =
     (case wtTaskReadAllJsonArray ledger (WT_TASK_LEDGER_LINE_SIZE * 8) of
        None \<Rightarrow> json_reply 500 ''Internal Server Error'' not_ok_body
      | Some body \<Rightarrow> wtHttpSendText 200 ''OK'' ''application/json; charset=utf-8'' body)"

text \<open>The caps replace the closing brace of the board.\<close>

definition caps_text :: "WtConfig \<Rightarrow> string" where
  "caps_text c = snprintf_s 256 ('','' @ [DQ] @ ''caps'' @ [DQ] @ '':'' @
     render_object [(''maxActiveTasksPerAgent'', JNum (maxActiveTasksPerAgent c)),
       (''maxSubtasksPerParent'', JNum (maxSubtasksPerParent c)), (''maxTasksPerInitiative'', JNum (maxTasksPerInitiative c))] @ ''}'' @ [NL])"

definition sendCapacityJson :: "WtConfig \<Rightarrow> roomd_env \<Rightarrow> log_file \<Rightarrow> http_response" where
  "sendCapacityJson c env ledger =
     (case rebuildProjection c env 0 ledger of
        (False, _) \<Rightarrow> server_error ''projection rebuild failed''
      | (True, db) \<Rightarrow>
          (case wtTaskProjectionReadCapacityJson (re_query env 0 db) (WT_TASK_LEDGER_LINE_SIZE * 8) of
             None \<Rightarrow> server_error ''capacity read failed''
           | Some body \<Rightarrow>
               wtHttpSendText 200 ''OK'' ''application/json; charset=utf-8''
                 (if body \<noteq> [] \<and> last body = CHR ''}''
                  then strncat_to (WT_TASK_LEDGER_LINE_SIZE * 8) (butlast body) (caps_text c) else body)))"

text \<open>Pieces that do not fit are left out, each on its own.\<close>

definition put_raw :: "string \<Rightarrow> string \<Rightarrow> string" where
  "put_raw text body = (case appendJsonRaw (WT_TASK_LEDGER_LINE_SIZE * 4) text body of Some b \<Rightarrow> b | None \<Rightarrow> body)"

definition put_str :: "string \<Rightarrow> string \<Rightarrow> string" where
  "put_str text body = snd (appendJsonStringValue (WT_TASK_LEDGER_LINE_SIZE * 4) text body)"

definition json_key :: "string \<Rightarrow> string" where
  "json_key k = [DQ] @ k @ [DQ] @ '':''"

definition hosts_step :: "string \<Rightarrow> bool \<times> string \<Rightarrow> bool \<times> string" where
  "hosts_step line v =
     (if strstr line host_event_mark = None then v
      else case (read_str line ''host'' WT_TASK_AGENT_SIZE, read_str line ''agent'' WT_TASK_AGENT_SIZE) of
        (Some host, Some who) \<Rightarrow>
          (let (first, body) = v in
           (False, fold (\<lambda>put b. put b)
              [put_raw (if first then [] else '',''), put_raw (''{'' @ json_key ''host''), put_str host,
               put_raw ('','' @ json_key ''agent''), put_str who,
               put_raw ('','' @ json_key ''profiles''), put_str (read_or line ''profiles'' 256 []),
               put_raw ('','' @ json_key ''adapters''), put_str (read_or line ''adapters'' 256 []), put_raw ''}''] body))
      | _ \<Rightarrow> v)"

definition sendHostsJson :: "log_file \<Rightarrow> http_response" where
  "sendHostsJson ledger =
     wtHttpSendText 200 ''OK'' ''application/json; charset=utf-8''
       (put_raw ('']}'' @ [NL]) (snd (fold hosts_step (ledger_lines ledger)
          (True, put_raw (''{'' @ json_key ''ok'' @ ''true,'' @ json_key ''hosts'' @ ''['') []))))"

definition sendHealth :: "WtConfig \<Rightarrow> bool \<Rightarrow> agent_world \<Rightarrow> http_response" where
  "sendHealth c projectionOk w =
     ok_reply 2048 (render_object
       [(''ok'', bool_lit projectionOk), (''roomName'', raw_str (configRoomName c)),
        (''ledger'', JLit (render_object [(''path'', raw_str (taskLedgerPath c)), (''exists'', bool_lit (w_ledger w \<noteq> None))])),
        (''roomLog'', JLit (render_object [(''path'', raw_str (roomLogPath c)), (''exists'', bool_lit (w_room w \<noteq> None))])),
        (''projection'', JLit (render_object [(''path'', raw_str (taskProjectionDbPath c)), (''ok'', bool_lit projectionOk)])),
        (''adapters'', JLit (render_object [(''codexEnabled'', bool_lit (enableCodexAdapter c)),
            (''claudeEnabled'', bool_lit (enableClaudeAdapter c)), (''geminiEnabled'', bool_lit (enableGeminiAdapter c))]))] @ [NL])"

section \<open>Serving a request\<close>

datatype reply = Answer http_response | Stream "string list"

record server_env =
  se_env :: roomd_env
  se_token :: token_source
  se_dependents :: "nat \<Rightarrow> io_fault"
  se_file_fault :: io_fault
  se_getenv :: "string \<Rightarrow> string option"
  se_executable :: "string \<Rightarrow> bool"
  se_writable :: "string \<Rightarrow> bool"
  se_views :: "nat \<Rightarrow> sse_view"
  se_ship :: ship_env
  se_dirs :: "string \<Rightarrow> string list option"

definition answer :: "served \<Rightarrow> reply \<times> agent_world \<times> notice list" where
  "answer s = (case s of (r, w, notices) \<Rightarrow> (Answer r, w, notices))"

text \<open>A handler that reads the ledger once, at moment 0.\<close>

definition reading :: "roomd_env \<Rightarrow> (log_file \<Rightarrow> http_response) \<Rightarrow> agent_world \<Rightarrow> reply \<times> agent_world \<times> notice list" where
  "reading env send w = (let w0 = read_ledger (re_moments env 0) w in (Answer (send (w_ledger w0)), w0, []))"

text \<open>A handler that reads the ledger a second time, at moment 1.\<close>

definition reading_twice :: "roomd_env \<Rightarrow> (log_file \<Rightarrow> log_file \<Rightarrow> http_response) \<Rightarrow> agent_world \<Rightarrow> reply \<times> agent_world \<times> notice list" where
  "reading_twice env send w =
     (let w0 = read_ledger (re_moments env 0) w; w1 = read_ledger (re_moments env 1) w0 in
      (Answer (send (w_ledger w0) (w_ledger w1)), w1, []))"

definition serve :: "server_env \<Rightarrow> WtConfig \<Rightarrow> string \<Rightarrow> string \<Rightarrow> WtAuthContext \<Rightarrow> endpoint \<Rightarrow> agent_world
    \<Rightarrow> reply \<times> agent_world \<times> notice list" where
  "serve senv c request peerIp auth e w =
     (let env = se_env senv; ms = re_moments env; junk = re_junk env in
      case e of
        WebFile path \<Rightarrow> (Answer (serveFile (w_files w) path), w, [])
      | EventStream \<Rightarrow>
          (let w0 = read_ledger (ms 0) w in (Stream (sse_sent (handleEvents (w_ledger w0) (se_views senv))), w0, []))
      | GetMessages limit \<Rightarrow> (let w0 = read_room (ms 0) w in (Answer (sendMessagesJson junk (w_room w0) limit), w0, []))
      | GetTasks \<Rightarrow> reading env sendTasksJson w
      | GetCapacity \<Rightarrow> reading env (sendCapacityJson c env) w
      | GetHosts \<Rightarrow> reading env sendHostsJson w
      | GetTokens \<Rightarrow> reading env (\<lambda>ledger. sendTokenJson c ledger (clock env 0)) w
      | GetConfig \<Rightarrow> (Answer (sendConfigJson c), w, [])
      | GetAdapters \<Rightarrow> reading env (\<lambda>ledger. sendAdaptersJson c (\<lambda>_. ledger) (se_executable senv) (se_writable senv)
                        (se_getenv senv ''PATH'')) w
      | GetOperatorSession \<Rightarrow> answer (handleGetOperatorSession c (se_file_fault senv) (se_token senv) peerIp w)
      | GetHealth \<Rightarrow>
          (let w0 = read_room (ms 0) (read_ledger (ms 0) w) in
           (Answer (sendHealth c (fst (rebuildProjection c env 0 (w_ledger w0))) w0), w0, []))
      | GetTaskSummaries \<Rightarrow> reading env (sendTaskSummariesJson c env) w
      | GetTaskDetail taskId \<Rightarrow> reading env (sendTaskDetailJson c env taskId) w
      | GetInitiatives \<Rightarrow> reading env (sendInitiativesJson c env) w
      | GetInitiativeDetail i \<Rightarrow> reading env (sendInitiativeDetailJson c env i) w
      | GetTaskArtifacts taskId \<Rightarrow> (Answer (sendTaskArtifactsJson c (se_dirs senv) (w_files w) taskId), w, [])
      | GetAgents \<Rightarrow> reading env (sendAgentsJson c env) w
      | GetStatus \<Rightarrow> reading_twice env (sendStatusJson c env) w
      | GetInitiativeArtifacts i \<Rightarrow> reading env (sendInitiativeArtifactsJson c env i) w
      | GetInitiativeAudit i since limit \<Rightarrow> reading_twice env (sendInitiativeAuditJson c env i since limit) w
      | PostMessage \<Rightarrow> answer (handlePostMessage c ms request w)
      | PostTaskPackage \<Rightarrow> answer (handlePostTaskPackage c env request w)
      | PostTaskRequest \<Rightarrow> answer (handlePostTaskRequest c env request w)
      | PostTaskEvent \<Rightarrow> answer (handlePostTaskEvent c ms (se_dependents senv) request w)
      | PostTaskGate \<Rightarrow> answer (handlePostTaskGate c ms request w)
      | PostTaskUsage \<Rightarrow> answer (handlePostTaskUsage c ms request w)
      | PostAgentControl \<Rightarrow> answer (handlePostAgentControl c ms request w)
      | PostTaskReclaim \<Rightarrow> answer (handlePostTaskReclaim c ms request w)
      | PostTaskArtifact \<Rightarrow> answer (handlePostTaskArtifact c ms request w)
      | PostConfig \<Rightarrow> answer (handlePostConfig c (se_file_fault senv) junk request w)
      | PostTaskCancel \<Rightarrow> answer (handlePostTaskCancel c ms request w)
      | PostAutonomyRevoke \<Rightarrow> answer (handlePostAutonomyRevoke c ms request w)
      | PostTaskDeliverable \<Rightarrow> answer (handlePostTaskDeliverable c env (se_ship senv) request w)
      | PostTaskPriority \<Rightarrow> answer (handlePostTaskPriority c ms junk request w)
      | PostTaskReroute \<Rightarrow> answer (handlePostTaskReroute c ms junk request w)
      | PostTaskNote \<Rightarrow> answer (handlePostTaskNote c ms junk request w)
      | PostAuthToken \<Rightarrow> answer (handlePostAuthToken c ms (se_token senv) request w)
      | PostAuthTokenRevoke \<Rightarrow> answer (handlePostAuthTokenRevoke c ms junk request w)
      | PostHostCapabilities \<Rightarrow> answer (handlePostHostCapabilities c ms request auth w)
      | PostRemoteClaim \<Rightarrow> answer (handlePostRemoteClaim c ms junk request auth w)
      | PostRemoteTaskEvent \<Rightarrow> answer (handlePostRemoteTaskEvent c ms request auth w)
      | NotFound \<Rightarrow> (Answer (wtHttpSendText 404 ''Not Found'' ''text/plain; charset=utf-8'' (''not found'' @ [NL])), w, []))"

section \<open>The gate in front of the handlers\<close>

text \<open>The credential checks have moments of their own: two reads of the ledger (10, 11) and the clock (12).\<close>

definition gate_world :: "roomd_env \<Rightarrow> agent_world \<Rightarrow> agent_world" where
  "gate_world env w = read_ledger (re_moments env 11) (read_ledger (re_moments env 10) w)"

definition bearer :: "roomd_env \<Rightarrow> WtConfig \<Rightarrow> string \<Rightarrow> string \<Rightarrow> string \<Rightarrow> agent_world \<Rightarrow> bool \<times> WtAuthContext" where
  "bearer env c request peerIp role w =
     validateBearerToken c (w_ledger (read_ledger (re_moments env 10) w)) (w_ledger (gate_world env w)) (clock env 12) request peerIp role"

definition operator_refusal :: "roomd_env \<Rightarrow> WtConfig \<Rightarrow> string \<Rightarrow> string \<Rightarrow> agent_world \<Rightarrow> http_response option" where
  "operator_refusal env c request peerIp w =
     requireOperatorAuth c (w_files w (operatorSessionPath c)) (w_ledger (read_ledger (re_moments env 10) w))
       (w_ledger (gate_world env w)) (clock env 12) request peerIp"

definition bearer_refusal :: "WtAuthContext \<Rightarrow> http_response" where
  "bearer_refusal auth =
     (let why = (if auth_reason auth \<noteq> [] then auth_reason auth else ''bearer_required'') in
      wtHttpSendText 401 ''Unauthorized'' ''application/json; charset=utf-8''
        (snprintf_s 256 (render_object [(''ok'', JLit ''false''), (''error'', raw_str why), (''reason'', raw_str why)] @ [NL])))"

definition guarded_serve :: "server_env \<Rightarrow> WtConfig \<Rightarrow> string \<Rightarrow> string \<Rightarrow> endpoint \<Rightarrow> agent_world
    \<Rightarrow> reply \<times> agent_world \<times> notice list" where
  "guarded_serve senv c request peerIp e w =
     (let env = se_env senv in
      case endpoint_guard e of
        Open \<Rightarrow> serve senv c request peerIp no_auth e w
      | Operator \<Rightarrow>
          (case operator_refusal env c request peerIp w of
             None \<Rightarrow> serve senv c request peerIp no_auth e (gate_world env w)
           | Some r \<Rightarrow> (Answer r, gate_world env w, []))
      | AgentToken \<Rightarrow>
          (case bearer env c request peerIp ''agent'' w of
             (True, auth) \<Rightarrow> serve senv c request peerIp auth e (gate_world env w)
           | (False, auth) \<Rightarrow> (Answer (bearer_refusal auth), gate_world env w, [])))"

text \<open>The configuration is reloaded from its file for every request.\<close>

definition request_config :: "(string \<Rightarrow> string option) \<Rightarrow> WtConfig \<Rightarrow> agent_world \<Rightarrow> WtConfig" where
  "request_config getenv c w =
     (if configPath c = [] then c
      else wtConfigApplyEnvironment getenv
        (case wtConfigLoadFile (w_files w) c (configPath c) of Some c' \<Rightarrow> c' | None \<Rightarrow> c))"

definition handleClient :: "server_env \<Rightarrow> WtConfig \<Rightarrow> nat list \<Rightarrow> string \<Rightarrow> string \<Rightarrow> agent_world
    \<Rightarrow> (reply \<times> agent_world \<times> notice list) option" where
  "handleClient senv c arrivals stream peerIp w =
     (case wtHttpReadRequest 16384 arrivals stream of
        None \<Rightarrow> None
      | Some received \<Rightarrow>
          (let request = cstr received; (verb, path) = request_line request in
           Some (guarded_serve senv (request_config (se_getenv senv) c w) request peerIp (route verb path) w)))"

end
