(* ===== verification/Roomd_Access.thy ===== *)
theory Roomd_Access
  imports Roomd_Server
begin

text \<open>
  Access control of the daemon: when a bearer token is accepted, and what a request without credentials
  can do at a protected path (nothing).
\<close>

section \<open>When a token is accepted\<close>

definition bearer_valid :: "WtConfig \<Rightarrow> log_file \<Rightarrow> log_file \<Rightarrow> int \<Rightarrow> string \<Rightarrow> string \<Rightarrow> string \<Rightarrow> bool" where
  "bearer_valid c ledger ledger' now request peerIp role \<longleftrightarrow>
     ipAllowedByConfig c peerIp \<and>
     (\<exists>token. extractBearerToken request 512 = Some token \<and>
        (\<exists>line \<in> set (ledger_lines ledger). issues_token token line) \<and>
        (let v = scan_tokens token ledger in
           (\<forall>line \<in> set (ledger_lines ledger'). \<not> revokes_token (auth_tokenId (tk_auth v)) line) \<and>
           \<not> token_expired now v \<and> (role = [] \<or> role = auth_role (tk_auth v))))"

lemma no_ledger_lines [simp]: "ledger_lines None = []"
  by (simp add: ledger_lines_def)

lemma validate_accepts:
  "fst (validateBearerToken c ledger ledger' now request peerIp role) \<longleftrightarrow> bearer_valid c ledger ledger' now request peerIp role"
  by (auto simp: validateBearerToken_def bearer_valid_def Let_def token_found_iff tokenRevoked_iff split: option.splits)

lemma validate_cases:
  obtains auth where "validateBearerToken c l l' now request peerIp role = (True, auth)" "bearer_valid c l l' now request peerIp role"
  | auth where "validateBearerToken c l l' now request peerIp role = (False, auth)" "\<not> bearer_valid c l l' now request peerIp role"
  using validate_accepts [of c l l' now request peerIp role]
  by (cases "validateBearerToken c l l' now request peerIp role"; cases "fst (validateBearerToken c l l' now request peerIp role)") auto

section \<open>The gate\<close>

text \<open>What a guarded endpoint asks for.\<close>

definition has_credentials :: "server_env \<Rightarrow> WtConfig \<Rightarrow> string \<Rightarrow> string \<Rightarrow> guard \<Rightarrow> agent_world \<Rightarrow> bool" where
  "has_credentials senv c request peerIp g w =
     (let env = se_env senv; ledger = w_ledger (read_ledger (re_moments env 10) w); ledger' = w_ledger (gate_world env w) in
      case g of
        Open \<Rightarrow> True
      | Operator \<Rightarrow> validateOperatorSession (w_files w (operatorSessionPath c)) request \<or>
                    bearer_valid c ledger ledger' (clock env 12) request peerIp ''operator''
      | AgentToken \<Rightarrow> bearer_valid c ledger ledger' (clock env 12) request peerIp ''agent'')"

lemma statusCode_send [simp]: "statusCode (wtHttpSendText code reason kind body) = code"
  by (simp add: wtHttpSendText_def)

text \<open>
  The requests that need credentials: those of the operator, as the phase 3 plan and the sprint 4 report
  list them (with \<open>task-note\<close> and the revocation of tokens, which the daemon treats alike), and those of
  a remote agent, as the threat model lists them.
\<close>

definition operator_paths :: "string list" where
  "operator_paths =
     [''/api/task-priority'', ''/api/task-reroute'', ''/api/task-cancel'', ''/api/autonomy-revoke'', ''/api/auth-token'',
      ''/api/auth-token/revoke'', ''/api/task-deliverable'', ''/api/task-note'']"

definition agent_paths :: "string list" where
  "agent_paths = [''/api/host-capabilities'', ''/api/remote-claim'', ''/api/remote-task-event'']"

lemma protected_guard:
  "path \<in> set operator_paths \<Longrightarrow> endpoint_guard (route ''POST'' path) = Operator"
  "path \<in> set agent_paths \<Longrightarrow> endpoint_guard (route ''POST'' path) = AgentToken"
  by (auto simp: operator_paths_def agent_paths_def route_def post_routes_def)

text \<open>
  C4. The protected requests need credentials. A \<open>POST\<close> to one of the operator paths (task-priority,
  task-reroute, task-cancel, autonomy-revoke, auth-token and its revocation, task-deliverable, task-note)
  with neither the operator session of the session file nor an accepted bearer token of the operator
  role, and a \<open>POST\<close> to one of the remote agent paths (host-capabilities, remote-claim,
  remote-task-event) without an accepted bearer token of the agent role, is answered 401, asks for no
  notification and changes no file: the world afterwards is the one the other processes made in the
  meantime. A token is accepted when it comes from an allowed address and is issued in the ledger, not
  revoked there, not expired and of the role. (The other \<open>POST\<close> endpoints ask for no credentials.)
\<close>

theorem guarded_endpoints_need_credentials:
  assumes "wtHttpReadRequest 16384 arrivals stream = Some received"
    and "request_line (cstr received) = (''POST'', path)"
    and "path \<in> set operator_paths \<and> needed = Operator \<or> path \<in> set agent_paths \<and> needed = AgentToken"
    and "\<not> has_credentials senv (request_config (se_getenv senv) c w) (cstr received) peerIp needed w"
  shows "\<exists>r. handleClient senv c arrivals stream peerIp w = Some (Answer r, gate_world (se_env senv) w, []) \<and> statusCode r = 401"
proof -
  let ?c = "request_config (se_getenv senv) c w" and ?req = "cstr received" and ?env = "se_env senv"
  have client: "handleClient senv c arrivals stream peerIp w = Some (guarded_serve senv ?c ?req peerIp (route ''POST'' path) w)"
    using assms(1,2) by (simp add: handleClient_def Let_def)
  have guard: "endpoint_guard (route ''POST'' path) = needed" using assms(3) protected_guard by blast
  show ?thesis
  proof (cases needed)
    case Open
    with assms(3) show ?thesis by simp
  next
    case Operator
    let ?v = "validateBearerToken ?c (w_ledger (read_ledger (re_moments ?env 10) w)) (w_ledger (gate_world ?env w))
        (clock ?env 12) ?req peerIp ''operator''"
    from Operator assms(4) have no: "\<not> validateOperatorSession (w_files w (operatorSessionPath ?c)) ?req" "\<not> fst ?v"
      by (simp_all add: has_credentials_def Let_def validate_accepts)
    then obtain auth where "?v = (False, auth)" by (cases ?v) auto
    with no(1) obtain r where "operator_refusal ?env ?c ?req peerIp w = Some r" "statusCode r = 401"
      by (simp add: operator_refusal_def requireOperatorAuth_def)
    with client guard Operator show ?thesis by (simp add: guarded_serve_def Let_def)
  next
    case AgentToken
    with assms(4) have "\<not> fst (bearer ?env ?c ?req peerIp ''agent'' w)"
      by (simp add: has_credentials_def Let_def bearer_def validate_accepts)
    then obtain auth where "bearer ?env ?c ?req peerIp ''agent'' w = (False, auth)"
      by (cases "bearer ?env ?c ?req peerIp ''agent'' w") auto
    with client guard AgentToken show ?thesis by (simp add: guarded_serve_def Let_def bearer_refusal_def)
  qed
qed

definition idle_ship :: ship_env where
  "idle_ship = \<lparr> de_moments = (\<lambda>_. \<lparr> m_ledger = (\<lambda>l. l), m_room = (\<lambda>l. l), m_ms = 1000, m_fault = NoFault \<rparr>), de_readable = False,
     de_tmp = None, de_shell = (\<lambda>_ _ w. (1, w)), de_id = (1000, None), de_scan = (1000, None), de_mkdir = (\<lambda>_. False),
     de_copy_fault = OpenFails, de_same_file = (\<lambda>_ _. False), de_left = (\<lambda>_. None), de_git_dir = False, de_regcomp = (\<lambda>_. False), de_regexec = (\<lambda>_ _. False), de_junk = [] \<rparr>"

definition demo_env :: server_env where
  "demo_env = \<lparr> se_env = \<lparr> re_moments = (\<lambda>_. \<lparr> m_ledger = (\<lambda>l. l), m_room = (\<lambda>l. l), m_ms = 1000, m_fault = NoFault \<rparr>),
       re_mkdir = (\<lambda>_. True), re_rebuild = (\<lambda>_. RebuildNoFault), re_old_db = None, re_query = (\<lambda>_ db. db), re_junk = (\<lambda>_. []) \<rparr>,
     se_token = \<lparr> ts_ms = 1000, ts_token = Some (replicate 16 0x5a), ts_id = Some (replicate 8 0x17), ts_time = 1, ts_pid = 7 \<rparr>,
     se_dependents = (\<lambda>_. NoFault), se_file_fault = NoFault, se_getenv = (\<lambda>_. None), se_executable = (\<lambda>_. False),
     se_writable = (\<lambda>_. False), se_views = (\<lambda>_. \<lparr> sv_room = None, sv_ledger = None, sv_sends = (\<lambda>_. True), sv_junk = [] \<rparr>),
     se_ship = idle_ship, se_dirs = (\<lambda>_. None) \<rparr>"

definition empty_world :: agent_world where
  "empty_world = \<lparr> w_ledger = None, w_room = None, w_files = (\<lambda>_. None) \<rparr>"

theorem guarded_endpoints_need_credentials_witness:
  "\<exists>r. handleClient demo_env wtConfigInitDefaults [20, 20] (''POST /api/task-cancel HTTP/1.1'' @ CRLF @ CRLF) ''10.0.0.9'' empty_world =
     Some (Answer r, gate_world (se_env demo_env) empty_world, []) \<and> statusCode r = 401"
proof (rule guarded_endpoints_need_credentials [where needed = Operator and path = "''/api/task-cancel''"])
  let ?req = "''POST /api/task-cancel HTTP/1.1'' @ CRLF @ CRLF"
  show "wtHttpReadRequest 16384 [20, 20] ?req = Some ?req" by code_simp
  show "request_line (cstr ?req) = (''POST'', ''/api/task-cancel'')" by code_simp
  show "''/api/task-cancel'' \<in> set operator_paths \<and> Operator = Operator \<or> ''/api/task-cancel'' \<in> set agent_paths \<and> Operator = AgentToken"
    by (simp add: operator_paths_def)
  have "\<not> ipAllowedByConfig wtConfigInitDefaults ''10.0.0.9''" by code_simp
  moreover have "request_config (se_getenv demo_env) wtConfigInitDefaults empty_world = wtConfigInitDefaults"
    by (simp add: request_config_def wtConfigInitDefaults_def)
  ultimately show "\<not> has_credentials demo_env (request_config (se_getenv demo_env) wtConfigInitDefaults empty_world) (cstr ?req) ''10.0.0.9''
      Operator empty_world"
    by (simp add: has_credentials_def bearer_valid_def Let_def validateOperatorSession_def readFileToken_def empty_world_def)
qed

end
