(* ===== verification/Roomd_Tokens.thy ===== *)
theory Roomd_Tokens
  imports Roomd_Access
begin

text \<open>
  The life of a bearer token: what \<open>handlePostAuthToken\<close> writes is accepted by \<open>validateBearerToken\<close>
  until it expires or is revoked, and what \<open>handlePostAuthTokenRevoke\<close> writes ends it for good.
\<close>

section \<open>The texts of a token\<close>

lemma key_text_token_keys [simp]:
  "key_text ''tokenId''" "key_text ''tokenHash''" "key_text ''tokenPreview''" "key_text ''role''" "key_text ''subject''"
  "key_text ''issuedAtUnixMs''" "key_text ''ttlSeconds''" "key_text ''token''"
  by (simp_all add: key_text_def is_alnum_def is_digit_def)

lemma no_control_alnum: "\<forall>c \<in> set s. is_alnum c \<Longrightarrow> no_control s"
  by (auto simp: no_control_def is_alnum_def is_digit_def)

lemma hex_nibble_alnum: "unat b < 16 \<Longrightarrow> is_alnum (hex_nibble b)"
proof -
  assume "unat b < 16"
  then have "hex_nibble b \<in> set ''0123456789abcdef''" unfolding hex_nibble_def by (intro nth_mem) simp
  moreover have "list_all is_alnum ''0123456789abcdef''" by (simp add: is_alnum_def is_digit_def)
  ultimately show ?thesis by (meson list_all_iff)
qed

lemma nibbles: "unat (drop_bit 4 (b :: u8)) < 16" "unat (b AND 0x0f) < 16" "unat (drop_bit 4 b AND 0x0f) < 16"
proof -
  have "unat b < 256" using unsigned_less [of b] by simp
  then show "unat (drop_bit 4 b) < 16" by (simp add: drop_bit_eq_div unat_div)
  have small: "unat (x AND 0x0f) < 16" for x :: u8
  proof -
    have "x AND 0x0f \<le> 0x0f" by (rule word_and_le1)
    then show ?thesis by (simp add: word_le_nat_alt)
  qed
  then show "unat (b AND 0x0f) < 16" "unat (drop_bit 4 b AND 0x0f) < 16" by blast+
qed

lemma no_control_hex: "no_control (concat (map (\<lambda>b. [hex_nibble (drop_bit 4 b), hex_nibble (b AND 0x0f)]) bs))"
  using nibbles by (intro no_control_alnum) (auto intro: hex_nibble_alnum)

lemma no_control_bytesToHex [simp]: "no_control (bytesToHex bs n)"
  using nibbles by (intro no_control_alnum) (auto simp: bytesToHex_def intro: hex_nibble_alnum)

lemma makeToken_text:
  assumes "makeToken src 512 64 = (token, tokenId)"
  shows "no_control token" "no_control tokenId" "length tokenId < 64" "token \<noteq> []"
proof -
  have "no_control token \<and> no_control tokenId \<and> length tokenId < 64 \<and> token \<noteq> []"
    using assms length_snprintf_s [of 64]
    by (auto simp: makeToken_def snprintf_s_def split: option.splits) 
  then show "no_control token" "no_control tokenId" "length tokenId < 64" "token \<noteq> []" by auto
qed

lemma tokenHash_text: "no_control (wtTokenHash token 128)" "length (wtTokenHash token 128) < 128" "wtTokenHash token 128 \<noteq> []"
proof -
  let ?d = "sha256Final (sha256Update (string_bytes token) sha256Init)"
  have "length ?d = 32" by (simp add: sha256_stream length_sha256_spec)
  moreover have "length (concat (map (\<lambda>b. [hex_nibble (drop_bit 4 b), hex_nibble (b AND 0x0f)]) bs)) = 2 * length bs" for bs
    by (induction bs) auto
  ultimately show "length (wtTokenHash token 128) < 128" by (simp add: wtTokenHash_def Let_def)
  show "no_control (wtTokenHash token 128)" "wtTokenHash token 128 \<noteq> []"
    using no_control_hex by (simp_all add: wtTokenHash_def Let_def)
qed

lemma tokenPreview_text: "no_control token \<Longrightarrow> no_control (wtTokenPreview token 64)" "length (wtTokenPreview token 64) < 64"
  using length_snprintf_s [of 64] by (simp_all add: wtTokenPreview_def)

section \<open>The records\<close>

lemma schema_line: "strstr (render_object ((''schema'', JStr k) # f # fs) @ t) ([DQ] @ ''schema'' @ [DQ] @ '':'' @ [DQ] @ k @ [DQ]) \<noteq> None"
  if "escape k = k"
proof -
  have "render_object ((''schema'', JStr k) # f # fs) @ t =
      ''{'' @ ([DQ] @ ''schema'' @ [DQ] @ '':'' @ [DQ] @ k @ [DQ]) @ ('','' @ render_fields (f # fs) @ ''}'' @ t)"
    using that by (simp add: render_object_def render_field_def)
  then show ?thesis by (simp only: strstr_append simp_thms)
qed

lemma token_record_line: "token_line (render_object ((''schema'', JStr ''woventeam.auth_token.v0.1'') # f # fs) @ t)"
  unfolding token_line_def auth_token_mark_def by (rule schema_line) (simp add: escape_char_def)

lemma requested_ttl_range:
  assumes "is_int32 (authTokenDefaultTtlSeconds c)"
  shows "1 \<le> requested_ttl c body" "is_long (requested_ttl c body)"
proof -
  have "is_long (read_long_or body ''ttlSeconds'' (if authTokenDefaultTtlSeconds c > 0 then authTokenDefaultTtlSeconds c else 3600))"
    using assms by (auto simp: read_long_or_def c_int_defs dest: wtJsonReadLong_is_long split: option.split)
  then show "1 \<le> requested_ttl c body" "is_long (requested_ttl c body)"
    by (auto simp: requested_ttl_def Let_def c_int_defs)
qed

lemma clean_issue_fields:
  assumes "no_control tokenId" "no_control tokenHash" "no_control tokenPreview" "no_control role" "no_control subject"
  shows "clean_fields (issue_fields tokenId tokenHash tokenPreview role subject issuedAt ttl)"
  using assms by (simp add: issue_fields_def)

lemma issue_record_fits:
  assumes "escapes_fit [(tokenHash, 256), (tokenPreview, 128), (tokenId, 128), (role, 64), (subject, 128)]"
    and "is_long issuedAt" "is_long ttl"
  shows "length (render_object (issue_fields tokenId tokenHash tokenPreview role subject issuedAt ttl)) < 2048"
  using length_show_int [OF assms(2)] length_show_int [OF assms(3)] assms(1)
  by (simp add: length_render_object_simps issue_fields_def escape_char_def)

text \<open>The handler's record, when it answers 200: the only new line of the ledger.\<close>

definition issued_line :: "token_source \<Rightarrow> string \<Rightarrow> string \<Rightarrow> int \<Rightarrow> int \<Rightarrow> string" where
  "issued_line src role subject issuedAt ttl =
     (let (token, tokenId) = makeToken src 512 64 in
      render_object (issue_fields tokenId (wtTokenHash token 128) (wtTokenPreview token 64) role subject issuedAt ttl) @ [NL])"

lemma handlePostAuthToken_ok:
  assumes "handlePostAuthToken c ms src request w = (r, w', notices)" "statusCode r = 200"
    and "clean_tail (bytes (m_ledger (ms 0) (w_ledger w)))" "is_long (m_ms (ms 0))" "is_int32 (authTokenDefaultTtlSeconds c)"
  defines "body \<equiv> body_or_empty request"
  defines "role \<equiv> read_or body ''role'' 32 ''agent''"
  defines "subject \<equiv> read_or body ''subject'' WT_TASK_AGENT_SIZE role"
  shows "role = ''operator'' \<or> role = ''agent''"
    and "ledger_lines (w_ledger w') = ledger_lines (m_ledger (ms 0) (w_ledger w)) @
      [issued_line src role subject (m_ms (ms 0)) (requested_ttl c body)]"
    and "clean_tail (bytes (w_ledger w'))"
proof -
  obtain token tokenId where t: "makeToken src 512 64 = (token, tokenId)" by (cases "makeToken src 512 64")
  let ?xs = "[(wtTokenHash token 128, 256), (wtTokenPreview token 64, 128), (tokenId, 128), (role, 64), (subject, WT_TASK_AGENT_SIZE * 2)]"
  let ?fs = "issue_fields tokenId (wtTokenHash token 128) (wtTokenPreview token 64) role subject (m_ms (ms 0)) (requested_ttl c body)"
  let ?l = "m_ledger (ms 0) (w_ledger w)"
  from assms(1,2) t show role: "role = ''operator'' \<or> role = ''agent''"
    unfolding handlePostAuthToken_def body_def role_def
    by (auto simp: Let_def refuse_def bad_request_def json_reply_def split: if_splits)
  have fit: "escapes_fit ?xs"
    using assms(1,2) t role unfolding handlePostAuthToken_def body_def role_def subject_def
    by (auto simp: Let_def refuse_def bad_request_def server_error_def json_reply_def split: if_splits)
  obtain ok l where e: "write_event (m_fault (ms 0)) (fsyncEachMessage c) 2048 ?xs ?fs ?l = (ok, l)" by fastforce
  have "ok \<and> w' = w \<lparr> w_ledger := l \<rparr>"
    using assms(1,2) t role fit e unfolding handlePostAuthToken_def body_def role_def subject_def
    by (auto simp: Let_def refuse_def bad_request_def server_error_def json_reply_def event_at_def to_ledger_def
        simp del: escapes_fit_simps split: if_splits)
  moreover have "length (render_object ?fs) < 2048"
    using issue_record_fits [OF _ assms(4) requested_ttl_range(2) [OF assms(5)]] fit by (simp add: WT_TASK_AGENT_SIZE_def)
  moreover have "wf_fields ?fs" by (simp add: issue_fields_def)
  ultimately show "ledger_lines (w_ledger w') = ledger_lines ?l @ [issued_line src role subject (m_ms (ms 0)) (requested_ttl c body)]"
    and "clean_tail (bytes (w_ledger w'))"
    using write_event_lines [of _ _ 2048 ?xs ?fs ?l l] e assms(3) t by (simp_all add: issued_line_def WT_TASK_LEDGER_LINE_SIZE_def)
qed

text \<open>The record is an issue record of the token, and the scan takes everything from it.\<close>

lemma issued_line_scan:
  assumes "makeToken src 512 64 = (token, tokenId)" "role = ''operator'' \<or> role = ''agent''" "text_ok 64 subject"
    and "is_long issuedAt" "is_long ttl"
  shows "issues_token token (issued_line src role subject issuedAt ttl)"
    and "token_scan_step token (issued_line src role subject issuedAt ttl) v =
      \<lparr> tk_auth = (tk_auth v) \<lparr> auth_role := role, auth_subject := subject, auth_tokenId := tokenId \<rparr>,
        tk_issuedAt = issuedAt, tk_ttl = ttl, tk_found = True \<rparr>"
    and "\<not> revokes_token t (issued_line src role subject issuedAt ttl)"
proof -
  let ?h = "wtTokenHash token 128" and ?p = "wtTokenPreview token 64"
  let ?fs = "issue_fields tokenId ?h ?p role subject issuedAt ttl"
  note m = makeToken_text [OF assms(1)] and h = tokenHash_text [of token] and p = tokenPreview_text(1) [OF makeToken_text(1) [OF assms(1)]]
  have c: "clean_fields ?fs" using assms(2,3) m h p by (intro clean_issue_fields) (auto simp: text_ok_def)
  have line: "issued_line src role subject issuedAt ttl = render_object ?fs @ [NL]" by (simp add: issued_line_def assms(1))
  note str = read_str_render [OF c, of _ "[NL]"] and num = read_long_render [OF c, of _ "[NL]"]
  have tl: "token_line (render_object ?fs @ [NL])" unfolding issue_fields_def by (rule token_record_line)
  have ev: "read_str (render_object ?fs @ [NL]) ''eventType'' 32 = Some ''issue''"
    "read_str (render_object ?fs @ [NL]) ''tokenHash'' 128 = Some ?h"
    "read_str (render_object ?fs @ [NL]) ''role'' 32 = Some role"
    "read_str (render_object ?fs @ [NL]) ''subject'' 64 = Some subject"
    "read_str (render_object ?fs @ [NL]) ''tokenId'' 64 = Some tokenId"
    using str [of "''eventType''" 32] str [of "''tokenHash''" 128] str [of "''role''" 32] str [of "''subject''" 64]
      str [of "''tokenId''" 64] assms(2,3) m h
    by (auto simp: issue_fields_def text_ok_def)
  note keep = ev [THEN read_keep_Some]
  show "\<not> revokes_token t (issued_line src role subject issuedAt ttl)" using ev(1) by (simp add: revokes_token_def line)
  show iss: "issues_token token (issued_line src role subject issuedAt ttl)"
    using tl ev(1) keep(2) h(3) by (simp add: issues_token_def line Let_def)
  have nums: "wtJsonReadLongLong (render_object ?fs @ [NL]) ''issuedAtUnixMs'' = Some issuedAt"
    "wtJsonReadLong (render_object ?fs @ [NL]) ''ttlSeconds'' = Some ttl"
    using num(2) [of "''issuedAtUnixMs''"] num(1) [of "''ttlSeconds''"] assms(4,5) by (simp_all add: issue_fields_def)
  show "token_scan_step token (issued_line src role subject issuedAt ttl) v =
      \<lparr> tk_auth = (tk_auth v) \<lparr> auth_role := role, auth_subject := subject, auth_tokenId := tokenId \<rparr>,
        tk_issuedAt = issuedAt, tk_ttl = ttl, tk_found = True \<rparr>"
    using iss keep nums by (simp add: token_scan_step_def line Let_def WT_TASK_AGENT_SIZE_def read_longlong_or_def read_long_or_def)
qed

lemma issued_scan:
  assumes "makeToken src 512 64 = (token, tokenId)" "role = ''operator'' \<or> role = ''agent''" "text_ok 64 subject"
    and "is_long issuedAt" "is_long ttl"
    and "ledger_lines ledger = old @ [issued_line src role subject issuedAt ttl] @ extra" "\<forall>line \<in> set extra. \<not> issues_token token line"
  shows "scan_tokens token ledger = \<lparr> tk_auth = no_auth \<lparr> auth_role := role, auth_subject := subject, auth_tokenId := tokenId \<rparr>,
      tk_issuedAt = issuedAt, tk_ttl = ttl, tk_found = True \<rparr>"
proof -
  let ?v0 = "\<lparr> tk_auth = no_auth, tk_issuedAt = 0, tk_ttl = 0, tk_found = False \<rparr>"
  have names: "auth_reason (tk_auth (fold (token_scan_step token) ls v)) = auth_reason (tk_auth v)" for ls v
    by (induction ls arbitrary: v) (simp_all add: token_scan_step_def Let_def)
  have "scan_tokens token ledger = token_scan_step token (issued_line src role subject issuedAt ttl) (fold (token_scan_step token) old ?v0)"
    unfolding scan_tokens_def assms(6) using issues.scan_irrelevant [of extra] assms(7) by simp
  with issued_line_scan(2) [OF assms(1-5)] names [of old ?v0] show ?thesis by (simp add: no_auth_def)
qed

section \<open>Properties\<close>

text \<open>
  C24. An issued token works. After \<open>POST /api/auth-token\<close> answered 200, a request from an allowed
  address with the new token is accepted, with the role, subject and id of the request, until the
  time to live is over: as long as the ledger (which others may extend) has no revocation of the
  id and no other issue record of the token.
\<close>

theorem issued_token_accepted:
  assumes "handlePostAuthToken c ms src request w = (r, w', notices)" and "statusCode r = 200"
    and "clean_tail (bytes (m_ledger (ms 0) (w_ledger w)))" and "is_long (m_ms (ms 0))" and "is_int32 (authTokenDefaultTtlSeconds c)"
    and "makeToken src 512 64 = (token, tokenId)"
    and "role = read_or (body_or_empty request) ''role'' 32 ''agent''"
    and "subject = read_or (body_or_empty request) ''subject'' WT_TASK_AGENT_SIZE role" and "no_control subject"
    and "ledger_lines ledger = ledger_lines (w_ledger w') @ extra" and "\<forall>line \<in> set extra. \<not> issues_token token line"
    and "\<forall>line \<in> set (ledger_lines ledger'). \<not> revokes_token tokenId line"
    and "ipAllowedByConfig c' peerIp" and "extractBearerToken later 512 = Some token"
    and "0 \<le> m_ms (ms 0)" and "now \<le> m_ms (ms 0) + requested_ttl c (body_or_empty request) * 1000"
    and "is_long (m_ms (ms 0) + requested_ttl c (body_or_empty request) * 1000)"
  shows "validateBearerToken c' ledger ledger' now later peerIp role =
    (True, \<lparr> auth_role = role, auth_subject = subject, auth_tokenId = tokenId, auth_reason = ''ok'' \<rparr>)"
proof -
  let ?ttl = "requested_ttl c (body_or_empty request)"
  note ok = handlePostAuthToken_ok [OF assms(1-5), folded assms(7), folded assms(8)]
  note ttl = requested_ttl_range [OF assms(5), of "body_or_empty request"]
  have subj: "text_ok 64 subject"
    using assms(9) read_or_length [of 64 "body_or_empty request" "''subject''" role] unfolding assms(8)
    by (simp add: text_ok_def WT_TASK_AGENT_SIZE_def)
  have "scan_tokens token ledger = \<lparr> tk_auth = no_auth \<lparr> auth_role := role, auth_subject := subject, auth_tokenId := tokenId \<rparr>,
      tk_issuedAt = m_ms (ms 0), tk_ttl = ?ttl, tk_found = True \<rparr>"
    using issued_scan [OF assms(6) ok(1) subj assms(4) ttl(2), of ledger _ extra] assms(10,11) ok(2) by simp
  moreover have "ledger \<noteq> None" using assms(10) ok(2) by (cases ledger) auto
  moreover have "\<not> tokenRevoked ledger' tokenId" using assms(12) by (simp add: tokenRevoked_iff)
  moreover have "is_long (?ttl * 1000)" using assms(15,17) ttl(1) by (auto simp: c_int_defs)
  ultimately show ?thesis
    using assms(13,14,16,17) by (auto simp: validateBearerToken_def Let_def token_expired_def no_auth_def)
qed

text \<open>With a working disk the handler answers 200.\<close>

lemma handlePostAuthToken_works:
  assumes "m_fault (ms 0) = NoFault" "read_or (body_or_empty request) ''role'' 32 ''agent'' = ''agent''"
    and "no_control (read_or (body_or_empty request) ''subject'' WT_TASK_AGENT_SIZE ''agent'')"
  shows "statusCode (fst (handlePostAuthToken c ms src request w)) = 200"
proof -
  obtain token tokenId where t: "makeToken src 512 64 = (token, tokenId)" by (cases "makeToken src 512 64")
  note m = makeToken_text [OF t] and h = tokenHash_text [of token] and p = tokenPreview_text(1) [OF makeToken_text(1) [OF t]] tokenPreview_text(2) [of token]
  have "text_ok 64 (read_or (body_or_empty request) ''subject'' WT_TASK_AGENT_SIZE ''agent'')"
    using assms(3) read_or_length [of 64] by (simp add: text_ok_def WT_TASK_AGENT_SIZE_def)
  moreover have "text_ok 128 (wtTokenHash token 128)" "text_ok 64 (wtTokenPreview token 64)" "text_ok 64 tokenId" "text_ok 32 ''agent''"
    using m h p by (simp_all add: text_ok_def)
  ultimately have "escapes_fit [(wtTokenHash token 128, 256), (wtTokenPreview token 64, 128), (tokenId, 128), (''agent'', 64),
      (read_or (body_or_empty request) ''subject'' WT_TASK_AGENT_SIZE ''agent'', WT_TASK_AGENT_SIZE * 2)]"
    by (simp add: escape_text_ok [of 128] escape_text_ok [of 64] escape_text_ok [of 32] WT_TASK_AGENT_SIZE_def del: escape_simps)
  then show ?thesis
    using assms(1,2) t by (simp add: handlePostAuthToken_def Let_def event_at_def to_ledger_def write_event_def wtTaskAppendRecord_def
        write_record_def ok_reply_def del: escapes_fit_simps)
qed

definition demo_token :: string where
  "demo_token = ''wt_1000_5a5a5a5a5a5a5a5a5a5a5a5a5a5a5a5a''"

lemma demo_makeToken: "makeToken (se_token demo_env) 512 64 = (demo_token, ''tok_1000_1717171717171717'')"
  by code_simp

definition demo_request :: string where
  "demo_request = ''POST /api/remote-claim HTTP/1.1'' @ CRLF @ ''authorization: Bearer '' @ demo_token @ CRLF @ CRLF"

lemma demo_extract: "extractBearerToken demo_request 512 = Some demo_token"
  by code_simp

definition demo_issued :: served where
  "demo_issued = handlePostAuthToken wtConfigInitDefaults (re_moments (se_env demo_env)) (se_token demo_env) [] empty_world"

lemma demo_issue_body: "body_or_empty [] = []" "read_or [] k n d = snprintf_s n d" "requested_ttl wtConfigInitDefaults [] = 3600"
proof -
  show "read_or [] k n d = snprintf_s n d" by (simp add: read_or_def wtJsonReadString_def findFieldValue_def find_pattern.simps)
  show "body_or_empty [] = []" "requested_ttl wtConfigInitDefaults [] = 3600" by code_simp+
qed

lemma demo_issued_ok: "statusCode (fst demo_issued) = 200"
  unfolding demo_issued_def
  by (rule handlePostAuthToken_works) (simp_all add: demo_env_def demo_issue_body WT_TASK_AGENT_SIZE_def)

lemma demo_issued_lines:
  "ledger_lines (w_ledger (fst (snd demo_issued))) = [issued_line (se_token demo_env) ''agent'' ''agent'' 1000 3600]"
  "clean_tail (bytes (w_ledger (fst (snd demo_issued))))"
proof -
  let ?ms = "re_moments (se_env demo_env)" and ?c = wtConfigInitDefaults
  obtain r w' notices where h: "handlePostAuthToken ?c ?ms (se_token demo_env) [] empty_world = (r, w', notices)"
    by (metis prod_cases3)
  have ok: "statusCode r = 200" "w' = fst (snd demo_issued)" using demo_issued_ok h by (simp_all add: demo_issued_def)
  have cfg: "is_int32 (authTokenDefaultTtlSeconds ?c)" by code_simp
  have base: "clean_tail (bytes (m_ledger (?ms 0) (w_ledger empty_world)))" "m_ms (?ms 0) = 1000"
    "ledger_lines (m_ledger (?ms 0) (w_ledger empty_world)) = []"
    by (simp_all add: demo_env_def empty_world_def)
  have "is_long (m_ms (?ms 0))" by (simp add: base(2) c_int_defs)
  from handlePostAuthToken_ok(2,3) [OF h ok(1) base(1) this cfg]
  show "ledger_lines (w_ledger (fst (snd demo_issued))) = [issued_line (se_token demo_env) ''agent'' ''agent'' 1000 3600]"
    "clean_tail (bytes (w_ledger (fst (snd demo_issued))))"
    by (simp_all add: base(2,3) ok(2) demo_issue_body WT_TASK_AGENT_SIZE_def)
qed

theorem issued_token_accepted_witness:
  "validateBearerToken wtConfigInitDefaults (w_ledger (fst (snd demo_issued))) (w_ledger (fst (snd demo_issued))) 5000 demo_request
      ''127.0.0.1'' ''agent'' =
    (True, \<lparr> auth_role = ''agent'', auth_subject = ''agent'', auth_tokenId = ''tok_1000_1717171717171717'', auth_reason = ''ok'' \<rparr>)"
proof -
  let ?ms = "re_moments (se_env demo_env)" and ?c = wtConfigInitDefaults
  obtain r w' notices where h: "handlePostAuthToken ?c ?ms (se_token demo_env) [] empty_world = (r, w', notices)"
    by (metis prod_cases3)
  have ok: "statusCode r = 200" "w' = fst (snd demo_issued)" using demo_issued_ok h by (simp_all add: demo_issued_def)
  have cfg: "is_int32 (authTokenDefaultTtlSeconds ?c)" by code_simp
  have base: "clean_tail (bytes (m_ledger (?ms 0) (w_ledger empty_world)))" "m_ms (?ms 0) = 1000"
    by (simp_all add: demo_env_def empty_world_def)
  have sub: "''agent'' = read_or (body_or_empty []) ''role'' 32 ''agent''"
    "''agent'' = read_or (body_or_empty []) ''subject'' WT_TASK_AGENT_SIZE ''agent''"
    by (simp_all add: demo_issue_body WT_TASK_AGENT_SIZE_def)
  have ttl: "m_ms (?ms 0) + requested_ttl ?c (body_or_empty []) * 1000 = 3601000"
    by (simp add: base(2) demo_issue_body)
  have long: "is_long (m_ms (?ms 0))" by (simp add: base(2) c_int_defs)
  have "\<forall>line \<in> set (ledger_lines (w_ledger w')). \<not> revokes_token ''tok_1000_1717171717171717'' line"
    using issued_line_scan(3) [OF demo_makeToken, of "''agent''" "''agent''" 1000 3600] ok(2) demo_issued_lines(1)
    by (simp add: text_ok_def c_int_defs)
  moreover have "ipAllowedByConfig ?c ''127.0.0.1''" by code_simp
  ultimately have "validateBearerToken ?c (w_ledger w') (w_ledger w') 5000 demo_request ''127.0.0.1'' ''agent'' =
      (True, \<lparr> auth_role = ''agent'', auth_subject = ''agent'', auth_tokenId = ''tok_1000_1717171717171717'', auth_reason = ''ok'' \<rparr>)"
    using issued_token_accepted [OF h ok(1) base(1) long cfg demo_makeToken sub, of "w_ledger w'" "[]" "w_ledger w'" ?c "''127.0.0.1''" demo_request 5000]
      demo_extract unfolding ttl base(2) by (simp add: c_int_defs demo_issue_body)
  with ok(2) show ?thesis by simp
qed

section \<open>Revocation\<close>

lemma revoke_record:
  fixes junk :: string
  assumes "text_ok 64 tokenId" "is_long now"
  defines "line \<equiv> snprintf_s 512 (render_object (revoke_fields (escape_unchecked junk tokenId 128) now))"
  shows "revokes_token tokenId (line @ [NL])" "NL \<notin> set line" "c_string line" "length line < 512"
proof -
  let ?fs = "[(''schema'', JStr ''woventeam.auth_token.v0.1''), (''eventType'', JStr ''revoke''), (''tokenId'', JStr tokenId),
      (''createdBy'', JStr ''operator''), (''createdAtUnixMs'', JNum now)]"
  have e: "escape_unchecked junk tokenId 128 = escape tokenId"
    using escape_text_ok [OF assms(1), of 128] by (simp add: escape_unchecked_def wtJsonEscape_spec)
  have r: "render_object (revoke_fields (escape tokenId) now) = render_object ?fs"
    by (simp add: revoke_fields_def render_object_def render_field_def raw_str_def)
  have len: "length (render_object ?fs) < 512"
    using escape_text_ok [OF assms(1), of 128] length_show_int [OF assms(2)] by (simp add: length_render_object_simps escape_char_def)
  then have line: "line = render_object ?fs" by (simp add: line_def e r)
  have c: "clean_fields ?fs" using assms(1) by (simp add: text_ok_def)
  note str = read_str_render [OF c, of _ "[NL]"]
  have "token_line (line @ [NL])" unfolding line by (rule token_record_line)
  moreover have "read_str (line @ [NL]) ''eventType'' 32 = Some ''revoke''" "read_str (line @ [NL]) ''tokenId'' 64 = Some tokenId"
    using str [of "''eventType''" 32] str [of "''tokenId''" 64] assms(1) by (simp_all add: line text_ok_def)
  ultimately show "revokes_token tokenId (line @ [NL])" by (simp add: revokes_token_def)
  have "wf_fields ?fs" using c by (simp only: clean_fields_def)
  from render_object_line [OF this] len show "NL \<notin> set line" "c_string line" "length line < 512" by (simp_all add: line)
qed

text \<open>
  C10. Revocation is final. Once \<open>POST /api/auth-token/revoke\<close> answered 200 for a token id, no request
  is accepted with a token of that id any more, however the ledger grows, whatever the request, the
  address, the role and the configuration.
\<close>

theorem revoked_token_rejected:
  assumes "handlePostAuthTokenRevoke c ms junk request w = (r, w', notices)" and "statusCode r = 200"
    and "read_str (body_or_empty request) ''tokenId'' 64 = Some tokenId" and "no_control tokenId"
    and "clean_tail (bytes (m_ledger (ms 0) (w_ledger w)))" and "is_long (m_ms (ms 0))"
    and "auth_tokenId (snd (validateBearerToken c' earlier (ledger.run ops (w_ledger w')) now later peerIp role)) = tokenId"
  shows "fst (validateBearerToken c' earlier (ledger.run ops (w_ledger w')) now later peerIp role) = False"
proof -
  have id: "text_ok 64 tokenId" using assms(3,4) read_str_length by (auto simp: text_ok_def)
  define line where "line = snprintf_s 512 (render_object (revoke_fields (escape_unchecked (junk 0) tokenId 128) (m_ms (ms 0))))"
  note rec = revoke_record [OF id assms(6), of "junk 0", folded line_def]
  let ?old = "m_ledger (ms 0) (w_ledger w)"
  have "w_ledger w' = snd (wtTaskAppendRecord (m_fault (ms 0)) (fsyncEachMessage c) line ?old) \<and>
      fst (wtTaskAppendRecord (m_fault (ms 0)) (fsyncEachMessage c) line ?old)"
    using assms(1-3) by (auto simp: handlePostAuthTokenRevoke_def Let_def line_def append_line_def to_ledger_def
        server_error_def json_reply_def split: prod.splits if_splits)
  then have b: "bytes (w_ledger w') = bytes ?old @ line @ [NL]" using wtTaskAppendRecord_ok by metis
  have "ledger_lines (w_ledger w') = ledger_lines ?old @ [line @ [NL]]"
    unfolding ledger_lines_def b using rec assms(5)
    by (intro file_lines_append_record) (auto simp: WT_TASK_LEDGER_LINE_SIZE_def)
  moreover have "clean_tail (bytes (w_ledger w'))" unfolding b by (simp flip: append_assoc)
  ultimately have "line @ [NL] \<in> set (ledger_lines (ledger.run ops (w_ledger w')))"
    using ledger.lines_prefix [of "w_ledger w'" WT_TASK_LEDGER_LINE_SIZE ops] by (auto simp: ledger_lines_def prefix_def)
  with rec(1) have "tokenRevoked (ledger.run ops (w_ledger w')) tokenId" by (auto simp: tokenRevoked_iff)
  with assms(7) show ?thesis
    by (auto simp: no_auth_def validateBearerToken_def Let_def split: if_splits option.splits)
qed

definition demo_revoke_request :: string where
  "demo_revoke_request = CRLF @ CRLF @ render_object [(''tokenId'', JStr ''tok_1000_1717171717171717'')]"

definition demo_revoked :: served where
  "demo_revoked = handlePostAuthTokenRevoke wtConfigInitDefaults (re_moments (se_env demo_env)) (\<lambda>_. []) demo_revoke_request (fst (snd demo_issued))"

theorem revoked_token_rejected_witness:
  "fst (validateBearerToken wtConfigInitDefaults (w_ledger (fst (snd demo_issued)))
     (ledger.run [(NoFault, False, ''{}'')] (w_ledger (fst (snd demo_revoked)))) 5000 demo_request ''127.0.0.1'' ''agent'') = False"
proof -
  let ?w = "fst (snd demo_issued)" and ?id = "''tok_1000_1717171717171717''"
  obtain r w' notices where h: "handlePostAuthTokenRevoke wtConfigInitDefaults (re_moments (se_env demo_env)) (\<lambda>_. []) demo_revoke_request ?w = (r, w', notices)"
    by (metis prod_cases3)
  have req: "read_str (body_or_empty demo_revoke_request) ''tokenId'' 64 = Some ?id" by code_simp
  have ok: "statusCode r = 200"
    using h req by (auto simp: handlePostAuthTokenRevoke_def Let_def append_line_def to_ledger_def demo_env_def wtTaskAppendRecord_def
        write_record_def ok_reply_def)
  have id: "no_control ?id" by simp
  have clean: "clean_tail (bytes (m_ledger (re_moments (se_env demo_env) 0) (w_ledger ?w)))"
    using demo_issued_lines(2) by (simp add: demo_env_def)
  have now: "is_long (m_ms (re_moments (se_env demo_env) 0))" by (simp add: demo_env_def c_int_defs)
  have tok: "auth_tokenId (snd (validateBearerToken wtConfigInitDefaults (w_ledger ?w)
      (ledger.run [(NoFault, False, ''{}'')] (w_ledger w')) 5000 demo_request ''127.0.0.1'' ''agent'')) = ?id"
  proof -
    have "scan_tokens demo_token (w_ledger ?w) = \<lparr> tk_auth = no_auth \<lparr> auth_role := ''agent'', auth_subject := ''agent'', auth_tokenId := ?id \<rparr>,
        tk_issuedAt = 1000, tk_ttl = 3600, tk_found = True \<rparr>"
      using issued_scan [OF demo_makeToken, of "''agent''" "''agent''" 1000 3600 "w_ledger ?w" "[]" "[]"] demo_issued_lines(1)
      by (simp add: text_ok_def c_int_defs)
    moreover have "w_ledger ?w \<noteq> None" using demo_issued_lines(1) by (metis no_ledger_lines not_Cons_self2)
    moreover have "ipAllowedByConfig wtConfigInitDefaults ''127.0.0.1''" by code_simp
    ultimately show ?thesis using demo_extract by (auto simp: validateBearerToken_def Let_def)
  qed
  have w: "w' = fst (snd demo_revoked)" using h by (simp add: demo_revoked_def)
  show ?thesis using revoked_token_rejected [OF h ok req id clean now tok] unfolding w .
qed

end
