(* ===== verification/Http_Facts.thy ===== *)
theory Http_Facts
  imports Http_Request
begin

text \<open>
  A request arrives in pieces the network chooses. For a request with a \<open>Content-Length\<close> line, what
  \<open>wtHttpReadRequest\<close> puts into the buffer does not depend on them.
\<close>

lemma strstr_more:
  assumes "p \<noteq> []" and "strstr s p = Some r"
  shows "strstr (s @ t) p = Some (r @ t)"
  using assms(2)
proof (induction s)
  case Nil
  with assms(1) show ?case by simp
next
  case (Cons c cs)
  show ?case
  proof (cases "starts_with p (c # cs)")
    case True
    then have "starts_with p (c # cs @ t)" by (metis append_Cons append_assoc starts_with_append starts_with_drop)
    with True Cons.prems show ?thesis by auto
  next
    case False
    with Cons have rest: "strstr (cs @ t) p = Some (r @ t)" and "strstr cs p = Some r" by simp_all
    from strstr_Some [OF this(2)] obtain a b where cs: "cs = a @ p @ b" by auto
    with False have "\<not> starts_with p (c # cs @ t)" by (auto simp: starts_with_iff Cons_eq_append_conv append_eq_append_conv2)
    with rest show ?thesis by simp
  qed
qed

lemma strstr_not_yet:
  assumes "p \<noteq> []" "strstr s p = Some p" "k < length s"
  shows "strstr (take k s) p = None"
proof (cases "strstr (take k s) p")
  case (Some r)
  then obtain b where r: "r = p @ b" using strstr_Some by blast
  from strstr_more [OF assms(1) Some, of "drop k s"] assms(2) r have "drop k s = []" by simp
  with assms(3) show ?thesis by simp
qed simp

section \<open>A framed request\<close>

definition content_length_key :: string where
  "content_length_key = ''Content-Length:''"

definition request_head :: "string \<Rightarrow> string \<Rightarrow> string \<Rightarrow> string" where
  "request_head before after body =
     before @ content_length_key @ '' '' @ show_nat (length body) @ CRLF @ after @ CRLF"

definition framed :: "string \<Rightarrow> string \<Rightarrow> string \<Rightarrow> bool" where
  "framed before after body \<longleftrightarrow> c_string (before @ after @ body) \<and>
     strstr (before @ content_length_key) content_length_key = Some content_length_key \<and>
     strstr (request_head before after body) (CRLF @ CRLF) = Some (CRLF @ CRLF)"

lemma c_string_request:
  "framed before after body \<Longrightarrow> c_string (request_head before after body @ body)"
  using show_nat_digits [of "length body"]
  by (auto simp: framed_def request_head_def c_string_def content_length_key_def CRLF_def is_digit_def)

lemma scan_content_length_head:
  assumes "length body < 2 ^ 31"
  shows "scan_content_length (content_length_key @ '' '' @ show_nat (length body) @ CRLF @ t) = int (length body)"
proof -
  have "strtol ('' '' @ show_int (int (length body)) @ CRLF @ t) = strtol (show_int (int (length body)) @ CRLF @ t)"
    by (simp add: strtol_def skip_space_simps is_space_def)
  also have "\<dots> = Some (int (length body))"
    using assms by (simp add: CRLF_def no_digit_ahead_def is_digit_def is_long_def c_int_defs)
  finally show ?thesis
    using assms by (simp add: scan_content_length_def content_length_key_def show_int_def to_int32_def)
qed

text \<open>The test after a \<open>recv\<close> succeeds at the end of the request and not before.\<close>

lemma request_complete_framed:
  assumes "framed before after body" "length (request_head before after body @ body) < 2 ^ 31"
    and "k \<le> length (request_head before after body @ body)"
  shows "request_complete (take k (request_head before after body @ body)) \<longleftrightarrow>
    k = length (request_head before after body @ body)"
proof -
  let ?h = "request_head before after body" and ?s = "request_head before after body @ body"
  have cs: "c_string (take k ?s)"
    using c_string_request [OF assms(1)] set_take_subset [of k ?s] by (auto simp: c_string_def)
  show ?thesis
  proof (cases "k < length ?h")
    case True
    have "strstr (take k ?h) (CRLF @ CRLF) = None"
      using strstr_not_yet [of "CRLF @ CRLF" ?h k] assms(1) True by (simp add: framed_def CRLF_def)
    with True cs show ?thesis by (simp add: request_complete_def)
  next
    case False
    then have t: "take k ?s = ?h @ take (k - length ?h) body" by simp
    let ?b = "take (k - length ?h) body"
    have e: "strstr (?h @ ?b) (CRLF @ CRLF) = Some (CRLF @ CRLF @ ?b)"
      using strstr_more [of "CRLF @ CRLF" ?h "CRLF @ CRLF" ?b] assms(1) by (simp add: framed_def CRLF_def)
    have "strstr (?h @ ?b) content_length_key =
        Some (content_length_key @ '' '' @ show_nat (length body) @ CRLF @ after @ CRLF @ ?b)"
      using strstr_more [of content_length_key "before @ content_length_key" content_length_key
          "'' '' @ show_nat (length body) @ CRLF @ after @ CRLF @ ?b"] assms(1)
      by (simp add: framed_def request_head_def content_length_key_def)
    moreover have "4 \<le> length ?h" by (simp add: request_head_def CRLF_def)
    ultimately show ?thesis
      using e cs assms(2,3) False scan_content_length_head [of body "after @ CRLF @ ?b"]
      by (auto simp: request_complete_def t content_length_key_def Let_def CRLF_def)
  qed
qed

text \<open>A stream that is complete exactly at its end, with \<open>k\<close> of its bytes in the buffer.\<close>

lemma read_request_whole:
  assumes "\<And>j. j \<le> length s \<Longrightarrow> request_complete (take j s) \<longleftrightarrow> j = length s" and "length s < bufferSize"
    and "0 \<notin> set arrivals" "length s \<le> k + sum_list arrivals" "k < length s"
  shows "read_request bufferSize arrivals (drop k s) (take k s) = s"
  using assms(3-5)
proof (induction arrivals arbitrary: k)
  case (Cons ready arrivals)
  define n where "n = min ready (bufferSize - k - 1)"
  define j where "j = min (k + n) (length s)"
  have "0 < n" using Cons.prems assms(2) by (auto simp: n_def)
  then have piece: "take n (drop k s) \<noteq> []" "take k s @ take n (drop k s) = take j s"
      "drop (length (take n (drop k s))) (drop k s) = drop j s"
    using Cons.prems(3) by (auto simp: j_def take_add [symmetric] min_def add.commute)
  have len: "length (take k s) = k" using Cons.prems(3) by simp
  have step: "read_request bufferSize (ready # arrivals) (drop k s) (take k s) =
      (if j = length s then s else read_request bufferSize arrivals (drop j s) (take j s))"
    using assms(1) [of j] assms(2) Cons.prems(3) piece(1)
    unfolding read_request.simps Let_def len n_def [symmetric] piece(2,3) by (simp add: j_def)
  show ?case
  proof (cases "j = length s")
    case False
    then have "n = ready" "j = k + n" "j < length s" using assms(2) Cons.prems(3) by (auto simp: j_def n_def)
    with Cons.IH [of j] Cons.prems show ?thesis unfolding step by simp
  next
    case True
    then show ?thesis unfolding step by (rule if_P)
  qed
qed simp

section \<open>Property\<close>

text \<open>
  C32. Reading a request does not depend on how the network cuts it: whatever the sizes of the pieces,
  a request with a \<open>Content-Length\<close> line that fits the buffer is read to its last byte and no further
  \<open>recv\<close> is waited for, and the handlers find its body.
\<close>

theorem request_reassembled:
  assumes "framed before after body" and "length (request_head before after body @ body) < bufferSize"
    and "bufferSize \<le> 2 ^ 31" and "0 \<notin> set arrivals"
    and "length (request_head before after body @ body) \<le> sum_list arrivals"
  shows "wtHttpReadRequest bufferSize arrivals (request_head before after body @ body) =
      Some (request_head before after body @ body) \<and>
    request_body (request_head before after body @ body) = Some body"
proof -
  have ne: "request_head before after body \<noteq> []" by (simp add: request_head_def content_length_key_def)
  have "strstr (request_head before after body @ body) (CRLF @ CRLF) = Some ((CRLF @ CRLF) @ body)"
    using strstr_more [of "CRLF @ CRLF" "request_head before after body" "CRLF @ CRLF" body] assms(1)
    by (simp add: framed_def CRLF_def)
  then have "request_body (request_head before after body @ body) = Some body"
    by (simp add: request_body_def CRLF_def)
  moreover have "read_request bufferSize arrivals (request_head before after body @ body) [] =
      request_head before after body @ body"
    using read_request_whole [OF request_complete_framed [OF assms(1)] assms(2,4), of 0] assms(2,3,5) ne by simp
  ultimately show ?thesis using ne by (simp add: wtHttpReadRequest_def)
qed

theorem request_reassembled_witness:
  "wtHttpReadRequest 16384 [7, 20, 30] (request_head ''POST / '' [] ''ab'' @ ''ab'') =
    Some (request_head ''POST / '' [] ''ab'' @ ''ab'')"
proof -
  have "framed ''POST / '' [] ''ab''"
    by (simp add: framed_def request_head_def content_length_key_def CRLF_def show_nat.simps digit_char_def)
  then show ?thesis
    using request_reassembled [of "''POST / ''" "[]" "''ab''" 16384 "[7, 20, 30]"]
    by (simp add: request_head_def content_length_key_def CRLF_def show_nat.simps)
qed

end
