(* ===== verification/Roomd_Config_Facts.thy ===== *)
theory Roomd_Config_Facts
  imports Roomd_Config
begin

text \<open>
  The configuration of a running daemon: loaded from its file, overridden by the environment, and
  changed by \<open>POST /api/config\<close>, in any order and any number of times. Posted texts must fit their
  buffers: \<open>handlePostConfig\<close> reads them unchecked, and a longer one is left without its terminator
  (\<open>posted_text_unterminated\<close>).
\<close>

definition posted_texts :: "(string \<times> nat) list" where
  "posted_texts =
     [(''claudeMode'', WT_NAME_SIZE), (''chatgptMode'', WT_NAME_SIZE), (''geminiMode'', WT_NAME_SIZE),
      (''claudeCommand'', WT_PATH_SIZE), (''gptCommand'', WT_PATH_SIZE), (''geminiCommand'', WT_PATH_SIZE),
      (''blockedVendors'', WT_PATH_SIZE), (''defaultAutonomyLevel'', WT_NAME_SIZE),
      (''claudeDefaultAutonomyLevel'', WT_NAME_SIZE), (''chatgptDefaultAutonomyLevel'', WT_NAME_SIZE),
      (''geminiDefaultAutonomyLevel'', WT_NAME_SIZE)]"

definition posted_texts_fit :: "string \<Rightarrow> bool" where
  "posted_texts_fit body = list_all (\<lambda>(key, n). not_cut body key n) posted_texts"

inductive reachable_config :: "WtConfig \<Rightarrow> bool" where
  at_start: "reachable_config wtConfigInitDefaults"
| load_file: "\<lbrakk>reachable_config c; wtConfigLoadFile fs c path = Some c'\<rbrakk> \<Longrightarrow> reachable_config c'"
| apply_environment: "reachable_config c \<Longrightarrow> reachable_config (wtConfigApplyEnvironment getenv c)"
| post_config: "\<lbrakk>reachable_config c; posted_texts_fit body\<rbrakk> \<Longrightarrow> reachable_config (post_strings junk body (post_numbers body c))"

section \<open>Every operation keeps the types\<close>

lemma load_line_fits: "config_fits c \<Longrightarrow> config_fits (load_line l c)"
  by (auto simp: load_line_def Let_def split: option.split intro: wtConfigSetValue_fits)

lemma load_lines_fit: "config_fits c \<Longrightarrow> config_fits (fold load_line ls c)"
  by (induction ls arbitrary: c) (simp_all add: load_line_fits)

lemma apply_variable_fits: "config_fits c \<Longrightarrow> config_fits (apply_variable getenv e c)"
  by (auto simp: apply_variable_def split: option.split intro: wtConfigSetValue_fits)

lemma apply_variables_fit: "config_fits c \<Longrightarrow> config_fits (fold (apply_variable getenv) es c)"
  by (induction es arbitrary: c) (simp_all add: apply_variable_fits)

lemma config_fits_path: "config_fits c \<Longrightarrow> config_fits (c \<lparr> configPath := copyString WT_PATH_SIZE p \<rparr>)"
  by (simp add: config_fits_def)

lemma load_file_fits: "config_fits c \<Longrightarrow> wtConfigLoadFile fs c path = Some c' \<Longrightarrow> config_fits c'"
  using load_lines_fit [OF config_fits_path] by (auto simp: wtConfigLoadFile_def Let_def split: option.splits)

lemma environment_fits: "config_fits c \<Longrightarrow> config_fits (wtConfigApplyEnvironment getenv c)"
  by (simp add: wtConfigApplyEnvironment_def apply_variables_fit)

lemma posted_values:
  assumes "is_long v"
  shows "is_long (if v < 0 then 0 else v)" "is_int32 (clamp_percent v)" "is_int32 (posted_cap v)"
    "is_int32 (if v < 0 then 0 else to_int32 v)"
  using assms by (auto simp: clamp_percent_def posted_cap_def is_long_def is_int32_def c_int_defs)

definition keeps_fit :: "string \<times> (int \<Rightarrow> WtConfig \<Rightarrow> WtConfig) \<Rightarrow> bool" where
  "keeps_fit e \<longleftrightarrow> (\<forall>v c. is_long v \<longrightarrow> config_fits c \<longrightarrow> config_fits (snd e v c))"

lemma set_long_fits: "keeps_fit (key, put) \<Longrightarrow> config_fits c \<Longrightarrow> config_fits (set_long body key put c)"
  using wtJsonReadLong_is_long by (auto simp: keeps_fit_def set_long_def split: option.split)

lemma fold_set_long_fits:
  "list_all keeps_fit es \<Longrightarrow> config_fits c \<Longrightarrow> config_fits (fold (\<lambda>(key, put) c. set_long body key put c) es c)"
  by (induction es arbitrary: c) (auto simp: set_long_fits)

lemma config_fits_flags:
  assumes "config_fits c"
  shows "config_fits (c \<lparr> tokenTelemetryEnabled := b \<rparr>)" "config_fits (c \<lparr> enableCodexAdapter := b \<rparr>)"
    "config_fits (c \<lparr> roleRoutingEnabled := b \<rparr>)" "config_fits (c \<lparr> enableClaudeAdapter := b \<rparr>)"
    "config_fits (c \<lparr> enableGeminiAdapter := b \<rparr>)"
  using assms by (simp_all add: config_fits_def)

lemma config_fits_longs:
  assumes "config_fits c" "is_long v"
  shows "config_fits (c \<lparr> tokenDailyBudget := v \<rparr>)" "config_fits (c \<lparr> tokenMonthlyBudget := v \<rparr>)"
    "config_fits (c \<lparr> tokenBudgetPerInitiative := v \<rparr>)" "config_fits (c \<lparr> tokenBudgetPerModelFamily := v \<rparr>)"
  using assms by (simp_all add: config_fits_def)

lemma config_fits_ints:
  assumes "config_fits c" "is_int32 n"
  shows "config_fits (c \<lparr> tokenWarningPercent := n \<rparr>)" "config_fits (c \<lparr> tokenCostPerMillionCents := n \<rparr>)"
    "config_fits (c \<lparr> maxActiveTasksPerAgent := n \<rparr>)" "config_fits (c \<lparr> maxSubtasksPerParent := n \<rparr>)"
    "config_fits (c \<lparr> maxTasksPerInitiative := n \<rparr>)"
  using assms by (simp_all add: config_fits_def)

lemmas config_fits_post = config_fits_flags config_fits_longs config_fits_ints

lemma post_numbers_fits: "config_fits c \<Longrightarrow> config_fits (post_numbers body c)"
  unfolding post_numbers_def
  by (rule fold_set_long_fits)
    (auto simp only: list.pred_inject keeps_fit_def snd_conv intro!: config_fits_post posted_values)

lemma post_strings_fits: "posted_texts_fit body \<Longrightarrow> config_fits c \<Longrightarrow> config_fits (post_strings junk body c)"
  by (simp add: post_strings_def config_fits_def read_raw_length posted_texts_fit_def posted_texts_def WT_NAME_SIZE_def WT_PATH_SIZE_def)

text \<open>A posted text that does not fit runs on into the memory behind its buffer.\<close>

lemma posted_text_unterminated:
  assumes "no_control s" "WT_NAME_SIZE \<le> length s"
  shows "claudeMode (post_strings junk (render_object [(''claudeMode'', JStr s)]) c) = take (WT_NAME_SIZE - 1) s @ junk 0"
proof -
  have "wf_fields [(''claudeMode'', JStr s)]" "key_text ''claudeMode''"
    using assms(1) by (simp_all add: key_text_def is_alnum_def is_digit_def)
  from read_string_object [OF this(2,1), of "[]" s WT_NAME_SIZE] assms show ?thesis
    by (simp add: post_strings_def read_raw_def WT_NAME_SIZE_def)
qed

text \<open>A posted limit can still turn into 0, which the checks read as unlimited: it is narrowed after the test.\<close>

lemma posted_cap_wraps: "posted_cap (2 ^ 32) = 0"
  by (simp add: posted_cap_def to_int32_def)

section \<open>Property\<close>

text \<open>
  C27. Whatever configuration files and environment a daemon has met, and whatever documents were posted
  whose texts fit the buffers they are read into, every text of its configuration fits its buffer with
  its terminator and every number its C type, whatever the numbers in the files, variables and documents
  were. (A posted text that does not fit is left unterminated, which the hypothesis on the posted
  documents excludes.)
\<close>

theorem reachable_config_fits:
  assumes "reachable_config c"
  shows "config_fits c"
  using assms
proof induction
  case at_start
  show ?case by (rule defaults_fit)
next
  case load_file
  then show ?case by (blast intro: load_file_fits)
next
  case apply_environment
  then show ?case by (blast intro: environment_fits)
next
  case post_config
  then show ?case by (blast intro: post_strings_fits post_numbers_fits)
qed

theorem reachable_config_fits_witness:
  "config_fits (post_strings (\<lambda>_. []) ''{}'' (post_numbers ''{}'' (wtConfigApplyEnvironment (\<lambda>_. Some ''1'') wtConfigInitDefaults)))"
proof (rule reachable_config_fits)
  have "posted_texts_fit ''{}''" by code_simp
  then show "reachable_config (post_strings (\<lambda>_. []) ''{}'' (post_numbers ''{}'' (wtConfigApplyEnvironment (\<lambda>_. Some ''1'') wtConfigInitDefaults)))"
    by (intro post_config apply_environment at_start)
qed

end
