(* ===== verification/Admission_Facts.thy ===== *)
theory Admission_Facts
  imports Roomd_Admission Projection_Queries
begin

text \<open>
  What the admission handlers guarantee: the autonomy conditions of the gate are those the agent checks
  before a run, an admitted subtask has passed every check, and a denied task leaves no task behind.
\<close>

section \<open>The gate and the run agree on autonomy\<close>

text \<open>The package of a task as the agent reads it, and what the daemon reads from the same text.\<close>

definition package_task :: "string \<Rightarrow> string \<Rightarrow> WtTaskSummary" where
  "package_task taskId body = populateTaskPackageFields body (new_task taskId)"

definition gate_input :: "WtConfig \<Rightarrow> string \<Rightarrow> string \<Rightarrow> string \<Rightarrow> int \<Rightarrow> WtPolicyInput" where
  "gate_input c body taskId who now =
     (let profile = t_toolProfile (package_task taskId body) in
      (admission_input body taskId [] who [] profile [] (resolveAutonomyLevel c body who profile WT_TASK_POLICY_SIZE) 0)
        \<lparr> in_nowUnixMs := now \<rparr>)"

lemma gate_level:
  "in_autonomyLevel (gate_input c body taskId who now) =
     effectiveAutonomyLevel c who (package_task taskId body) WT_TASK_POLICY_SIZE"
proof -
  have "daemonConfiguredAutonomy c who = configuredAutonomyForAgent c who"
      "daemonProfileAutonomy p = profileDefaultAutonomy p" for p
    by (auto simp: daemonConfiguredAutonomy_def configuredAutonomyForAgent_def daemonProfileAutonomy_def profileDefaultAutonomy_def)
  moreover have "snprintf_s WT_TASK_POLICY_SIZE (read_or body ''autonomyLevel'' WT_TASK_POLICY_SIZE []) =
      read_or body ''autonomyLevel'' WT_TASK_POLICY_SIZE []"
    by (rule snprintf_s_short) (simp add: read_or_length task_sizes)
  moreover have "snprintf_s WT_TASK_POLICY_SIZE [] = []" by (simp add: snprintf_s_def)
  ultimately show ?thesis
    by (auto simp: gate_input_def Let_def admission_input_def readAutonomyGrantFields_def resolveAutonomyLevel_def
        effectiveAutonomyLevel_def package_task_def populateTaskPackageFields_def populateTaskAutonomy_def
        read_or_read_str split: option.split list.split)
qed

text \<open>The field is missing, or a string with its closing quote that fits its buffer.\<close>

definition whole_text :: "string \<Rightarrow> string \<Rightarrow> nat \<Rightarrow> bool" where
  "whole_text json key n \<longleftrightarrow>
     (case wtJsonReadString json key n of ReadFail (Some _) \<Rightarrow> False | ReadCut _ \<Rightarrow> False | _ \<Rightarrow> True)"

lemma gate_scope:
  assumes "whole_text body ''scope'' WT_TASK_BODY_SIZE"
  shows "in_autonomyScope (gate_input c body taskId who now) = t_autonomyScope (package_task taskId body)"
  using assms
  by (auto simp: gate_input_def Let_def admission_input_def readAutonomyGrantFields_def package_task_def
      populateTaskPackageFields_def populateTaskAutonomy_def read_keep_def read_or_def snprintf_s_def whole_text_def
      split: json_read.splits option.splits)

lemma gate_ttl:
  assumes "\<And>v. wtJsonReadLong body ''ttlSeconds'' = Some v \<Longrightarrow> is_int32 v"
  shows "in_autonomyTtlSeconds (gate_input c body taskId who now) = t_autonomyTtlSeconds (package_task taskId body)"
  using assms
  by (auto simp: gate_input_def Let_def admission_input_def readAutonomyGrantFields_def package_task_def
      populateTaskPackageFields_def populateTaskAutonomy_def read_long_or_def new_task_def to_int32_id
      split: option.split)

lemma gate_rest:
  "in_autonomyCreatedAtUnixMs (gate_input c body taskId who now) = t_autonomyCreatedAtUnixMs (package_task taskId body)"
  "in_autonomyRevokedAtUnixMs (gate_input c body taskId who now) = 0"
  "in_nowUnixMs (gate_input c body taskId who now) = now"
  "in_autonomyRequiresCleanWorktree (gate_input c body taskId who now) \<longleftrightarrow>
     t_autonomyRequiresCleanWorktree (package_task taskId body) \<noteq> 0"
  by (auto simp: gate_input_def Let_def admission_input_def readAutonomyGrantFields_def package_task_def
      populateTaskPackageFields_def populateTaskAutonomy_def new_task_def split: option.split)

lemma same_grant:
  assumes "in_autonomyLevel i = effectiveAutonomyLevel c who task levelSize" "in_autonomyScope i = t_autonomyScope task"
    "in_autonomyTtlSeconds i = t_autonomyTtlSeconds task" "in_autonomyCreatedAtUnixMs i = t_autonomyCreatedAtUnixMs task"
    "in_autonomyRevokedAtUnixMs i = 0" "in_nowUnixMs i = now"
    "in_autonomyRequiresCleanWorktree i \<longleftrightarrow> t_autonomyRequiresCleanWorktree task \<noteq> 0"
  shows "fst (autonomyGrantActive c clean who task adapter now levelSize n ledger) \<longleftrightarrow>
    in_autonomyLevel i = ''autonomous'' \<and> check_autonomy i = None \<and>
    rev_at (wtTaskReadLatestAutonomyRevocation ledger (t_taskId task) WT_TASK_AGENT_SIZE) \<le> 0 \<and>
    (in_autonomyRequiresCleanWorktree i \<longrightarrow> clean)"
proof -
  have scope: "autonomyScopeCoversAdapter s = scopeCoversAdapter s" for s
    by (simp add: scopeCoversAdapter_def autonomyScopeCoversAdapter_def)
  have gate: "in_autonomyLevel i = ''autonomous'' \<Longrightarrow> check_autonomy i = None \<longleftrightarrow>
      t_autonomyTtlSeconds task > 0 \<and> scopeCoversAdapter (t_autonomyScope task) \<and>
      now \<le> sll ((if t_autonomyCreatedAtUnixMs task > 0 then t_autonomyCreatedAtUnixMs task else now) + sll (t_autonomyTtlSeconds task * 1000))"
    using assms(2-6) by (simp add: check_autonomy_def autonomyLevelIsValid_def scope Let_def not_le not_less)
  show ?thesis
    using gate assms(1,7)
    by (simp add: autonomyGrantActive_def cleanWorktreeRequiredOk_def Let_def not_le not_less)
qed

text \<open>The evaluator's answer tells whether it was the autonomy grant that it refused.\<close>

lemma refuses_autonomy:
  "dec_reason (wtPolicyEvaluateTaskPackage c i) \<in> {''autonomy_required'', ''autonomy_revoked'', ''autonomy_expired''} \<longleftrightarrow>
     check_autonomy i \<noteq> None"
proof -
  have "dec_reason (setDecision True ''ok'' m) = ''ok''" for m by (simp add: setDecision_def WT_POLICY_REASON_SIZE_def)
  then show ?thesis
    unfolding evaluate_cases by (auto split: option.split dest: check_reasons)
qed

text \<open>
  C18. The agent and the daemon agree on autonomy: an agent runs the adapter of a task autonomously
  exactly when the level is autonomous, the daemon's evaluator, asked about the task's package at that time,
  does not refuse the autonomy grant, no revocation is recorded and a required clean worktree is clean.
  The evaluator's other stages (vendor, model, budgets, capacity) are the daemon's alone: the agent does not
  repeat them, and they have no part in the grant. The lifetime has to fit an \<open>int\<close> and the scope its
  buffer, because the agent narrows the one and drops the other.
\<close>

theorem run_grant_matches_gate:
  assumes "\<And>v. wtJsonReadLong body ''ttlSeconds'' = Some v \<Longrightarrow> is_int32 v"
    and "whole_text body ''scope'' WT_TASK_BODY_SIZE"
  shows "fst (autonomyGrantActive c clean who (package_task taskId body) adapter now WT_TASK_POLICY_SIZE n ledger) \<longleftrightarrow>
    in_autonomyLevel (gate_input c body taskId who now) = ''autonomous'' \<and>
    dec_reason (wtPolicyEvaluateTaskPackage c (gate_input c body taskId who now))
      \<notin> {''autonomy_required'', ''autonomy_revoked'', ''autonomy_expired''} \<and>
    rev_at (wtTaskReadLatestAutonomyRevocation ledger (t_taskId (package_task taskId body)) WT_TASK_AGENT_SIZE) \<le> 0 \<and>
    (in_autonomyRequiresCleanWorktree (gate_input c body taskId who now) \<longrightarrow> clean)"
  unfolding refuses_autonomy not_not
  by (rule same_grant) (simp_all add: gate_level gate_scope [OF assms(2)] gate_ttl [OF assms(1)] gate_rest)

definition granted_package :: string where
  "granted_package = render_object [(''autonomyLevel'', JStr ''autonomous''), (''scope'', JStr ''workspace''), (''ttlSeconds'', JNum 60)]"

lemma granted_package_reads:
  "wtJsonReadLong granted_package ''ttlSeconds'' = Some v \<Longrightarrow> is_int32 v"
  "whole_text granted_package ''scope'' WT_TASK_BODY_SIZE"
  using read_long_object(1) [of "''ttlSeconds''" _ "[]" 60] read_string_object [of "''scope''" _ "[]" "''workspace''" WT_TASK_BODY_SIZE]
  by (auto simp: granted_package_def whole_text_def key_text_def is_alnum_def is_digit_def no_control_def task_sizes c_int_defs)

theorem run_grant_matches_gate_witness:
  "fst (autonomyGrantActive wtConfigInitDefaults True ''chatgpt'' (package_task ''t1'' granted_package) ''codex'' 5 WT_TASK_POLICY_SIZE 256 None)"
proof (subst run_grant_matches_gate)
  show "wtJsonReadLong granted_package ''ttlSeconds'' = Some v \<Longrightarrow> is_int32 v" for v by (rule granted_package_reads(1))
  show "whole_text granted_package ''scope'' WT_TASK_BODY_SIZE" by (rule granted_package_reads(2))
qed code_simp

section \<open>What an admitted task has passed\<close>

text \<open>Nobody else writes during the request, and the queries find the projection the rebuild left.\<close>

definition quiet :: "roomd_env \<Rightarrow> bool" where
  "quiet env \<longleftrightarrow> (\<forall>k. m_ledger (re_moments env k) = id \<and> m_room (re_moments env k) = id) \<and>
     (\<forall>k db. re_query env k db = db)"

definition below :: "int \<Rightarrow> nat \<Rightarrow> bool" where
  "below cap n \<longleftrightarrow> cap \<le> 0 \<or> int n < cap"

definition active_tasks :: "(task_row \<Rightarrow> string) \<Rightarrow> string \<Rightarrow> projection \<Rightarrow> nat" where
  "active_tasks column v p = length (filter (\<lambda>r. column r = v \<and> active_row r) (tasks p))"

lemma quiet_read [simp]: "quiet env \<Longrightarrow> read_ledger (re_moments env k) w = w"
  by (simp add: quiet_def read_ledger_def)

lemma quiet_rebuild: "rebuildProjection c env k ledger = (True, db) \<Longrightarrow> db = Some (project_ledger ledger)"
  by (auto simp: rebuildProjection_def wtTaskProjectionRebuild_def split: if_splits)

lemma statusCode_replies [simp]:
  "statusCode (json_reply n why b) = n" "statusCode (bad_request e) = 400" "statusCode (server_error e) = 500"
  "statusCode missing_body = 400" "statusCode (ok_reply k b) = 200" "statusCode (denial_reply env d) = 409"
  "statusCode capability_reply = 409"
  by (simp_all add: json_reply_def bad_request_def server_error_def missing_body_def ok_reply_def denial_reply_def
      capability_reply_def wtHttpSendText_def Let_def)

text \<open>A task that reaches the handler's appends was accepted by the evaluator, on the state of the ledger.\<close>

lemma admit_accepts:
  assumes "quiet env" "admit c env body a denied_by unmet_by accept w = (r, w', notices)" "statusCode r = 200"
  shows "dec_allowed (wtPolicyEvaluateTaskPackage c (policy_input_of c env body a (Some (project_ledger (w_ledger w))) (w_ledger w)))"
    and "ad_host a = [] \<or> host_offers (w_ledger w) (ad_host a) (ad_agent a) (ad_profile a)"
    and "accept w = (r, w', notices)"
  using assms quiet_rebuild [of c env 0 "w_ledger w"]
  by (auto simp: admit_def refuse_def deny_admission_def Let_def split: prod.splits bool.splits if_splits)

lemma counts_within:
  assumes "length (tasks p) < 2 ^ 31"
  shows "capacity_check (countActiveWhere (Some p) column v) cap what who = None \<longleftrightarrow> below cap (active_tasks column v p)"
proof -
  have "length (filter (\<lambda>r. column r = v \<and> active_row r) (tasks p)) < 2 ^ 31"
    using assms length_filter_le le_less_trans by blast
  then have "to_int32 (int (length (filter (\<lambda>r. column r = v \<and> active_row r) (tasks p)))) =
      int (length (filter (\<lambda>r. column r = v \<and> active_row r) (tasks p)))"
    by (intro to_int32_id) (simp add: is_int32_def)
  then show ?thesis by (auto simp: capacity_check_def countActiveWhere_def below_def active_tasks_def)
qed

lemma capacity_code: "capacity_check count cap what who = Some v \<Longrightarrow> fst v \<noteq> 0"
  by (auto simp: capacity_check_def split: if_splits)

lemma capacity_checks:
  assumes "fst (enforceCapacity c rebuilt db who initiativeId parentTaskId) = 0"
  shows "capacity_check (wtTaskProjectionCountActiveForAgent (db 0) who) (maxActiveTasksPerAgent c) ''agent'' who = None"
    and "initiativeId = [] \<or> capacity_check (wtTaskProjectionCountActiveForInitiative (db 1) initiativeId)
      (maxTasksPerInitiative c) ''initiative'' initiativeId = None"
    and "parentTaskId = [] \<or> capacity_check (wtTaskProjectionCountActiveForParent (db 2) parentTaskId)
      (maxSubtasksPerParent c) ''parent subtask'' parentTaskId = None"
  using assms by (auto simp: enforceCapacity_def dest: capacity_code split: if_splits option.splits)

lemma capacity_enforced:
  assumes "fst (enforceCapacity c rebuilt (\<lambda>_. Some p) who initiativeId parentTaskId) = 0" "length (tasks p) < 2 ^ 31"
  shows "below (maxActiveTasksPerAgent c) (active_tasks c_assigned_agent who p)"
    and "initiativeId = [] \<or> below (maxTasksPerInitiative c) (active_tasks c_initiative_id initiativeId p)"
    and "parentTaskId = [] \<or> below (maxSubtasksPerParent c) (active_tasks c_parent_task_id parentTaskId p)"
  using capacity_checks [OF assms(1)]
  by (simp_all add: counts_within [OF assms(2)] wtTaskProjectionCountActiveForAgent_def
      wtTaskProjectionCountActiveForInitiative_def wtTaskProjectionCountActiveForParent_def)

lemma append_line_ok:
  assumes "quiet env" "fst (append_line c (re_moments env k) line w)"
  shows "bytes (w_ledger (snd (append_line c (re_moments env k) line w))) = bytes (w_ledger w) @ line @ [NL]"
  using assms wtTaskAppendRecord_ok
  by (auto simp: append_line_def to_ledger_def quiet_def Let_def split: prod.splits) (metis fst_conv snd_conv)

lemma run_four:
  assumes "run_appends [a1, a2, a3, a4] w = (True, w')"
  shows "fst (a1 w)" "fst (a3 (snd (a2 (snd (a1 w)))))" "w' = snd (a4 (snd (a3 (snd (a2 (snd (a1 w)))))))"
  using assms by (auto split: prod.splits if_splits)

lemma accept_request_ok:
  assumes "quiet env" "accept_request c env b s w = (r, w', notices)" "statusCode r = 200"
  shows "fst (enforceCapacity c True (\<lambda>_. Some (project_ledger (w_ledger w))) (ad_agent b) (ad_initiative b) (st_parent s)) = 0"
    and "bytes (w_ledger w') = bytes (w_ledger w) @
      snprintf_s WT_TASK_LEDGER_LINE_SIZE (render_object (request_fields b s (clock env 5))) @ [NL] @
      snprintf_s WT_TASK_LEDGER_LINE_SIZE (render_object (subtask_package_fields b s (clock env 5))) @ [NL]"
proof -
  let ?ms = "re_moments env" and ?line = "\<lambda>fs. snprintf_s WT_TASK_LEDGER_LINE_SIZE (render_object fs)"
  define a1 where "a1 = append_line c (?ms 5) (?line (request_fields b s (clock env 5)))"
  define a2 where "a2 = appendTaskRoomEvent c (?ms 6) (ad_taskId b) (ad_agent b) ''task.request'' ''requested'' (ad_title b)"
  define a3 where "a3 = append_line c (?ms 7) (?line (subtask_package_fields b s (clock env 5)))"
  define a4 where "a4 = appendTaskRoomEvent c (?ms 8) (ad_taskId b) (ad_agent b) ''task.assign'' ''queued'' (ad_title b)"
  obtain rebuilt db where db: "rebuildProjection c env 1 (w_ledger w) = (rebuilt, db)" by (cases "rebuildProjection c env 1 (w_ledger w)")
  have env: "\<And>k. re_query env k db = db" "\<And>k. read_ledger (?ms k) w = w" using assms(1) by (simp_all add: quiet_def read_ledger_def)
  obtain capacity why where cap: "enforceCapacity c rebuilt (\<lambda>_. db) (ad_agent b) (ad_initiative b) (st_parent s) = (capacity, why)"
    by fastforce
  have run: "capacity = 0" "run_appends [a1, a2, a3, a4] w = (True, w')"
    using assms(2,3) unfolding accept_request_def Let_def env db prod.case cap a1_def [symmetric] a2_def [symmetric]
      a3_def [symmetric] a4_def [symmetric]
    by (auto simp: refuse_def split: if_splits prod.splits)
  have "rebuilt" using cap run(1) by (auto simp: enforceCapacity_def split: if_splits)
  with cap run(1) db quiet_rebuild [of c env 1 "w_ledger w"]
  show "fst (enforceCapacity c True (\<lambda>_. Some (project_ledger (w_ledger w))) (ad_agent b) (ad_initiative b) (st_parent s)) = 0"
    by simp
  note ok = run_four [OF run(2)]
  have "w_ledger (snd (a2 v)) = w_ledger v" "w_ledger (snd (a4 v)) = w_ledger v" for v
    by (simp_all add: a2_def a4_def)
  then show "bytes (w_ledger w') = bytes (w_ledger w) @ ?line (request_fields b s (clock env 5)) @ [NL] @
      ?line (subtask_package_fields b s (clock env 5)) @ [NL]"
    using append_line_ok [OF assms(1) ok(1) [unfolded a1_def]] append_line_ok [OF assms(1) ok(2) [unfolded a3_def]]
    by (simp add: ok(3) a1_def a3_def)
qed

section \<open>An admitted subtask\<close>

lemma short_message_prints:
  assumes "message_fits m" "message_text m" "length (messageBody m) \<le> 1000"
  shows "wtMessageToJson m WT_MESSAGE_JSON_SIZE = Some (render_object (message_fields m))"
proof -
  have "length (escape (roomName m)) \<le> 128" "length (escape (senderName m)) \<le> 128" "length (escape (targetName m)) \<le> 128"
    "length (escape (messageType m)) \<le> 96" "length (escape (messageBody m)) \<le> 2000"
    using assms length_escape_no_control [of "roomName m"] length_escape_no_control [of "senderName m"]
      length_escape_no_control [of "targetName m"] length_escape_no_control [of "messageType m"]
      length_escape_no_control [of "messageBody m"]
    by (simp_all add: message_fits_def message_text_def message_sizes)
  moreover have "length (show_int (messageId m)) \<le> 20" "length (show_int (createdAtUnixMs m)) \<le> 20"
    "length (show_int (replyToMessageId m)) \<le> 20"
    using assms(1) by (simp_all add: message_fits_def length_show_int)
  ultimately have "length (render_object (message_fields m)) < WT_MESSAGE_JSON_SIZE"
    by (simp add: message_fields_def render_object_def render_field_def WT_MESSAGE_JSON_SIZE_def)
  with assms(1,2) show ?thesis by (simp add: wtMessageToJson_text)
qed

text \<open>A room message about a task is stored unless the operating system refuses it.\<close>

lemma room_event_ok:
  assumes "m_fault m = NoFault" "is_long (m_ms m)" "no_control (configRoomName c)"
    and "text_ok 128 taskId" "text_ok 32 status" "text_ok 192 title" "text_ok 48 kind"
  shows "fst (appendTaskRoomEvent c m taskId target kind status title w)"
proof -
  let ?body = "''taskId='' @ taskId @ '' status='' @ status @ '' title='' @ (if title \<noteq> [] then title else ''Untitled task'')"
  define message where "message = wtMessageInit \<lparr> roomName := snprintf_s WT_MESSAGE_NAME_SIZE (configRoomName c),
    senderName := ''system'', targetName := room_target target, messageType := snprintf_s WT_MESSAGE_TYPE_SIZE kind,
    messageBody := snprintf_s WT_MESSAGE_BODY_SIZE ?body \<rparr>"
  have body: "length ?body \<le> 1000" "no_control ?body"
    using assms(4-6) by (simp_all add: text_ok_def)
  have name: "length (snprintf_s 64 (configRoomName c)) < 64" by (rule length_snprintf_s) simp
  have ok: "message_fits message" "message_text message" "length (messageBody message) \<le> 1000"
    using assms(3,7) body name
    by (simp_all add: message_def message_fits_def message_text_def wtMessageInit_def message_sizes room_target_def
        is_long_def c_int_defs text_ok_def)
  let ?next = "next_message (m_ms m) message (m_room m (w_room w))"
  have "length (messageBody ?next) \<le> 1000" using ok(3) by (simp add: next_message_def Let_def)
  from short_message_prints [OF next_message_ok [OF ok(1,2) assms(2)] this] assms(1)
  have "fst (wtRoomAppendNewMessage (m_fault m) (fsyncEachMessage c) (m_ms m) message (m_room m (w_room w)))"
    by (simp add: wtRoomAppendNewMessage_def Let_def write_record_def)
  then show ?thesis
    unfolding appendTaskRoomEvent_def message_def [symmetric] by (auto simp: to_room_def split: prod.splits)
qed

lemma append_line_works: "m_fault m = NoFault \<Longrightarrow> fst (append_line c m line w)"
  by (simp add: append_line_def to_ledger_def wtTaskAppendRecord_def write_record_def)

text \<open>No operation of the system fails during the request.\<close>

definition faultless :: "roomd_env \<Rightarrow> bool" where
  "faultless env \<longleftrightarrow> (\<forall>k. m_fault (re_moments env k) = NoFault \<and> is_long (m_ms (re_moments env k))) \<and>
     (\<forall>d. re_mkdir env d) \<and> (\<forall>k. re_rebuild env k = RebuildNoFault)"

lemma faultless_rebuild:
  "faultless env \<Longrightarrow> rebuildProjection c env k ledger = (True, Some (project_ledger ledger))"
  by (simp add: rebuildProjection_def wtTaskProjectionRebuild_def faultless_def wtRoomEnsureParentDirs_def list_all_iff)

lemma run_four_works:
  assumes "\<And>v. fst (a1 v)" "\<And>v. fst (a2 v)" "\<And>v. fst (a3 v)" "\<And>v. fst (a4 v)"
  shows "fst (run_appends [a1, a2, a3, a4] w)"
  using assms by (auto split: prod.split) (metis fst_conv)+

definition within_limits :: "WtConfig \<Rightarrow> admission \<Rightarrow> subtask \<Rightarrow> projection \<Rightarrow> bool" where
  "within_limits c b s p \<longleftrightarrow>
     below (maxActiveTasksPerAgent c) (active_tasks c_assigned_agent (ad_agent b) p) \<and>
     (ad_initiative b = [] \<or> below (maxTasksPerInitiative c) (active_tasks c_initiative_id (ad_initiative b) p)) \<and>
     (st_parent s = [] \<or> below (maxSubtasksPerParent c) (active_tasks c_parent_task_id (st_parent s) p))"

lemma within_limits_capacity:
  assumes "length (tasks p) < 2 ^ 31"
  shows "fst (enforceCapacity c True (\<lambda>_. Some p) (ad_agent b) (ad_initiative b) (st_parent s)) = 0 \<longleftrightarrow> within_limits c b s p"
proof
  assume "within_limits c b s p"
  then have "capacity_check (wtTaskProjectionCountActiveForAgent (Some p) (ad_agent b)) (maxActiveTasksPerAgent c) ''agent'' (ad_agent b) = None"
    "ad_initiative b \<noteq> [] \<Longrightarrow> capacity_check (wtTaskProjectionCountActiveForInitiative (Some p) (ad_initiative b))
      (maxTasksPerInitiative c) ''initiative'' (ad_initiative b) = None"
    "st_parent s \<noteq> [] \<Longrightarrow> capacity_check (wtTaskProjectionCountActiveForParent (Some p) (st_parent s))
      (maxSubtasksPerParent c) ''parent subtask'' (st_parent s) = None"
    by (simp_all add: within_limits_def counts_within [OF assms] wtTaskProjectionCountActiveForAgent_def
        wtTaskProjectionCountActiveForInitiative_def wtTaskProjectionCountActiveForParent_def)
  then show "fst (enforceCapacity c True (\<lambda>_. Some p) (ad_agent b) (ad_initiative b) (st_parent s)) = 0"
    by (simp add: enforceCapacity_def)
qed (simp add: within_limits_def capacity_enforced [OF _ assms])

lemma accept_request_works:
  assumes "quiet env" "faultless env" "no_control (configRoomName c)" "text_ok 128 (ad_taskId b)" "text_ok 192 (ad_title b)"
    and "fst (enforceCapacity c True (\<lambda>_. Some (project_ledger (w_ledger w))) (ad_agent b) (ad_initiative b) (st_parent s)) = 0"
    and "escapes_fit (request_escapes b s)"
  shows "statusCode (fst (accept_request c env b s w)) = 200"
proof -
  have env: "\<And>k. re_query env k (Some (project_ledger (w_ledger w))) = Some (project_ledger (w_ledger w))"
    "\<And>k. read_ledger (re_moments env k) w = w"
    using assms(1) by (simp_all add: quiet_def read_ledger_def)
  obtain why where cap: "enforceCapacity c True (\<lambda>_. Some (project_ledger (w_ledger w))) (ad_agent b) (ad_initiative b) (st_parent s) = (0, why)"
    using assms(6) by (metis prod.collapse)
  let ?line = "\<lambda>fs. snprintf_s WT_TASK_LEDGER_LINE_SIZE (render_object fs)"
  define a1 where "a1 = append_line c (re_moments env 5) (?line (request_fields b s (clock env 5)))"
  define a2 where "a2 = appendTaskRoomEvent c (re_moments env 6) (ad_taskId b) (ad_agent b) ''task.request'' ''requested'' (ad_title b)"
  define a3 where "a3 = append_line c (re_moments env 7) (?line (subtask_package_fields b s (clock env 5)))"
  define a4 where "a4 = appendTaskRoomEvent c (re_moments env 8) (ad_taskId b) (ad_agent b) ''task.assign'' ''queued'' (ad_title b)"
  have texts: "text_ok 32 ''requested''" "text_ok 32 ''queued''" "text_ok 48 ''task.request''" "text_ok 48 ''task.assign''"
    by (simp_all add: text_ok_def)
  have "fst (a1 v)" "fst (a2 v)" "fst (a3 v)" "fst (a4 v)" for v
    using texts assms(2-5) by (simp_all add: a1_def a2_def a3_def a4_def append_line_works room_event_ok faultless_def)
  then have "fst (run_appends [a1, a2, a3, a4] w)" by (rule run_four_works)
  then obtain w' where run: "run_appends [a1, a2, a3, a4] w = (True, w')" by (metis (full_types) prod.collapse)
  show ?thesis
    unfolding accept_request_def Let_def faultless_rebuild [OF assms(2)] env prod.case cap
      a1_def [symmetric] a2_def [symmetric] a3_def [symmetric] a4_def [symmetric] run
    using assms(7) by simp
qed

lemma admit_passes:
  assumes "quiet env" "faultless env"
    and "dec_allowed (wtPolicyEvaluateTaskPackage c (policy_input_of c env body a (Some (project_ledger (w_ledger w))) (w_ledger w)))"
    and "ad_host a = [] \<or> host_offers (w_ledger w) (ad_host a) (ad_agent a) (ad_profile a)"
  shows "admit c env body a denied_by unmet_by accept w = accept w"
  using assms by (auto simp: admit_def faultless_rebuild deny_admission_def Let_def split: prod.split)

lemma parse_request_fits:
  assumes "parse_request body = Some (a, s)"
  shows "length (ad_taskId (route_admission c a)) < 128" "length (ad_title (route_admission c a)) < 192"
  using assms
  by (auto simp: parse_request_def route_admission_def Let_def task_sizes split: option.splits if_splits dest!: read_str_length)

text \<open>
  C5. A subtask is admitted exactly within the limits. On a ledger nobody else writes to and a system
  that does not fail, a well-formed task request is answered 200 if and only if the requesting role may
  spawn the requested one, the policy evaluator accepts the routed task on the totals of the ledger, a
  pinned host advertises the profile, there is room under the limits of the agent, the initiative and
  the parent, and the texts fit their buffers. Then its request and its package are appended.
\<close>

theorem subtask_admitted_iff:
  assumes "quiet env" and "faultless env" and "no_control (configRoomName c)"
    and "length (tasks (project_ledger (w_ledger w))) < 2 ^ 31"
    and "request_body request = Some body" and "parse_request body = Some (a, s)"
    and "no_control (ad_taskId a)" and "no_control (ad_title a)"
    and "b = route_admission c a" and "p = project_ledger (w_ledger w)"
  shows "(statusCode (fst (handlePostTaskRequest c env request w)) = 200 \<longleftrightarrow>
      roleMaySpawn (st_requestedByRole s) (ad_role a) \<and>
      dec_allowed (wtPolicyEvaluateTaskPackage c (policy_input_of c env body b (Some p) (w_ledger w))) \<and>
      (ad_host b = [] \<or> host_offers (w_ledger w) (ad_host b) (ad_agent b) (ad_profile b)) \<and>
      within_limits c b s p \<and> escapes_fit (request_escapes b s)) \<and>
    (statusCode (fst (handlePostTaskRequest c env request w)) = 200 \<longrightarrow>
      bytes (w_ledger (fst (snd (handlePostTaskRequest c env request w)))) = bytes (w_ledger w) @
        snprintf_s WT_TASK_LEDGER_LINE_SIZE (render_object (request_fields b s (clock env 5))) @ [NL] @
        snprintf_s WT_TASK_LEDGER_LINE_SIZE (render_object (subtask_package_fields b s (clock env 5))) @ [NL])"
proof -
  let ?handled = "handlePostTaskRequest c env request w"
  let ?admit = "admit c env body b (st_requestedBy s) (st_requestedBy s) (accept_request c env b s) w"
  have handled: "?handled = (if \<not> roleMaySpawn (st_requestedByRole s) (ad_role a)
      then refuse (json_reply 403 ''Forbidden'' (error_body ''role spawn policy denied'')) w else ?admit)"
    using assms(5,6,9) by (simp add: handlePostTaskRequest_def Let_def)
  have texts: "text_ok 128 (ad_taskId b)" "text_ok 192 (ad_title b)"
    using parse_request_fits [OF assms(6), of c] assms(7-9) by (simp_all add: text_ok_def route_admission_def Let_def)
  obtain r w' notices where out: "?admit = (r, w', notices)" by (cases ?admit)
  show ?thesis
  proof (cases "roleMaySpawn (st_requestedByRole s) (ad_role a)")
    case False
    then show ?thesis by (simp add: handled refuse_def)
  next
    case True
    have accepted: "statusCode r = 200 \<Longrightarrow> escapes_fit (request_escapes b s)"
      if "accept_request c env b s w = (r, w', notices)"
      using that by (auto simp: accept_request_def refuse_def Let_def split: prod.splits if_splits)
    have only: "statusCode r = 200 \<Longrightarrow>
        dec_allowed (wtPolicyEvaluateTaskPackage c (policy_input_of c env body b (Some p) (w_ledger w))) \<and>
        (ad_host b = [] \<or> host_offers (w_ledger w) (ad_host b) (ad_agent b) (ad_profile b)) \<and>
        within_limits c b s p \<and> escapes_fit (request_escapes b s) \<and>
        bytes (w_ledger w') = bytes (w_ledger w) @
          snprintf_s WT_TASK_LEDGER_LINE_SIZE (render_object (request_fields b s (clock env 5))) @ [NL] @
          snprintf_s WT_TASK_LEDGER_LINE_SIZE (render_object (subtask_package_fields b s (clock env 5))) @ [NL]"
      using admit_accepts [OF assms(1) out] accept_request_ok [OF assms(1)] accepted
        within_limits_capacity [OF assms(4)] assms(10) by metis
    have "statusCode r = 200"
      if "dec_allowed (wtPolicyEvaluateTaskPackage c (policy_input_of c env body b (Some p) (w_ledger w)))"
        "ad_host b = [] \<or> host_offers (w_ledger w) (ad_host b) (ad_agent b) (ad_profile b)"
        "within_limits c b s p" "escapes_fit (request_escapes b s)"
      using admit_passes [OF assms(1,2) that(1,2) [unfolded assms(10)]] out that(3,4)
        accept_request_works [OF assms(1-3) texts] within_limits_capacity [OF assms(4)] assms(10) by (metis fst_conv)
    with only True show ?thesis by (auto simp: handled out)
  qed
qed

text \<open>A project manager asks for a tester under an initiative and a parent, in an empty room.\<close>

definition demo_task_request :: string where
  "demo_task_request = ''POST /api/task-request HTTP/1.1'' @ CRLF @ CRLF @ render_object
     [(''schema'', JStr ''woventeam.task_request.v0.1''), (''parentTaskId'', JStr ''p1''), (''requestedTaskId'', JStr ''t2''),
      (''initiativeId'', JStr ''i1''), (''requestedByRole'', JStr ''project_manager''), (''requestedRole'', JStr ''tester''),
      (''title'', JStr ''T''), (''body'', JStr ''B''), (''maxTokens'', JNum 5)]"

definition demo_roomd :: roomd_env where
  "demo_roomd = \<lparr> re_moments = (\<lambda>_. \<lparr> m_ledger = id, m_room = id, m_ms = 1000, m_fault = NoFault \<rparr>),
     re_mkdir = (\<lambda>_. True), re_rebuild = (\<lambda>_. RebuildNoFault), re_old_db = None, re_query = (\<lambda>_ db. db), re_junk = (\<lambda>_. []) \<rparr>"

definition demo_request_body :: string where
  "demo_request_body = the (request_body demo_task_request)"

definition demo_admission :: admission where
  "demo_admission = \<lparr> ad_taskId = ''t2'', ad_role = ''tester'', ad_agent = ''router'', ad_routed = False, ad_initiative = ''i1'',
     ad_profile = ''observe'', ad_model = [], ad_title = ''T'', ad_host = [], ad_maxTokens = 5 \<rparr>"

definition demo_subtask :: subtask where
  "demo_subtask = \<lparr> st_parent = ''p1'', st_requestedBy = ''project_manager'', st_requestedByRole = ''project_manager'',
     st_priority = ''normal'', st_body = ''B'' \<rparr>"

definition demo_world :: agent_world where
  "demo_world = \<lparr> w_ledger = None, w_room = None, w_files = (\<lambda>_. None) \<rparr>"

lemma demo_request_parsed:
  "request_body demo_task_request = Some demo_request_body"
  "parse_request demo_request_body = Some (demo_admission, demo_subtask)"
  by code_simp+

lemma demo_request_allowed:
  "dec_allowed (wtPolicyEvaluateTaskPackage wtConfigInitDefaults
     (policy_input_of wtConfigInitDefaults demo_roomd demo_request_body (route_admission wtConfigInitDefaults demo_admission)
        (Some (project_ledger None)) None))"
  by code_simp

lemma demo_request_small:
  "roleMaySpawn (st_requestedByRole demo_subtask) (ad_role demo_admission)"
  "ad_host (route_admission wtConfigInitDefaults demo_admission) = []"
  "escapes_fit (request_escapes (route_admission wtConfigInitDefaults demo_admission) demo_subtask)"
  "within_limits wtConfigInitDefaults (route_admission wtConfigInitDefaults demo_admission) demo_subtask (project_ledger None)"
  by code_simp+

theorem subtask_admitted_iff_witness:
  "statusCode (fst (handlePostTaskRequest wtConfigInitDefaults demo_roomd demo_task_request demo_world)) = 200"
proof -
  have env: "quiet demo_roomd" "faultless demo_roomd"
    by (simp_all add: quiet_def faultless_def demo_roomd_def is_long_def c_int_defs)
  have world: "w_ledger demo_world = None" by (simp add: demo_world_def)
  have "no_control (configRoomName wtConfigInitDefaults)" "no_control (ad_taskId demo_admission)" "no_control (ad_title demo_admission)"
    by (simp_all add: wtConfigInitDefaults_def demo_admission_def)
  moreover have "tasks (project_ledger (w_ledger demo_world)) = []" unfolding world by code_simp
  then have "length (tasks (project_ledger (w_ledger demo_world))) < 2 ^ 31" by simp
  ultimately show ?thesis
    using subtask_admitted_iff [OF env _ _ demo_request_parsed _ _ refl refl, where w = demo_world, unfolded world]
      demo_request_allowed demo_request_small by (simp only: simp_thms world)
qed

end
