(* ===== verification/Deliverable_Facts.thy ===== *)
theory Deliverable_Facts
  imports Deliverable Roomd_Tokens Projection_Facts
begin

text \<open>
  What the deliverables pipeline promises: the scan reports a match exactly when a loaded expression
  matches the text it looks at, a match keeps the work from being committed or pushed, and the
  record of a shipped copy carries the digest of the bytes that were shipped.
\<close>

section \<open>The scan\<close>

lemma pattern_hits_grow: "hits \<le> pattern_hits matches hits s"
  by (induction matches hits s rule: pattern_hits.induct) auto

lemma pattern_hits_pos: "0 < pattern_hits matches 0 s \<longleftrightarrow> s \<noteq> [] \<and> matches s"
  using pattern_hits_grow [of 1 matches "tl s"] by (cases s) auto

lemma scan_total: "0 < fst (fold (scan_step matches content) ps v) \<longleftrightarrow>
  0 < fst v \<or> (content \<noteq> [] \<and> (\<exists>p \<in> set ps. matches (snd p) content))"
  by (induction ps arbitrary: v) (auto simp: scan_step_def Let_def pattern_hits_pos)

text \<open>The expressions the configuration loads, and a secret in the text they are tried on.\<close>

definition scan_expressions :: "ship_env \<Rightarrow> WtConfig \<Rightarrow> (string \<Rightarrow> log_file) \<Rightarrow> string list" where
  "scan_expressions env c fs =
     (if secretScanPatternsFile c = [] then []
      else case loadPatterns (de_regcomp env) (fs (secretScanPatternsFile c)) WT_DELIVERABLE_MAX_PATTERNS of
        None \<Rightarrow> [] | Some ps \<Rightarrow> map snd ps)"

definition secret_in :: "ship_env \<Rightarrow> WtConfig \<Rightarrow> (string \<Rightarrow> log_file) \<Rightarrow> string \<Rightarrow> bool" where
  "secret_in env c fs path =
     (let text = scanned_text (bytes (fs path)) in
      text \<noteq> [] \<and> list_ex (\<lambda>expr. de_regexec env expr text) (scan_expressions env c fs))"

lemma scan_fold:
  "fold (scan_step matches content) ps (0, []) = (n, hits) \<Longrightarrow> 0 < n \<longleftrightarrow> content \<noteq> [] \<and> list_ex (\<lambda>p. matches (snd p) content) ps"
  using scan_total [of matches content ps "(0, [])"] by (simp add: list_ex_iff)

lemma scan_cases:
  "fst (wtDeliverableScanFile env c path fs r) = (if fs path = None \<and> scan_expressions env c fs \<noteq> [] then -1 else 0)"
  "dr_scanMatched (snd (wtDeliverableScanFile env c path fs r)) \<longleftrightarrow> secret_in env c fs path"
  by (auto simp: wtDeliverableScanFile_def Let_def scan_expressions_def secret_in_def list_ex_iff scanned_text_def
      simp del: fold.simps dest!: scan_fold split: option.splits list.splits prod.splits) force

lemma scan_result: "wtDeliverableScanFile env c path fs r = (rc, r') \<Longrightarrow> dr_scanMatched r' \<longleftrightarrow> secret_in env c fs path"
  using scan_cases(2) [of env c path fs r] by simp

text \<open>
  The scan answers the question it is asked: it reports a match exactly when one of the
  expressions loaded from the pattern file matches the text it looks at, the first 4 MiB of the file up
  to the first zero byte; the result has its other fields as before.
\<close>

lemma scan_keeps:
  "wtDeliverableScanFile env c path fs r = (rc, r') \<Longrightarrow> dr_deliverableId r' = dr_deliverableId r \<and> dr_sha256 r' = dr_sha256 r \<and>
     dr_sizeBytes r' = dr_sizeBytes r \<and> dr_scanId r' = dr_scanId r"
  by (auto simp: wtDeliverableScanFile_def Let_def split: if_splits option.splits list.splits prod.splits)

section \<open>Nothing with a secret is published\<close>

definition digest_world :: "ship_env \<Rightarrow> WtDeliverableRequest \<Rightarrow> agent_world \<Rightarrow> ship_state" where
  "digest_world env req w = snd (snd (wtDeliverableSha256 env (dq_sourcePath req) 80 \<lparr> ss_world = w, ss_commands = [] \<rparr>))"

lemma digest_commands: "length (ss_commands (digest_world env req w)) \<le> 1"
  by (simp add: digest_world_def wtDeliverableSha256_def wtSystemReliable_def put_world_file_def split: option.split prod.split)

lemma record_scan_simps [simp]:
  "w_files (ss_world (record_scan env k req r st)) = w_files (ss_world st)"
  "ss_commands (record_scan env k req r st) = ss_commands st"
  by (simp_all add: record_scan_def to_ship_ledger_def to_ledger_def split: prod.split)

text \<open>
  C8. Nothing with a secret is published. When one of the loaded expressions matches the scanned text
  of the source, shipping in branch or pull-request mode fails, no command runs but the digest of the
  source, and no file is copied: the files are those the digest left.
\<close>

theorem secret_not_published:
  assumes "dq_mode req = MODE_BRANCH \<or> dq_mode req = MODE_PR"
    and "secret_in env c (w_files (ss_world (digest_world env req w))) (dq_sourcePath req)"
    and "wtDeliverableShip env c req w = (ok, res, st)"
  shows "\<not> ok \<and> length (ss_commands st) \<le> 1 \<and> w_files (ss_world st) \<in> {w_files w, w_files (ss_world (digest_world env req w))}"
proof (cases "wtDeliverableSha256 env (dq_sourcePath req) 80 \<lparr> ss_world = w, ss_commands = [] \<rparr>")
  case (fields digest len st1)
  then have st1: "digest_world env req w = st1" by (simp add: digest_world_def)
  note short = digest_commands [of env req w, unfolded st1]
  show ?thesis
    using assms(3,2) assms(1) short
    by (auto dest!: scan_result simp: wtDeliverableShip_def fields st1 Let_def split: if_splits option.splits prod.splits)
qed

section \<open>The record of a shipped copy\<close>

definition file_digest :: "string \<Rightarrow> string" where
  "file_digest content = bytesToHex (sha256_spec (string_bytes content)) 65"

text \<open>The documented behaviour of \<open>sha256sum\<close>, at the command the code builds for one file.\<close>

definition digest_tool :: "ship_env \<Rightarrow> string \<Rightarrow> string \<Rightarrow> bool" where
  "digest_tool env src tmp \<longleftrightarrow> de_tmp env = Some tmp \<and> tmp \<noteq> src \<and> (\<forall>w content. w_files w src = Some content \<longrightarrow>
     de_shell env 0 (sha_command src tmp) w =
       (0, w \<lparr> w_files := (w_files w) (tmp := Some (file_digest content @ ''  '' @ src @ [NL])) \<rparr>))"

definition shipped_row :: "WtDeliverableRequest \<Rightarrow> WtDeliverableResult \<Rightarrow> string \<Rightarrow> int \<Rightarrow> deliverable_row" where
  "shipped_row req res content now =
     \<lparr> d_deliverable_id = dr_deliverableId res, d_task_id = dq_taskId req, d_initiative_id = dq_initiativeId req,
       d_source_workspace_path = dq_sourcePath req, d_deliverable_path = dr_deliverablePath res,
       d_packaging_mode = wtDeliverableModeToString (dq_mode req), d_size_bytes = int (length content),
       d_sha256 = file_digest content, d_reviewer = dq_reviewer req, d_supersedes = dq_supersedes req,
       d_created_by = (case dq_createdBy req of Some by \<Rightarrow> by | None \<Rightarrow> ''operator''), d_created_at_ms = now,
       d_raw_json = render_object (deliverable_fields req res (dq_mode req) now) \<rparr>"

lemma hex_digest:
  "length (file_digest content) = 64" "no_control (file_digest content)" "\<forall>ch \<in> set (file_digest content). \<not> is_space ch"
proof -
  have "length (concat (map (\<lambda>b. [hex_nibble (drop_bit 4 b AND 0x0f), hex_nibble (b AND 0x0f)]) ds)) = 2 * length ds" for ds :: "u8 list"
    by (induction ds) simp_all
  then show "length (file_digest content) = 64"
    by (simp add: file_digest_def bytesToHex_def length_sha256_spec)
  show "no_control (file_digest content)" by (simp add: file_digest_def)
  have "is_alnum ch" if "ch \<in> set (file_digest content)" for ch
    using that nibbles by (auto simp: file_digest_def bytesToHex_def intro: hex_nibble_alnum split: if_splits)
  then show "\<forall>ch \<in> set (file_digest content). \<not> is_space ch" using is_alnum_plain by blast
qed

lemma fgets_line_more:
  "NL \<notin> set a \<Longrightarrow> length a \<le> k \<Longrightarrow>
   fgets_line k (a @ t) = (a @ fst (fgets_line (k - length a) t), snd (fgets_line (k - length a) t))"
proof (induction a arbitrary: k)
  case (Cons c a)
  then obtain j where "k = Suc j" by (cases k) auto
  with Cons show ?case by (auto split: prod.splits)
qed simp

text \<open>The digest read back is the tool's, and every file but the temporary one is as before.\<close>

lemma digest_result:
  assumes "digest_tool env src tmp" "w_files w src = Some content"
  shows "wtDeliverableSha256 env src 80 \<lparr> ss_world = w, ss_commands = [] \<rparr> =
    (Some (file_digest content), int (length content),
     \<lparr> ss_world = w \<lparr> w_files := (w_files w) (tmp := None) \<rparr>, ss_commands = [sha_command src tmp] \<rparr>)"
proof -
  let ?hex = "file_digest content"
  have "NL \<notin> set ?hex" using hex_digest(3) [of content] by (auto simp: is_space_def)
  then obtain l' r where "fgets_line 255 (?hex @ ''  '' @ src @ [NL]) = (?hex @ CHR '' '' # l', r)"
    using fgets_line_more [of "?hex @ '' ''" 255 "'' '' @ src @ [NL]"] hex_digest(1) [of content] by simp
  then obtain l ls where l: "file_lines 256 (?hex @ ''  '' @ src @ [NL]) = cstr (?hex @ CHR '' '' # l) # ls"
    by (simp add: file_lines_def raw_lines.simps [of 256])
  have "cstr (?hex @ CHR '' '' # l) = ?hex @ CHR '' '' # cstr l"
    using no_control_c_string [OF hex_digest(2) [of content]] unfolding cstr_def c_string_def by (subst takeWhile_append2) auto
  with l have line: "read_digest (Some (?hex @ ''  '' @ src @ [NL])) 80 = Some ?hex"
    using hex_digest(1,3) [of content] by (simp add: read_digest_def takeWhile_append2 is_space_def)
  have "((w_files w) (tmp := Some [])) src = Some content" using assms by (auto simp: digest_tool_def)
  with assms line show ?thesis
    by (simp add: wtDeliverableSha256_def wtSystemReliable_def put_world_file_def digest_tool_def)
qed

lemma makeShortId_text: "text_ok 64 kind \<Longrightarrow> text_ok 64 (makeShortId kind 64 src)"
  by (auto simp: makeShortId_def text_ok_def length_snprintf_s split: option.split)

lemma key_text_deliverable_keys [simp]:
  "key_text ''deliverableId''" "key_text ''initiativeId''" "key_text ''sourceWorkspacePath''" "key_text ''deliverablePath''"
  "key_text ''packagingMode''" "key_text ''sizeBytes''" "key_text ''sha256''" "key_text ''reviewer''" "key_text ''supersedes''"
  by (simp_all add: key_text_def is_alnum_def is_digit_def)

definition request_texts_ok :: "WtDeliverableRequest \<Rightarrow> bool" where
  "request_texts_ok req \<longleftrightarrow> text_ok 128 (dq_taskId req) \<and> text_ok 128 (dq_initiativeId req) \<and> text_ok 512 (dq_sourcePath req) \<and>
     text_ok 64 (dq_reviewer req) \<and> text_ok 64 (dq_supersedes req) \<and>
     text_ok 64 (case dq_createdBy req of Some by \<Rightarrow> by | None \<Rightarrow> ''operator'') \<and> text_ok 64 (dq_autonomyLevel req)"

section \<open>A record with an object inside\<close>

lemma find_pattern_none:
  assumes "key_text k" "wf_fields fs" "value_end r" "map_of fs k = None"
  shows "find_pattern (DQ # k @ [DQ]) (render_fields fs @ r) = find_pattern (DQ # k @ [DQ]) r"
  using assms(2,4)
proof (induction fs rule: render_fields.induct)
  case (2 f)
  with find_pattern_field [OF assms(1), of f r] assms(3) show ?case by (cases f) (auto split: if_splits)
next
  case (3 f g fs)
  with find_pattern_field [OF assms(1), of f "CHR '','' # render_fields (g # fs) @ r"] show ?case
    by (cases f) (auto simp: find_pattern_comma simp del: render_fields.simps split: if_splits, auto simp: render_fields.simps(3))
qed simp

lemma render_fields_cons: "fs \<noteq> [] \<Longrightarrow> render_fields (f # fs) = render_field f @ CHR '','' # render_fields fs"
  by (cases fs) simp_all

text \<open>A key that the inner object does not have is found as if the object were not there.\<close>

lemma find_around:
  assumes k: "key_text k" "key_text nk" "nk \<noteq> k" "map_of g k = None" and wf: "wf_fields g" "wf_fields a" "wf_fields b" and "b \<noteq> []"
  shows "found (findFieldValue (render_object (a @ (nk, json_object g) # b)) k) (map_of (a @ b) k)"
proof -
  let ?find = "find_pattern (DQ # k @ [DQ])"
  have "found (?find (render_fields (a @ (nk, json_object g) # b) @ ''}'')) (map_of (a @ b) k)" using wf(2)
  proof (induction a)
    case Nil
    let ?rest = "CHR '','' # render_fields b @ ''}''"
    have "render_fields ((nk, json_object g) # b) @ ''}'' = DQ # nk @ DQ # CHR '':'' # CHR ''{'' # render_fields g @ CHR ''}'' # ?rest"
      using assms(8) by (simp add: render_fields_cons render_field_def json_object_def render_object_def)
    then have "?find (render_fields ((nk, json_object g) # b) @ ''}'') = ?find (CHR ''}'' # ?rest)"
      using find_pattern_other_key [OF k(1,2)] k(3) find_pattern_none [OF k(1) wf(1) _ k(4), of "CHR ''}'' # ?rest"]
      by (simp add: find_pattern_comma)
    also have "\<dots> = ?find (render_fields b @ ''}'')"
      using find_pattern_no_quote [of "[CHR ''}'']" "k @ [DQ]"] by (simp add: find_pattern_comma)
    finally show ?case using find_pattern_fields [OF k(1) wf(3), of "''}''"] by simp
  next
    case (Cons f a)
    then have f: "key_text (fst f)" "plain_value (snd f)" by simp_all
    with Cons find_pattern_field [OF k(1) f, of "CHR '','' # render_fields (a @ (nk, json_object g) # b) @ ''}''"]
    show ?case by (cases f) (simp add: render_fields_cons find_pattern_comma)
  qed
  then show ?thesis
    using k(1) by (simp add: findFieldValue_def key_text_key_pattern render_object_def find_pattern_comma)
qed

text \<open>The readers depend on the field they find only.\<close>

lemma read_found:
  assumes "found (findFieldValue x k) mv" "\<forall>v. mv = Some v \<longrightarrow> plain_value v \<and> clean_jval v"
  shows "0 < n \<Longrightarrow> read_str x k n = (case mv of Some (JStr s) \<Rightarrow> if length s < n then Some s else None | _ \<Rightarrow> None)"
    and "wtJsonReadLongLong x k = (case mv of Some (JNum v) \<Rightarrow> Some (clamp64 v) | _ \<Rightarrow> None)"
proof -
  show "read_str x k n = (case mv of Some (JStr s) \<Rightarrow> if length s < n then Some s else None | _ \<Rightarrow> None)" if "0 < n"
  proof (cases "\<exists>s. mv = Some (JStr s)")
    case True
    then obtain s r where "mv = Some (JStr s)" "no_control s" "findFieldValue x k = Some (DQ # escape s @ DQ # r)"
      using assms by (auto simp: found_def)
    then show ?thesis using read_loop_escape [of s "[]" n r] that by (simp add: read_str_def wtJsonReadString_def)
  next
    case False
    then show ?thesis using assms not_quoted
      by (cases mv) (fastforce simp: found_def read_str_def wtJsonReadString_def split: jval.splits)+
  qed
  show "wtJsonReadLongLong x k = (case mv of Some (JNum v) \<Rightarrow> Some (clamp64 v) | _ \<Rightarrow> None)"
  proof (cases mv)
    case (Some v)
    then obtain r where r: "value_end r" "findFieldValue x k = Some (render_value v @ r)" and v: "plain_value v"
      using assms by (auto simp: found_def)
    show ?thesis
    proof (cases v)
      case (JNum n)
      have "no_digit_ahead r" using r(1) by (auto simp: value_end_def is_digit_def)
      with Some r JNum show ?thesis by (simp add: wtJsonReadLongLong_def)
    next
      case (JLit u)
      with v obtain c cs where "u = c # cs" "is_alnum c" "\<not> is_digit c" by (cases u) auto
      with Some r JLit show ?thesis by (simp add: wtJsonReadLongLong_def strtol_not_number)
    qed (use Some r in \<open>simp add: wtJsonReadLongLong_def strtol_not_number\<close>)
  qed (use assms in \<open>simp add: wtJsonReadLongLong_def\<close>)
qed

text \<open>The first field of a record is found whatever follows it.\<close>

lemma first_field:
  assumes "key_text k"
  shows "findFieldValue (render_object ((k, JStr s) # f # fs)) k = Some (render_value (JStr s) @ CHR '','' # render_fields (f # fs) @ ''}'')"
proof -
  let ?v = "render_value (JStr s) @ CHR '','' # render_fields (f # fs) @ ''}''"
  have rec: "render_object ((k, JStr s) # f # fs) = CHR ''{'' # (DQ # k @ [DQ]) @ (CHR '':'' # ?v)"
    by (simp add: render_object_def render_field_def)
  have "\<not> starts_with (DQ # k @ [DQ]) (CHR ''{'' # (DQ # k @ [DQ]) @ (CHR '':'' # ?v))" by simp
  with find_pattern_hit [of "DQ # k @ [DQ]" "CHR '':'' # ?v"] show ?thesis
    unfolding findFieldValue_def key_text_key_pattern [OF assms] rec
    by (subst find_pattern_skip) (simp_all add: skip_space_simps is_space_def)
qed

lemma schema_first:
  assumes "no_control s" "length s < 128"
  shows "lineHasSchema (render_object ((''schema'', JStr s) # f # fs)) x \<longleftrightarrow> x = s"
  using read_loop_escape [OF assms(1), of "[]" 128] assms(2)
  by (auto simp: lineHasSchema_def read_str_def wtJsonReadString_def first_field)

lemma render_object_without:
  assumes "x \<in> {NL, NUL}" "list_all (\<lambda>f. x \<notin> set (fst f) \<and> x \<notin> set (render_value (snd f))) fs"
  shows "x \<notin> set (render_object fs)"
proof -
  from assms(2) have "x \<notin> set (render_fields fs)"
    by (induction fs rule: render_fields.induct) (use assms(1) in \<open>auto simp: render_field_def\<close>)
  with assms(1) show ?thesis by (auto simp: render_object_def)
qed

section \<open>The record in the read model\<close>

definition flat_fields :: "WtDeliverableRequest \<Rightarrow> WtDeliverableResult \<Rightarrow> WtDeliverableMode \<Rightarrow> int \<Rightarrow> (string \<times> jval) list" where
  "flat_fields req res mode now = deliverable_fields (req \<lparr> dq_autonomyLevel := [] \<rparr>) res mode now"

lemma find_deliverable:
  assumes "wf_fields (flat_fields req res mode now)" "key_text k" "k \<notin> {''autonomyProvenance'', ''elevated'', ''autonomyLevel''}"
  shows "found (findFieldValue (render_object (deliverable_fields req res mode now)) k) (map_of (flat_fields req res mode now) k)"
proof (cases "dq_autonomyLevel req = []")
  case True
  then have "deliverable_fields req res mode now = flat_fields req res mode now" by (simp add: flat_fields_def deliverable_fields_def)
  with find_object [OF assms(2,1), of "[]"] show ?thesis by simp
next
  case False
  let ?by = "[(''createdBy'', JStr (case dq_createdBy req of Some by \<Rightarrow> by | None \<Rightarrow> ''operator'')), (''createdAtUnixMs'', JNum now)]"
  let ?g = "[(''elevated'', bool_lit (dq_autonomyElevated req)), (''autonomyLevel'', JStr (dq_autonomyLevel req))]"
  obtain a where a: "deliverable_fields req res mode now = a @ (''autonomyProvenance'', json_object ?g) # ?by"
    and flat: "flat_fields req res mode now = a @ ?by"
    using False by (simp add: flat_fields_def deliverable_fields_def)
  have "key_text ''autonomyProvenance''" "wf_fields ?g"
    by (simp_all add: key_text_def bool_lit_def is_alnum_def is_digit_def)
  with assms show ?thesis unfolding a flat by (intro find_around) auto
qed

lemma project_shipped:
  assumes "request_texts_ok req" "text_ok 64 (dr_deliverableId res)" "text_ok 512 (dr_deliverablePath res)"
    and "dr_sha256 res = file_digest content" "dr_sizeBytes res = int (length content)" "is_long (int (length content))" "is_long now"
  shows "project_line (render_object (deliverable_fields req res (dq_mode req) now) @ [NL]) db =
      db \<lparr> deliverables := deliverables db @ [shipped_row req res content now] \<rparr>"
proof -
  let ?fs = "deliverable_fields req res (dq_mode req) now" and ?flat = "flat_fields req res (dq_mode req) now"
  have mode: "no_control (wtDeliverableModeToString m)" "length (wtDeliverableModeToString m) < 32" for m
    by (cases m; simp)+
  have clean: "clean_fields ?flat"
    using assms(1-4) hex_digest(2) mode
    by (auto simp: flat_fields_def deliverable_fields_def request_texts_ok_def text_ok_def is_alnum_def is_digit_def)
  have vals: "\<forall>v. map_of ?flat k = Some v \<longrightarrow> plain_value v \<and> clean_jval v" for k
    using clean by (auto simp: clean_fields_def wf_fields_def dest!: map_of_SomeD)
  have found: "found (findFieldValue (render_object ?fs) k) (map_of ?flat k)"
    if "key_text k" "k \<notin> {''autonomyProvenance'', ''elevated'', ''autonomyLevel''}" for k
    using find_deliverable that clean by (simp add: clean_fields_def)
  have str: "read_or (render_object ?fs) k n d = str_field ?flat k n d"
    if "key_text k" "k \<notin> {''autonomyProvenance'', ''elevated'', ''autonomyLevel''}" "0 < n" "length d < n" for k n d
    using read_found(1) [OF found [OF that(1,2)] vals, of n] that
    by (auto simp: read_or_read_str str_field_def split: option.split jval.split)
  have num: "read_longlong_or (render_object ?fs) k 0 = num_field ?flat k"
    if "key_text k" "k \<notin> {''autonomyProvenance'', ''elevated'', ''autonomyLevel''}" for k
    using read_found(2) [OF found [OF that] vals]
    by (auto simp: read_longlong_or_def num_field_def split: option.split jval.split)
  have sch: "lineHasSchema (render_object ?fs) x \<longleftrightarrow> x = ''woventeam.deliverable.v0.1''" for x
    unfolding deliverable_fields_def append.simps by (rule schema_first) simp_all
  have "project_line (render_object ?fs @ [NL]) db = projectDeliverable (render_object ?fs) db"
    by (simp add: project_line_def sch)
  then show "project_line (render_object ?fs @ [NL]) db = db \<lparr> deliverables := deliverables db @ [shipped_row req res content now] \<rparr>"
    using assms hex_digest(1) mode(2) [of "dq_mode req"]
    by (simp add: projectDeliverable_def shipped_row_def str num task_sizes)
      (simp add: flat_fields_def deliverable_fields_def str_field_def num_field_def request_texts_ok_def text_ok_def)
qed

lemma deliverable_line:
  assumes "x \<in> {NL, NUL}"
  shows "x \<notin> set (render_object (deliverable_fields req res mode now))"
proof (rule render_object_without [OF assms])
  have "x \<notin> set (show_int v)" for v using assms show_int_plain [of x v] by (auto simp: is_digit_def)
  moreover have "x \<notin> set (escape s)" "x \<notin> set (escape_char ch)" for s ch using assms escape_line escape_char_line by auto
  ultimately show "list_all (\<lambda>f. x \<notin> set (fst f) \<and> x \<notin> set (render_value (snd f))) (deliverable_fields req res mode now)"
    using assms by (cases mode) (auto simp: deliverable_fields_def json_object_def bool_lit_def render_object_def render_field_def)
qed

text \<open>What a successful ship in copy mode has done.\<close>

lemma shipCopy_ok:
  assumes "shipCopy env c req res st = (True, res', st')"
  shows "\<exists>content. res' = res \<lparr> dr_deliverablePath := dr_deliverablePath res' \<rparr> \<and> w_files (ss_world st) (dq_sourcePath req) = Some content \<and>
    w_ledger (ss_world st') = w_ledger (ss_world st) \<and>
    w_files (ss_world st') (dr_deliverablePath res') =
      Some (if names_file (de_same_file env) (dr_deliverablePath res') (dq_sourcePath req) then [] else content)"
  using assms
  by (auto simp: shipCopy_def copy_to_def copyFileBytes_def store_at_def names_file_def bytes_def Let_def split: if_splits prod.splits)

lemma shipped_copy:
  assumes "digest_tool env (dq_sourcePath req) tmp" "dq_mode req = MODE_COPY" "wtDeliverableShip env c req w = (True, res, st)"
  obtains content l st3 where "w_files w (dq_sourcePath req) = Some content"
    and "dr_sha256 res = file_digest content" "dr_sizeBytes res = int (length content)"
    and "dr_deliverableId res = makeShortId ''deliv'' 64 (de_id env)"
    and "\<not> names_file (de_same_file env) (dr_deliverablePath res) (dq_sourcePath req) \<Longrightarrow>
      w_files (ss_world st) (dr_deliverablePath res) = Some content"
    and "appendDeliverableEvent (m_fault (de_moments env 0)) (m_ms (de_moments env 0)) req res (dq_mode req)
      (m_ledger (de_moments env 0) (w_ledger w)) = (True, l)"
    and "st = record_scan env 1 req res st3" "w_ledger (ss_world st3) = l"
proof -
  let ?src = "dq_sourcePath req"
  obtain content where content: "w_files w ?src = Some content"
    using assms(3) by (cases "w_files w ?src") (auto simp: wtDeliverableShip_def Let_def split: if_splits)
  note digest = digest_result [OF assms(1) content]
  let ?res0 = "empty_result \<lparr> dr_deliverableId := makeShortId ''deliv'' WT_DELIVERABLE_ID_SIZE (de_id env),
    dr_scanId := makeShortId ''scan'' WT_DELIVERABLE_ID_SIZE (de_scan env), dr_sha256 := file_digest content,
    dr_sizeBytes := int (length content) \<rparr>"
  let ?st1 = "\<lparr> ss_world = w \<lparr> w_files := (w_files w) (tmp := None) \<rparr>, ss_commands = [sha_command ?src tmp] \<rparr>"
  obtain rc r1 where scan: "wtDeliverableScanFile env c ?src (w_files (ss_world ?st1)) ?res0 = (rc, r1)" by fastforce
  obtain r2 st2 st3 where ship: "shipCopy env c req r1 ?st1 = (True, r2, st2)"
    and rec: "to_ship_ledger (de_moments env 0) (\<lambda>fault ms. appendDeliverableEvent fault ms req r2 (dq_mode req)) st2 = (True, st3)"
    and fin: "res = r2" "st = record_scan env 1 req r2 st3"
    using assms(2,3) content scan
    by (auto simp: wtDeliverableShip_def digest Let_def ship_by_mode_def split: if_splits prod.splits bool.splits)
  note kept = scan_keeps [OF scan]
  have tmp: "tmp \<noteq> ?src" using assms(1) by (simp add: digest_tool_def)
  from shipCopy_ok [OF ship] have r2: "r2 = r1 \<lparr> dr_deliverablePath := dr_deliverablePath r2 \<rparr>"
    and st2: "w_ledger (ss_world st2) = w_ledger w" "w_files (ss_world st2) (dr_deliverablePath r2) =
      Some (if names_file (de_same_file env) (dr_deliverablePath r2) ?src then [] else content)"
    using content tmp by auto
  from r2 have same: "dr_sha256 r2 = dr_sha256 r1" "dr_sizeBytes r2 = dr_sizeBytes r1" "dr_deliverableId r2 = dr_deliverableId r1"
    by (metis WtDeliverableResult.select_convs WtDeliverableResult.surjective WtDeliverableResult.update_convs(2))+
  show ?thesis
    by (rule that [OF content, of "w_ledger (ss_world st3)" st3])
      (use rec fin same st2 kept in \<open>auto simp: to_ship_ledger_def to_ledger_def WT_DELIVERABLE_ID_SIZE_def split: prod.splits\<close>)
qed

lemma escape_partial_set: "set (escape_partial n out s) \<subseteq> set out \<union> set (escape s)"
  by (induction n out s rule: escape_partial.induct) (auto simp: Let_def)

lemma escape_unchecked_line:
  "x \<in> {NL, NUL} \<Longrightarrow> x \<notin> set junk \<Longrightarrow> x \<notin> set (escape_unchecked junk s n)"
  using escape_line [of s] escape_partial_set [of n "[]" s]
  by (auto simp: escape_unchecked_def wtJsonEscape_spec split: option.split)

lemma hits_array_line:
  "x \<in> {NL, NUL} \<Longrightarrow> x \<notin> set junk \<Longrightarrow> x \<notin> set out \<Longrightarrow> x \<notin> set (hits_array junk first out ps)"
proof (induction junk first out ps rule: hits_array.induct)
  case (1 junk first out)
  then show ?case by (auto dest: in_set_takeD)
next
  case (2 junk first out p ps)
  have "x \<notin> set ((if first then [] else '','') @
      render_object [(''pattern'', raw_str (escape_unchecked junk (fst p) 128)), (''count'', JNum (int (snd p)))])"
    using 2(3,4) escape_unchecked_line [of x junk "fst p" 128] show_int_plain [of x "int (snd p)"]
    by (auto simp: render_object_def render_field_def raw_str_def is_digit_def)
  with 2 show ?case by simp
qed

text \<open>The scan record, whatever it says, leaves the deliverables of the read model alone.\<close>

lemma scan_line_project:
  "deliverables (project_line (render_object (scan_fields junk req res mode now) @ [NL]) db) = deliverables db"
proof -
  have "lineHasSchema (render_object (scan_fields junk req res mode now)) x \<longleftrightarrow> x = ''woventeam.secret_scan.v0.1''" for x
    unfolding scan_fields_def by (rule schema_first) simp_all
  then show ?thesis by (simp add: project_line_def projectSecretScan_def Let_def)
qed

lemma scan_record_other:
  assumes "m_ledger (de_moments env k) = id" "m_fault (de_moments env k) = NoFault" "clean_tail (bytes (w_ledger (ss_world st)))"
    and "NL \<notin> set (de_junk env)" "NUL \<notin> set (de_junk env)"
  shows "deliverables (project_ledger (w_ledger (ss_world (record_scan env k req res st)))) =
    deliverables (project_ledger (w_ledger (ss_world st)))"
proof -
  let ?fs = "scan_fields (de_junk env) req res (dq_mode req) (m_ms (de_moments env k))" and ?l = "w_ledger (ss_world st)"
  have line: "x \<notin> set (render_object ?fs)" if "x \<in> {NL, NUL}" for x
  proof (rule render_object_without [OF that])
    have num: "x \<notin> set (show_int v)" for v using that show_int_plain [of x v] by (auto simp: is_digit_def)
    have str: "x \<notin> set (escape s)" "x \<notin> set (escape_char ch)" for s ch using that escape_line escape_char_line by auto
    have "x \<notin> set (hits_array (de_junk env) True ''['' (dr_scanPatterns res))"
      using that assms(4,5) by (intro hits_array_line) auto
    with that num str show "list_all (\<lambda>f. x \<notin> set (fst f) \<and> x \<notin> set (render_value (snd f))) ?fs"
      by (auto simp: scan_fields_def bool_lit_def)
  qed
  have "w_ledger (ss_world (record_scan env k req res st)) = ?l \<or>
      (length (render_object ?fs) < 4096 \<and> w_ledger (ss_world (record_scan env k req res st)) = Some (bytes ?l @ render_object ?fs @ [NL]))"
    using assms(1,2) by (auto simp: record_scan_def to_ship_ledger_def to_ledger_def appendSecretScanEvent_def append_fitting_def
        wtTaskAppendRecord_def write_record_def)
  moreover have "project_ledger (Some (bytes ?l @ render_object ?fs @ [NL])) = project_line (render_object ?fs @ [NL]) (project_ledger ?l)"
    if "length (render_object ?fs) < 4096"
    using file_lines_append_record [OF assms(3), of "render_object ?fs" WT_TASK_LEDGER_LINE_SIZE] line that
    by (simp add: project_ledger_def ledger_lines_def c_string_def task_sizes)
  ultimately show ?thesis using scan_line_project by auto
qed

text \<open>
  C9. The record of a shipped copy is true. When a ship in copy mode succeeds, the delivered file has the
  bytes of the accepted source, and the read model rebuilt from the ledger gains exactly one deliverable:
  the task, initiative, source and destination of the request, the size of those bytes and their SHA-256
  digest. The secret scan that may follow it in the ledger changes none of this.

  It is assumed that \<^verbatim>\<open>sha256sum\<close> does what it documents; that the destination is not the source
  file, under this name or another (\<open>aliased_copy_delivers_nothing\<close> says what happens then); that the texts
  of the request and the destination path fit the columns of the read model and have no control characters;
  that size and time are in range; that the ledger does not end inside a line; that nobody writes between
  the two records and the append of the second does not fail; and that the bytes of an uninitialised buffer
  hold no line end.
\<close>

theorem shipped_copy_recorded:
  assumes "wtDeliverableShip env c req w = (True, res, st)" and "dq_mode req = MODE_COPY"
    and "digest_tool env (dq_sourcePath req) tmp"
    and "\<not> names_file (de_same_file env) (dr_deliverablePath res) (dq_sourcePath req)"
    and "request_texts_ok req" "text_ok 512 (dr_deliverablePath res)"
    and "\<And>content. w_files w (dq_sourcePath req) = Some content \<Longrightarrow> is_long (int (length content))"
    and "is_long (m_ms (de_moments env 0))" "clean_tail (bytes (m_ledger (de_moments env 0) (w_ledger w)))"
    and "m_ledger (de_moments env 1) = id" "m_fault (de_moments env 1) = NoFault"
    and "NL \<notin> set (de_junk env)" "NUL \<notin> set (de_junk env)"
  shows "\<exists>content. w_files w (dq_sourcePath req) = Some content \<and> w_files (ss_world st) (dr_deliverablePath res) = Some content \<and>
    deliverables (project_ledger (w_ledger (ss_world st))) =
      deliverables (project_ledger (m_ledger (de_moments env 0) (w_ledger w))) @
        [shipped_row req res content (m_ms (de_moments env 0))]"
proof -
  let ?now = "m_ms (de_moments env 0)" and ?l0 = "m_ledger (de_moments env 0) (w_ledger w)"
  from shipped_copy [OF assms(3,2,1)] obtain content l st3 where content: "w_files w (dq_sourcePath req) = Some content"
    and res: "dr_sha256 res = file_digest content" "dr_sizeBytes res = int (length content)"
      "dr_deliverableId res = makeShortId ''deliv'' 64 (de_id env)"
    and copied: "w_files (ss_world st) (dr_deliverablePath res) = Some content"
    and rec: "appendDeliverableEvent (m_fault (de_moments env 0)) ?now req res (dq_mode req) ?l0 = (True, l)"
    and st: "st = record_scan env 1 req res st3" "w_ledger (ss_world st3) = l"
    using assms(4) by metis
  let ?fs = "deliverable_fields req res (dq_mode req) ?now"
  have "text_ok 64 (dr_deliverableId res)"
    using res(3) makeShortId_text [of "''deliv''" "de_id env"] by (simp add: text_ok_def)
  note row = project_shipped [OF assms(5) this assms(6) res(1,2) assms(7) [OF content] assms(8)]
  have len: "length (render_object ?fs) < 4096" and l: "bytes l = bytes ?l0 @ render_object ?fs @ [NL]"
    using rec wtTaskAppendRecord_ok [of "m_fault (de_moments env 0)" "dq_fsyncRecord req" "render_object ?fs" ?l0]
    by (auto simp: appendDeliverableEvent_def append_fitting_def split: if_splits)
  have "ledger_lines l = ledger_lines ?l0 @ [render_object ?fs @ [NL]]"
    using file_lines_append_record [OF assms(9), of "render_object ?fs" WT_TASK_LEDGER_LINE_SIZE] len
      deliverable_line [of _ req res "dq_mode req" ?now]
    by (simp add: ledger_lines_def l c_string_def task_sizes)
  then have "deliverables (project_ledger l) = deliverables (project_ledger ?l0) @ [shipped_row req res content ?now]"
    by (simp add: project_ledger_def row)
  moreover have "deliverables (project_ledger (w_ledger (ss_world st))) = deliverables (project_ledger l)"
    using scan_record_other [of env 1 st3 req res] assms(10-13) st l by (simp flip: append_assoc)
  ultimately show ?thesis using content copied by simp
qed

text \<open>
  (A defect.) A destination that is the source file under another name, as a \<open>destBasename\<close> with \<^verbatim>\<open>..\<close>
  makes it, loses the work: the copy succeeds and leaves an empty file.
\<close>

lemma aliased_copy_delivers_nothing:
  assumes "shipCopy env c req res st = (True, res', st')"
    and "names_file (de_same_file env) (dr_deliverablePath res') (dq_sourcePath req)"
  shows "w_files (ss_world st') (dr_deliverablePath res') = Some [] \<and> w_files (ss_world st') (dq_sourcePath req) = Some []"
  using assms
  by (auto simp: shipCopy_def copy_to_def copyFileBytes_def store_at_def names_file_def bytes_def Let_def split: if_splits prod.splits)

section \<open>Sample ships\<close>

definition demo_shell :: "nat \<Rightarrow> string \<Rightarrow> agent_world \<Rightarrow> int \<times> agent_world" where
  "demo_shell k cmd w = (0, w \<lparr> w_files := (w_files w) (''t'' := Some (file_digest (bytes (w_files w ''w/r.md'')) @ ''  '' @ ''w/r.md'' @ [NL])) \<rparr>)"

definition demo_ship :: ship_env where
  "demo_ship = \<lparr> de_moments = (\<lambda>_. \<lparr> m_ledger = id, m_room = id, m_ms = 5, m_fault = NoFault \<rparr>), de_readable = True,
     de_tmp = Some ''t'', de_shell = demo_shell, de_id = (5, None), de_scan = (5, None), de_mkdir = (\<lambda>_. True),
     de_copy_fault = NoFault, de_same_file = (\<lambda>_ _. False), de_left = (\<lambda>_. None), de_git_dir = True, de_regcomp = (\<lambda>_. True), de_regexec = (\<lambda>expr text. strstr text expr \<noteq> None),
     de_junk = [] \<rparr>"

definition demo_ship_request :: "WtDeliverableMode \<Rightarrow> WtDeliverableRequest" where
  "demo_ship_request mode = \<lparr> dq_taskId = ''t1'', dq_initiativeId = ''i1'', dq_sourcePath = ''w/r.md'', dq_destBasename = [],
     dq_mode = mode, dq_reviewer = ''ceo'', dq_createdBy = Some ''ceo'', dq_supersedes = [], dq_repoPath = ''repo'', dq_yesGate = True,
     dq_prTitle = None, dq_prBody = [], dq_autonomyElevated = False, dq_autonomyLevel = ''suggest'', dq_fsyncRecord = True \<rparr>"

definition demo_ship_config :: WtConfig where
  "demo_ship_config = wtConfigInitDefaults \<lparr> deliverableRoot := ''out'', secretScanPatternsFile := ''p'' \<rparr>"

definition demo_ship_world :: "string \<Rightarrow> agent_world" where
  "demo_ship_world content = \<lparr> w_ledger = None, w_room = None, w_files = [''w/r.md'' \<mapsto> content, ''p'' \<mapsto> ''key=AKIA'' @ [NL]] \<rparr>"

lemma demo_digest_tool: "digest_tool demo_ship ''w/r.md'' ''t''"
  by (simp add: digest_tool_def demo_ship_def demo_shell_def)

lemma demo_digest_world:
  "ss_world (digest_world demo_ship (demo_ship_request mode) (demo_ship_world content)) = demo_ship_world content"
  using digest_result [OF demo_digest_tool, of "demo_ship_world content" content]
  by (simp add: digest_world_def demo_ship_request_def demo_ship_world_def fun_upd_idem)

lemma demo_expressions: "scan_expressions demo_ship demo_ship_config (w_files (demo_ship_world content)) = [''AKIA'']"
proof -
  have "file_lines 512 (''key=AKIA'' @ [NL]) = [''key=AKIA'' @ [NL]]" by (rule file_lines_record) simp_all
  moreover have "pattern_line (''key=AKIA'' @ [NL]) = Some (''key'', ''AKIA'')" by code_simp
  ultimately show ?thesis
    by (simp add: scan_expressions_def demo_ship_config_def demo_ship_world_def loadPatterns_def WT_DELIVERABLE_MAX_PATTERNS_def demo_ship_def)
qed

theorem secret_not_published_witness:
  "\<exists>res st. wtDeliverableShip demo_ship demo_ship_config (demo_ship_request MODE_PR) (demo_ship_world ''id AKIA7'') = (False, res, st) \<and>
     length (ss_commands st) \<le> 1"
proof -
  obtain ok res st where r: "wtDeliverableShip demo_ship demo_ship_config (demo_ship_request MODE_PR) (demo_ship_world ''id AKIA7'') = (ok, res, st)"
    using prod_cases3 by blast
  have "secret_in demo_ship demo_ship_config (w_files (ss_world (digest_world demo_ship (demo_ship_request MODE_PR) (demo_ship_world ''id AKIA7''))))
      (dq_sourcePath (demo_ship_request MODE_PR))"
    unfolding demo_digest_world secret_in_def demo_expressions
    by (simp add: demo_ship_world_def demo_ship_request_def scanned_text_def demo_ship_def cstr_def)
  from secret_not_published [OF _ this r] r show ?thesis by (simp add: demo_ship_request_def)
qed

lemma demo_copy:
  "\<exists>res st. wtDeliverableShip demo_ship demo_ship_config (demo_ship_request MODE_COPY) (demo_ship_world ''fine'') = (True, res, st) \<and>
     dr_deliverablePath res = ''out/i1/r.md''"
proof -
  let ?req = "demo_ship_request MODE_COPY" and ?w = "demo_ship_world ''fine''"
  let ?st1 = "\<lparr> ss_world = ?w, ss_commands = [sha_command ''w/r.md'' ''t''] \<rparr>"
  have digest: "wtDeliverableSha256 demo_ship ''w/r.md'' 80 \<lparr> ss_world = ?w, ss_commands = [] \<rparr> = (Some (file_digest ''fine''), 4, ?st1)"
    using digest_result [OF demo_digest_tool, of ?w "''fine''"] by (simp add: demo_ship_world_def fun_upd_idem)
  let ?res0 = "empty_result \<lparr> dr_deliverableId := makeShortId ''deliv'' WT_DELIVERABLE_ID_SIZE (de_id demo_ship),
    dr_scanId := makeShortId ''scan'' WT_DELIVERABLE_ID_SIZE (de_scan demo_ship), dr_sha256 := file_digest ''fine'', dr_sizeBytes := 4 \<rparr>"
  obtain rc r1 where scan: "wtDeliverableScanFile demo_ship demo_ship_config ''w/r.md'' (w_files ?w) ?res0 = (rc, r1)" by fastforce
  have rc: "rc = 0"
    using scan_cases(1) [of demo_ship demo_ship_config "''w/r.md''" "w_files ?w" ?res0] scan by (simp add: demo_ship_world_def split: if_splits)
  have five: "show_int 5 = ''5''" "show_int 4 = ''4''" by code_simp+
  have id: "dr_deliverableId r1 = ''deliv_5''" "dr_sha256 r1 = file_digest ''fine''" "dr_sizeBytes r1 = 4"
    using scan_keeps [OF scan] by (simp_all add: makeShortId_def demo_ship_def WT_DELIVERABLE_ID_SIZE_def five)
  let ?r2 = "r1 \<lparr> dr_deliverablePath := ''out/i1/r.md'' \<rparr>"
  have "root_dir demo_ship_config ?req = ''out/i1''"
    by (simp add: root_dir_def demo_ship_config_def demo_ship_request_def WT_DELIVERABLE_PATH_SIZE_def)
  then have copy: "\<exists>st2. shipCopy demo_ship demo_ship_config ?req r1 ?st1 = (True, ?r2, st2)"
    by (simp add: shipCopy_def copy_to_def copyFileBytes_def store_at_def names_file_def mkdirP_def Let_def demo_ship_def demo_ship_request_def demo_ship_world_def
        dest_base_def base_name_def WT_DELIVERABLE_PATH_SIZE_def list_all_iff)
  have len: "length (escape (file_digest ''fine'')) \<le> 128"
    using length_escape_no_control [OF hex_digest(2), of "''fine''"] hex_digest(1) [of "''fine''"] by simp
  have rec: "fst (appendDeliverableEvent NoFault 5 ?req ?r2 MODE_COPY l)" for l
    using len by (simp add: appendDeliverableEvent_def append_fitting_def id demo_ship_request_def task_sizes WT_DELIVERABLE_PATH_SIZE_def
        WT_DELIVERABLE_ID_SIZE_def escape_char_def deliverable_fields_def json_object_def bool_lit_def length_render_object_simps five
        wtTaskAppendRecord_def write_record_def)
  obtain st2 where copied: "shipCopy demo_ship demo_ship_config ?req r1 ?st1 = (True, ?r2, st2)" using copy by blast
  obtain l where l: "appendDeliverableEvent NoFault 5 ?req ?r2 MODE_COPY (w_ledger (ss_world st2)) = (True, l)"
    using rec [of "w_ledger (ss_world st2)"] by (metis prod.collapse)
  have env: "w_files ?w ''w/r.md'' = Some ''fine''" "de_readable demo_ship"
    "de_moments demo_ship 0 = \<lparr> m_ledger = id, m_room = id, m_ms = 5, m_fault = NoFault \<rparr>" by (simp_all add: demo_ship_world_def demo_ship_def)
  have req: "dq_taskId ?req \<noteq> []" "dq_initiativeId ?req \<noteq> []" "dq_sourcePath ?req = ''w/r.md''" "dq_mode ?req = MODE_COPY"
    by (simp_all add: demo_ship_request_def)
  show ?thesis
    by (simp add: wtDeliverableShip_def env req digest scan rc ship_by_mode_def copied to_ship_ledger_def to_ledger_def l)
qed

theorem shipped_copy_recorded_witness:
  "\<exists>res st. wtDeliverableShip demo_ship demo_ship_config (demo_ship_request MODE_COPY) (demo_ship_world ''fine'') = (True, res, st) \<and>
     w_files (ss_world st) ''out/i1/r.md'' = Some ''fine'' \<and>
     map d_sha256 (deliverables (project_ledger (w_ledger (ss_world st)))) = [file_digest ''fine'']"
proof -
  obtain res st where ship: "wtDeliverableShip demo_ship demo_ship_config (demo_ship_request MODE_COPY) (demo_ship_world ''fine'') = (True, res, st)"
    and path: "dr_deliverablePath res = ''out/i1/r.md''" using demo_copy by blast
  have "request_texts_ok (demo_ship_request MODE_COPY)" by (simp add: request_texts_ok_def demo_ship_request_def text_ok_def)
  moreover have "text_ok 512 (dr_deliverablePath res)" "\<not> names_file (de_same_file demo_ship) (dr_deliverablePath res) (dq_sourcePath (demo_ship_request MODE_COPY))"
    by (simp_all add: path text_ok_def demo_ship_request_def demo_ship_def names_file_def)
  ultimately have "\<exists>content. w_files (demo_ship_world ''fine'') (dq_sourcePath (demo_ship_request MODE_COPY)) = Some content \<and>
      w_files (ss_world st) (dr_deliverablePath res) = Some content \<and>
      deliverables (project_ledger (w_ledger (ss_world st))) =
        deliverables (project_ledger (m_ledger (de_moments demo_ship 0) (w_ledger (demo_ship_world ''fine'')))) @
          [shipped_row (demo_ship_request MODE_COPY) res content (m_ms (de_moments demo_ship 0))]"
    using shipped_copy_recorded [OF ship, of "''t''"] demo_digest_tool
    by (simp add: demo_ship_request_def demo_ship_def demo_ship_world_def c_int_defs)
  then show ?thesis
    using ship path by (auto simp: demo_ship_request_def demo_ship_world_def demo_ship_def shipped_row_def project_ledger_def
        empty_projection_def ledger_lines_def)
qed

end
