(* ===== verification/Json_Text.thy ===== *)
theory Json_Text
  imports Json
begin

text \<open>
  The JSON grammar on byte strings (RFC 8259 without white space; bytes from 128 on are taken as parts of
  UTF-8 characters), against which the documents the program prints are judged. It is defined without
  reference to the printing code: \<open>escape\<close>, \<open>show_int\<close> and \<open>render_object\<close> are shown to produce it.
\<close>

section \<open>Strings\<close>

definition is_hex :: "char \<Rightarrow> bool" where
  "is_hex c \<longleftrightarrow> c \<in> set ''0123456789abcdefABCDEF''"

inductive json_chars :: "string \<Rightarrow> bool" where
  no_char: "json_chars []"
| plain_char: "32 \<le> (of_char c :: nat) \<Longrightarrow> c \<noteq> DQ \<Longrightarrow> c \<noteq> BSL \<Longrightarrow> json_chars s \<Longrightarrow> json_chars (c # s)"
| escaped_char: "e \<in> {DQ, BSL, CHR ''/'', CHR ''b'', CHR ''f'', CHR ''n'', CHR ''r'', CHR ''t''} \<Longrightarrow> json_chars s \<Longrightarrow>
    json_chars (BSL # e # s)"
| coded_char: "is_hex a \<Longrightarrow> is_hex b \<Longrightarrow> is_hex c \<Longrightarrow> is_hex d \<Longrightarrow> json_chars s \<Longrightarrow>
    json_chars (BSL # CHR ''u'' # a # b # c # d # s)"

lemma hex_digit_is_hex: "d < 16 \<Longrightarrow> is_hex (hex_digit d)"
proof -
  assume "d < 16"
  moreover have "list_all (\<lambda>d. is_hex (hex_digit d)) [0..<16]" by code_simp
  ultimately show ?thesis by (simp add: list_all_iff)
qed

lemma json_chars_escape_char: "json_chars s \<Longrightarrow> json_chars (escape_char c @ s)"
proof -
  assume s: "json_chars s"
  have coded: "json_chars (BSL # CHR ''u'' # CHR ''0'' # CHR ''0'' # hex_digit (of_char c div 16) # hex_digit (of_char c mod 16) # s)"
    if "(of_char c :: nat) < 32"
    by (rule coded_char [OF _ _ hex_digit_is_hex hex_digit_is_hex s]) (use that in \<open>simp_all add: is_hex_def\<close>)
  show ?thesis
    using s coded by (auto simp: escape_char_def intro: json_chars.intros)
qed

lemma json_chars_escape: "json_chars (escape s)"
  by (induction s) (simp_all add: json_chars_escape_char no_char)

lemma json_chars_plain: "list_all is_alnum s \<Longrightarrow> json_chars s"
proof (induction s)
  case (Cons c s)
  then have "c \<noteq> DQ" "c \<noteq> BSL" using is_alnum_plain [of c] by simp_all
  moreover have "32 \<le> (of_char c :: nat)" using Cons.prems by (auto simp: is_alnum_def is_digit_def)
  ultimately show ?case using Cons by (simp add: plain_char)
qed (rule no_char)

section \<open>Values\<close>

definition commas :: "string list \<Rightarrow> string" where
  "commas xs = (case xs of [] \<Rightarrow> [] | x # ys \<Rightarrow> x @ concat (map (\<lambda>y. CHR '','' # y) ys))"

fun json_number :: "string \<Rightarrow> bool" where
  "json_number [] = False"
| "json_number (c # s) =
     (if c = CHR ''-'' then s \<noteq> [] \<and> list_all is_digit s \<and> (hd s = CHR ''0'' \<longrightarrow> length s = 1)
      else list_all is_digit (c # s) \<and> (c = CHR ''0'' \<longrightarrow> s = []))"

inductive is_json_text :: "string \<Rightarrow> bool" where
  json_word: "w \<in> {''true'', ''false'', ''null''} \<Longrightarrow> is_json_text w"
| json_num: "json_number s \<Longrightarrow> is_json_text s"
| json_str: "json_chars s \<Longrightarrow> is_json_text (DQ # s @ [DQ])"
| json_arr: "(\<forall>x \<in> set xs. is_json_text x) \<Longrightarrow> is_json_text (''['' @ commas xs @ '']'')"
| json_obj: "(\<forall>(k, v) \<in> set kvs. json_chars k \<and> is_json_text v) \<Longrightarrow>
    is_json_text (''{'' @ commas (map (\<lambda>(k, v). DQ # k @ [DQ, CHR '':''] @ v) kvs) @ ''}'')"

lemma hd_show_nat: "0 < n \<Longrightarrow> hd (show_nat n) \<noteq> CHR ''0''"
proof (induction n rule: show_nat.induct)
  case (1 n)
  show ?case
  proof (cases "n < 10")
    case True
    then have "digit_value (digit_char n) \<noteq> digit_value (CHR ''0'')"
      using 1(2) digit_char_props(2) [OF True] by (simp only:) (simp add: digit_value_def)
    then have "digit_char n \<noteq> CHR ''0''" by metis
    with True show ?thesis by (subst show_nat.simps) simp
  next
    case False
    with 1 have "hd (show_nat (n div 10)) \<noteq> CHR ''0''" by simp
    with False show ?thesis by (subst show_nat.simps) simp
  qed
qed

lemma json_number_show_int: "json_number (show_int v)"
proof -
  have digits: "list_all is_digit (show_nat n)" for n using show_nat_digits [of n] by (simp add: list_all_iff)
  have zero: "show_nat 0 = ''0''" by code_simp
  have first: "hd (show_nat n) = CHR ''0'' \<longrightarrow> show_nat n = ''0''" for n using hd_show_nat [of n] zero by (cases n) auto
  show ?thesis
  proof (cases "v < 0")
    case True
    with digits first [of "nat (- v)"] show ?thesis by (auto simp: show_int_def)
  next
    case False
    obtain c s where cs: "show_nat (nat v) = c # s" using show_nat_nonempty [of "nat v"] by (cases "show_nat (nat v)") auto
    moreover have "c \<noteq> CHR ''-''" using digits [of "nat v"] cs by (auto simp: is_digit_def)
    ultimately show ?thesis using False digits [of "nat v"] first [of "nat v"] by (auto simp: show_int_def)
  qed
qed

fun json_value :: "jval \<Rightarrow> bool" where
  "json_value (JStr s) \<longleftrightarrow> True"
| "json_value (JNum v) \<longleftrightarrow> True"
| "json_value (JLit t) \<longleftrightarrow> is_json_text t"

lemma json_text_value: "json_value v \<Longrightarrow> is_json_text (render_value v)"
  by (cases v) (auto intro: is_json_text.intros json_chars_escape json_number_show_int simp: json_num json_str)

lemma render_fields_commas: "render_fields fs = commas (map render_field fs)"
  by (induction fs rule: render_fields.induct) (simp_all add: commas_def)

text \<open>An object with plain keys and JSON values is a JSON text.\<close>

lemma json_text_object:
  assumes "list_all (\<lambda>f. list_all is_alnum (fst f) \<and> json_value (snd f)) fs"
  shows "is_json_text (render_object fs)"
proof -
  let ?kvs = "map (\<lambda>f. (fst f, render_value (snd f))) fs"
  have "is_json_text (''{'' @ commas (map (\<lambda>(k, v). DQ # k @ [DQ, CHR '':''] @ v) ?kvs) @ ''}'')"
    using assms by (intro json_obj) (auto simp: list_all_iff json_chars_plain json_text_value)
  then show ?thesis by (simp add: render_object_def render_fields_commas comp_def) (simp add: render_field_def [abs_def])
qed

end
