(* ===== verification/Render_Facts.thy ===== *)
theory Render_Facts
  imports Projection_Audit Json_Text
begin

text \<open>
  What the printed documents are: they stay within their buffers, and when no append is left out they
  are JSON texts.
\<close>

section \<open>Buffers\<close>

lemma put_piece_fits: "length out < n \<Longrightarrow> length (put_piece n x out) < n"
  by (cases x) (auto simp: appendRaw_def appendJsonString_def Let_def split: option.splits)

lemma put_pieces_fits: "length out < n \<Longrightarrow> length (put_pieces n ps out) < n"
  by (induction ps arbitrary: out) (auto simp: put_pieces_def put_piece_fits)

text \<open>
  C40. No report overruns its buffer: whatever the database holds, a document and its terminator stay
  within the \<open>n\<close> bytes the reader was given.
\<close>

theorem documents_fit:
  assumes "0 < n"
  shows "pred_option (\<lambda>s. length s < n) (wtTaskProjectionReadSummariesJson db n) \<and>
    length (snd (wtTaskProjectionReadDetailJson db taskId n)) < n \<and>
    pred_option (\<lambda>s. length s < n) (wtTaskProjectionReadInitiativesJson db n) \<and>
    length (snd (wtTaskProjectionReadInitiativeDetailJson db i n)) < n \<and>
    pred_option (\<lambda>s. length s < n) (wtTaskProjectionReadAgentsJson db now n) \<and>
    pred_option (\<lambda>s. length s < n) (wtTaskProjectionReadHeartbeatsJson db n) \<and>
    pred_option (\<lambda>s. length s < n) (wtTaskProjectionReadRecentMilestonesJson db limit n) \<and>
    pred_option (\<lambda>s. length s < n) (wtTaskProjectionReadInitiativeArtifactsJson db i n) \<and>
    length (snd (wtTaskProjectionReadInitiativeAuditJson db db2 ledger i since limit n)) < n"
  using assms put_pieces_fits [of "[]" n] length_snprintf_s [OF assms]
  by (simp_all add: wtTaskProjectionReadSummariesJson_def wtTaskProjectionReadDetailJson_def
      wtTaskProjectionReadInitiativesJson_def wtTaskProjectionReadInitiativeDetailJson_def
      wtTaskProjectionReadAgentsJson_def wtTaskProjectionReadHeartbeatsJson_def
      wtTaskProjectionReadRecentMilestonesJson_def wtTaskProjectionReadInitiativeArtifactsJson_def
      wtTaskProjectionReadInitiativeAuditJson_def option.pred_map Let_def
      split: option.split prod.split bool.split)

theorem documents_fit_witness:
  "length (the (wtTaskProjectionReadHeartbeatsJson (Some empty_projection) 64)) < 64"
proof -
  have "pred_option (\<lambda>s. length s < 64) (wtTaskProjectionReadHeartbeatsJson (Some empty_projection) 64)"
    using documents_fit [of 64 "Some empty_projection"] by simp
  then show ?thesis by (simp add: wtTaskProjectionReadHeartbeatsJson_def)
qed

section \<open>Documents whose appends all succeed\<close>

fun piece_text :: "piece \<Rightarrow> string" where
  "piece_text (Raw t) = t"
| "piece_text (Text t) = render_value (JStr t)"

definition doc_text :: "piece list \<Rightarrow> string" where
  "doc_text ps = concat (map piece_text ps)"

lemma doc_text_simps [simp]:
  "doc_text [] = []" "doc_text (x # ps) = piece_text x @ doc_text ps" "doc_text (ps @ qs) = doc_text ps @ doc_text qs"
  by (simp_all add: doc_text_def)

fun put_ok :: "nat \<Rightarrow> piece \<Rightarrow> string \<Rightarrow> bool" where
  "put_ok n (Raw t) out = snd (appendRaw n t out)"
| "put_ok n (Text t) out = snd (appendJsonString n t out)"

fun all_put :: "nat \<Rightarrow> piece list \<Rightarrow> string \<Rightarrow> bool" where
  "all_put n [] out \<longleftrightarrow> True"
| "all_put n (x # ps) out \<longleftrightarrow> put_ok n x out \<and> all_put n ps (put_piece n x out)"

lemma put_ok_text: "put_ok n x out \<Longrightarrow> put_piece n x out = out @ piece_text x"
  by (cases x) (auto simp: appendRaw_def appendJsonString_def wtJsonEscape_spec Let_def split: if_splits option.splits)

lemma all_put_text: "all_put n ps out \<Longrightarrow> put_pieces n ps out = out @ doc_text ps"
  by (induction ps arbitrary: out) (auto simp: put_pieces_def put_ok_text)

lemma comma_rows_text: "doc_text (comma_rows True pss) = commas (map doc_text pss)"
proof -
  have "doc_text (comma_rows False qss) = concat (map (\<lambda>y. CHR '','' # y) (map doc_text qss))" for qss
    by (induction qss) simp_all
  then show ?thesis by (cases pss) (simp_all add: commas_def)
qed

text \<open>The number blocks fit the local buffers they are printed into.\<close>

lemma number_block_length: "list_all (\<lambda>x. is_long (snd x)) xs \<Longrightarrow> length (number_block xs) \<le> sum_list (map (\<lambda>x. length (fst x) + 24) xs)"
proof (induction xs)
  case (Cons x xs)
  then show ?case using length_show_int [of "snd x"] by (cases x) (simp add: number_block_def quoted_key_def)
qed (simp add: number_block_def)

lemma number_block_fits [simp]:
  "list_all (\<lambda>x. is_long (snd x)) xs \<Longrightarrow> sum_list (map (\<lambda>x. length (fst x) + 24) xs) + length s < n \<Longrightarrow>
   snprintf_s n (number_block xs @ s) = number_block xs @ s"
  using number_block_length [of xs] by simp

lemma length_quoted_key [simp]: "length (quoted_key k) = length k + 3"
  by (simp add: quoted_key_def)

lemma is_long_int32 [simp]: "is_long (to_int32 v)"
proof -
  have "0 \<le> (v + 2 ^ 31) mod 2 ^ 32" "(v + 2 ^ 31) mod 2 ^ 32 < 2 ^ 32" by simp_all
  then show ?thesis by (simp add: to_int32_def is_long_def c_int_defs)
qed

section \<open>Task rows\<close>

definition task_in_range :: "task_row \<Rightarrow> bool" where
  "task_in_range r \<longleftrightarrow> list_all is_long
     [c_max_tokens r, c_created_at_ms r, c_updated_at_ms r, c_lease_expires_at_ms r, c_leased_at_ms r, c_running_at_ms r,
      c_accepted_at_ms r, c_autonomy_ttl_seconds r, c_autonomy_max_wall_clock_seconds r]"

lemma summary_row_json: "task_in_range r \<Longrightarrow> is_json_text (doc_text (summary_pieces r))"
proof -
  assume r: "task_in_range r"
  let ?fs = "[(''taskId'', JStr (c_task_id r)), (''initiativeId'', JStr (c_initiative_id r)), (''parentTaskId'', JStr (c_parent_task_id r)),
    (''requestedByRole'', JStr (c_requested_by_role r)), (''assignedRole'', JStr (c_assigned_role r)), (''assignedAgent'', JStr (c_assigned_agent r)),
    (''modelId'', JStr (c_model_id r)), (''priority'', JStr (c_priority r)), (''status'', JStr (c_status r)), (''title'', JStr (c_title r)),
    (''toolProfile'', JStr (c_tool_profile r)), (''maxTokens'', JNum (c_max_tokens r)), (''createdAtUnixMs'', JNum (c_created_at_ms r)),
    (''updatedAtUnixMs'', JNum (c_updated_at_ms r)), (''eventCount'', JNum (to_int32 (c_event_count r))), (''leaseOwner'', JStr (c_lease_owner r)),
    (''leaseExpiresAtUnixMs'', JNum (c_lease_expires_at_ms r)), (''leasedAtUnixMs'', JNum (c_leased_at_ms r)),
    (''runningAtUnixMs'', JNum (c_running_at_ms r)), (''attemptCount'', JNum (to_int32 (c_attempt_count r))),
    (''failureCause'', JStr (c_failure_cause r)), (''lastReclaimReason'', JStr (c_last_reclaim_reason r)),
    (''reclaimCount'', JNum (to_int32 (c_reclaim_count r))), (''artifactState'', JStr (c_artifact_state r)),
    (''lastReviewer'', JStr (c_last_reviewer r)), (''lastReviewNotes'', JStr (c_last_review_notes r)),
    (''acceptedAtUnixMs'', JNum (c_accepted_at_ms r)), (''acceptedArtifactPath'', JStr (c_accepted_artifact_path r))]"
  have "doc_text (summary_pieces r) = render_object ?fs"
    using r by (simp add: summary_pieces_def task_in_range_def named_value_def)
      (simp add: number_block_def quoted_key_def render_object_def render_field_def)
  moreover have "is_json_text (render_object ?fs)"
    by (rule json_text_object) (simp add: is_alnum_def is_digit_def)
  ultimately show ?thesis by simp
qed

lemma task_line_json: "task_in_range r \<Longrightarrow> is_json_text (doc_text (task_line_pieces r))"
proof -
  assume r: "task_in_range r"
  let ?fs = "map (\<lambda>(k, v). (k, JStr v)) (task_line_keys r) @
    [(''maxTokens'', JNum (c_max_tokens r)), (''createdAtUnixMs'', JNum (c_created_at_ms r)),
     (''updatedAtUnixMs'', JNum (c_updated_at_ms r)), (''eventCount'', JNum (to_int32 (c_event_count r)))]"
  have "doc_text (task_line_pieces r) = render_object ?fs"
    using r by (simp add: task_line_pieces_def task_line_keys_def task_in_range_def)
      (simp add: number_block_def quoted_key_def render_object_def render_field_def)
  moreover have "is_json_text (render_object ?fs)"
    by (rule json_text_object) (simp add: task_line_keys_def is_alnum_def is_digit_def)
  ultimately show ?thesis by simp
qed

lemma artifact_row_json: "task_in_range r \<Longrightarrow> is_json_text (doc_text (artifact_pieces r))"
proof -
  assume r: "task_in_range r"
  let ?fs = "[(''taskId'', JStr (c_task_id r)), (''title'', JStr (c_title r)), (''assignedAgent'', JStr (c_assigned_agent r)),
    (''artifactState'', JStr (c_artifact_state r)), (''lastReviewer'', JStr (c_last_reviewer r)), (''lastReviewNotes'', JStr (c_last_review_notes r)),
    (''acceptedAtUnixMs'', JNum (c_accepted_at_ms r)), (''updatedAtUnixMs'', JNum (c_updated_at_ms r)),
    (''acceptedArtifactPath'', JStr (c_accepted_artifact_path r))]"
  have "doc_text (artifact_pieces r) = render_object ?fs"
    using r by (simp add: artifact_pieces_def task_in_range_def named_value_def)
      (simp add: number_block_def quoted_key_def render_object_def render_field_def)
  moreover have "is_json_text (render_object ?fs)" by (rule json_text_object) (simp add: is_alnum_def is_digit_def)
  ultimately show ?thesis by simp
qed

section \<open>Other rows\<close>

lemma json_array: "(\<And>r. r \<in> set rows \<Longrightarrow> is_json_text (doc_text (f r))) \<Longrightarrow>
  is_json_text (CHR ''['' # doc_text (comma_rows True (map f rows)) @ '']'')"
  using json_arr [of "map (\<lambda>r. doc_text (f r)) rows"] by (auto simp: comma_rows_text comp_def)

lemma heartbeat_row_json:
  assumes "is_long (h_lease_expires_at_ms h)" "is_long (h_last_seen_ms h)"
  shows "is_json_text (doc_text (heartbeat_pieces h))"
proof -
  let ?fs = "[(''agent'', JStr (h_agent h)), (''host'', JStr (h_host h)), (''currentTaskId'', JStr (h_current_task_id h)),
    (''leaseExpiresAtUnixMs'', JNum (h_lease_expires_at_ms h)), (''statusLine'', JStr (h_status_line h)), (''lastSeenUnixMs'', JNum (h_last_seen_ms h))]"
  have "doc_text (heartbeat_pieces h) = render_object ?fs"
    using assms by (simp add: heartbeat_pieces_def named_value_def)
      (simp add: number_block_def quoted_key_def render_object_def render_field_def)
  moreover have "is_json_text (render_object ?fs)" by (rule json_text_object) (simp add: is_alnum_def is_digit_def)
  ultimately show ?thesis by simp
qed

text \<open>A head with a number in front of a key.\<close>

lemma head_fits:
  assumes "is_long i" "length a + length b + 20 < n"
  shows "snprintf_s n (a @ show_int i @ b) = a @ show_int i @ b"
  using length_show_int [OF assms(1)] assms(2) by simp

lemma milestone_row_json:
  assumes "is_long i" "is_long (m_created_at_ms ms)"
  shows "is_json_text (doc_text (milestone_pieces (i, ms)))"
proof -
  let ?fs = "[(''id'', JNum i), (''taskId'', JStr (m_task_id ms)), (''milestone'', JStr (m_milestone ms)), (''message'', JStr (m_message ms)),
    (''createdBy'', JStr (m_created_by ms)), (''createdAtUnixMs'', JNum (m_created_at_ms ms))]"
  have "doc_text (milestone_pieces (i, ms)) = render_object ?fs"
    using assms head_fits [OF assms(1), of "CHR ''{'' # quoted_key ''id''" "CHR '','' # quoted_key ''taskId''" 64]
    by (simp add: milestone_pieces_def named_value_def)
      (simp add: number_block_def quoted_key_def render_object_def render_field_def)
  moreover have "is_json_text (render_object ?fs)" by (rule json_text_object) (simp add: is_alnum_def is_digit_def)
  ultimately show ?thesis by simp
qed

lemma event_row_json:
  assumes "is_long i" "is_long (e_created_at_ms e)"
  shows "is_json_text (doc_text (event_pieces (i, e)))"
proof -
  let ?fs = "[(''id'', JNum i), (''schema'', JStr (e_schema e)), (''eventType'', JStr (e_event_type e)), (''status'', JStr (e_status e)),
    (''assignedAgent'', JStr (e_assigned_agent e)), (''message'', JStr (e_message e)), (''createdBy'', JStr (e_created_by e)),
    (''createdAtUnixMs'', JNum (e_created_at_ms e))]"
  have "doc_text (event_pieces (i, e)) = render_object ?fs"
    using assms head_fits [OF assms(1), of "CHR ''{'' # quoted_key ''id''" "'',''" 256]
    by (simp add: event_pieces_def) (simp add: number_block_def quoted_key_def render_object_def render_field_def)
  moreover have "is_json_text (render_object ?fs)" by (rule json_text_object) (simp add: is_alnum_def is_digit_def)
  ultimately show ?thesis by simp
qed

section \<open>Aggregates\<close>

lemma findSomeD: "find P xs = Some x \<Longrightarrow> P x \<and> x \<in> set xs"
  by (induction xs) (auto split: if_splits)

lemma is_long_zero [simp]: "is_long 0"
  by (simp add: is_long_def c_int_defs)

lemma sql_sum_long: "sql_sum acc xs = Some s \<Longrightarrow> is_long acc \<Longrightarrow> is_long s"
  by (induction acc xs rule: sql_sum.induct) (auto split: if_splits)

lemma sql_extrema_long:
  assumes "list_all is_long xs"
  shows "is_long (sql_min xs)" "is_long (sql_max xs)"
proof -
  have fold_in: "fold f xs x \<in> insert x (set xs)" if "\<And>a b. f a b \<in> {a, b}" for f :: "int \<Rightarrow> int \<Rightarrow> int" and xs x
  proof (induction xs arbitrary: x)
    case (Cons y xs)
    with that [of y x] show ?case by fastforce
  qed simp
  have "fold min ys y \<in> insert y (set ys)" for ys and y :: int by (rule fold_in) (simp add: min_def)
  moreover have "fold max ys y \<in> insert y (set ys)" for ys and y :: int by (rule fold_in) (simp add: max_def)
  ultimately have "is_long (fold min ys y) \<and> is_long (fold max ys y)" if "list_all is_long (y # ys)" for y and ys :: "int list"
    using that unfolding list_all_iff by (metis list.set(2))
  with assms show "is_long (sql_min xs)" "is_long (sql_max xs)" by (cases xs; simp)+
qed

text \<open>An object that ends in a block of numbers.\<close>

definition numbers :: "(string \<times> int) list \<Rightarrow> (string \<times> jval) list" where
  "numbers xs = map (\<lambda>(k, v). (k, JNum v)) xs"

lemma object_with_numbers:
  assumes "fs \<noteq> []"
  shows "render_object (fs @ numbers xs) = ''{'' @ render_fields fs @ number_block xs @ ''}''"
proof -
  have one: "render_fields (f # gs) = render_field f @ concat (map (\<lambda>f. CHR '','' # render_field f) gs)" for f gs
    by (induction gs arbitrary: f) simp_all
  have "concat (map (\<lambda>f. CHR '','' # render_field f) (numbers xs)) = number_block xs"
    by (induction xs) (auto simp: numbers_def number_block_def render_field_def quoted_key_def)
  with assms show ?thesis by (cases fs) (simp_all add: render_object_def one)
qed

lemma number_keys_json: "list_all (\<lambda>x. list_all is_alnum (fst x)) xs \<Longrightarrow>
  list_all (\<lambda>f. list_all is_alnum (fst f) \<and> json_value (snd f)) (numbers xs)"
  by (auto simp: numbers_def list_all_iff)

lemma initiative_numbers_ok:
  assumes "list_all task_in_range rows" and s: "sql_sum 0 (map c_max_tokens rows) = Some s"
  shows "list_all (\<lambda>x. is_long (snd x)) (initiative_numbers (open_gates rows) s rows)"
    and "list_all (\<lambda>x. list_all is_alnum (fst x)) (initiative_numbers (open_gates rows) s rows)"
    and "length (number_block (initiative_numbers (open_gates rows) s rows)) + 20 < 512"
proof -
  have "is_long s" "is_long (sql_min (map c_created_at_ms rows))" "is_long (sql_max (map c_updated_at_ms rows))"
    using sql_sum_long [OF s] assms(1) by (auto simp: list_all_iff task_in_range_def intro!: sql_extrema_long)
  then show long: "list_all (\<lambda>x. is_long (snd x)) (initiative_numbers (open_gates rows) s rows)"
    and "list_all (\<lambda>x. list_all is_alnum (fst x)) (initiative_numbers (open_gates rows) s rows)"
    by (simp_all add: initiative_numbers_def open_gates_def count_where_def is_alnum_def is_digit_def)
  show "length (number_block (initiative_numbers (open_gates rows) s rows)) + 20 < 512"
    using number_block_length [OF long] by (simp add: initiative_numbers_def open_gates_def)
qed

lemma initiative_row_json:
  assumes "list_all task_in_range (tasks p)" and "i \<in> set (initiative_ids p)"
  shows "is_json_text (doc_text (initiative_pieces p i))"
proof -
  let ?rows = "initiative_rows i p"
  have rows: "list_all task_in_range ?rows" using assms(1) by (auto simp: initiative_rows_def list_all_iff)
  obtain s where s: "sql_sum 0 (map c_max_tokens ?rows) = Some s"
    using assms(2) by (fastforce simp: initiative_ids_def Let_def list_all_iff split: if_splits dest!: in_set_takeD)
  let ?ns = "initiative_numbers (open_gates ?rows) s ?rows"
  note ns = initiative_numbers_ok [OF rows s]
  let ?fs = "[(''initiativeId'', JStr i), (''title'', JStr (first_title ?rows))] @ numbers ?ns"
  have "doc_text (initiative_pieces p i) = render_object ?fs"
    using ns(3) object_with_numbers [of "[(''initiativeId'', JStr i), (''title'', JStr (first_title ?rows))]" ?ns]
    by (simp add: initiative_pieces_def named_value_def Let_def s quoted_key_def render_field_def)
  moreover have "is_json_text (render_object ?fs)"
    using number_keys_json [OF ns(2)] by (intro json_text_object) (simp add: is_alnum_def is_digit_def)
  ultimately show ?thesis by simp
qed

lemma agent_row_json:
  assumes "list_all task_in_range (tasks p)" and "list_all (\<lambda>k. is_long (k_updated_at_ms k)) (agent_controls p)"
  shows "is_json_text (doc_text (appendAgentWorkload p who now))"
proof -
  let ?rows = "filter (\<lambda>r. c_assigned_agent r = who) (tasks p)"
  define v where "v = (case find (\<lambda>k. k_agent k = who) (agent_controls p) of
           Some k \<Rightarrow> (snprintf_s 32 (k_state k), snprintf_s WT_TASK_TITLE_SIZE (k_message k), k_updated_at_ms k)
         | None \<Rightarrow> (''active'', [], 0))"
  obtain state message at where at: "v = (state, message, at)" by (metis prod_cases3)
  have "is_long at"
  proof (cases "find (\<lambda>k. k_agent k = who) (agent_controls p)")
    case (Some k)
    then have "k \<in> set (agent_controls p)" by (rule findSomeD [THEN conjunct2])
    with assms(2) have "is_long (k_updated_at_ms k)" by (simp add: list_all_iff)
    with at Some show ?thesis by (simp add: v_def)
  next
    case None
    with at show ?thesis by (simp add: v_def)
  qed
  let ?ns = "workload_numbers now ?rows at"
  have "is_long (sql_max (map c_updated_at_ms ?rows))"
    using assms(1) by (auto simp: list_all_iff task_in_range_def intro!: sql_extrema_long)
  with \<open>is_long at\<close> have ns: "list_all (\<lambda>x. is_long (snd x)) ?ns" "list_all (\<lambda>x. list_all is_alnum (fst x)) ?ns"
    by (auto simp: workload_numbers_def count_where_def is_alnum_def is_digit_def split: option.split)
  let ?fs = "[(''agent'', JStr who), (''state'', JStr state), (''message'', JStr message)] @ numbers ?ns"
  have "length (number_block ?ns) + 1 < 512"
    using number_block_length [OF ns(1)] by (simp add: workload_numbers_def split: option.splits)
  then have "doc_text (appendAgentWorkload p who now) = render_object ?fs"
    using object_with_numbers [of "[(''agent'', JStr who), (''state'', JStr state), (''message'', JStr message)]" ?ns]
    by (simp flip: v_def add: appendAgentWorkload_def at named_value_def quoted_key_def render_field_def)
  moreover have "is_json_text (render_object ?fs)"
    using number_keys_json [OF ns(2)] by (intro json_text_object) (simp add: is_alnum_def is_digit_def)
  ultimately show ?thesis by simp
qed

lemma detail_object_json:
  assumes "task_in_range r"
  shows "\<exists>t. is_json_text t \<and> doc_text (detail_pieces r) = ''{'' @ quoted_key ''ok'' @ ''true,'' @ quoted_key ''task'' @ t @ '','' @ quoted_key ''events'' @ ''[''"
proof -
  let ?grant = "[(''scope'', JStr (c_autonomy_scope r)), (''network'', JStr (c_autonomy_network r)),
    (''credentialClass'', JStr (c_autonomy_credential_class r)), (''ttlSeconds'', JNum (c_autonomy_ttl_seconds r)),
    (''maxWallClockSeconds'', JNum (c_autonomy_max_wall_clock_seconds r)),
    (''requiresCleanWorktree'', JLit (json_bool (to_int32 (c_autonomy_requires_clean_worktree r) \<noteq> 0)))]"
  let ?fs = "[(''taskId'', JStr (c_task_id r)), (''initiativeId'', JStr (c_initiative_id r)), (''parentTaskId'', JStr (c_parent_task_id r)),
    (''requestedByRole'', JStr (c_requested_by_role r)), (''assignedRole'', JStr (c_assigned_role r)), (''assignedAgent'', JStr (c_assigned_agent r)),
    (''modelId'', JStr (c_model_id r)), (''priority'', JStr (c_priority r)), (''status'', JStr (c_status r)), (''title'', JStr (c_title r)),
    (''body'', JStr (c_body r)), (''toolProfile'', JStr (c_tool_profile r)), (''autonomyLevel'', JStr (c_autonomy_level r)),
    (''autonomyGrant'', JLit (render_object ?grant)),
    (''maxTokens'', JNum (c_max_tokens r)), (''createdAtUnixMs'', JNum (c_created_at_ms r)),
    (''updatedAtUnixMs'', JNum (c_updated_at_ms r)), (''eventCount'', JNum (to_int32 (c_event_count r))), (''leaseOwner'', JStr (c_lease_owner r)),
    (''leaseExpiresAtUnixMs'', JNum (c_lease_expires_at_ms r)), (''leasedAtUnixMs'', JNum (c_leased_at_ms r)),
    (''runningAtUnixMs'', JNum (c_running_at_ms r)), (''attemptCount'', JNum (to_int32 (c_attempt_count r))),
    (''failureCause'', JStr (c_failure_cause r)), (''lastReclaimReason'', JStr (c_last_reclaim_reason r)),
    (''reclaimCount'', JNum (to_int32 (c_reclaim_count r))), (''artifactState'', JStr (c_artifact_state r)),
    (''lastReviewer'', JStr (c_last_reviewer r)), (''lastReviewNotes'', JStr (c_last_review_notes r)),
    (''acceptedAtUnixMs'', JNum (c_accepted_at_ms r)), (''acceptedArtifactPath'', JStr (c_accepted_artifact_path r))]"
  have bool: "is_json_text (json_bool b)" "length (json_bool b) \<le> 5" for b by (simp_all add: json_bool_def json_word)
  have grant: "is_json_text (render_object ?grant)" by (rule json_text_object) (simp add: is_alnum_def is_digit_def bool)
  have "is_json_text (render_object ?fs)" by (rule json_text_object) (simp add: is_alnum_def is_digit_def grant)
  moreover have "doc_text (detail_pieces r) = ''{'' @ quoted_key ''ok'' @ ''true,'' @ quoted_key ''task'' @ render_object ?fs @ '','' @ quoted_key ''events'' @ ''[''"
    using assms bool(2) [of "to_int32 (c_autonomy_requires_clean_worktree r) \<noteq> 0"]
    by (simp add: detail_pieces_def task_in_range_def named_value_def)
      (simp add: number_block_def quoted_key_def render_object_def render_field_def)
  ultimately show ?thesis by blast
qed

end
