(* ===== verification/Json_Documents.thy ===== *)
theory Json_Documents
  imports Render_Facts Projection_Facts
begin

text \<open>
  The reports on a rebuilt database are JSON texts: the numbers of every rebuilt row have 64 bits, so no
  number block is cut, and the rows are objects of escaped texts and numbers.
\<close>

section \<open>The numbers of a rebuilt database\<close>

definition numbers_in_range :: "projection \<Rightarrow> bool" where
  "numbers_in_range p \<longleftrightarrow> list_all task_in_range (tasks p) \<and> list_all (\<lambda>k. is_long (k_updated_at_ms k)) (agent_controls p) \<and>
     list_all (\<lambda>h. is_long (h_lease_expires_at_ms h) \<and> is_long (h_last_seen_ms h)) (heartbeats p) \<and>
     list_all (\<lambda>m. is_long (m_created_at_ms m)) (milestones p) \<and> list_all (\<lambda>e. is_long (e_created_at_ms e)) (task_events p)"

lemma read_or_long [simp]: "is_long d \<Longrightarrow> is_long (read_longlong_or line key d)" "is_long d \<Longrightarrow> is_long (read_long_or line key d)"
  by (auto simp: read_longlong_or_def read_long_or_def split: option.split dest: wtJsonReadLongLong_is_long wtJsonReadLong_is_long)

lemma package_in_range: "task_in_range (package_row line)"
  by (simp add: package_row_def task_in_range_def Let_def)

lemma merge_in_range: "task_in_range old \<Longrightarrow> task_in_range new \<Longrightarrow> task_in_range (merge_package old new)"
  by (simp add: merge_package_def task_in_range_def max_def)

lemma event_in_range: "task_in_range r \<Longrightarrow> task_in_range (apply_event (read_event line schema) r)"
  by (simp add: apply_event_def read_event_def task_in_range_def Let_def max_def)

lemma event_row_in_range: "is_long (e_created_at_ms (ev_row (read_event line schema)))"
  by (simp add: read_event_def)

lemma upsert_all: "list_all P table \<Longrightarrow> P row \<Longrightarrow> (\<And>old. P old \<Longrightarrow> P (merge old row)) \<Longrightarrow> list_all P (upsert key merge row table)"
  by (auto simp: list_all_iff upsert_def)

lemma project_line_in_range:
  assumes "numbers_in_range db"
  shows "numbers_in_range (project_line line db)"
proof -
  have "numbers_in_range (projectPackage l db)" for l
    using assms by (auto simp: numbers_in_range_def projectPackage_def intro!: upsert_all package_in_range merge_in_range)
  moreover have "numbers_in_range (insertEvent l s db)" for l s
    using assms by (auto simp: numbers_in_range_def insertEvent_def Let_def update_where_def list_all_iff
        intro: event_in_range event_row_in_range)
  moreover have "numbers_in_range (projectAgentControl l db)" "numbers_in_range (projectHeartbeat l db)" for l
    using assms by (auto simp: numbers_in_range_def projectAgentControl_def projectHeartbeat_def replace_row_def Let_def intro!: upsert_all)
  moreover have "numbers_in_range (projectMilestone l db)" "numbers_in_range (projectKillEvent l db)"
    "numbers_in_range (projectDeliverable l db)" "numbers_in_range (projectSecretScan l db)" for l
    using assms by (simp_all add: numbers_in_range_def projectMilestone_def projectKillEvent_def projectDeliverable_def projectSecretScan_def)
  ultimately show ?thesis using assms by (simp add: project_line_def Let_def)
qed

lemma project_line_lengths:
  "length (task_events (project_line line db)) \<le> Suc (length (task_events db))"
  "length (milestones (project_line line db)) \<le> Suc (length (milestones db))"
  by (simp_all add: project_line_def projectPackage_def insertEvent_def projectAgentControl_def projectHeartbeat_def
      projectMilestone_def projectKillEvent_def projectDeliverable_def projectSecretScan_def Let_def)

lemma project_ledger_in_range:
  "numbers_in_range (project_ledger ledger)"
  "length (task_events (project_ledger ledger)) \<le> length (ledger_lines ledger)"
  "length (milestones (project_ledger ledger)) \<le> length (ledger_lines ledger)"
proof -
  have "numbers_in_range (fold project_line ls db) \<and>
      length (task_events (fold project_line ls db)) \<le> length ls + length (task_events db) \<and>
      length (milestones (fold project_line ls db)) \<le> length ls + length (milestones db)" if "numbers_in_range db" for ls db
    using that
  proof (induction ls arbitrary: db)
    case (Cons l ls)
    from Cons.IH [OF project_line_in_range [OF Cons.prems]] show ?case
      using project_line_lengths [of l db] by (fastforce intro: le_trans)
  qed simp
  from this [of empty_projection "ledger_lines ledger"]
  show "numbers_in_range (project_ledger ledger)"
    "length (task_events (project_ledger ledger)) \<le> length (ledger_lines ledger)"
    "length (milestones (project_ledger ledger)) \<le> length (ledger_lines ledger)"
    by (simp_all add: project_ledger_def numbers_in_range_def empty_projection_def)
qed

section \<open>The documents\<close>

definition is_json :: "string \<Rightarrow> bool" where
  "is_json s \<longleftrightarrow> is_json_text s \<or> s \<noteq> [] \<and> last s = NL \<and> is_json_text (butlast s)"

lemma is_json_line: "is_json_text s \<Longrightarrow> is_json (s @ [NL])" "is_json_text s \<Longrightarrow> is_json s"
  by (simp_all add: is_json_def)

text \<open>The documents the readers print on a database.\<close>

inductive report :: "projection \<Rightarrow> piece list \<Rightarrow> bool" where
  summaries: "report p (summaries_document p)"
| detail: "r \<in> set (tasks p) \<Longrightarrow> report p (detail_document p r)"
| initiatives: "report p (initiatives_document p)"
| initiative: "sql_sum 0 (map c_max_tokens (initiative_rows i p)) = Some s \<Longrightarrow> report p (initiative_document i s (initiative_rows i p))"
| agents: "report p (agents_document now p)"
| heartbeats: "report p (heartbeats_document p)"
| milestones: "report p (milestones_document limit p)"

lemma with_ids_long:
  assumes "is_long (int (length rows))" and "(i, x) \<in> set (with_ids rows)"
  shows "is_long i \<and> x \<in> set rows"
proof -
  have "i \<in> set (map int [1..<length rows + 1])" "x \<in> set rows"
    using assms(2) unfolding with_ids_def by (rule set_zip_leftD, rule set_zip_rightD)
  with assms(1) show ?thesis by (auto simp: is_long_def c_int_defs simp del: upt_Suc)
qed

lemma list_field_json:
  assumes "is_json_text arr"
  shows "is_json_text (''{'' @ quoted_key ''ok'' @ ''true,'' @ quoted_key ''initiatives'' @ arr @ ''}'')"
    and "is_json_text (''{'' @ quoted_key ''ok'' @ ''true,'' @ quoted_key ''agents'' @ arr @ ''}'')"
proof -
  have "is_json_text (render_object [(''ok'', JLit ''true''), (k, JLit arr)])" if "list_all is_alnum k" for k
    using that assms by (intro json_text_object) (simp add: json_word is_alnum_def is_digit_def)
  from this [of "''initiatives''"] this [of "''agents''"]
  show "is_json_text (''{'' @ quoted_key ''ok'' @ ''true,'' @ quoted_key ''initiatives'' @ arr @ ''}'')"
    and "is_json_text (''{'' @ quoted_key ''ok'' @ ''true,'' @ quoted_key ''agents'' @ arr @ ''}'')"
    by (simp_all add: render_object_def render_field_def quoted_key_def is_alnum_def is_digit_def)
qed

lemma detail_document_json:
  assumes "numbers_in_range p" "is_long (int (length (task_events p)))" "r \<in> set (tasks p)"
  shows "is_json (doc_text (detail_document p r))"
proof -
  let ?rows = "filter (\<lambda>(i, e). e_task_id e = c_task_id r) (with_ids (task_events p))"
  obtain t where t: "is_json_text t" "doc_text (detail_pieces r) =
      ''{'' @ quoted_key ''ok'' @ ''true,'' @ quoted_key ''task'' @ t @ '','' @ quoted_key ''events'' @ ''[''"
    using detail_object_json [of r] assms(1,3) unfolding numbers_in_range_def list_all_iff by blast
  let ?arr = "CHR ''['' # doc_text (comma_rows True (map event_pieces ?rows)) @ '']''"
  have "is_json_text ?arr"
    using assms(1) with_ids_long [OF assms(2)]
    by (intro json_array) (auto simp: numbers_in_range_def list_all_iff intro!: event_row_json)
  then have "is_json_text (render_object [(''ok'', JLit ''true''), (''task'', JLit t), (''events'', JLit ?arr)])"
    using t(1) by (intro json_text_object) (simp add: json_word is_alnum_def is_digit_def)
  moreover have "doc_text (detail_document p r) = render_object [(''ok'', JLit ''true''), (''task'', JLit t), (''events'', JLit ?arr)]"
    by (simp add: detail_document_def t(2) render_object_def render_field_def quoted_key_def)
  ultimately show ?thesis by (simp add: is_json_def)
qed

lemma initiative_document_json:
  assumes "numbers_in_range p" and s: "sql_sum 0 (map c_max_tokens (initiative_rows i p)) = Some s"
  shows "is_json (doc_text (initiative_document i s (initiative_rows i p)))"
proof -
  let ?rows = "initiative_rows i p"
  let ?ns = "initiative_numbers (open_gates ?rows) s ?rows"
  let ?fs = "[(''initiativeId'', JStr i), (''title'', JStr (first_title ?rows))]"
  let ?arr = "CHR ''['' # doc_text (comma_rows True (map task_line_pieces (take 200 (sort_key (\<lambda>r. (newest_first r, c_task_id r)) ?rows)))) @ '']''"
  have rows: "list_all task_in_range ?rows" using assms(1) by (auto simp: numbers_in_range_def initiative_rows_def list_all_iff)
  then have arr: "is_json_text ?arr" by (intro json_array task_line_json) (auto simp: list_all_iff dest: in_set_takeD)
  note ns = initiative_numbers_ok [OF rows s]
  have obj: "is_json_text (render_object (?fs @ numbers ?ns))"
    using number_keys_json [OF ns(2)] by (intro json_text_object) (simp add: is_alnum_def is_digit_def)
  with arr have "is_json_text (render_object [(''ok'', JLit ''true''), (''initiative'', JLit (render_object (?fs @ numbers ?ns))), (''tasks'', JLit ?arr)])"
    by (intro json_text_object) (simp add: json_word is_alnum_def is_digit_def)
  moreover have "doc_text (initiative_document i s ?rows) =
      render_object [(''ok'', JLit ''true''), (''initiative'', JLit (render_object (?fs @ numbers ?ns))), (''tasks'', JLit ?arr)] @ [NL]"
    using ns(3) object_with_numbers [of ?fs ?ns]
    by (simp add: initiative_document_def named_value_def render_object_def render_field_def quoted_key_def)
  ultimately show ?thesis by (simp add: is_json_line)
qed

text \<open>
  C12. Reports are JSON. On the database rebuilt from any ledger, whatever texts and numbers its records
  hold, every report (task summaries, task detail, initiatives, initiative detail, agents, heartbeats,
  milestones) is one well-formed JSON text, with at most a line feed behind it, provided it fits its
  buffer so that no append is left out.
\<close>

theorem reports_are_json:
  assumes "is_long (int (length (ledger_lines ledger)))"
    and "report (project_ledger ledger) document" and "all_put n document []"
  shows "is_json (put_pieces n document [])"
proof -
  let ?p = "project_ledger ledger"
  have range: "numbers_in_range ?p" "is_long (int (length (task_events ?p)))" "is_long (int (length (milestones ?p)))"
    using assms(1) project_ledger_in_range [of ledger] by (auto simp: is_long_def c_int_defs)
  have rows: "list_all task_in_range (tasks ?p)" "list_all (\<lambda>k. is_long (k_updated_at_ms k)) (agent_controls ?p)"
    using range(1) by (simp_all add: numbers_in_range_def)
  note array = is_json_line(2) [OF json_array]
  from assms(2) have "is_json (doc_text document)"
  proof cases
    case summaries
    with rows show ?thesis
      by (auto simp: summaries_document_def list_all_iff intro!: array summary_row_json dest!: in_set_takeD)
  next
    case (detail r)
    with range(1,2) show ?thesis by (auto intro!: detail_document_json)
  next
    case initiatives
    have "is_json_text (CHR ''['' # doc_text (comma_rows True (map (initiative_pieces ?p) (initiative_ids ?p))) @ '']'')"
      using rows(1) by (intro json_array initiative_row_json)
    from is_json_line(1) [OF list_field_json(1) [OF this]] show ?thesis by (simp add: initiatives initiatives_document_def)
  next
    case (initiative i s)
    with range(1) show ?thesis by (auto intro!: initiative_document_json)
  next
    case (agents now)
    let ?row = "\<lambda>who. appendAgentWorkload ?p who now"
    have "is_json_text (CHR ''['' # doc_text (comma_rows True (map ?row [''claude'', ''chatgpt'', ''gemini''])) @ '']'')"
      by (intro json_array agent_row_json rows)
    from is_json_line(1) [OF list_field_json(2) [OF this]] show ?thesis by (simp add: agents agents_document_def)
  next
    case heartbeats
    with range(1) show ?thesis
      by (auto simp: heartbeats_document_def numbers_in_range_def list_all_iff intro!: array heartbeat_row_json)
  next
    case (milestones limit)
    with range(1) show ?thesis
      by (auto simp: milestones_document_def numbers_in_range_def list_all_iff
          intro!: array milestone_row_json dest!: in_set_takeD with_ids_long [OF range(3)])
  qed
  with all_put_text [OF assms(3)] show ?thesis by simp
qed

text \<open>An idle team.\<close>

lemma all_put_fits:
  "length out + length (doc_text ps) + 1 < n \<Longrightarrow> list_all (\<lambda>x. case x of Raw t \<Rightarrow> True | Text t \<Rightarrow> length (escape t) < WT_TASK_BODY_SIZE * 2) ps \<Longrightarrow>
   all_put n ps out"
proof (induction ps arbitrary: out)
  case (Cons x ps)
  have "put_ok n x out"
    using Cons.prems by (cases x) (auto simp: appendRaw_def appendJsonString_def wtJsonEscape_spec Let_def)
  with Cons.prems put_ok_text [OF this] show ?case by (simp add: Cons.IH)
qed simp

theorem reports_are_json_witness:
  "is_json (put_pieces 4096 (agents_document 0 (project_ledger None)) [])"
proof (rule reports_are_json)
  have empty: "project_ledger None = empty_projection" "ledger_lines None = []"
    by (simp_all add: project_ledger_def ledger_lines_def)
  then show "is_long (int (length (ledger_lines None)))" by simp
  show "report (project_ledger None) (agents_document 0 (project_ledger None))" by (rule report.agents)
  have zero: "show_int 0 = ''0''" by code_simp
  show "all_put 4096 (agents_document 0 (project_ledger None)) []"
    by (rule all_put_fits)
      (simp_all add: empty agents_document_def appendAgentWorkload_def empty_projection_def named_value_def workload_numbers_def
        count_where_def number_block_def quoted_key_def zero to_int32_def task_sizes escape_char_def)
qed

end
