(* ===== verification/Audit_Facts.thy ===== *)
theory Audit_Facts
  imports Projection_Audit Json_Documents
begin

text \<open>
  What the audit export promises: without a limit, or under a limit it does not reach, and as long as
  everything fits its buffers, it is the document that lists every record of the initiative (stated here
  on the read model and the ledger, not through the code's own selection and printing); and what its pages
  lose when the limit is reached.
\<close>

section \<open>Loops that stay under the limit\<close>


definition counted_all :: "int list \<Rightarrow> audit_count \<Rightarrow> audit_count" where
  "counted_all ts a = fold counted ts a"

lemma counted_all_simps [simp]:
  "au_emitted (counted_all ts a) = au_emitted a + int (length ts)"
  "au_truncated (counted_all ts a) = au_truncated a"
  "counted_all [] a = a" "counted_all (t # ts) a = counted_all ts (counted t a)"
  "counted_all (ts @ ts') a = counted_all ts' (counted_all ts a)"
  by (induction ts arbitrary: a) (simp_all add: counted_all_def counted_def)


lemma counted_emitted [simp]: "au_emitted (counted t a) = au_emitted a + 1" "au_truncated (counted t a) = au_truncated a"
  by (simp_all add: counted_def)





section \<open>The export the documentation asks for\<close>


definition not_before :: "int \<Rightarrow> int \<Rightarrow> bool" where
  "not_before since ms \<longleftrightarrow> since = 0 \<or> since \<le> ms"














section \<open>The selection is the one asked for\<close>

lemma since_filter_spec [simp]: "since_filter since ms \<longleftrightarrow> not_before since ms"
  by (simp add: since_filter_def not_before_def)










section \<open>The printing is the one asked for\<close>


definition small_text :: "string \<Rightarrow> bool" where
  "small_text s \<longleftrightarrow> length (escape s) < WT_TASK_BODY_SIZE * 2"

definition small_piece :: "piece \<Rightarrow> bool" where
  "small_piece x = (case x of Raw t \<Rightarrow> True | Text t \<Rightarrow> length (escape t) < WT_TASK_BODY_SIZE * 2)"

lemma small_piece_simps [simp]: "small_piece (Raw t)" "small_piece (Text t) \<longleftrightarrow> small_text t"
  by (simp_all add: small_piece_def small_text_def)


















section \<open>Completeness\<close>











section \<open>What a full page loses\<close>

lemma emit_rows_page:
  "0 < limit \<Longrightarrow> au_emitted a \<le> limit \<Longrightarrow> limit \<le> au_emitted a + int (length rs) \<Longrightarrow>
   limit_hit limit (snd (emit_rows limit ms rs a)) \<and> au_latest a \<le> au_latest (snd (emit_rows limit ms rs a))"
proof (induction rs arbitrary: a)
  case (Cons r rs)
  show ?case
  proof (cases "limit_hit limit a")
    case False
    then have "au_emitted (counted (ms r) a) \<le> limit" using Cons.prems by (simp add: limit_hit_def)
    with Cons.IH [of "counted (ms r) a"] Cons.prems False show ?thesis
      by (auto simp: case_prod_beta counted_def split: if_splits)
  qed (simp add: limit_hit_def)
qed (simp add: limit_hit_def)

text \<open>
  (A defect.) When the events alone fill a page, the page has no policy decision and no usage record,
  and the cursor it hands out lies behind the newest of its events: ledger records older than that are on no
  later page either.
\<close>

lemma full_page_loses_records:
  assumes "0 < limit" and "limit \<le> int (length events)"
    and "emit_rows limit ms events no_count = (page, a)"
  shows "fst (audit_lines limit ids i since lines a) = [] \<and>
    (read_longlong_or line ''createdAtUnixMs'' 0 \<le> au_latest a \<longrightarrow> audit_selects ids i (au_latest a + 1) line = None)"
proof -
  have a: "limit_hit limit a" "0 \<le> au_latest a"
    using emit_rows_page [of limit no_count events ms] assms by (auto simp: no_count_def)
  moreover from a(1) have "fst (audit_lines limit ids i since lines a) = []" by (cases lines) simp_all
  ultimately show ?thesis
    by (auto simp: audit_selects_def split: option.splits)
qed

end
