(* ===== verification/Shell_Words.thy ===== *)
theory Shell_Words
  imports C_Strings
begin

text \<open>
  The reading of a command line by the shell, against which the programs that build command lines are
  judged: blanks separate words, single quotes keep everything up to the next one, a backslash keeps one
  character, an operator character ends the simple command. Words with other characters that
  the shell expands are not read (\<open>None\<close>).
\<close>

definition APOS :: char where "APOS = CHR 0x27"

definition sh_blank :: "char \<Rightarrow> bool" where
  "sh_blank c \<longleftrightarrow> c = CHR '' '' \<or> c = TAB"

definition sh_operator :: "char \<Rightarrow> bool" where
  "sh_operator c \<longleftrightarrow> c \<in> set [NL, CHR ''|'', CHR ''&'', CHR '';'', CHR ''<'', CHR ''>'', CHR ''('', CHR '')'']"

definition sh_expands :: "char \<Rightarrow> bool" where
  "sh_expands c \<longleftrightarrow> c \<in> set [DQ, CHR 0x60, CHR ''$'', CHR ''*'', CHR ''?'', CHR ''['', CHR ''~'', CHR ''#'', CHR ''{'', CHR ''!'']"

fun sh_word :: "bool \<Rightarrow> string \<Rightarrow> (string \<times> string) option" where
  "sh_word quoted [] = (if quoted then None else Some ([], []))"
| "sh_word True (c # cs) =
     (if c = APOS then sh_word False cs
      else case sh_word True cs of None \<Rightarrow> None | Some (w, r) \<Rightarrow> Some (c # w, r))"
| "sh_word False (c # cs) =
     (if c = APOS then sh_word True cs
      else if c = BSL then
        (case cs of
           [] \<Rightarrow> None
         | d # ds \<Rightarrow> (case sh_word False ds of None \<Rightarrow> None | Some (w, r) \<Rightarrow> Some (d # w, r)))
      else if sh_blank c \<or> sh_operator c then Some ([], c # cs)
      else if sh_expands c then None
      else case sh_word False cs of None \<Rightarrow> None | Some (w, r) \<Rightarrow> Some (c # w, r))"

lemma sh_word_rest: "sh_word quoted s = Some (w, r) \<Longrightarrow>
  length r \<le> length s \<and> (s \<noteq> [] \<and> (quoted \<or> \<not> sh_blank (hd s) \<and> \<not> sh_operator (hd s)) \<longrightarrow> length r < length s)"
  by (induction quoted s arbitrary: w r rule: sh_word.induct)
    (auto split: if_splits option.splits list.splits simp: less_Suc_eq_le le_Suc_eq)

text \<open>The words of the first simple command, and the line from its end.\<close>

function sh_words :: "string \<Rightarrow> (string list \<times> string) option" where
  "sh_words s =
     (let t = dropWhile sh_blank s in
      if t = [] \<or> sh_operator (hd t) then Some ([], t)
      else case sh_word False t of
        None \<Rightarrow> None
      | Some (w, r) \<Rightarrow> map_option (\<lambda>(ws, rest). (w # ws, rest)) (sh_words r))"
  by pat_completeness auto
termination
proof (relation "measure length", goal_cases)
  case (2 s t wr w r)
  then have "length r < length (dropWhile sh_blank s)"
    using sh_word_rest [of False "dropWhile sh_blank s" w r] hd_dropWhile [of sh_blank s] by auto
  also have "\<dots> \<le> length s" by (rule length_dropWhile_le)
  finally show ?case by simp
qed simp

declare sh_words.simps [simp del]

definition add_word :: "string \<Rightarrow> (string list \<times> string) option \<Rightarrow> (string list \<times> string) option" where
  "add_word w v = map_option (\<lambda>(ws, rest). (w # ws, rest)) v"

lemma add_word_Some [simp]: "add_word w (Some (ws, rest)) = Some (w # ws, rest)"
  by (simp add: add_word_def)

definition word_end :: "string \<Rightarrow> bool" where
  "word_end r \<longleftrightarrow> r = [] \<or> sh_blank (hd r) \<or> sh_operator (hd r)"

lemma word_end_simps [simp]: "word_end []" "word_end (c # r) \<longleftrightarrow> sh_blank c \<or> sh_operator c" "sh_blank (CHR '' '')"
  by (simp_all add: word_end_def sh_blank_def)

lemma sh_word_end: "word_end r \<Longrightarrow> sh_word False r = Some ([], r)"
  by (cases r) (auto simp: sh_blank_def sh_operator_def APOS_def)

definition plain_word :: "string \<Rightarrow> bool" where
  "plain_word w \<longleftrightarrow> list_all (\<lambda>c. c \<noteq> APOS \<and> c \<noteq> BSL \<and> \<not> sh_blank c \<and> \<not> sh_operator c \<and> \<not> sh_expands c) w"

lemma sh_word_plain: "plain_word w \<Longrightarrow> sh_word False (w @ s) = (case sh_word False s of None \<Rightarrow> None | Some (v, r) \<Rightarrow> Some (w @ v, r))"
  by (induction w) (auto simp: plain_word_def split: option.splits)

lemma sh_words_step:
  assumes "sh_word False s = Some (w, r)" "s \<noteq> []" "\<not> sh_blank (hd s)" "\<not> sh_operator (hd s)"
  shows "sh_words s = add_word w (sh_words r)" "sh_words (CHR '' '' # s) = add_word w (sh_words r)"
proof -
  have "dropWhile sh_blank s = s" using assms(2,3) by (cases s) auto
  with assms show "sh_words s = add_word w (sh_words r)" "sh_words (CHR '' '' # s) = add_word w (sh_words r)"
    by (simp_all add: sh_words.simps [of s] sh_words.simps [of "CHR '' '' # s"] add_word_def)
qed

lemma sh_words_plain:
  assumes "plain_word w" "w \<noteq> []" "word_end r"
  shows "sh_words (w @ r) = add_word w (sh_words r)" "sh_words (CHR '' '' # w @ r) = add_word w (sh_words r)"
  using sh_words_step [of "w @ r" w r] sh_word_plain [OF assms(1), of r] sh_word_end [OF assms(3)] assms(1,2)
  by (cases w; simp add: plain_word_def)+

lemma sh_words_stop: "sh_words [] = Some ([], [])" "sh_operator c \<Longrightarrow> sh_words (CHR '' '' # c # s) = Some ([], c # s)"
  by (auto simp: sh_words.simps sh_blank_def sh_operator_def)

text \<open>Text between single quotes, as long as it has none itself.\<close>

lemma sh_word_quoted: "APOS \<notin> set s \<Longrightarrow> word_end r \<Longrightarrow> sh_word False (APOS # s @ APOS # r) = Some (s, r)"
proof -
  assume s: "APOS \<notin> set s" and r: "word_end r"
  from s have "sh_word True (s @ APOS # r) = Some (s, r)"
    by (induction s) (auto simp: sh_word_end [OF r])
  then show ?thesis by simp
qed

lemma sh_words_quoted:
  assumes "plain_word p" "APOS \<notin> set s" "word_end r"
  shows "sh_words (CHR '' '' # p @ APOS # s @ APOS # r) = add_word (p @ s) (sh_words r)"
proof (rule sh_words_step(2))
  show "sh_word False (p @ APOS # s @ APOS # r) = Some (p @ s, r)"
    using sh_word_plain [OF assms(1)] sh_word_quoted [OF assms(2,3)] by simp
  show "\<not> sh_blank (hd (p @ APOS # s @ APOS # r))" "\<not> sh_operator (hd (p @ APOS # s @ APOS # r))"
    using assms(1) by (cases p; auto simp: plain_word_def APOS_def sh_blank_def sh_operator_def)+
qed simp

lemma sh_words_quoted_only:
  "APOS \<notin> set s \<Longrightarrow> word_end r \<Longrightarrow> sh_words (CHR '' '' # APOS # s @ APOS # r) = add_word s (sh_words r)"
  using sh_words_quoted [of "[]" s r] by (simp add: plain_word_def)

end
