(* ===== verification/Worker.thy ===== *)
theory Worker
  imports Shell_Words
begin

text \<open>
  The Redis worker, \<^verbatim>\<open>src/src/worker/wt_agent.c\<close>: it takes task messages from a channel, runs the
  command of those assigned to it, keeps the status column of the task database, and publishes
  acknowledgement, result and event.

  Jansson is used as documented: a parser from texts to values (a parameter), object lookup, and
  strings that must be UTF-8 (\<open>json_string\<close> returns \<open>NULL\<close> otherwise, and setting a key to \<open>NULL\<close>
  leaves the object alone). Redis is the list of the messages published. SQLite is the task table,
  the list of its (id, status) rows, or \<open>None\<close> when it cannot be opened or queried. The shell is a
  parameter.
\<close>

section \<open>Configuration and arguments\<close>

record wt_config =
  wc_agent :: string
  wc_db_path :: string
  wc_redis_host :: string
  wc_redis_port :: int
  wc_task_channel :: string
  wc_ack_channel :: string
  wc_result_channel :: string
  wc_event_channel :: string
  wc_slack_webhook_file :: string
  wc_slack_webhook_key :: string
  wc_task_json_path :: "string option"
  wc_once :: bool
  wc_no_redis :: bool
  wc_no_slack :: bool

definition env_default :: "(string \<Rightarrow> string option) \<Rightarrow> string \<Rightarrow> string \<Rightarrow> string" where
  "env_default getenv name fallback = (case getenv name of Some (c # cs) \<Rightarrow> c # cs | _ \<Rightarrow> fallback)"

definition initial_config :: "(string \<Rightarrow> string option) \<Rightarrow> wt_config" where
  "initial_config getenv =
     (let port = atoi (env_default getenv ''WOVENTEAM_REDIS_PORT'' ''6379'') in
      \<lparr> wc_agent = ''claude'', wc_db_path = env_default getenv ''WOVENTEAM_DB'' ''/woventeam/woventeam.db'',
        wc_redis_host = env_default getenv ''WOVENTEAM_REDIS_HOST'' ''127.0.0.1'',
        wc_redis_port = (if port \<le> 0 then 6379 else port),
        wc_task_channel = env_default getenv ''WOVENTEAM_TASK_CHANNEL'' ''wt:tasks:new'',
        wc_ack_channel = env_default getenv ''WOVENTEAM_ACK_CHANNEL'' ''wt:tasks:ack'',
        wc_result_channel = env_default getenv ''WOVENTEAM_RESULT_CHANNEL'' ''wt:tasks:result'',
        wc_event_channel = env_default getenv ''WOVENTEAM_EVENT_CHANNEL'' ''wt:events:log'',
        wc_slack_webhook_file = env_default getenv ''WOVENTEAM_SLACK_WEBHOOK_FILE'' ''/woventeam/config/slack_webhook.txt'',
        wc_slack_webhook_key = env_default getenv ''WOVENTEAM_SLACK_WEBHOOK_KEY'' ''integration'',
        wc_task_json_path = None, wc_once = False, wc_no_redis = False, wc_no_slack = False \<rparr>)"

datatype parsed_args = Run_With wt_config | Help_Wanted | Bad_Arguments

fun parse_arg_loop :: "string list \<Rightarrow> wt_config \<Rightarrow> parsed_args" where
  "parse_arg_loop [] cfg = Run_With cfg"
| "parse_arg_loop (a # rest) cfg =
     (if a = ''--agent'' \<and> rest \<noteq> [] then parse_arg_loop (tl rest) (cfg \<lparr> wc_agent := hd rest \<rparr>)
      else if a = ''--once'' then parse_arg_loop rest (cfg \<lparr> wc_once := True \<rparr>)
      else if a = ''--task-json'' \<and> rest \<noteq> [] then
        parse_arg_loop (tl rest) (cfg \<lparr> wc_task_json_path := Some (hd rest), wc_once := True \<rparr>)
      else if a = ''--no-redis'' then parse_arg_loop rest (cfg \<lparr> wc_no_redis := True \<rparr>)
      else if a = ''--no-slack'' then parse_arg_loop rest (cfg \<lparr> wc_no_slack := True \<rparr>)
      else if a = ''-h'' \<or> a = ''--help'' then Help_Wanted
      else if \<not> starts_with ''-'' a \<and> wc_agent cfg = ''claude'' then parse_arg_loop rest (cfg \<lparr> wc_agent := a \<rparr>)
      else Bad_Arguments)"

definition parse_args :: "(string \<Rightarrow> string option) \<Rightarrow> string list \<Rightarrow> parsed_args" where
  "parse_args getenv argv = parse_arg_loop argv (initial_config getenv)"

section \<open>Messages\<close>

datatype json = JsonObject "(string \<times> json) list" | JsonString string | JsonInteger int | JsonBool bool | JsonOther

definition json_object_get :: "json option \<Rightarrow> string \<Rightarrow> json option" where
  "json_object_get root key = (case root of Some (JsonObject fs) \<Rightarrow> map_of fs key | _ \<Rightarrow> None)"

definition json_string_at :: "json option \<Rightarrow> string \<Rightarrow> string \<Rightarrow> string" where
  "json_string_at root key fallback = (case json_object_get root key of Some (JsonString s) \<Rightarrow> s | _ \<Rightarrow> fallback)"

definition json_string :: "(string \<Rightarrow> bool) \<Rightarrow> string \<Rightarrow> json option" where
  "json_string utf8 s = (if utf8 s then Some (JsonString s) else None)"

definition set_new :: "string \<Rightarrow> json option \<Rightarrow> (string \<times> json) list \<Rightarrow> (string \<times> json) list" where
  "set_new k v fs = (case v of None \<Rightarrow> fs | Some j \<Rightarrow> fs @ [(k, j)])"

text \<open>The keys of a message are set once each, in this order.\<close>

definition envelope :: "(string \<Rightarrow> bool) \<Rightarrow> int \<Rightarrow> string \<Rightarrow> string \<Rightarrow> string \<Rightarrow> string \<Rightarrow> (string \<times> json) list" where
  "envelope utf8 now msgid sender kind initiative =
     set_new ''initiative'' (json_string utf8 initiative)
       (set_new ''type'' (json_string utf8 kind)
         (set_new ''from'' (json_string utf8 sender)
           (set_new ''ts'' (Some (JsonInteger now)) (set_new ''id'' (json_string utf8 msgid) []))))"

definition with_payload :: "(string \<times> json) list \<Rightarrow> (string \<times> json) list \<Rightarrow> json" where
  "with_payload payload root = JsonObject (root @ [(''payload'', JsonObject payload)])"

definition event_message :: "(string \<Rightarrow> bool) \<Rightarrow> int \<Rightarrow> string \<Rightarrow> string option \<Rightarrow> string \<Rightarrow> string \<Rightarrow> json" where
  "event_message utf8 now agentName task_id level text_line =
     with_payload (set_new ''message'' (json_string utf8 text_line) (set_new ''level'' (json_string utf8 level) []))
       (envelope utf8 now (case task_id of Some t \<Rightarrow> t | None \<Rightarrow> ''system'') agentName ''log'' ''phase0-spike'')"

section \<open>The world\<close>

record worker_world =
  ww_tasks :: "(string \<times> string) list option"
  ww_published :: "(string \<times> json) list"
  ww_files :: "string \<Rightarrow> string option"
  ww_posts :: "(string \<times> json) list"

datatype child_status = WaitFails | Exited int | Killed

text \<open>
  \<open>we_publish k\<close> is false when Redis does not answer after \<open>k\<close> published messages; a connection that failed
  once cannot be used again, and the count does not grow any more.
\<close>

record worker_env =
  we_loads :: "string \<Rightarrow> json option"
  we_utf8 :: "string \<Rightarrow> bool"
  we_time :: "nat \<Rightarrow> int"
  we_publish :: "nat \<Rightarrow> bool"
  we_run :: "string \<Rightarrow> worker_world \<Rightarrow> ((string list \<times> child_status) \<times> worker_world) option"
  we_tmp :: "string option"
  we_junk :: string

definition sqlite_set_status :: "string \<Rightarrow> string \<Rightarrow> worker_world \<Rightarrow> bool \<times> worker_world" where
  "sqlite_set_status task_id status w =
     (case ww_tasks w of
        None \<Rightarrow> (False, w)
      | Some rows \<Rightarrow>
          (length (filter (\<lambda>r. fst r = task_id) rows) = 1,
           w \<lparr> ww_tasks := Some (map (\<lambda>r. if fst r = task_id then (task_id, status) else r) rows) \<rparr>))"

definition redis_publish :: "worker_env \<Rightarrow> bool \<Rightarrow> string \<Rightarrow> (int \<Rightarrow> json) \<Rightarrow> worker_world \<Rightarrow> bool \<times> worker_world" where
  "redis_publish env redis channel message w =
     (if \<not> redis then (True, w)
      else if \<not> we_publish env (length (ww_published w)) then (False, w)
      else (True, w \<lparr> ww_published := ww_published w @ [(channel, message (we_time env (length (ww_published w))))] \<rparr>))"

section \<open>Slack\<close>

definition is_blank_end :: "char \<Rightarrow> bool" where
  "is_blank_end c \<longleftrightarrow> c = NL \<or> c = CR \<or> c = CHR '' '' \<or> c = TAB"

definition trim_inplace :: "string \<Rightarrow> string" where
  "trim_inplace s = trim_end is_blank_end (dropWhile (\<lambda>c. c = CHR '' '' \<or> c = TAB) s)"

definition url_prefix :: string where "url_prefix = ''https://hooks.slack.com/''"

fun getlines :: "string \<Rightarrow> string \<Rightarrow> string list" where
  "getlines cur [] = (if cur = [] then [] else [cur])"
| "getlines cur (c # cs) = (if c = NL then (cur @ [c]) # getlines [] cs else getlines (cur @ [c]) cs)"

fun webhook_scan :: "string \<Rightarrow> string option \<Rightarrow> string list \<Rightarrow> string option" where
  "webhook_scan key fallback [] = fallback"
| "webhook_scan key fallback (line # lines) =
     (let t = trim_inplace (cstr line) in
      if t = [] \<or> hd t = CHR ''#'' then webhook_scan key fallback lines
      else case strchr t (CHR ''='') of
        Some eq \<Rightarrow>
          (let k = trim_inplace (take (length t - length eq) t); v = trim_inplace (tl eq) in
           if k = key then Some v
           else webhook_scan key (if fallback = None \<and> starts_with url_prefix v then Some v else fallback) lines)
      | None \<Rightarrow> webhook_scan key (if fallback = None \<and> starts_with url_prefix t then Some t else fallback) lines)"

definition read_slack_webhook :: "(string \<Rightarrow> string option) \<Rightarrow> string \<Rightarrow> string \<Rightarrow> string option" where
  "read_slack_webhook fs path key = (case fs path of None \<Rightarrow> None | Some s \<Rightarrow> webhook_scan key None (getlines [] s))"

definition shell_quote :: "string \<Rightarrow> string" where
  "shell_quote s = [APOS] @ concat (map (\<lambda>c. if c = APOS then [APOS, BSL, APOS, APOS] else [c]) s) @ [APOS]"

text \<open>The stream over the 4096 bytes drops what does not fit, and then writes no terminator.\<close>

definition slack_command :: "string \<Rightarrow> string \<Rightarrow> string \<Rightarrow> string" where
  "slack_command junk tmp webhook =
     (let t = ''curl -fsS -X POST -H '' @ shell_quote ''Content-type: application/json'' @ '' --data @'' @ shell_quote tmp @ '' '' @ shell_quote webhook in
      if length t < 4096 then t else take 4096 t @ junk)"

definition post_slack :: "wt_config \<Rightarrow> worker_env \<Rightarrow> string \<Rightarrow> worker_world \<Rightarrow> worker_world" where
  "post_slack cfg env message w =
     (if wc_no_slack cfg then w
      else case read_slack_webhook (ww_files w) (wc_slack_webhook_file cfg) (wc_slack_webhook_key cfg) of
        None \<Rightarrow> w
      | Some webhook \<Rightarrow>
          (case we_tmp env of
             None \<Rightarrow> w
           | Some tmp \<Rightarrow>
               w \<lparr> ww_posts := ww_posts w @
                 [(slack_command (we_junk env) tmp webhook, JsonObject (set_new ''text'' (json_string (we_utf8 env) message) []))] \<rparr>))"

section \<open>Running a command\<close>

definition WT_OUTPUT_LIMIT :: nat where "WT_OUTPUT_LIMIT = 1024 * 1024"

record command_result =
  cr_data :: string
  cr_exit_code :: int
  cr_truncated :: bool

text \<open>One chunk of the pipe.\<close>

definition keep_chunk :: "string \<Rightarrow> string \<times> bool \<Rightarrow> string \<times> bool" where
  "keep_chunk chunk v =
     (case v of (kept, truncated) \<Rightarrow>
        if length kept < WT_OUTPUT_LIMIT then
          (let keep = (if length kept + length chunk > WT_OUTPUT_LIMIT then WT_OUTPUT_LIMIT - length kept else length chunk) in
           (kept @ take keep chunk, truncated \<or> keep < length chunk))
        else (kept, True))"

definition exit_code :: "child_status \<Rightarrow> int" where
  "exit_code st = (case st of WaitFails \<Rightarrow> 127 | Exited n \<Rightarrow> n | Killed \<Rightarrow> 128)"

definition run_command :: "worker_env \<Rightarrow> string \<Rightarrow> worker_world \<Rightarrow> command_result option \<times> worker_world" where
  "run_command env command w =
     (case we_run env (command @ '' 2>&1'') w of
        None \<Rightarrow> (None, w)
      | Some ((chunks, st), w') \<Rightarrow>
          (case fold keep_chunk chunks ([], False) of
             (kept, truncated) \<Rightarrow>
               (Some \<lparr> cr_data = kept, cr_exit_code = exit_code st, cr_truncated = truncated \<rparr>, w')))"

section \<open>Tasks\<close>

definition WT_TASK_IGNORED :: int where "WT_TASK_IGNORED = 2"

definition status_payload :: "worker_env \<Rightarrow> string \<Rightarrow> (string \<times> json) list" where
  "status_payload env status = set_new ''status'' (json_string (we_utf8 env) status) []"

definition result_payload :: "worker_env \<Rightarrow> string \<Rightarrow> command_result \<Rightarrow> (string \<times> json) list" where
  "result_payload env status r =
     set_new ''truncated'' (Some (JsonBool (cr_truncated r)))
       (set_new ''output'' (json_string (we_utf8 env) (cstr (cr_data r)))
         (set_new ''exit_code'' (Some (JsonInteger (cr_exit_code r))) (status_payload env status)))"

definition slack_text :: "wt_config \<Rightarrow> string \<Rightarrow> string \<Rightarrow> command_result \<Rightarrow> string" where
  "slack_text cfg task_id status r =
     snprintf_s 1024 (''['' @ wc_agent cfg @ ''] Task '' @ [CHR 0x60] @ task_id @ [CHR 0x60] @ '' '' @ status @ '': '' @ [CHR 0x60] @
       take 500 (cstr (cr_data r)) @ [CHR 0x60])"

definition report_task :: "wt_config \<Rightarrow> worker_env \<Rightarrow> bool \<Rightarrow> string \<Rightarrow> string \<Rightarrow> string \<Rightarrow> command_result \<Rightarrow> worker_world \<Rightarrow> worker_world" where
  "report_task cfg env redis task_id initiative status r w =
     (let w1 = snd (redis_publish env redis (wc_result_channel cfg) (\<lambda>now. with_payload (result_payload env status r)
                (envelope (we_utf8 env) now task_id (wc_agent cfg) ''result'' initiative)) w);
          w2 = post_slack cfg env (slack_text cfg task_id status r) w1
      in snd (redis_publish env redis (wc_event_channel cfg) (\<lambda>now. event_message (we_utf8 env) now (wc_agent cfg) (Some task_id)
           (if cr_exit_code r = 0 then ''info'' else ''error'') (if cr_exit_code r = 0 then ''task completed'' else ''task failed'')) w2))"

definition process_task :: "wt_config \<Rightarrow> worker_env \<Rightarrow> bool \<Rightarrow> string \<Rightarrow> worker_world \<Rightarrow> int \<times> worker_world" where
  "process_task cfg env redis json_text w =
     (case we_loads env json_text of
        None \<Rightarrow> (-1, w)
      | Some task \<Rightarrow>
          (let payload = json_object_get (Some task) ''payload'' in
           if json_string_at payload ''assigned_to'' [] \<noteq> wc_agent cfg then (WT_TASK_IGNORED, w)
           else
             (let task_id = json_string_at (Some task) ''id'' []; initiative = json_string_at (Some task) ''initiative'' ''phase0-spike'';
                  command = json_string_at payload ''command'' [] in
              if task_id = [] \<or> command = [] then (-1, w)
              else case sqlite_set_status task_id ''in_progress'' w of
                (False, w1) \<Rightarrow> (-1, w1)
              | (True, w1) \<Rightarrow>
                  (let w2 = snd (redis_publish env redis (wc_ack_channel cfg) (\<lambda>now. with_payload (status_payload env ''in_progress'')
                          (envelope (we_utf8 env) now task_id (wc_agent cfg) ''ack'' initiative)) w1) in
                   case run_command env command w2 of
                     (None, w3) \<Rightarrow> (-1, w3)
                   | (Some r, w3) \<Rightarrow>
                       (let status = (if cr_exit_code r = 0 then ''complete'' else ''error'') in
                        case sqlite_set_status task_id status w3 of
                          (False, w4) \<Rightarrow> (-1, w4)
                        | (True, w4) \<Rightarrow>
                            (if cr_exit_code r = 0 then 0 else 1, report_task cfg env redis task_id initiative status r w4))))))"

section \<open>The subscription\<close>

text \<open>What a read of the subscription gives; a reply that is no published text is \<open>Other_Reply\<close>.\<close>

datatype redis_reply = Read_Fails | No_Reply | Published string | Other_Reply

text \<open>The loop over the replies that arrive before \<open>g_stop\<close> is seen.\<close>

fun reply_loop :: "wt_config \<Rightarrow> worker_env \<Rightarrow> redis_reply list \<Rightarrow> int \<Rightarrow> worker_world \<Rightarrow> int \<times> worker_world" where
  "reply_loop cfg env [] rc w = (rc, w)"
| "reply_loop cfg env (Read_Fails # rs) rc w = (1, w)"
| "reply_loop cfg env (Published text_line # rs) rc w =
     (case process_task cfg env True text_line w of
        (task_rc, w') \<Rightarrow>
          (let rc' = (if task_rc \<noteq> 0 \<and> task_rc \<noteq> WT_TASK_IGNORED then task_rc else rc) in
           if wc_once cfg \<and> task_rc \<noteq> WT_TASK_IGNORED then (rc', w') else reply_loop cfg env rs rc' w'))"
| "reply_loop cfg env (_ # rs) rc w = reply_loop cfg env rs rc w"

definition subscribe_loop :: "wt_config \<Rightarrow> worker_env \<Rightarrow> bool \<Rightarrow> bool \<Rightarrow> bool \<Rightarrow> redis_reply list \<Rightarrow> worker_world \<Rightarrow> int \<times> worker_world" where
  "subscribe_loop cfg env sub_connects pub_connects subscribes replies w =
     (if \<not> sub_connects \<or> \<not> pub_connects then (1, w)
      else
        (let w1 = snd (redis_publish env True (wc_event_channel cfg)
               (\<lambda>now. event_message (we_utf8 env) now (wc_agent cfg) None ''info'' ''wt-agent started'') w) in
         if \<not> subscribes then (1, w1) else reply_loop cfg env replies 0 w1))"

definition worker_main :: "(string \<Rightarrow> string option) \<Rightarrow> string list \<Rightarrow> worker_env \<Rightarrow> bool \<Rightarrow> bool \<Rightarrow> bool \<Rightarrow> redis_reply list
    \<Rightarrow> worker_world \<Rightarrow> int \<times> worker_world" where
  "worker_main getenv argv env sub_connects pub_connects subscribes replies w =
     (case parse_args getenv argv of
        Help_Wanted \<Rightarrow> (0, w)
      | Bad_Arguments \<Rightarrow> (2, w)
      | Run_With cfg \<Rightarrow>
          (case wc_task_json_path cfg of
             Some path \<Rightarrow>
               (case ww_files w path of
                  None \<Rightarrow> (1, w)
                | Some s \<Rightarrow> process_task cfg env (\<not> wc_no_redis cfg \<and> pub_connects) (cstr s) w)
           | None \<Rightarrow>
               (if wc_no_redis cfg then (2, w) else subscribe_loop cfg env sub_connects pub_connects subscribes replies w)))"

end
