(* ===== verification/Worker_Facts.thy ===== *)
theory Worker_Facts
  imports Worker
begin

text \<open>
  What the Redis worker promises: the shell sees the webhook as one word, the output kept of a command
  is its first megabyte, and the status and the messages of a task follow the exit of its command.
\<close>

section \<open>The command line of a post\<close>

text \<open>A quoted text is read back as it was, whatever characters it has.\<close>

lemma sh_word_quote: "word_end r \<Longrightarrow> sh_word False (shell_quote s @ r) = Some (s, r)"
proof -
  assume r: "word_end r"
  have "sh_word True (concat (map (\<lambda>c. if c = APOS then [APOS, BSL, APOS, APOS] else [c]) s) @ APOS # r) = Some (s, r)"
    by (induction s) (auto simp: sh_word_end [OF r] APOS_def)
  then show ?thesis by (simp add: shell_quote_def APOS_def)
qed

lemma sh_words_quote:
  assumes "plain_word p" "word_end r"
  shows "sh_words (CHR '' '' # p @ shell_quote s @ r) = add_word (p @ s) (sh_words r)"
proof (rule sh_words_step(2))
  show "sh_word False (p @ shell_quote s @ r) = Some (p @ s, r)"
    using sh_word_plain [OF assms(1)] sh_word_quote [OF assms(2)] by simp
  show "\<not> sh_blank (hd (p @ shell_quote s @ r))" "\<not> sh_operator (hd (p @ shell_quote s @ r))"
    using assms(1) by (cases p; auto simp: plain_word_def shell_quote_def APOS_def sh_blank_def sh_operator_def)+
qed (simp add: shell_quote_def)

text \<open>
  C38. The shell gets the webhook as one word. Whatever the webhook file holds, the command line of a
  post that fits its buffer is one simple command whose words are \<open>curl\<close>, its options, the temporary
  file and the webhook, each exactly as it was: nothing in the configured text is run or expanded.
\<close>

theorem post_words:
  assumes "length (slack_command [] tmp webhook) < 4096"
  shows "sh_words (slack_command junk tmp webhook) =
    Some ([''curl'', ''-fsS'', ''-X'', ''POST'', ''-H'', ''Content-type: application/json'', ''--data'', CHR ''@'' # tmp, webhook], [])"
proof -
  have fits: "slack_command junk tmp webhook = ''curl'' @ CHR '' '' # ''-fsS'' @ CHR '' '' # ''-X'' @ CHR '' '' # ''POST'' @ CHR '' '' # ''-H'' @
      CHR '' '' # [] @ shell_quote ''Content-type: application/json'' @ CHR '' '' # ''--data'' @
      CHR '' '' # ''@'' @ shell_quote tmp @ CHR '' '' # [] @ shell_quote webhook @ []"
    using assms by (simp add: slack_command_def Let_def split: if_splits)
  have plain: "plain_word w" if "w \<in> {''curl'', ''-fsS'', ''-X'', ''POST'', ''-H'', ''--data'', ''@'', []}" for w
    using that by (auto simp: plain_word_def sh_blank_def sh_operator_def sh_expands_def APOS_def)
  show ?thesis
    unfolding fits
    by (simp add: sh_words_plain sh_words_quote plain sh_words_stop(1) del: append.simps append_Nil append_Nil2)
qed

theorem post_words_witness:
  "sh_words (slack_command [] ''/tmp/a'' ''https://h/; rm -rf *'') =
    Some ([''curl'', ''-fsS'', ''-X'', ''POST'', ''-H'', ''Content-type: application/json'', ''--data'', ''@/tmp/a'', ''https://h/; rm -rf *''], [])"
  by (rule post_words) (simp add: slack_command_def shell_quote_def APOS_def)

section \<open>The output of a command\<close>

lemma keep_chunks:
  "list_all (\<lambda>c. c \<noteq> []) chunks \<Longrightarrow>
   fold keep_chunk chunks (take WT_OUTPUT_LIMIT s, WT_OUTPUT_LIMIT < length s) =
     (take WT_OUTPUT_LIMIT (s @ concat chunks), WT_OUTPUT_LIMIT < length (s @ concat chunks))"
proof (induction chunks arbitrary: s)
  case (Cons c chunks)
  have "keep_chunk c (take WT_OUTPUT_LIMIT s, WT_OUTPUT_LIMIT < length s) = (take WT_OUTPUT_LIMIT (s @ c), WT_OUTPUT_LIMIT < length (s @ c))"
    using Cons.prems by (cases c) (auto simp: keep_chunk_def Let_def min_def)
  with Cons.IH [of "s @ c"] Cons.prems show ?case by simp
qed simp

text \<open>
  C37. The output kept of a command is its first megabyte, and it is marked as truncated exactly when the
  command wrote more, however the pipe cut it into chunks (a read of nothing ends the loop).
\<close>

theorem command_output_prefix:
  assumes "we_run env (command @ '' 2>&1'') w = Some ((chunks, st), w')" and "list_all (\<lambda>c. c \<noteq> []) chunks"
  shows "run_command env command w =
    (Some \<lparr> cr_data = take (1024 * 1024) (concat chunks), cr_exit_code = exit_code st,
            cr_truncated = (1024 * 1024 < length (concat chunks)) \<rparr>, w')"
  using assms(1) keep_chunks [OF assms(2), of "[]"] by (simp add: run_command_def WT_OUTPUT_LIMIT_def)

definition demo_task_message :: json where
  "demo_task_message = JsonObject [(''id'', JsonString ''t1''),
     (''payload'', JsonObject [(''assigned_to'', JsonString ''claude''), (''command'', JsonString ''make'')])]"

definition demo_worker_env :: worker_env where
  "demo_worker_env = \<lparr> we_loads = (\<lambda>t. if t = ''m'' then Some demo_task_message else None), we_utf8 = (\<lambda>_. True), we_time = int,
     we_publish = (\<lambda>_. True), we_run = (\<lambda>_ w. Some (([''do'', ''ne''], Exited 3), w)), we_tmp = None, we_junk = [] \<rparr>"

definition demo_worker_world :: worker_world where
  "demo_worker_world = \<lparr> ww_tasks = Some [(''t0'', ''new''), (''t1'', ''new'')], ww_published = [], ww_files = (\<lambda>_. None), ww_posts = [] \<rparr>"

theorem command_output_prefix_witness:
  "run_command demo_worker_env ''make'' demo_worker_world =
    (Some \<lparr> cr_data = ''done'', cr_exit_code = 3, cr_truncated = False \<rparr>, demo_worker_world)"
  using command_output_prefix [of demo_worker_env "''make''" demo_worker_world "[''do'', ''ne'']" "Exited 3" demo_worker_world]
  by (simp add: demo_worker_env_def exit_code_def)

section \<open>The status of a task\<close>

lemma publish_works:
  "list_all (we_publish env) [0..<n] \<Longrightarrow> length (ww_published w) < n \<Longrightarrow>
   redis_publish env True channel message w =
     (True, w \<lparr> ww_published := ww_published w @ [(channel, message (we_time env (length (ww_published w))))] \<rparr>)"
  by (auto simp: redis_publish_def list_all_iff)

lemma post_slack_keeps [simp]: "ww_published (post_slack cfg env message w) = ww_published w" "ww_tasks (post_slack cfg env message w) = ww_tasks w"
  by (simp_all add: post_slack_def split: option.split)

text \<open>A message for this agent with an id and a command.\<close>

definition own_task :: "wt_config \<Rightarrow> json \<Rightarrow> string \<Rightarrow> string \<Rightarrow> bool" where
  "own_task cfg task task_id command \<longleftrightarrow>
     json_string_at (json_object_get (Some task) ''payload'') ''assigned_to'' [] = wc_agent cfg \<and>
     json_string_at (Some task) ''id'' [] = task_id \<and> task_id \<noteq> [] \<and>
     json_string_at (json_object_get (Some task) ''payload'') ''command'' [] = command \<and> command \<noteq> []"

definition task_status :: "string \<Rightarrow> string \<Rightarrow> (string \<times> string) list \<Rightarrow> (string \<times> string) list" where
  "task_status task_id status rows = map (\<lambda>r. if fst r = task_id then (task_id, status) else r) rows"

lemma one_row:
  assumes "length (filter (\<lambda>r. fst r = task_id) rows) = 1"
  shows "length (filter (\<lambda>r. fst r = task_id) (task_status task_id x rows)) = 1"
proof -
  have "filter (\<lambda>r. fst r = task_id) (task_status task_id x rows) = map (\<lambda>_. (task_id, x)) (filter (\<lambda>r. fst r = task_id) rows)"
    by (induction rows) (auto simp: task_status_def)
  with assms show ?thesis by simp
qed

text \<open>The messages the protocol asks for; \<open>jansson\<close> takes valid UTF-8 only, and ASCII is valid.\<close>

definition posted_message :: "int \<Rightarrow> string \<Rightarrow> string \<Rightarrow> string \<Rightarrow> string \<Rightarrow> (string \<times> json) list \<Rightarrow> json" where
  "posted_message now task_id sender kind initiative payload = JsonObject
     [(''id'', JsonString task_id), (''ts'', JsonInteger now), (''from'', JsonString sender), (''type'', JsonString kind),
      (''initiative'', JsonString initiative), (''payload'', JsonObject payload)]"

definition ascii_valid :: "(string \<Rightarrow> bool) \<Rightarrow> bool" where
  "ascii_valid utf8 \<longleftrightarrow> (\<forall>s. list_all (\<lambda>c. (of_char c :: nat) < 128) s \<longrightarrow> utf8 s)"

definition task_messages :: "wt_config \<Rightarrow> (nat \<Rightarrow> int) \<Rightarrow> string \<Rightarrow> string \<Rightarrow> int \<Rightarrow> string \<Rightarrow> nat \<Rightarrow> (string \<times> json) list" where
  "task_messages cfg ts task_id initiative code output k =
     [(wc_ack_channel cfg, posted_message (ts k) task_id (wc_agent cfg) ''ack'' initiative [(''status'', JsonString ''in_progress'')]),
      (wc_result_channel cfg, posted_message (ts (k + 1)) task_id (wc_agent cfg) ''result'' initiative
         [(''status'', JsonString (if code = 0 then ''complete'' else ''error'')), (''exit_code'', JsonInteger code),
          (''output'', JsonString (cstr (take (1024 * 1024) output))), (''truncated'', JsonBool (1024 * 1024 < length output))]),
      (wc_event_channel cfg, posted_message (ts (k + 2)) task_id (wc_agent cfg) ''log'' ''phase0-spike''
         [(''level'', JsonString (if code = 0 then ''info'' else ''error'')),
          (''message'', JsonString (if code = 0 then ''task completed'' else ''task failed''))])]"

lemma ascii_texts:
  assumes "ascii_valid utf8"
  shows "utf8 ''ack''" "utf8 ''result''" "utf8 ''log''" "utf8 ''phase0-spike''" "utf8 ''in_progress''" "utf8 ''complete''" "utf8 ''error''"
    "utf8 ''info''" "utf8 ''task completed''" "utf8 ''task failed''"
  using assms by (simp_all add: ascii_valid_def)

lemma message_texts:
  assumes "ascii_valid (we_utf8 env)" "we_utf8 env task_id" "we_utf8 env (wc_agent cfg)" "we_utf8 env initiative"
  shows "with_payload (status_payload env ''in_progress'') (envelope (we_utf8 env) now task_id (wc_agent cfg) ''ack'' initiative) =
      posted_message now task_id (wc_agent cfg) ''ack'' initiative [(''status'', JsonString ''in_progress'')]"
    and "we_utf8 env (cstr (cr_data r)) \<Longrightarrow> with_payload (result_payload env (if b then ''complete'' else ''error'') r)
        (envelope (we_utf8 env) now task_id (wc_agent cfg) ''result'' initiative) =
      posted_message now task_id (wc_agent cfg) ''result'' initiative
        [(''status'', JsonString (if b then ''complete'' else ''error'')), (''exit_code'', JsonInteger (cr_exit_code r)),
         (''output'', JsonString (cstr (cr_data r))), (''truncated'', JsonBool (cr_truncated r))]"
    and "event_message (we_utf8 env) now (wc_agent cfg) (Some task_id) (if b then ''info'' else ''error'')
        (if b then ''task completed'' else ''task failed'') =
      posted_message now task_id (wc_agent cfg) ''log'' ''phase0-spike''
        [(''level'', JsonString (if b then ''info'' else ''error'')), (''message'', JsonString (if b then ''task completed'' else ''task failed''))]"
  using assms(2-4)
  by (simp_all add: with_payload_def status_payload_def result_payload_def event_message_def envelope_def set_new_def json_string_def
      posted_message_def ascii_texts [OF assms(1)])

text \<open>
  C14. The database and the channels follow the command. A task of the worker's own that has exactly one
  row ends as \<open>complete\<close> when its command exits with 0 and as \<open>error\<close> otherwise, the return code says the
  same, and no other row changes. Three messages are published, in this order: the acknowledgement with
  \<open>in_progress\<close>, the result with that status, the exit code, the first megabyte of the output (up to its
  first zero byte) and whether there was more, and the event with level \<open>info\<close> or \<open>error\<close> and the matching
  text. It is assumed that Redis answers each time, that the texts are valid UTF-8, and that the command
  itself leaves the task table and the channels alone; files it may change as it likes.
\<close>

theorem task_follows_command:
  assumes "we_loads env text_line = Some task" "own_task cfg task task_id command"
    and "initiative = json_string_at (Some task) ''initiative'' ''phase0-spike''"
    and "ww_tasks w = Some rows" "length (filter (\<lambda>r. fst r = task_id) rows) = 1"
    and "\<And>v. \<exists>v'. we_run env (command @ '' 2>&1'') v = Some ((chunks, st), v') \<and>
      ww_tasks v' = ww_tasks v \<and> ww_published v' = ww_published v"
    and "list_all (\<lambda>c. c \<noteq> []) chunks"
    and "list_all (we_publish env) [0..<length (ww_published w) + 3]" "ascii_valid (we_utf8 env)"
    and "list_all (we_utf8 env) [task_id, wc_agent cfg, initiative, cstr (take (1024 * 1024) (concat chunks))]"
  shows "\<exists>w'. process_task cfg env True text_line w = (if exit_code st = 0 then 0 else 1, w') \<and>
    ww_tasks w' = Some (task_status task_id (if exit_code st = 0 then ''complete'' else ''error'') rows) \<and>
    ww_published w' = ww_published w @
      task_messages cfg (we_time env) task_id initiative (exit_code st) (concat chunks) (length (ww_published w))"
proof -
  let ?s = "if exit_code st = 0 then ''complete'' else ''error''" and ?n = "length (ww_published w) + 3"
  let ?w1 = "w \<lparr> ww_tasks := Some (task_status task_id ''in_progress'' rows) \<rparr>"
  let ?ack = "\<lambda>now. with_payload (status_payload env ''in_progress'')
      (envelope (we_utf8 env) now task_id (wc_agent cfg) ''ack'' initiative)"
  let ?r = "\<lparr> cr_data = take (1024 * 1024) (concat chunks), cr_exit_code = exit_code st,
    cr_truncated = (1024 * 1024 < length (concat chunks)) \<rparr>"
  have utf8: "we_utf8 env task_id" "we_utf8 env (wc_agent cfg)" "we_utf8 env initiative" "we_utf8 env (cstr (cr_data ?r))"
    using assms(10) by simp_all
  note texts = message_texts [OF assms(9) utf8(1-3)]
  have set1: "sqlite_set_status task_id ''in_progress'' w = (True, ?w1)"
    using assms(4,5) by (simp add: sqlite_set_status_def task_status_def)
  let ?w2 = "?w1 \<lparr> ww_published := ww_published w @ [(wc_ack_channel cfg, ?ack (we_time env (length (ww_published w))))] \<rparr>"
  have ack: "redis_publish env True (wc_ack_channel cfg) ?ack ?w1 = (True, ?w2)"
    using publish_works [OF assms(8), of ?w1] by simp
  obtain w3 where w3: "we_run env (command @ '' 2>&1'') ?w2 = Some ((chunks, st), w3)" "ww_tasks w3 = ww_tasks ?w2"
    "ww_published w3 = ww_published ?w2" using assms(6) by blast
  have run: "run_command env command ?w2 = (Some ?r, w3)"
    using w3(1) keep_chunks [OF assms(7), of "[]"] by (simp add: run_command_def WT_OUTPUT_LIMIT_def)
  let ?w4 = "w3 \<lparr> ww_tasks := Some (task_status task_id ?s rows) \<rparr>"
  have set2: "sqlite_set_status task_id ?s w3 = (True, ?w4)"
    using w3(2) one_row [OF assms(5)] by (simp add: sqlite_set_status_def task_status_def comp_def cong: map_cong)
  have "process_task cfg env True text_line w = (if exit_code st = 0 then 0 else 1, report_task cfg env True task_id initiative ?s ?r ?w4)"
    using assms(1,2) set1 ack run set2 by (simp add: process_task_def own_task_def Let_def flip: assms(3))
  moreover have "ww_tasks (report_task cfg env True task_id initiative ?s ?r ?w4) = ww_tasks ?w4"
    and "ww_published (report_task cfg env True task_id initiative ?s ?r ?w4) = ww_published w @
      task_messages cfg (we_time env) task_id initiative (exit_code st) (concat chunks) (length (ww_published w))"
    using w3(3) texts(2) [OF utf8(4)] texts(3)
    by (simp_all add: report_task_def Let_def publish_works [OF assms(8)] task_messages_def texts(1))
  ultimately show ?thesis by simp
qed

theorem task_follows_command_witness:
  "\<exists>w'. process_task (initial_config (\<lambda>_. None)) demo_worker_env True ''m'' demo_worker_world = (1, w') \<and>
     ww_tasks w' = Some [(''t0'', ''new''), (''t1'', ''error'')] \<and>
     ww_published w' = task_messages (initial_config (\<lambda>_. None)) int ''t1'' ''phase0-spike'' 3 ''done'' 0"
proof -
  let ?cfg = "initial_config (\<lambda>_. None)"
  have "own_task ?cfg demo_task_message ''t1'' ''make''" "json_string_at (Some demo_task_message) ''initiative'' ''phase0-spike'' = ''phase0-spike''"
    by (simp_all add: own_task_def demo_task_message_def json_string_at_def json_object_get_def initial_config_def Let_def)
  moreover have "we_loads demo_worker_env ''m'' = Some demo_task_message"
    and "we_run demo_worker_env c v = Some (([''do'', ''ne''], Exited 3), v)"
    and "list_all (we_publish demo_worker_env) xs" "we_utf8 demo_worker_env y" "ascii_valid (we_utf8 demo_worker_env)"
    and "we_time demo_worker_env = int" for c v xs y
    by (simp_all add: demo_worker_env_def list_all_iff ascii_valid_def)
  moreover have "ww_tasks demo_worker_world = Some [(''t0'', ''new''), (''t1'', ''new'')]" "ww_published demo_worker_world = []"
    by (simp_all add: demo_worker_world_def)
  ultimately show ?thesis
    using task_follows_command [of demo_worker_env "''m''" demo_task_message ?cfg "''t1''" "''make''" "''phase0-spike''" demo_worker_world
      "[(''t0'', ''new''), (''t1'', ''new'')]" "[''do'', ''ne'']" "Exited 3"]
    by (simp add: task_status_def exit_code_def)
qed

end
