(* ===== verification/Agent_Remote.thy ===== *)
theory Agent_Remote
  imports Agent Shell_Words
begin

text \<open>
  The remote mode and the entry point of the agent (\<^verbatim>\<open>src/src/wt_agent.c\<close>, from \<open>curlPostJson\<close> to \<open>main\<close>).
  A remote agent talks to the daemon through \<open>curl\<close> commands it gives to the shell: it registers the
  host, claims a task, and reports it running and complete. The state is the list of commands run so far;
  \<open>rv_system k cmd\<close> is the exit status of the \<open>k\<close>th command and what it leaves in its response file.
\<close>

section \<open>Requests\<close>

record remote_env =
  rv_tmp :: "nat \<Rightarrow> string option"
  rv_system :: "nat \<Rightarrow> string \<Rightarrow> int \<times> log_file"

definition single_quoted :: "string \<Rightarrow> string" where
  "single_quoted s = APOS # s @ [APOS]"

definition curl_command :: "string \<Rightarrow> string \<Rightarrow> string \<Rightarrow> string \<Rightarrow> string \<Rightarrow> string" where
  "curl_command token body baseUrl path tmp =
     snprintf_s 4096 (''curl -sS -H '' @ single_quoted ''Content-Type: application/json'' @ '' -H '' @
       single_quoted (''Authorization: Bearer '' @ token) @ '' -d '' @ single_quoted body @ '' '' @
       single_quoted (baseUrl @ path) @ '' > '' @ single_quoted tmp)"

text \<open>Whether the call succeeded, the response buffer, and the commands run.\<close>

definition curlPostJson :: "remote_env \<Rightarrow> string \<Rightarrow> string \<Rightarrow> string \<Rightarrow> string \<Rightarrow> nat \<Rightarrow> string list \<Rightarrow> bool \<times> string \<times> string list" where
  "curlPostJson env baseUrl token path body responseSize cmds =
     (if \<not> shellSafeText baseUrl \<or> \<not> shellSafeText token \<or> \<not> shellSafeText path then (False, [], cmds)
      else case rv_tmp env (length cmds) of
        None \<Rightarrow> (False, [], cmds)
      | Some tmp \<Rightarrow>
          (let cmd = curl_command token body baseUrl path tmp in
           case rv_system env (length cmds) cmd of
             (rc, f) \<Rightarrow> (rc = 0, readFileSnippet f (int responseSize - 1) responseSize, cmds @ [cmd])))"

definition json_entry :: "string \<Rightarrow> string \<Rightarrow> string" where
  "json_entry k v = [DQ] @ k @ [DQ, CHR '':'', DQ] @ v @ [DQ]"

definition ok_mark :: string where "ok_mark = [DQ] @ ''ok'' @ [DQ] @ [CHR '':''] @ ''true''"
definition claimed_mark :: string where "claimed_mark = [DQ] @ ''claimed'' @ [DQ] @ [CHR '':''] @ ''true''"

definition status_body :: "string \<Rightarrow> string \<Rightarrow> string \<Rightarrow> string \<Rightarrow> string" where
  "status_body agentName taskId status message =
     snprintf_s 1024 (''{'' @ json_entry ''agent'' agentName @ '','' @ json_entry ''taskId'' taskId @ '','' @
       json_entry ''status'' status @ '','' @ json_entry ''message'' message @ ''}'')"

definition postRemoteStatus :: "remote_env \<Rightarrow> string \<Rightarrow> string \<Rightarrow> string \<Rightarrow> string \<Rightarrow> string \<Rightarrow> string \<Rightarrow> string list \<Rightarrow> int \<times> string list" where
  "postRemoteStatus env remoteUrl bearerToken agentName taskId status message cmds =
     (case curlPostJson env remoteUrl bearerToken ''/api/remote-task-event'' (status_body agentName taskId status message) 1024 cmds of
        (ok, response, cmds') \<Rightarrow> (if \<not> ok then 1 else if strstr response ok_mark = None then 1 else 0, cmds'))"

definition capability_body :: "string \<Rightarrow> string \<Rightarrow> string" where
  "capability_body agentName hostName =
     snprintf_s 1024 (''{'' @ json_entry ''host'' hostName @ '','' @ json_entry ''agent'' agentName @ '','' @
       json_entry ''profiles'' (if agentName = ''chatgpt'' then ''observe,repo_branch,test_local'' else ''observe,ops_read'') @ '','' @
       json_entry ''adapters'' agentName @ ''}'')"

definition claim_body :: "string \<Rightarrow> string \<Rightarrow> string" where
  "claim_body agentName hostName =
     snprintf_s 512 (''{'' @ json_entry ''host'' hostName @ '','' @ json_entry ''agent'' agentName @ ''}'')"

definition handleRemoteOnce :: "remote_env \<Rightarrow> string \<Rightarrow> string \<Rightarrow> string \<Rightarrow> string \<Rightarrow> int \<times> string list" where
  "handleRemoteOnce env agentName remoteUrl bearerToken hostName =
     (if \<not> shellSafeText remoteUrl \<or> \<not> shellSafeText bearerToken \<or> \<not> shellSafeText hostName then (2, [])
      else case curlPostJson env remoteUrl bearerToken ''/api/host-capabilities'' (capability_body agentName hostName) 4096 [] of
        (ok, response, cmds) \<Rightarrow>
          (if \<not> ok \<or> strstr response ok_mark = None then (1, cmds)
           else case curlPostJson env remoteUrl bearerToken ''/api/remote-claim'' (claim_body agentName hostName) 4096 cmds of
             (ok1, claim, cmds1) \<Rightarrow>
               (if \<not> ok1 then (1, cmds1)
                else if strstr claim ''token_revoked'' \<noteq> None then (3, cmds1)
                else if strstr claim ''capability_unmet'' \<noteq> None then (4, cmds1)
                else if strstr claim claimed_mark = None then (0, cmds1)
                else case read_str claim ''taskId'' WT_TASK_ID_SIZE of
                  None \<Rightarrow> (1, cmds1)
                | Some taskId \<Rightarrow>
                    (case postRemoteStatus env remoteUrl bearerToken agentName taskId ''running'' ''Remote stub agent accepted task.'' cmds1 of
                       (rc, cmds2) \<Rightarrow>
                         (if rc \<noteq> 0 then (1, cmds2)
                          else case postRemoteStatus env remoteUrl bearerToken agentName taskId ''complete''
                                 ''Remote stub agent completed task.'' cmds2 of
                            (rc', cmds3) \<Rightarrow> (if rc' \<noteq> 0 then 1 else 0, cmds3))))))"

section \<open>The entry point\<close>

record agent_args =
  aa_config :: WtConfig
  aa_agent :: "string option"
  aa_remote :: "string option"
  aa_bearer :: "string option"
  aa_host :: "string option"
  aa_ssh :: "string option"
  aa_loop :: bool
  aa_once :: bool

fun agent_arg_loop :: "(string \<Rightarrow> log_file) \<Rightarrow> string list \<Rightarrow> agent_args \<Rightarrow> agent_args option" where
  "agent_arg_loop fs [] v = Some v"
| "agent_arg_loop fs (a # rest) v =
     (if a = ''--agent'' \<and> rest \<noteq> [] then agent_arg_loop fs (tl rest) (v \<lparr> aa_agent := Some (hd rest) \<rparr>)
      else if a = ''--once'' then agent_arg_loop fs rest (v \<lparr> aa_once := True \<rparr>)
      else if a = ''--loop'' then agent_arg_loop fs rest (v \<lparr> aa_loop := True \<rparr>)
      else if a = ''--config'' \<and> rest \<noteq> [] then
        agent_arg_loop fs (tl rest) (case wtConfigLoadFile fs (aa_config v) (hd rest) of Some c \<Rightarrow> v \<lparr> aa_config := c \<rparr> | None \<Rightarrow> v)
      else if a = ''--remote'' \<and> rest \<noteq> [] then agent_arg_loop fs (tl rest) (v \<lparr> aa_remote := Some (hd rest) \<rparr>)
      else if a = ''--bearer'' \<and> rest \<noteq> [] then agent_arg_loop fs (tl rest) (v \<lparr> aa_bearer := Some (hd rest) \<rparr>)
      else if a = ''--host'' \<and> rest \<noteq> [] then agent_arg_loop fs (tl rest) (v \<lparr> aa_host := Some (hd rest) \<rparr>)
      else if a = ''--ssh'' \<and> rest \<noteq> [] then agent_arg_loop fs (tl rest) (v \<lparr> aa_ssh := Some (hd rest) \<rparr>)
      else None)"

text \<open>
  The polls of the local mode: the exit code, or \<open>None\<close> when the agent is still polling after the given
  polls or waits for an adapter for ever, and the world.
\<close>

fun agent_polls :: "WtConfig \<Rightarrow> string \<Rightarrow> bool \<Rightarrow> poll_env list \<Rightarrow> agent_world \<Rightarrow> int option \<times> agent_world" where
  "agent_polls c agentName once [] w = (None, w)"
| "agent_polls c agentName once (env # envs) w =
     (case handleOnce c agentName env w of
        None \<Rightarrow> (None, w)
      | Some (rc, answered, w') \<Rightarrow> (if rc \<noteq> 0 \<or> once then (Some rc, w') else agent_polls c agentName once envs w'))"

text \<open>Exit code, commands given to the shell, and the world.\<close>

definition agent_main :: "(string \<Rightarrow> string option) \<Rightarrow> remote_env \<Rightarrow> poll_env list \<Rightarrow> string list \<Rightarrow> agent_world
    \<Rightarrow> int option \<times> string list \<times> agent_world" where
  "agent_main getenv renv polls argv w =
     (case agent_arg_loop (w_files w) argv \<lparr> aa_config = wtConfigInitDefaults, aa_agent = None, aa_remote = None, aa_bearer = None,
             aa_host = None, aa_ssh = None, aa_loop = False, aa_once = False \<rparr> of
        None \<Rightarrow> (Some 2, [], w)
      | Some v \<Rightarrow>
          (let c = wtConfigApplyEnvironment getenv (aa_config v) in
           case aa_agent v of
             None \<Rightarrow> (Some 2, [], w)
           | Some agentName \<Rightarrow>
               (if \<not> isKnownAgent agentName \<or> (aa_once v \<and> aa_loop v) then (Some 2, [], w)
                else case aa_ssh v of
                  Some sshHost \<Rightarrow> (Some (if shellSafeText sshHost then 0 else 2), [], w)
                | None \<Rightarrow>
                    (case (aa_remote v, aa_bearer v, aa_host v) of
                       (None, None, None) \<Rightarrow>
                         (case agent_polls c agentName (aa_once v \<or> \<not> aa_loop v) polls w of (rc, w') \<Rightarrow> (rc, [], w'))
                     | (Some remoteUrl, Some bearerToken, Some hostName) \<Rightarrow>
                         (if aa_loop v then (Some 2, [], w)
                          else case handleRemoteOnce renv agentName remoteUrl bearerToken hostName of
                            (rc, cmds) \<Rightarrow> (Some rc, cmds, w))
                     | _ \<Rightarrow> (Some 2, [], w)))))"

end
