(* ===== verification/Agent_Remote_Facts.thy ===== *)
theory Agent_Remote_Facts
  imports Agent_Remote
begin

text \<open>
  What the shell does with the commands of the remote mode: as long as the daemon's task ids have no
  quote in them every command is a single \<open>curl\<close> call on the configured server; a task id with a quote
  becomes shell code.
\<close>

section \<open>One command\<close>

definition request_words :: "string \<Rightarrow> string \<Rightarrow> string \<Rightarrow> string list" where
  "request_words token body url =
     [''curl'', ''-sS'', ''-H'', ''Content-Type: application/json'', ''-H'', ''Authorization: Bearer '' @ token, ''-d'', body, url]"

lemma curl_command_words:
  assumes "APOS \<notin> set token" "APOS \<notin> set body" "APOS \<notin> set (baseUrl @ path)"
    and "length token + length body + length (baseUrl @ path) + length tmp < 3900"
  shows "sh_words (curl_command token body baseUrl path tmp) = Some (request_words token body (baseUrl @ path), ''> '' @ single_quoted tmp)"
proof -
  have split: "curl_command token body baseUrl path tmp = ''curl'' @ CHR '' '' # ''-sS'' @ CHR '' '' # ''-H'' @
      CHR '' '' # APOS # ''Content-Type: application/json'' @ APOS # CHR '' '' # ''-H'' @
      CHR '' '' # APOS # (''Authorization: Bearer '' @ token) @ APOS # CHR '' '' # ''-d'' @
      CHR '' '' # APOS # body @ APOS # CHR '' '' # APOS # (baseUrl @ path) @ APOS # CHR '' '' # CHR ''>'' # CHR '' '' # single_quoted tmp"
    using assms(4) by (simp add: curl_command_def single_quoted_def)
  have plain: "plain_word w" if "w \<in> {''curl'', ''-sS'', ''-H'', ''-d''}" for w
    using that by (auto simp: plain_word_def sh_blank_def sh_operator_def sh_expands_def APOS_def)
  have "APOS \<notin> set ''Content-Type: application/json''" "APOS \<notin> set (''Authorization: Bearer '' @ token)"
    using assms(1) by (simp_all add: APOS_def)
  moreover have "sh_operator (CHR ''>'')" by (simp add: sh_operator_def)
  ultimately show ?thesis
    unfolding split
    using assms(2,3)
    by (simp add: sh_words_plain sh_words_quoted_only plain sh_words_stop(2) request_words_def del: append.simps append_assoc set_append append_Nil append_Nil2)
qed

section \<open>A run against a daemon\<close>

definition remote_request :: "string \<Rightarrow> string \<Rightarrow> string \<Rightarrow> bool" where
  "remote_request remoteUrl token cmd \<longleftrightarrow>
     (\<exists>body path tmp. path \<in> {''/api/host-capabilities'', ''/api/remote-claim'', ''/api/remote-task-event''} \<and>
        sh_words cmd = Some (request_words token body (remoteUrl @ path), ''> '' @ single_quoted tmp))"

lemma shellSafeText_no_quote: "shellSafeText v \<Longrightarrow> APOS \<notin> set v"
  by (auto simp: shellSafeText_def list_all_iff APOS_def is_alnum_def is_digit_def)

text \<open>The daemon answers with task ids that have no quote in them; temporary names are short.\<close>

definition quote_free_ids :: "remote_env \<Rightarrow> bool" where
  "quote_free_ids env \<longleftrightarrow> (\<forall>k. (\<forall>tmp. rv_tmp env k = Some tmp \<longrightarrow> length tmp \<le> 64) \<and>
     (\<forall>cmd taskId. read_str (readFileSnippet (snd (rv_system env k cmd)) 4095 4096) ''taskId'' WT_TASK_ID_SIZE = Some taskId \<longrightarrow>
        APOS \<notin> set taskId))"

lemma post_safe:
  assumes "curlPostJson env remoteUrl token path body n cmds = (ok, response, cmds')" and "quote_free_ids env"
    and "list_all (remote_request remoteUrl token) cmds" "length remoteUrl + length token \<le> 2000"
    and "path \<in> {''/api/host-capabilities'', ''/api/remote-claim'', ''/api/remote-task-event''}"
    and "APOS \<notin> set body" "length body < 1024"
  shows "list_all (remote_request remoteUrl token) cmds'"
proof (cases "cmds' = cmds")
  case False
  then obtain tmp where tmp: "rv_tmp env (length cmds) = Some tmp"
    and safe: "shellSafeText remoteUrl" "shellSafeText token" "shellSafeText path"
    and cmds': "cmds' = cmds @ [curl_command token body remoteUrl path tmp]"
    using assms(1) by (auto simp: curlPostJson_def Let_def split: if_splits option.splits prod.splits)
  have "length path \<le> 22" "length tmp \<le> 64" using assms(2,5) tmp by (auto simp: quote_free_ids_def)
  then have "sh_words (curl_command token body remoteUrl path tmp) = Some (request_words token body (remoteUrl @ path), ''> '' @ single_quoted tmp)"
    using safe [THEN shellSafeText_no_quote] assms(4,6,7) by (intro curl_command_words) auto
  with assms(3,5) cmds' show ?thesis by (auto simp: remote_request_def)
qed (use assms(3) in simp)

lemma entry_no_quote: "CHR 0x27 \<in> set (json_entry k v) \<longleftrightarrow> CHR 0x27 \<in> set k \<or> CHR 0x27 \<in> set v"
  by (auto simp: json_entry_def)

lemma snprintf_no_quote: "APOS \<notin> set s \<Longrightarrow> APOS \<notin> set (snprintf_s n s)"
  by (auto simp: snprintf_s_def dest: in_set_takeD)

lemma status_safe:
  assumes "postRemoteStatus env remoteUrl token agentName taskId status message cmds = (rc, cmds')" and "quote_free_ids env"
    and "list_all (remote_request remoteUrl token) cmds" "length remoteUrl + length token \<le> 2000"
    and "APOS \<notin> set agentName" "APOS \<notin> set taskId" "APOS \<notin> set status" "APOS \<notin> set message"
  shows "list_all (remote_request remoteUrl token) cmds'"
proof -
  have body: "APOS \<notin> set (status_body agentName taskId status message)"
    unfolding status_body_def using assms(5-8) by (intro snprintf_no_quote) (auto simp: entry_no_quote APOS_def)
  have len: "length (status_body agentName taskId status message) < 1024" by (simp add: status_body_def snprintf_s_def)
  from assms(1) obtain ok response where
    "curlPostJson env remoteUrl token ''/api/remote-task-event'' (status_body agentName taskId status message) 1024 cmds = (ok, response, cmds')"
    by (auto simp: postRemoteStatus_def split: prod.splits)
  from post_safe [OF this assms(2-4) _ body len] show ?thesis by simp
qed

text \<open>
  C15. The remote mode gives the shell nothing but its own requests. When the agent is one of the known
  ones, the URL and the token have together at most 2000 characters, and the daemon's task ids have no
  quote in them, every command of a run is one \<open>curl\<close> call with the bearer token to one of the three
  endpoints of the configured server, its answer redirected to the temporary file. A longer URL or token
  would have the command cut inside its quotes at the end of its 4096 byte buffer.
\<close>

theorem remote_commands_safe:
  assumes "quote_free_ids env" and "isKnownAgent agentName" and "length remoteUrl + length token \<le> 2000"
    and "cmd \<in> set (snd (handleRemoteOnce env agentName remoteUrl token hostName))"
  shows "remote_request remoteUrl token cmd"
proof -
  have agent: "APOS \<notin> set agentName" using assms(2) by (auto simp: isKnownAgent_def APOS_def)
  have "list_all (remote_request remoteUrl token) (snd (handleRemoteOnce env agentName remoteUrl token hostName))"
  proof (cases "shellSafeText remoteUrl \<and> shellSafeText token \<and> shellSafeText hostName")
    case True
    then have host: "APOS \<notin> set hostName" by (simp add: shellSafeText_no_quote)
    have bodies: "APOS \<notin> set (capability_body agentName hostName)" "APOS \<notin> set (claim_body agentName hostName)"
      unfolding capability_body_def claim_body_def using agent host
      by (intro snprintf_no_quote; auto simp: entry_no_quote APOS_def)+
    have len: "length (capability_body agentName hostName) < 1024" "length (claim_body agentName hostName) < 1024"
      by (simp_all add: capability_body_def claim_body_def snprintf_s_def)
    obtain ok response cmds where
      cap: "curlPostJson env remoteUrl token ''/api/host-capabilities'' (capability_body agentName hostName) 4096 [] = (ok, response, cmds)"
      by (metis prod_cases3)
    note s1 = post_safe [OF cap assms(1) _ assms(3) _ bodies(1) len(1), simplified]
    obtain ok1 claim cmds1 where
      cl: "curlPostJson env remoteUrl token ''/api/remote-claim'' (claim_body agentName hostName) 4096 cmds = (ok1, claim, cmds1)"
      by (metis prod_cases3)
    note s2 = post_safe [OF cl assms(1) s1 assms(3) _ bodies(2) len(2), simplified]
    have id: "APOS \<notin> set taskId" if "read_str claim ''taskId'' WT_TASK_ID_SIZE = Some taskId" for taskId
    proof (cases "claim = []")
      case False
      then obtain k c where "claim = readFileSnippet (snd (rv_system env k c)) 4095 4096"
        using cl by (auto simp: curlPostJson_def Let_def split: if_splits option.splits prod.splits) (metis snd_conv)+
      with that assms(1) show ?thesis by (auto simp: quote_free_ids_def)
    next
      case True
      with that show ?thesis by (simp add: read_str_def wtJsonReadString_def findFieldValue_def)
    qed
    show ?thesis
      using s1 s2 id cap cl True
      by (auto simp: handleRemoteOnce_def split: option.splits prod.splits
          dest!: status_safe [OF _ assms(1) _ assms(3) agent] simp: APOS_def)
  qed (auto simp: handleRemoteOnce_def)
  with assms(4) show ?thesis by (simp add: list_all_iff)
qed

definition demo_answer :: string where
  "demo_answer = ''{'' @ ok_mark @ '','' @ claimed_mark @ '','' @ json_entry ''taskId'' ''t1'' @ ''}''"

definition demo_remote :: remote_env where
  "demo_remote = \<lparr> rv_tmp = (\<lambda>_. Some ''/tmp/r''), rv_system = (\<lambda>_ _. (0, Some demo_answer)) \<rparr>"

lemma demo_snippet: "n > 100 \<Longrightarrow> readFileSnippet (Some demo_answer) (int n - 1) n = demo_answer"
proof -
  have "length demo_answer < 100" "cstr demo_answer = demo_answer"
    by (simp_all add: demo_answer_def ok_mark_def claimed_mark_def json_entry_def cstr_def)
  moreover assume "n > 100"
  ultimately show ?thesis by (simp add: readFileSnippet_def)
qed

lemma demo_answer_reads:
  "read_str demo_answer ''taskId'' WT_TASK_ID_SIZE = Some ''t1''"
  "strstr demo_answer ok_mark \<noteq> None" "strstr demo_answer claimed_mark \<noteq> None"
  "strstr demo_answer ''token_revoked'' = None" "strstr demo_answer ''capability_unmet'' = None"
  by code_simp+

lemma demo_remote_ids: "quote_free_ids demo_remote"
  using demo_snippet [of 4096] demo_answer_reads(1) by (simp add: quote_free_ids_def demo_remote_def APOS_def)

lemma demo_post:
  "n > 100 \<Longrightarrow> shellSafeText path \<Longrightarrow>
   \<exists>cmd. curlPostJson demo_remote ''http://h'' ''tok'' path body n cmds = (True, demo_answer, cmds @ [cmd])"
  using demo_snippet [of n] by (simp add: curlPostJson_def demo_remote_def shellSafeText_def is_alnum_def is_digit_def Let_def)

lemma demo_remote_run:
  "\<exists>cmds. handleRemoteOnce demo_remote ''claude'' ''http://h'' ''tok'' ''h1'' = (0, cmds) \<and> length cmds = 4"
proof -
  have safe: "shellSafeText ''/api/host-capabilities''" "shellSafeText ''/api/remote-claim''" "shellSafeText ''/api/remote-task-event''"
    "shellSafeText ''http://h''" "shellSafeText ''tok''" "shellSafeText ''h1''"
    by (simp_all add: shellSafeText_def is_alnum_def is_digit_def)
  obtain c1 where c1: "curlPostJson demo_remote ''http://h'' ''tok'' ''/api/host-capabilities'' (capability_body ''claude'' ''h1'') 4096 [] = (True, demo_answer, [c1])"
    using demo_post [of 4096 "''/api/host-capabilities''" "capability_body ''claude'' ''h1''" "[]"] safe(1) by auto
  obtain c2 where c2: "curlPostJson demo_remote ''http://h'' ''tok'' ''/api/remote-claim'' (claim_body ''claude'' ''h1'') 4096 [c1] = (True, demo_answer, [c1, c2])"
    using demo_post [of 4096 "''/api/remote-claim''" "claim_body ''claude'' ''h1''" "[c1]"] safe(2) by auto
  have post: "\<exists>c. postRemoteStatus demo_remote ''http://h'' ''tok'' ''claude'' ''t1'' status message cmds = (0, cmds @ [c])" for status message cmds
    using demo_post [of 1024 "''/api/remote-task-event''" "status_body ''claude'' ''t1'' status message" cmds] safe(3) demo_answer_reads(2)
    by (auto simp: postRemoteStatus_def)
  obtain c3 where c3: "postRemoteStatus demo_remote ''http://h'' ''tok'' ''claude'' ''t1'' ''running'' ''Remote stub agent accepted task.'' [c1, c2] = (0, [c1, c2, c3])"
    using post [of "''running''" "''Remote stub agent accepted task.''" "[c1, c2]"] by auto
  obtain c4 where c4: "postRemoteStatus demo_remote ''http://h'' ''tok'' ''claude'' ''t1'' ''complete'' ''Remote stub agent completed task.'' [c1, c2, c3] = (0, [c1, c2, c3, c4])"
    using post [of "''complete''" "''Remote stub agent completed task.''" "[c1, c2, c3]"] by auto
  have "handleRemoteOnce demo_remote ''claude'' ''http://h'' ''tok'' ''h1'' = (0, [c1, c2, c3, c4])"
    using safe demo_answer_reads by (simp add: handleRemoteOnce_def c1 c2 c3 c4)
  then show ?thesis by simp
qed

theorem remote_commands_safe_witness:
  "remote_request ''http://h'' ''tok'' (snd (handleRemoteOnce demo_remote ''claude'' ''http://h'' ''tok'' ''h1'') ! 3)"
proof (rule remote_commands_safe [OF demo_remote_ids, of "''claude''" _ _ _ "''h1''"])
  show "snd (handleRemoteOnce demo_remote ''claude'' ''http://h'' ''tok'' ''h1'') ! 3
    \<in> set (snd (handleRemoteOnce demo_remote ''claude'' ''http://h'' ''tok'' ''h1''))"
    using demo_remote_run by (auto intro!: nth_mem)
qed (simp_all add: isKnownAgent_def)

section \<open>A task id with a quote\<close>

text \<open>
  (A defect.) The task id in the daemon's answer goes into the command unchecked. A quote in it ends the
  quoted body, and what follows a semicolon is the next command of the shell on the agent's host.
\<close>

lemma quote_ends_the_command:
  assumes "APOS \<notin> set token" "APOS \<notin> set before"
    and "length token + length before + length code + length (baseUrl @ path) + length tmp < 3800"
  shows "\<exists>r. sh_words (curl_command token (before @ APOS # CHR '';'' # code) baseUrl path tmp) =
    Some ([''curl'', ''-sS'', ''-H'', ''Content-Type: application/json'', ''-H'', ''Authorization: Bearer '' @ token, ''-d'', before],
      CHR '';'' # code @ r)"
proof -
  let ?r = "APOS # CHR '' '' # single_quoted (baseUrl @ path) @ '' > '' @ single_quoted tmp"
  have split: "curl_command token (before @ APOS # CHR '';'' # code) baseUrl path tmp = ''curl'' @ CHR '' '' # ''-sS'' @ CHR '' '' # ''-H'' @
      CHR '' '' # APOS # ''Content-Type: application/json'' @ APOS # CHR '' '' # ''-H'' @
      CHR '' '' # APOS # (''Authorization: Bearer '' @ token) @ APOS # CHR '' '' # ''-d'' @
      CHR '' '' # APOS # before @ APOS # CHR '';'' # code @ ?r"
    using assms(3) by (simp add: curl_command_def single_quoted_def)
  have plain: "plain_word w" if "w \<in> {''curl'', ''-sS'', ''-H'', ''-d''}" for w
    using that by (auto simp: plain_word_def sh_blank_def sh_operator_def sh_expands_def APOS_def)
  have "APOS \<notin> set ''Content-Type: application/json''" "APOS \<notin> set (''Authorization: Bearer '' @ token)"
    using assms(1) by (simp_all add: APOS_def)
  moreover have "sh_operator (CHR '';'')" by (simp add: sh_operator_def)
  moreover have "sh_words (CHR '';'' # code @ ?r) = Some ([], CHR '';'' # code @ ?r)"
    by (simp add: sh_words.simps sh_blank_def sh_operator_def)
  ultimately show ?thesis
    unfolding split
    using assms(2)
    by (intro exI [of _ ?r])
      (simp add: sh_words_plain sh_words_quoted_only plain del: append.simps append_assoc set_append append_Nil append_Nil2)
qed

end
