(* ===== verification/Room_Tools.thy ===== *)
theory Room_Tools
  imports Room_Store Config "HOL-Library.Signed_Division"
begin

text \<open>
  The two command-line tools of the room, \<^verbatim>\<open>src/src/wt_say.c\<close> (append one message) and
  \<^verbatim>\<open>src/src/wt_tail.c\<close> (print the end of the log, and with \<open>--follow\<close> what is appended later), with the
  time stamps of \<^verbatim>\<open>src/src/wt_time.c\<close>. The argument lists leave the program name out. A tool that polls is
  given the views of the log its polls find; it ends after the last one instead of running on.
\<close>

section \<open>Printing a message\<close>

text \<open>\<open>gmtime_r\<close>: year, month and day of a count of days since 1970-01-01.\<close>

definition civil_from_days :: "int \<Rightarrow> int \<times> int \<times> int" where
  "civil_from_days days =
     (let z = days + 719468; era = z div 146097; doe = z mod 146097;
          yoe = (doe - doe div 1460 + doe div 36524 - doe div 146096) div 365;
          doy = doe - (365 * yoe + yoe div 4 - yoe div 100); mp = (5 * doy + 2) div 153;
          month = (if mp < 10 then mp + 3 else mp - 9)
      in (yoe + era * 400 + (if month \<le> 2 then 1 else 0), month, doy - (153 * mp + 2) div 5 + 1))"

definition two_digits :: "int \<Rightarrow> string" where
  "two_digits i = (if i < 10 then ''0'' else []) @ show_int i"

definition wtFormatUnixMilliseconds :: "int \<Rightarrow> string" where
  "wtFormatUnixMilliseconds unixMs =
     (let seconds = unixMs sdiv 1000; rest = seconds mod 86400 in
      case civil_from_days (seconds div 86400) of
        (year, month, day) \<Rightarrow>
          show_int year @ ''-'' @ two_digits month @ ''-'' @ two_digits day @ ''T'' @ two_digits (rest div 3600) @ [CHR '':''] @
          two_digits (rest div 60 mod 60) @ [CHR '':''] @ two_digits (rest mod 60) @ ''Z'')"

definition wtMessagePrintHuman :: "WtMessage \<Rightarrow> string" where
  "wtMessagePrintHuman m =
     ''['' @ show_int (messageId m) @ ''] '' @ wtFormatUnixMilliseconds (createdAtUnixMs m) @ '' '' @ senderName m @ '' -> '' @
     targetName m @ [CHR '':'', CHR '' ''] @ messageBody m @ [NL]"

section \<open>wt-say\<close>

definition load_or_keep :: "(string \<Rightarrow> log_file) \<Rightarrow> string \<Rightarrow> WtConfig \<Rightarrow> WtConfig" where
  "load_or_keep fs path c = (case wtConfigLoadFile fs c path of Some c' \<Rightarrow> c' | None \<Rightarrow> c)"

definition say_message :: "WtConfig \<Rightarrow> string \<Rightarrow> string \<Rightarrow> string \<Rightarrow> WtMessage" where
  "say_message c sender to_whom words =
     wtMessageInit \<lparr> roomName := snprintf_s WT_MESSAGE_NAME_SIZE (configRoomName c),
       senderName := snprintf_s WT_MESSAGE_NAME_SIZE sender, targetName := snprintf_s WT_MESSAGE_NAME_SIZE to_whom,
       messageType := snprintf_s WT_MESSAGE_TYPE_SIZE ''chat'', messageBody := snprintf_s WT_MESSAGE_BODY_SIZE words \<rparr>"

text \<open>Exit code, standard output, and the files afterwards.\<close>

definition wt_say :: "(string \<Rightarrow> string option) \<Rightarrow> io_fault \<Rightarrow> int \<Rightarrow> string list \<Rightarrow> (string \<Rightarrow> log_file)
    \<Rightarrow> int \<times> string \<times> (string \<Rightarrow> log_file)" where
  "wt_say getenv fault now argv fs =
     (let (c0, rest) = (case argv of
            a # path # args \<Rightarrow> if a = ''--config'' then (load_or_keep fs path wtConfigInitDefaults, args) else (wtConfigInitDefaults, argv)
          | _ \<Rightarrow> (wtConfigInitDefaults, argv));
          c = wtConfigApplyEnvironment getenv c0 in
      case rest of
        [sender, to_whom, words] \<Rightarrow>
          (let m = say_message c sender to_whom words in
           if \<not> wtMessageValidateNames m then (2, [], fs)
           else case wtRoomAppendNewMessage fault (fsyncEachMessage c) now m (fs (roomLogPath c)) of
             (ok, m', log') \<Rightarrow>
               (if ok then 0 else 1, if ok then wtMessagePrintHuman m' else [], fs(roomLogPath c := log')))
      | _ \<Rightarrow> (2, [], fs))"

section \<open>wt-tail\<close>

fun tail_args :: "(string \<Rightarrow> log_file) \<Rightarrow> string list \<Rightarrow> WtConfig \<Rightarrow> int \<Rightarrow> bool \<Rightarrow> (WtConfig \<times> int \<times> bool) option" where
  "tail_args fs [] c limit follow = Some (c, limit, follow)"
| "tail_args fs (a # rest) c limit follow =
     (if a = ''--config'' \<and> rest \<noteq> [] then tail_args fs (tl rest) (load_or_keep fs (hd rest) c) limit follow
      else if a = ''--limit'' \<and> rest \<noteq> [] then tail_args fs (tl rest) c (atoi (hd rest)) follow
      else if a = ''--follow'' then tail_args fs rest c limit True
      else None)"

definition print_newer :: "WtMessage \<Rightarrow> WtMessage list \<times> int \<Rightarrow> WtMessage list \<times> int" where
  "print_newer m v = (case v of (printed, lastPrintedId) \<Rightarrow>
     if messageId m > lastPrintedId then (printed @ [m], messageId m) else (printed, lastPrintedId))"

definition printRecent :: "int \<Rightarrow> log_file \<Rightarrow> int \<Rightarrow> WtMessage list \<times> int" where
  "printRecent limit log lastPrintedId =
     fold print_newer (wtRoomReadRecent log (if limit > 256 then 256 else limit) 256) ([], lastPrintedId)"

fun tail_polls :: "int \<Rightarrow> bool \<Rightarrow> log_file list \<Rightarrow> int \<Rightarrow> WtMessage list" where
  "tail_polls limit follow [] lastPrintedId = []"
| "tail_polls limit follow (log # views) lastPrintedId =
     (case printRecent limit log lastPrintedId of
        (printed, last') \<Rightarrow> printed @ (if follow then tail_polls limit follow views last' else []))"

text \<open>\<open>views c\<close> are the logs the polls of a run with that configuration find; no result is a usage error.\<close>

definition wt_tail :: "(string \<Rightarrow> string option) \<Rightarrow> string list \<Rightarrow> (string \<Rightarrow> log_file) \<Rightarrow> (WtConfig \<Rightarrow> log_file list) \<Rightarrow> string option" where
  "wt_tail getenv argv fs views =
     (case tail_args fs argv wtConfigInitDefaults 50 False of
        None \<Rightarrow> None
      | Some (c0, limit, follow) \<Rightarrow>
          (let c = wtConfigApplyEnvironment getenv c0 in
           Some (concat (map wtMessagePrintHuman (tail_polls limit follow (views c) 0)))))"

section \<open>What a following tail prints\<close>

definition tail_window :: "int \<Rightarrow> nat" where
  "tail_window limit = recent_limit (if limit > 256 then 256 else limit) 256"

lemma print_newer_upto:
  "map messageId ms = map int [Suc b..<Suc k] \<Longrightarrow>
   map messageId (fst (fold print_newer ms (out, int a))) = map messageId out @ map int [max (Suc a) (Suc b)..<Suc k] \<and>
   snd (fold print_newer ms (out, int a)) = (if b < k then int (max a k) else int a)"
proof (induction ms arbitrary: b out a)
  case Nil
  then have "\<not> b < k" by auto
  then show ?case by auto
next
  case (Cons m ms)
  then have "b < k" by (cases "b < k") auto
  with Cons.prems have m: "messageId m = int (Suc b)" and ms: "map messageId ms = map int [Suc (Suc b)..<Suc k]"
    by (simp_all add: upt_conv_Cons del: upt_Suc)
  show ?case
  proof (cases "a < Suc b")
    case True
    then have "print_newer m (out, int a) = (out @ [m], int (Suc b))" by (simp add: print_newer_def m)
    with Cons.IH [OF ms, of "out @ [m]" "Suc b"] True \<open>b < k\<close> show ?thesis
      by (auto simp: m max_def upt_conv_Cons simp del: upt_Suc)
  next
    case False
    then have "print_newer m (out, int a) = (out, int a)" by (simp add: print_newer_def m)
    with Cons.IH [OF ms, of out a] False \<open>b < k\<close> show ?thesis
      by (auto simp: max_def simp del: upt_Suc)
  qed
qed

lemma printRecent_ids:
  assumes "room_ids log = map int [1..<Suc k]" and "a \<le> k"
  shows "map messageId (fst (printRecent limit log (int a))) = map int [max (Suc a) (Suc (k - tail_window limit))..<Suc k]"
    and "snd (printRecent limit log (int a)) = int k"
proof -
  let ?ms = "wtRoomReadRecent log (if limit > 256 then 256 else limit) 256"
  have "length (room_messages (bytes log)) = k" using arg_cong [OF assms(1), of length] by (simp add: room_ids_def)
  then have "map messageId ?ms = drop (k - tail_window limit) (room_ids log)"
    using wtRoomReadRecent_spec [of 256 log "if limit > 256 then 256 else limit"]
    by (simp add: room_ids_def tail_window_def drop_map)
  then have "map messageId ?ms = map int [Suc (k - tail_window limit)..<Suc k]"
    by (simp add: assms(1) drop_map drop_upt del: upt_Suc)
  from print_newer_upto [OF this, of "[]" a] assms(2)
  show "map messageId (fst (printRecent limit log (int a))) = map int [max (Suc a) (Suc (k - tail_window limit))..<Suc k]"
    and "snd (printRecent limit log (int a)) = int k"
    by (auto simp: printRecent_def recent_limit_def tail_window_def)
qed

text \<open>The views a run finds: reachable logs, of which each holds at most \<open>n\<close> messages more than the one before.\<close>

fun grows_by :: "nat \<Rightarrow> log_file list \<Rightarrow> nat \<Rightarrow> bool" where
  "grows_by n [] a \<longleftrightarrow> True"
| "grows_by n (log # views) a \<longleftrightarrow>
     room_log log \<and> a \<le> length (room_ids log) \<and> length (room_ids log) \<le> a + n \<and> grows_by n views (length (room_ids log))"

lemma room_log_ids: "room_log log \<Longrightarrow> room_ids log = map int [1..<Suc (length (room_ids log))]"
proof -
  assume "room_log log"
  then obtain k where k: "room_ids log = map int [1..<Suc k]" using room_log_invariant by blast
  from arg_cong [OF k, of length] have "length (room_ids log) = k" by simp
  with k show ?thesis by simp
qed

lemma upt_join: "a \<le> b \<Longrightarrow> b \<le> c \<Longrightarrow> [a..<b] @ [b..<c] = [a..<c]"
  using upt_add_eq_append [of a b "c - b"] by simp

lemma grows_by_last: "grows_by n views a \<Longrightarrow> a \<le> last (a # map (\<lambda>v. length (room_ids v)) views)"
  by (induction views arbitrary: a) (fastforce split: if_splits)+

lemma tail_polls_upto:
  "grows_by (tail_window limit) views a \<Longrightarrow>
   map messageId (tail_polls limit True views (int a)) = map int [Suc a..<Suc (last (a # map (\<lambda>v. length (room_ids v)) views))]"
proof (induction views arbitrary: a)
  case (Cons log views)
  let ?k = "length (room_ids log)" and ?n = "last (length (room_ids log) # map (\<lambda>v. length (room_ids v)) views)"
  obtain p where p: "printRecent limit log (int a) = (p, int ?k)"
    using printRecent_ids(2) [OF room_log_ids, of log a limit] Cons.prems by (metis grows_by.simps(2) prod.collapse)
  have "max (Suc a) (Suc (?k - tail_window limit)) = Suc a" using Cons.prems by (auto simp: max_def)
  then have "map messageId p = map int [Suc a..<Suc ?k]"
    using printRecent_ids(1) [OF room_log_ids, of log a limit] Cons.prems p by simp
  then have "map messageId (tail_polls limit True (log # views) (int a)) = map int [Suc a..<Suc ?k] @ map int [Suc ?k..<Suc ?n]"
    using Cons.IH [of ?k] Cons.prems p by (simp del: upt_Suc)
  also have "\<dots> = map int [Suc a..<Suc ?n]"
    using upt_join [of "Suc a" "Suc ?k" "Suc ?n"] grows_by_last [of "tail_window limit" views ?k] Cons.prems
    unfolding map_append [symmetric] by simp
  finally show ?case by simp
qed simp

text \<open>
  C39. A following tail misses nothing. It first prints the last messages of the log, as many as its
  limit allows, and from then on every message once and in order, as long as no more messages than
  that are posted between two of its polls.
\<close>

theorem tail_prints_every_message:
  assumes "room_log log" and "grows_by (tail_window limit) views (length (room_ids log))"
  shows "map messageId (tail_polls limit True (log # views) 0) =
    map int [Suc (length (room_ids log) - tail_window limit)..<Suc (last (map (\<lambda>v. length (room_ids v)) (log # views)))]"
proof -
  let ?k = "length (room_ids log)" and ?n = "last (map (\<lambda>v. length (room_ids v)) (log # views))"
  note first = printRecent_ids [OF room_log_ids [OF assms(1)], of 0 limit, simplified]
  have "map messageId (tail_polls limit True (log # views) 0) =
      map int [Suc (?k - tail_window limit)..<Suc ?k] @ map messageId (tail_polls limit True views (int ?k))"
    using first by (cases "printRecent limit log 0") simp
  also have "\<dots> = map int ([Suc (?k - tail_window limit)..<Suc ?k] @ [Suc ?k..<Suc ?n])"
    using tail_polls_upto [OF assms(2)] by (simp del: upt_Suc)
  also have "[Suc (?k - tail_window limit)..<Suc ?k] @ [Suc ?k..<Suc ?n] = [Suc (?k - tail_window limit)..<Suc ?n]"
    using grows_by_last [OF assms(2)] by (intro upt_join) simp_all
  finally show ?thesis .
qed

theorem tail_prints_every_message_witness:
  "map messageId (tail_polls 5 True [None, Some (render_object (message_fields demo_posted) @ [NL])] 0) = map int [Suc (0 - 5)..<Suc 1]"
proof -
  have "room_ids None = []" by (simp add: room_ids_def room_messages_def room_lines_def)
  moreover have "length (room_ids (Some (render_object (message_fields demo_posted) @ [NL]))) = 1"
    using demo_room_ids by simp
  ultimately show ?thesis
    using tail_prints_every_message [of None 5 "[Some (render_object (message_fields demo_posted) @ [NL])]"]
      room_log.fresh demo_room_log by (simp add: tail_window_def recent_limit_def)
qed

end
