(* ===== verification/Spec2Isabelle.thy ===== *)
theory Spec2Isabelle
  imports Room_Store Security Config_Facts Policy Task_Blocked Token_Budget Projection_Queries Agent_Facts Notify Roomd_Tokens
    Http_Facts Roomd_Config_Facts Admission_Facts Deliverable_Facts Audit_Facts Json_Documents Worker_Facts
    Agent_Remote_Facts Room_Tools
begin

text \<open>
  WovenTeam: a verification library for the native coordination core (the C programs under
  \<^verbatim>\<open>src/src\<close> and \<^verbatim>\<open>src/include\<close>).

  \<^bold>\<open>The program.\<close> A team of people and language-model agents shares two append-only files: the \<^emph>\<open>room\<close>, a
  log of chat messages (one JSON record a line), and the \<^emph>\<open>task ledger\<close>, a log of task packages, events,
  leases, grants, tokens and deliverables. Three programs work on them at the same time, each append under a
  file lock: the daemon \<^verbatim>\<open>wt_roomd.c\<close> (an HTTP server, one process per connection), the agents
  \<^verbatim>\<open>wt_agent.c\<close> (they claim tasks, run adapters and answer messages), and the tools \<^verbatim>\<open>wt_say.c\<close> and
  \<^verbatim>\<open>wt_tail.c\<close>. Everything else is derived from the two logs: a scan of the ledger decides who holds a task,
  and \<^verbatim>\<open>wt_task_projection.c\<close> rebuilds an SQLite read model from it. A separate worker,
  \<^verbatim>\<open>worker/wt_agent.c\<close>, takes tasks from a Redis channel.

  \<^bold>\<open>How it is modelled.\<close> A C string is a list of characters without its terminator, a buffer is the text it
  holds together with its size, and every size of the sources is kept, so that truncation is visible. A
  JSON text that does not fit its buffer is left there without a terminator (\<open>ReadCut\<close>): where the code
  has cleared the buffer or prints it over itself it ends at its last byte (\<open>read_keep\<close>), where the code
  uses it as it is it runs on into the bytes behind (\<open>read_raw\<close>, in \<open>POST /api/config\<close>). A
  \<open>long\<close> or \<open>int\<close> is an \<open>int\<close> with the conversions written out (\<open>sll\<close>, \<open>to_int32\<close>, \<open>clamp64\<close>), SHA-256 works on
  32-bit words. A file is a \<open>log_file\<close> (\<open>None\<close> when it does not exist); an append takes the failure it
  runs into (\<open>io_fault\<close>: directory, open, lock, short write, sync) as an argument. What other processes do
  between two accesses is an argument too: a run gets a sequence of \<open>moment\<close>s, each with the appends that have
  happened by then, the clock, and a failure. The order of the accesses is the order in the code.
  A run that may not end (waiting for an adapter) is a \<open>partial_function (option)\<close>; loops over polls and
  replies run over the list of what the polls find. No fuel is used anywhere.

  \<^bold>\<open>Prelude.\<close> \<open>C_Strings\<close> (the run-time library), \<open>Append_File\<close> (appends and their failures, the interface
  \<open>append_only_log\<close>), \<open>Json\<close> (\<^verbatim>\<open>wt_json.c\<close>, and printed records with the search that reads them back),
  \<open>Json_Text\<close> (the JSON grammar), \<open>Shell_Words\<close> (how the shell reads a command line).

  \<^bold>\<open>Room.\<close> \<open>Message\<close> (\<^verbatim>\<open>wt_message.c\<close>), \<open>Room_Store\<close> (\<^verbatim>\<open>wt_room_store.c\<close>), \<open>Room_Tools\<close> (\<^verbatim>\<open>wt_say.c\<close>,
  \<^verbatim>\<open>wt_tail.c\<close>, \<^verbatim>\<open>wt_time.c\<close>). Lemmas: a message survives printing and reading; ids are consecutive in every
  log made by appends that store a whole record or nothing; appended messages are visible to every later
  reader; a following tail misses nothing while no more than its limit arrive between two polls.

  \<^bold>\<open>Configuration, policy, secrets.\<close> \<open>Config\<close> and \<open>Config_Facts\<close> (\<^verbatim>\<open>wt_config.c\<close>), \<open>Policy\<close>
  (\<^verbatim>\<open>wt_policy.c\<close>, against a declarative list of requirements), \<open>Security\<close> (\<^verbatim>\<open>wt_security.c\<close>: the streaming
  SHA-256 equals the one-shot specification, redaction is complete), \<open>Notify\<close> (\<^verbatim>\<open>wt_notify.c\<close>).

  \<^bold>\<open>Task ledger\<close> (\<^verbatim>\<open>wt_task_store.c\<close>)\<^bold>\<open>.\<close> \<open>Task_Ledger\<close> (the writers), \<open>Task_Scan\<close> (questions about one task;
  interfaces \<open>line_scanner\<close> and \<open>toggle_scanner\<close>), \<open>Task_Claim\<close>, \<open>Task_Blocked\<close>, \<open>Token_Budget\<close>.
  \<open>Lease_Protocol\<close> has the abstract lease machine and proves that the writers and scans implement it on every
  history. In the machine a renewal extends a lease, as the headers say; the scans do not read renewals, so
  the theorems about expiry speak of leases that were not renewed, and \<open>renewal_not_seen_by_active_lease\<close> and
  \<open>renewal_does_not_protect\<close> show the difference. \<open>Claim_Protocol\<close> relates leases to what agents are offered.
  \<open>Task_Blocked\<close> states the open dependents of a task on the records of the ledger, apart from the code's scan.

  \<^bold>\<open>Read model\<close> (\<^verbatim>\<open>wt_task_projection.c\<close>)\<^bold>\<open>.\<close> \<open>Projection\<close> (tables, rebuild, queries), \<open>Projection_Facts\<close>
  (invariant, the columns a history of lease actions gives a row, agreement with the active-lease scan;
  interface \<open>keyed_table\<close>), \<open>Projection_Queries\<close> (first accepted artifact, allocations), \<open>Projection_Render\<close> and
  \<open>Projection_Audit\<close> (the documents), \<open>Render_Facts\<close> and \<open>Json_Documents\<close> (they fit their buffers and are JSON),
  \<open>Audit_Facts\<close> (below its limits the audit is the document that lists every record of the initiative).

  \<^bold>\<open>Agents.\<close> \<open>Agent_Files\<close>, \<open>Agent_Wait\<close> (the wait loop with renewal, timeout and cancel), \<open>Agent\<close> and
  \<open>Agent_Facts\<close> (local mode), \<open>Agent_Remote\<close> and \<open>Agent_Remote_Facts\<close> (remote mode and \<open>main\<close>), \<open>Worker\<close> and
  \<open>Worker_Facts\<close> (the Redis worker).

  \<^bold>\<open>Daemon\<close> (\<^verbatim>\<open>wt_http.c\<close>, \<^verbatim>\<open>wt_roomd.c\<close>, \<^verbatim>\<open>wt_deliverable.c\<close>)\<^bold>\<open>.\<close> \<open>Http_Request\<close> and \<open>Http_Facts\<close> (requests from
  their arrivals), \<open>Roomd_World\<close> (what the handlers share), \<open>Roomd_Auth\<close>, \<open>Roomd_Routing\<close>, \<open>Roomd_Admission\<close>,
  \<open>Roomd_Control\<close>, \<open>Roomd_Remote\<close>, \<open>Roomd_Config\<close>, \<open>Roomd_Events\<close>, \<open>Roomd_Reports\<close>, \<open>Deliverable\<close>, \<open>Roomd_Deliver\<close>,
  and \<open>Roomd_Server\<close> (\<open>handleClient\<close>: dispatch, credential checks, handlers). Facts: \<open>Roomd_Access\<close> and \<open>Roomd_Tokens\<close>
  (the protected paths, listed apart from the code's dispatch, and the life of a token), \<open>Admission_Facts\<close>
  (what an admitted task has passed), \<open>Roomd_Config_Facts\<close>, \<open>Deliverable_Facts\<close> (a match of the secret scan stops
  a branch or pull request, the record matches the bytes shipped). Files are keyed by the path the program
  uses; for the copy of a deliverable the model has which paths lead to one file (\<open>de_same_file\<close>), since a
  destination that names the source truncates it.

  \<^bold>\<open>Parameters\<close>, each with the documented behaviour a theorem needs as a hypothesis: SQLite is the tables
  with the statements written out (a statement whose sum overflows fails; rows an \<open>ORDER BY\<close> leaves tied keep their
  table order); \<open>regcomp\<close>/\<open>regexec\<close>, jansson, hiredis, \<^verbatim>\<open>curl\<close>, \<^verbatim>\<open>git\<close>, \<^verbatim>\<open>tar\<close> and \<^verbatim>\<open>sha256sum\<close> behind the
  shell, \<^verbatim>\<open>/dev/urandom\<close>, \<open>getenv\<close>, \<open>access\<close> and the adapter processes.

  \<^bold>\<open>Not modelled:\<close> the sockets and processes around a connection (\<open>main\<close> and \<open>createServerSocket\<close> of the daemon,
  signal handlers), files under several names outside the deliverables' copy, allocation failures, terminal output that nothing reads, and everything that is not C
  (the web console, role prompts, deployment files).
\<close>

end
